(* ===== verification/Prelude.thy ===== *)
theory Prelude
  imports Main "HOL-Library.Product_Lexorder" "HOL-Library.List_Lexorder" "HOL-Library.Char_ord"
begin

text \<open>
  What the components share: Go's \<open>error\<close> values, times and durations, and the two shapes of
  SQL statement the store is made of (\<open>UPDATE ... WHERE\<close> and \<open>SELECT ... ORDER BY ... LIMIT 1\<close>)
  as functions on a table, with the lemmas that carry the proofs about them.
\<close>

section \<open>Errors\<close>

text \<open>
  A Go \<open>error\<close>. \<open>ErrNoRows\<close> is \<open>pgx.ErrNoRows\<close>, \<open>ErrUnknownSendingNumber\<close> the sentinel of
  \<^verbatim>\<open>internal/domain/domain.go\<close>, \<open>ErrProvider\<close> a \<open>*provider.Error\<close> (status, code, message),
  \<open>ErrDB\<close> an error of the database connection, and \<open>ErrMsg f args\<close> any other
  \<open>fmt.Errorf(f, args)\<close>. A function that returns \<open>(T, error)\<close> returns \<open>error + T\<close> here.
\<close>

datatype error =
    ErrNoRows
  | ErrDB
  | ErrUnknownSendingNumber
  | ErrProvider int string string
  | ErrMsg string "string list"

type_synonym 'a result = "error + 'a"

definition is_ok :: "'a result \<Rightarrow> bool" where
  "is_ok r = (case r of Inl _ \<Rightarrow> False | Inr _ \<Rightarrow> True)"

lemma is_ok_simps [simp]: "is_ok (Inr x)" "\<not> is_ok (Inl e)"
  by (simp_all add: is_ok_def)

lemma is_ok_iff: "is_ok r \<longleftrightarrow> (\<exists>x. r = Inr x)"
  by (cases r) auto

section \<open>Times and durations\<close>

text \<open>
  A \<open>time.Time\<close> is its number of nanoseconds since the Unix epoch and a \<open>time.Duration\<close> is a
  number of nanoseconds. Go's zero time is the first instant of year 1.
\<close>

type_synonym time = int
type_synonym duration = int

abbreviation second :: duration where "second \<equiv> 1000000000"
abbreviation minute :: duration where "minute \<equiv> 60000000000"
abbreviation hour :: duration where "hour \<equiv> 3600000000000"
abbreviation millisecond :: duration where "millisecond \<equiv> 1000000"

definition zero_time :: time where
  "zero_time = - 62135596800 * second"

definition is_zero :: "time \<Rightarrow> bool" where
  "is_zero t = (t = zero_time)"

text \<open>PostgreSQL's \<open>timestamptz\<close> keeps microseconds; pgx truncates a Go time to them.\<close>

definition pg_time :: "time \<Rightarrow> time" where
  "pg_time t = t - t mod 1000"

lemma pg_time_le: "pg_time t \<le> t"
  by (simp add: pg_time_def)

lemma pg_time_gt: "t < pg_time t + 1000"
proof -
  have "t mod 1000 < 1000" by simp
  then show ?thesis unfolding pg_time_def by linarith
qed

lemma pg_time_mono: "s \<le> t \<Longrightarrow> pg_time s \<le> pg_time t"
  unfolding pg_time_def by (metis minus_mod_eq_mult_div mult_left_mono zdiv_mono1 zero_le_numeral zero_less_numeral)

lemma pg_time_idem [simp]: "pg_time (pg_time t) = pg_time t"
  by (simp add: pg_time_def minus_mod_eq_mult_div)

section \<open>Tables\<close>

text \<open>\<open>UPDATE t SET f WHERE p\<close>.\<close>

definition update_where :: "('a \<Rightarrow> bool) \<Rightarrow> ('a \<Rightarrow> 'a) \<Rightarrow> 'a list \<Rightarrow> 'a list" where
  "update_where p f rows = map (\<lambda>r. if p r then f r else r) rows"

text \<open>\<open>SELECT * FROM t WHERE p ORDER BY k LIMIT 1\<close>.\<close>

fun min_by :: "('a \<Rightarrow> 'k::linorder) \<Rightarrow> 'a \<Rightarrow> 'a list \<Rightarrow> 'a" where
  "min_by k x [] = x"
| "min_by k x (y # ys) = (if k y < k x then min_by k y ys else min_by k x ys)"

definition select_first :: "('a \<Rightarrow> 'k::linorder) \<Rightarrow> ('a \<Rightarrow> bool) \<Rightarrow> 'a list \<Rightarrow> 'a option" where
  "select_first k p rows = (case filter p rows of [] \<Rightarrow> None | r # rs \<Rightarrow> Some (min_by k r rs))"

text \<open>\<open>SELECT count(*) FROM t WHERE p\<close>.\<close>

definition count_where :: "('a \<Rightarrow> bool) \<Rightarrow> 'a list \<Rightarrow> nat" where
  "count_where p rows = length (filter p rows)"

named_theorems table_simps

lemma update_where_Nil [table_simps, simp]: "update_where p f [] = []"
  by (simp add: update_where_def)

lemma update_where_Cons [table_simps]:
  "update_where p f (r # rows) = (if p r then f r else r) # update_where p f rows"
  by (simp add: update_where_def)

lemma length_update_where [table_simps, simp]: "length (update_where p f rows) = length rows"
  by (simp add: update_where_def)

lemma set_update_where: "set (update_where p f rows) = (\<lambda>r. if p r then f r else r) ` set rows"
  by (simp add: update_where_def)

lemma in_update_where [table_simps]:
  "r \<in> set (update_where p f rows) \<longleftrightarrow> (\<exists>s \<in> set rows. (p s \<and> r = f s) \<or> (\<not> p s \<and> r = s))"
  by (auto simp: update_where_def)

lemma update_whereE:
  assumes "r \<in> set (update_where p f rows)"
  obtains (hit) s where "s \<in> set rows" "p s" "r = f s" | (miss) "r \<in> set rows" "\<not> p r"
  using assms by (auto simp: in_update_where)

lemma update_where_hit: "r \<in> set rows \<Longrightarrow> p r \<Longrightarrow> f r \<in> set (update_where p f rows)"
  by (auto simp: in_update_where)

lemma map_update_where:
  "(\<And>r. r \<in> set rows \<Longrightarrow> p r \<Longrightarrow> g (f r) = g r) \<Longrightarrow> map g (update_where p f rows) = map g rows"
  by (simp add: update_where_def)

lemma update_where_noop: "(\<And>r. r \<in> set rows \<Longrightarrow> p r \<Longrightarrow> f r = r) \<Longrightarrow> update_where p f rows = rows"
  unfolding update_where_def by (induction rows) auto

lemma update_where_append [table_simps]:
  "update_where p f (xs @ ys) = update_where p f xs @ update_where p f ys"
  by (simp add: update_where_def)

lemma min_by_in: "min_by k x xs \<in> insert x (set xs)"
  by (induction k x xs rule: min_by.induct) auto

lemma min_by_le: "y \<in> insert x (set xs) \<Longrightarrow> k (min_by k x xs) \<le> k y"
proof (induction k x xs arbitrary: y rule: min_by.induct)
  case (1 k x)
  then show ?case by simp
next
  case (2 k x z zs)
  show ?case
  proof (cases "k z < k x")
    case True
    with 2(1)[OF True, of z] 2(1)[OF True, of y] 2(3) show ?thesis by auto
  next
    case False
    with 2(2)[OF False, of x] 2(2)[OF False, of y] 2(3) show ?thesis by auto
  qed
qed

lemma select_first_None [table_simps]: "select_first k p rows = None \<longleftrightarrow> (\<forall>r \<in> set rows. \<not> p r)"
proof -
  have "select_first k p rows = None \<longleftrightarrow> filter p rows = []"
    by (simp add: select_first_def split: list.split)
  then show ?thesis by (simp add: filter_empty_conv)
qed

lemma select_first_SomeD:
  assumes "select_first k p rows = Some r"
  shows "r \<in> set rows" and "p r" and "s \<in> set rows \<Longrightarrow> p s \<Longrightarrow> k r \<le> k s"
proof -
  from assms obtain x xs where f: "filter p rows = x # xs" and r: "r = min_by k x xs"
    by (auto simp: select_first_def split: list.splits)
  have sub: "insert x (set xs) = {y \<in> set rows. p y}"
    using f by (metis list.simps(15) set_filter)
  from r min_by_in[of k x xs] sub show "r \<in> set rows" "p r" by auto
  assume "s \<in> set rows" "p s"
  then show "k r \<le> k s" using sub r min_by_le[of s x xs k] by auto
qed

lemma select_first_SomeI:
  "r \<in> set rows \<Longrightarrow> p r \<Longrightarrow> \<exists>s. select_first k p rows = Some s"
  by (cases "select_first k p rows") (auto simp: select_first_None)

section \<open>Keys\<close>

text \<open>A key column is \<open>distinct (map key rows)\<close>; \<open>row_of\<close> looks a row up by its key.\<close>

definition row_of :: "('a \<Rightarrow> 'k) \<Rightarrow> 'k \<Rightarrow> 'a list \<Rightarrow> 'a option" where
  "row_of key k rows = find (\<lambda>r. key r = k) rows"

lemma row_of_None: "row_of key k rows = None \<longleftrightarrow> k \<notin> key ` set rows"
  by (auto simp: row_of_def find_None_iff)

lemma row_of_SomeD: "row_of key k rows = Some r \<Longrightarrow> r \<in> set rows \<and> key r = k"
  by (auto simp: row_of_def find_Some_iff)

lemma row_of_append:
  "row_of key k (xs @ ys) = (case row_of key k xs of None \<Rightarrow> row_of key k ys | Some r \<Rightarrow> Some r)"
  unfolding row_of_def by (induction xs) auto

lemma row_of_single [simp]: "row_of key k [r] = (if key r = k then Some r else None)"
  by (simp add: row_of_def)

lemma sorted_app_le: "sorted (map k (xs @ ys)) \<Longrightarrow> x \<in> set xs \<Longrightarrow> y \<in> set ys \<Longrightarrow> k x \<le> k y"
  by (simp add: sorted_append)

lemma row_of_eq:
  assumes "distinct (map key rows)" and "r \<in> set rows"
  shows "row_of key (key r) rows = Some r"
  using assms by (induction rows) (auto simp: row_of_def image_iff)

lemma distinct_key_head:
  assumes "distinct (map key (r # rows))" and "s \<in> set rows"
  shows "key s \<noteq> key r"
proof -
  have "key r \<notin> key ` set rows" using assms(1) by simp
  then show ?thesis using assms(2) by (metis imageI)
qed

lemma distinct_key_eq:
  assumes "distinct (map key rows)" and "r \<in> set rows" and "s \<in> set rows" and "key r = key s"
  shows "r = s"
  using row_of_eq[OF assms(1,2)] row_of_eq[OF assms(1,3)] assms(4) by (metis option.inject)

end
