(* ===== verification/Lease.thy ===== *)
theory Lease
  imports Prelude
begin

text \<open>
  The five queues of the database (outbound jobs, CRM jobs, inbound messages, delivery events,
  workflow enrollments) are claimed by the same statement:
  \<^verbatim>\<open>
  WITH next AS (SELECT key FROM t WHERE <ready> ORDER BY <order> FOR UPDATE SKIP LOCKED LIMIT 1)
  UPDATE t SET <lock> FROM next WHERE t.key = next.key RETURNING ...
  \<close>
  \<open>claim_where\<close> is that statement on a table; the locale \<open>lease_queue\<close> states what makes it a
  lease, and proves once what every queue then guarantees. Each queue is an interpretation of it,
  in the theory that models the queue.
\<close>

definition claim_where ::
  "('r \<Rightarrow> 'k) \<Rightarrow> ('r \<Rightarrow> 'o::linorder) \<Rightarrow> (time \<Rightarrow> 'r \<Rightarrow> bool) \<Rightarrow> (time \<Rightarrow> 'r \<Rightarrow> 'r) \<Rightarrow> time \<Rightarrow> 'r list \<Rightarrow> ('r \<times> 'r list) option" where
  "claim_where key ord ready lock now rows =
    (case select_first ord (ready now) rows of
       None \<Rightarrow> None
     | Some r \<Rightarrow> Some (lock now r, update_where (\<lambda>s. key s = key r) (lock now) rows))"

locale lease_queue =
  fixes key :: "'r \<Rightarrow> 'k"
    and ord :: "'r \<Rightarrow> 'o::linorder"
    and ready :: "time \<Rightarrow> 'r \<Rightarrow> bool"
    and lock :: "time \<Rightarrow> 'r \<Rightarrow> 'r"
    and lease :: duration
  assumes key_lock: "key (lock now r) = key r"
    and leased: "ready now r \<Longrightarrow> t \<le> now + lease \<Longrightarrow> \<not> ready t (lock now r)"
begin

abbreviation claim_q :: "time \<Rightarrow> 'r list \<Rightarrow> ('r \<times> 'r list) option" where
  "claim_q \<equiv> claim_where key ord ready lock"

lemma claim_None: "claim_q now rows = None \<longleftrightarrow> (\<forall>r \<in> set rows. \<not> ready now r)"
  using select_first_None[of ord "ready now" rows] by (auto simp: claim_where_def split: option.split)

lemma claim_SomeD:
  assumes "claim_q now rows = Some (r', rows')"
  obtains r where "r \<in> set rows" and "ready now r" and "r' = lock now r"
    and "\<And>s. s \<in> set rows \<Longrightarrow> ready now s \<Longrightarrow> ord r \<le> ord s"
    and "rows' = update_where (\<lambda>s. key s = key r) (lock now) rows"
  using assms select_first_SomeD[of ord "ready now" rows]
  by (auto simp: claim_where_def split: option.splits)

lemma claim_keys: "claim_q now rows = Some (r', rows') \<Longrightarrow> map key rows' = map key rows"
  by (erule claim_SomeD) (simp add: map_update_where key_lock)

lemma claim_in: "claim_q now rows = Some (r', rows') \<Longrightarrow> r' \<in> set rows'"
  by (erule claim_SomeD) (auto simp: in_update_where)

text \<open>Only the claimed row changes.\<close>

lemma claim_others:
  assumes "claim_q now rows = Some (r', rows')" and "key s \<noteq> key r'"
  shows "s \<in> set rows' \<longleftrightarrow> s \<in> set rows"
  using assms by (elim claim_SomeD) (auto simp: in_update_where key_lock)

text \<open>
  The lease: as long as the claimed row is still in the table as the claim left it, no later claim
  within the lease returns its key, whatever happened to the other rows in between.
\<close>

lemma claim_exclusive:
  assumes "claim_q now rows = Some (r', rows')"
    and "r' \<in> set later" and "distinct (map key later)"
    and "claim_q t later = Some (s', later')" and "t \<le> now + lease"
  shows "key s' \<noteq> key r'"
proof -
  obtain r where r: "ready now r" "r' = lock now r" using assms(1) by (rule claim_SomeD)
  obtain s where s: "s \<in> set later" "ready t s" "s' = lock t s" using assms(4) by (rule claim_SomeD)
  have "\<not> ready t r'" using leased[OF r(1) assms(5)] r(2) by simp
  then have "s \<noteq> r'" using s(2) by auto
  then have "key s \<noteq> key r'" using distinct_key_eq[OF assms(3) s(1) assms(2)] by auto
  then show ?thesis using s(3) key_lock by simp
qed

text \<open>Nothing that is ready is left behind for ever: a claim fails only when nothing is ready, and it
  takes the first ready row in the queue's order.\<close>

lemma claim_progress: "r \<in> set rows \<Longrightarrow> ready now r \<Longrightarrow> \<exists>s rows'. claim_q now rows = Some (s, rows')"
  using claim_None[of now rows] by (cases "claim_q now rows") auto

lemma claim_first:
  assumes "claim_q now rows = Some (r', rows')" and "s \<in> set rows" and "ready now s"
  obtains r where "r \<in> set rows" "ready now r" "r' = lock now r" "ord r \<le> ord s"
  using assms by (elim claim_SomeD) auto

end

end
