(* ===== verification/Domain.thy ===== *)
theory Domain
  imports GoStrings
begin

text \<open>
  \<^verbatim>\<open>internal/domain/domain.go\<close>: phone numbers, the choice of the sending number, opt-out keywords
  and the classification of provider errors. A function that returns an \<open>error\<close> alone returns
  \<open>error option\<close> here, with \<open>None\<close> for nil.
\<close>

section \<open>Phone numbers\<close>

text \<open>The regular expression \<^verbatim>\<open>^\+[1-9][0-9]{7,14}$\<close>.\<close>

fun e164_match :: "string \<Rightarrow> bool" where
  "e164_match (p # d # ds) =
     (p = CHR ''+'' \<and> is_digit d \<and> d \<noteq> CHR ''0'' \<and> 7 \<le> length ds \<and> length ds \<le> 14 \<and> list_all is_digit ds)"
| "e164_match _ = False"

definition validate_e164 :: "string \<Rightarrow> error option" where
  "validate_e164 number = (if \<not> e164_match number then Some (ErrMsg ''invalid E.164 number'' []) else None)"

definition normalize_us_number :: "string \<Rightarrow> string result" where
  "normalize_us_number raw =
    (let n = filter is_digit raw in
     if has_prefix ''+'' (trim_space raw) \<and> validate_e164 (trim_space raw) = None then Inr (trim_space raw)
     else if length n = 10 \<or> (length n = 11 \<and> has_prefix ''1'' n) then
       (let n = (if length n = 10 then ''1'' @ n else n); number = ''+'' @ n in
        case validate_e164 number of Some err \<Rightarrow> Inl err | None \<Rightarrow> Inr number)
     else Inl ErrUnknownSendingNumber)"

fun find_candidate :: "string \<Rightarrow> string list \<Rightarrow> string result" where
  "find_candidate number [] = Inl ErrUnknownSendingNumber"
| "find_candidate number (candidate # rest) =
     (if candidate = number then Inr number else find_candidate number rest)"

definition select_sending_number :: "string \<Rightarrow> string \<Rightarrow> string list \<Rightarrow> string result" where
  "select_sending_number raw0 fallback owned =
    (let raw = trim_space raw0 in
     if raw = [] then
       (case validate_e164 fallback of Some err \<Rightarrow> Inl err | None \<Rightarrow> Inr fallback)
     else
       (case normalize_us_number raw of
          Inl err \<Rightarrow> Inl err
        | Inr number \<Rightarrow> find_candidate number owned))"

section \<open>Opt-out keywords\<close>

definition opt_out_keywords :: "string list" where
  "opt_out_keywords =
    [''STOP'', ''STOPALL'', ''STOP ALL'', ''UNSUBSCRIBE'', ''CANCEL'', ''END'', ''QUIT'']"

definition is_opt_out :: "string \<Rightarrow> bool" where
  "is_opt_out text = (to_upper (join '' '' (str_fields text)) \<in> set opt_out_keywords)"

section \<open>Provider errors\<close>

datatype retry_class = RetryTransient | RetryPermanent | RetrySuppression

definition classify_provider_error :: "int \<Rightarrow> string \<Rightarrow> retry_class" where
  "classify_provider_error status code =
    (if code = ''40300'' then RetrySuppression
     else if status = 408 \<or> status = 425 \<or> status = 429 \<or> status \<ge> 500 then RetryTransient
     else RetryPermanent)"

section \<open>Lemmas\<close>

lemma validate_e164_None [simp]: "validate_e164 n = None \<longleftrightarrow> e164_match n"
  by (simp add: validate_e164_def)

lemma validate_e164_valid: "e164_match n \<Longrightarrow> validate_e164 n = None"
  by simp

lemma e164_match_iff:
  "e164_match s \<longleftrightarrow>
    (\<exists>d ds. s = CHR ''+'' # d # ds \<and> is_digit d \<and> d \<noteq> CHR ''0'' \<and> 7 \<le> length ds \<and> length ds \<le> 14 \<and>
      (\<forall>c \<in> set ds. is_digit c))"
  by (induction s rule: e164_match.induct) (auto simp: list_all_iff)

lemma e164_length: "e164_match s \<Longrightarrow> 9 \<le> length s \<and> length s \<le> 16"
  by (auto simp: e164_match_iff)

lemma find_candidate_Inr: "find_candidate n owned = Inr m \<longleftrightarrow> m = n \<and> n \<in> set owned"
  by (induction owned) auto

lemma find_candidate_Inl: "find_candidate n owned = Inl e \<longleftrightarrow> e = ErrUnknownSendingNumber \<and> n \<notin> set owned"
  by (induction owned) auto

lemma normalize_valid: "normalize_us_number raw = Inr n \<Longrightarrow> e164_match n"
  by (auto simp: normalize_us_number_def Let_def validate_e164_def split: if_splits option.splits)

lemma normalize_e164:
  assumes "e164_match (trim_space raw)"
  shows "normalize_us_number raw = Inr (trim_space raw)"
  using assms by (auto simp: normalize_us_number_def Let_def e164_match_iff)

subsection \<open>Opt-out keywords, word by word\<close>

lemma upper_char_space: "upper_char c = CHR '' '' \<longleftrightarrow> c = CHR '' ''"
proof -
  have "upper_char c \<noteq> CHR '' ''" if "97 \<le> (of_char c :: nat)" "(of_char c :: nat) \<le> 122"
  proof
    assume "upper_char c = CHR '' ''"
    with that have "char_of (of_char c - 32 :: nat) = CHR '' ''" by (simp add: upper_char_def)
    then have "(of_char (char_of (of_char c - 32 :: nat) :: char) :: nat) = 32" by simp
    with that show False by simp
  qed
  then show ?thesis by (auto simp: upper_char_def Let_def)
qed

lemma to_upper_sep: "to_upper (w @ CHR '' '' # s) = to_upper w @ CHR '' '' # to_upper s"
proof (induction w rule: to_upper.induct)
  case 1
  show ?case by (cases s) (simp_all add: upper_char_def)
next
  case (2 c)
  show ?case by (cases s) (simp_all add: upper_char_def)
next
  case (3 c d cs)
  then show ?case by auto
qed

lemma to_upper_Nil [simp]: "to_upper w = [] \<longleftrightarrow> w = []"
  by (cases w rule: to_upper.cases) auto

lemma to_upper_no_space: "CHR '' '' \<notin> set w \<Longrightarrow> CHR '' '' \<notin> set (to_upper w)"
  by (induction w rule: to_upper.induct) (auto simp: upper_char_space dest: sym[of "CHR '' ''"])

lemma to_upper_join: "to_upper (join '' '' ws) = join '' '' (map to_upper ws)"
  by (induction "'' ''" ws rule: join.induct) (auto simp: to_upper_sep)

lemma fields_go_words:
  assumes "CHR '' '' \<notin> set cur"
  shows "w \<in> set (fields_go k cur s) \<Longrightarrow> w \<noteq> [] \<and> CHR '' '' \<notin> set w"
  using assms
proof (induction k cur s rule: fields_go.induct)
  case (3 cur c cs)
  have "space_len (c # cs) = 0 \<Longrightarrow> c \<noteq> CHR '' ''"
    by (auto simp: space_len_def space_runes_def)
  with 3 show ?case by (auto split: nat.splits if_splits)
qed (auto split: if_splits)

lemma str_fields_words: "w \<in> set (str_fields s) \<Longrightarrow> w \<noteq> [] \<and> CHR '' '' \<notin> set w"
  unfolding str_fields_def by (rule fields_go_words[of "[]"]) auto

lemma split_on_word: "c \<notin> set w \<Longrightarrow> split_on c (w @ c # s) = w # split_on c s"
  by (induction w) (auto split: list.splits)

lemma split_on_last: "c \<notin> set w \<Longrightarrow> split_on c w = [w]"
  by (induction w) auto

lemma split_on_join:
  "ws \<noteq> [] \<Longrightarrow> (\<And>w. w \<in> set ws \<Longrightarrow> c \<notin> set w) \<Longrightarrow> split_on c (join [c] ws) = ws"
  by (induction "[c]" ws rule: join.induct) (auto simp: split_on_word split_on_last)

lemma join_words_eq:
  assumes "\<And>w. w \<in> set ws \<Longrightarrow> CHR '' '' \<notin> set w" and "ws \<noteq> []"
  shows "join '' '' ws = s \<longleftrightarrow> ws = split_on (CHR '' '') s"
  using split_on_join[of ws "CHR '' ''"] join_split_on[of "CHR '' ''" s] assms by metis

subsection \<open>Numbers without a plus sign\<close>

lemma digits_e164: "length n = 11 \<Longrightarrow> has_prefix ''1'' n \<Longrightarrow> list_all is_digit n \<Longrightarrow> e164_match (''+'' @ n)"
  by (cases n) (auto simp: list_all_iff)

lemma normalize_error: "normalize_us_number raw = Inl e \<Longrightarrow> e = ErrUnknownSendingNumber"
proof -
  let ?n = "filter is_digit raw"
  have dig: "list_all is_digit ?n" by (simp add: list_all_iff)
  have "length ?n = 10 \<Longrightarrow> e164_match (''+'' @ ''1'' @ ?n)"
    using dig digits_e164[of "''1'' @ ?n"] by (simp add: is_digit_def)
  moreover have "length ?n = 11 \<Longrightarrow> has_prefix ''1'' ?n \<Longrightarrow> e164_match (''+'' @ ?n)"
    using dig digits_e164[of ?n] by simp
  moreover assume "normalize_us_number raw = Inl e"
  ultimately show "e = ErrUnknownSendingNumber"
    by (auto simp: normalize_us_number_def Let_def validate_e164_def split: if_splits option.splits)
qed

lemma normalize_formatted:
  assumes "filter is_digit raw = ds" and "length ds = 10" and "\<not> e164_match (trim_space raw)"
  shows "normalize_us_number raw = Inr (''+1'' @ ds)"
proof -
  have "list_all is_digit ds" using assms(1) by (auto simp: list_all_iff)
  then have "e164_match (''+'' @ ''1'' @ ds)"
    using assms(2) digits_e164[of "''1'' @ ds"] by (simp add: is_digit_def)
  with assms show ?thesis by (simp add: normalize_us_number_def Let_def validate_e164_def)
qed

section \<open>Properties\<close>

text \<open>
  The number a message is sent from is always a valid E.164 number: the configured fallback
  when the contact's field is blank, and one of the account's own Telnyx numbers otherwise; a
  field that names no such number is always reported as \<open>ErrUnknownSendingNumber\<close>, the error the
  worker treats as permanent.
\<close>

lemma select_sending_number_sound:
  "case select_sending_number raw fallback owned of
     Inr n \<Rightarrow> validate_e164 n = None \<and> (if trim_space raw = [] then n = fallback else n \<in> set owned)
   | Inl e \<Rightarrow> (if trim_space raw = [] then validate_e164 fallback = Some e else e = ErrUnknownSendingNumber)"
proof (cases "trim_space raw = []")
  case True
  then show ?thesis
    by (simp add: select_sending_number_def split: option.split)
next
  case False
  then show ?thesis
    by (cases "normalize_us_number (trim_space raw)")
      (auto simp: select_sending_number_def find_candidate_Inr find_candidate_Inl
        dest: normalize_valid normalize_error split: sum.splits)
qed

text \<open>
  C35. An incoming text is an opt-out exactly when its words, in upper case, are one of the
  keywords, with STOP ALL as two words: neither case nor the amount and kind of white space
  around and between the words matters, and no other word may be present.
\<close>

theorem is_opt_out_words:
  "is_opt_out text \<longleftrightarrow>
     map to_upper (str_fields text) \<in>
       {[''STOP''], [''STOPALL''], [''STOP'', ''ALL''], [''UNSUBSCRIBE''], [''CANCEL''], [''END''], [''QUIT'']}"
proof (cases "str_fields text = []")
  case True
  then show ?thesis by (simp add: is_opt_out_def opt_out_keywords_def)
next
  case False
  let ?ws = "map to_upper (str_fields text)"
  have j: "join '' '' ?ws = s \<longleftrightarrow> ?ws = split_on (CHR '' '') s" for s
    using False by (intro join_words_eq) (auto dest: str_fields_words to_upper_no_space)
  show ?thesis
    unfolding is_opt_out_def to_upper_join opt_out_keywords_def set_simps insert_iff empty_iff j
    by simp
qed

end
