(* ===== verification/GoTime.thy ===== *)
theory GoTime
  imports GoStrings "HOL-Library.Signed_Division"
begin

text \<open>
  The part of Go's \<open>time\<close> package the workflow engine uses: local wall-clock fields of an instant
  in a \<open>*time.Location\<close>, \<open>time.Date\<close> and \<open>AddDate(0, 0, 1)\<close>. A calendar date is represented by
  its day number (days since 1970-01-01), which is all the engine needs: it only takes a date
  apart to put it together again.

  A \<open>Location\<close> is the UTC offset (in seconds) before the first transition and the list of
  transitions (Unix second, offset from then on), as in the time-zone database.
\<close>

datatype location = Location int "(int \<times> int) list"

definition utc :: location where
  "utc = Location 0 []"

text \<open>\<open>(*Location).lookup\<close>: the offset in force at a Unix second, and the interval it is in force
  for, with \<open>None\<close> for the beginning and the end of time.\<close>

fun lookup_go :: "int \<Rightarrow> int option \<Rightarrow> (int \<times> int) list \<Rightarrow> int \<Rightarrow> int \<times> int option \<times> int option" where
  "lookup_go off start [] s = (off, start, None)"
| "lookup_go off start ((w, o') # txs) s =
     (if s < w then (off, start, Some w) else lookup_go o' (Some w) txs s)"

fun zone_lookup :: "location \<Rightarrow> int \<Rightarrow> int \<times> int option \<times> int option" where
  "zone_lookup (Location off txs) s = lookup_go off None txs s"

definition offset_at :: "location \<Rightarrow> int \<Rightarrow> int" where
  "offset_at loc s = fst (zone_lookup loc s)"

definition unix_sec :: "time \<Rightarrow> int" where
  "unix_sec t = t div second"

definition local_sec :: "location \<Rightarrow> time \<Rightarrow> int" where
  "local_sec loc t = unix_sec t + offset_at loc (unix_sec t)"

text \<open>\<open>Hour()\<close>, \<open>Minute()\<close>, \<open>Second()\<close>, \<open>Nanosecond()\<close> and the day number.\<close>

definition hour_of :: "location \<Rightarrow> time \<Rightarrow> int" where
  "hour_of loc t = (local_sec loc t mod 86400) div 3600"

definition minute_of :: "location \<Rightarrow> time \<Rightarrow> int" where
  "minute_of loc t = (local_sec loc t mod 3600) div 60"

definition second_of :: "location \<Rightarrow> time \<Rightarrow> int" where
  "second_of loc t = local_sec loc t mod 60"

definition nanosecond_of :: "time \<Rightarrow> int" where
  "nanosecond_of t = t mod second"

definition day_of :: "location \<Rightarrow> time \<Rightarrow> int" where
  "day_of loc t = local_sec loc t div 86400"

text \<open>
  \<open>time.Date\<close>: the wall-clock seconds are first looked up as if they were UTC; if that offset is
  not in force at the resulting instant, the offset in force there is used.
\<close>

definition date_in :: "location \<Rightarrow> int \<Rightarrow> int \<Rightarrow> int \<Rightarrow> int \<Rightarrow> int \<Rightarrow> time" where
  "date_in loc day hh mm ss nsec =
    (let wall = day * 86400 + hh * 3600 + mm * 60 + ss;
         (off, start, stop) = zone_lookup loc wall;
         u = wall - off;
         off' = (if off \<noteq> 0 \<and> ((case start of None \<Rightarrow> False | Some b \<Rightarrow> u < b) \<or>
                               (case stop of None \<Rightarrow> False | Some b \<Rightarrow> u \<ge> b))
                 then offset_at loc u else off)
     in (wall - off') * second + nsec)"

text \<open>\<open>t.AddDate(0, 0, 1)\<close>.\<close>

definition next_day :: "location \<Rightarrow> time \<Rightarrow> time" where
  "next_day loc t =
    date_in loc (day_of loc t + 1) (hour_of loc t) (minute_of loc t) (second_of loc t) (nanosecond_of t)"

section \<open>Lemmas\<close>

lemma sexagesimal: "(y :: int) div 3600 * 60 + (y mod 3600) div 60 = y div 60"
proof -
  have "y div 3600 = y div 60 div 60" using zdiv_zmult2_eq[of 60 y 60] by simp
  moreover have "y mod 3600 = 60 * (y div 60 mod 60) + y mod 60" using zmod_zmult2_eq[of 60 y 60] by simp
  then have "(y mod 3600) div 60 = y div 60 mod 60" by simp
  ultimately show ?thesis by simp
qed

lemma minute_of_day: "hour_of loc t * 60 + minute_of loc t = (local_sec loc t mod 86400) div 60"
proof -
  have "local_sec loc t mod 3600 = (local_sec loc t mod 86400) mod 3600"
    by (simp add: mod_mod_cancel)
  then show ?thesis unfolding hour_of_def minute_of_def using sexagesimal by simp
qed

lemma minute_of_day_bounds:
  "0 \<le> hour_of loc t * 60 + minute_of loc t" "hour_of loc t * 60 + minute_of loc t < 1440"
proof -
  have "0 \<le> local_sec loc t mod 86400" "local_sec loc t mod 86400 < 86400" by simp_all
  then show "0 \<le> hour_of loc t * 60 + minute_of loc t" "hour_of loc t * 60 + minute_of loc t < 1440"
    unfolding minute_of_day by linarith+
qed

lemma wall_clock:
  "day_of loc t * 86400 + hour_of loc t * 3600 + minute_of loc t * 60 + second_of loc t = local_sec loc t"
proof -
  let ?x = "local_sec loc t"
  have "?x mod 86400 div 60 * 60 + ?x mod 86400 mod 60 = ?x mod 86400" by simp
  moreover have "?x mod 86400 mod 60 = ?x mod 60" by (simp add: mod_mod_cancel)
  moreover have "?x div 86400 * 86400 + ?x mod 86400 = ?x" by simp
  moreover have "(hour_of loc t * 60 + minute_of loc t) * 60 = hour_of loc t * 3600 + minute_of loc t * 60" by simp
  ultimately show ?thesis
    unfolding day_of_def second_of_def using minute_of_day[of loc t] by linarith
qed

text \<open>
  Around an instant with no transition near it a location behaves like a fixed zone:
  \<open>steady loc off s\<close> says that the offset is \<open>off\<close> for three days around the second \<open>s\<close>.
\<close>

definition steady :: "location \<Rightarrow> int \<Rightarrow> int \<Rightarrow> bool" where
  "steady loc off s \<longleftrightarrow> \<bar>off\<bar> < 86400 \<and> (\<forall>x. \<bar>x - s\<bar> \<le> 3 * 86400 \<longrightarrow> offset_at loc x = off)"

lemma steadyD: "steady loc off s \<Longrightarrow> \<bar>x - s\<bar> \<le> 3 * 86400 \<Longrightarrow> offset_at loc x = off"
  by (simp add: steady_def)

lemma steady_bound: "steady loc off s \<Longrightarrow> \<bar>off\<bar> < 86400"
  by (simp add: steady_def)

lemma steady_fixed: "\<bar>off\<bar> < 86400 \<Longrightarrow> steady (Location off []) off s"
  by (simp add: steady_def offset_at_def)

lemma date_in_steady:
  assumes "steady loc off s" and "\<bar>day * 86400 + hh * 3600 + mm * 60 + ss - s\<bar> \<le> 2 * 86400"
  shows "date_in loc day hh mm ss nsec = (day * 86400 + hh * 3600 + mm * 60 + ss - off) * second + nsec"
proof -
  let ?wall = "day * 86400 + hh * 3600 + mm * 60 + ss"
  obtain o1 st en where z: "zone_lookup loc ?wall = (o1, st, en)" by (cases "zone_lookup loc ?wall") auto
  have "offset_at loc ?wall = off" using steadyD[OF assms(1), of ?wall] assms(2) by simp
  then have o1: "o1 = off" using z by (simp add: offset_at_def)
  have "offset_at loc (?wall - off) = off"
    using steadyD[OF assms(1), of "?wall - off"] steady_bound[OF assms(1)] assms(2) by linarith
  with z o1 show ?thesis by (simp add: date_in_def Let_def)
qed

lemma unix_sec_add: "0 \<le> n \<Longrightarrow> n < second \<Longrightarrow> unix_sec (x * second + n) = x"
  by (simp add: unix_sec_def)

lemma nanosecond_of_bounds: "0 \<le> nanosecond_of t" "nanosecond_of t < second"
  by (simp_all add: nanosecond_of_def)

lemma time_split: "t = unix_sec t * second + nanosecond_of t"
  by (simp add: unix_sec_def nanosecond_of_def)

section \<open>RFC 3339\<close>

text \<open>
  \<open>Time.UnmarshalJSON\<close> on the text of a JSON string: \<open>2006-01-02T15:04:05\<close>, an optional fraction
  (digits after the ninth are dropped) and \<open>Z\<close> or a numeric offset, every field in range.
\<close>

definition two_digits :: "int \<Rightarrow> int \<Rightarrow> string \<Rightarrow> int option" where
  "two_digits lo hi s =
    (case s of
       [a, b] \<Rightarrow>
         if is_digit a \<and> is_digit b then
           (let n = (of_char a - 48) * 10 + (of_char b - 48) in if lo \<le> n \<and> n \<le> hi then Some n else None)
         else None
     | _ \<Rightarrow> None)"

definition leap_year :: "int \<Rightarrow> bool" where
  "leap_year y = (y mod 4 = 0 \<and> (y mod 100 \<noteq> 0 \<or> y mod 400 = 0))"

definition days_in_month :: "int \<Rightarrow> int \<Rightarrow> int" where
  "days_in_month y m =
    (if m = 2 then (if leap_year y then 29 else 28) else if m = 4 \<or> m = 6 \<or> m = 9 \<or> m = 11 then 30 else 31)"

text \<open>Days since 1970-01-01 of a date of the Gregorian calendar; the year is counted from March.\<close>

definition days_from_civil :: "int \<Rightarrow> int \<Rightarrow> int \<Rightarrow> int" where
  "days_from_civil y m d =
    (let y' = (if m \<le> 2 then y - 1 else y); m' = (if m > 2 then m - 3 else m + 9)
     in 365 * y' + y' div 4 - y' div 100 + y' div 400 + (153 * m' + 2) div 5 + d - 719469)"

definition fraction_nanos :: "string \<Rightarrow> int" where
  "fraction_nanos ds = fold (\<lambda>c n. n * 10 + (of_char c - 48)) (take 9 (ds @ replicate 9 CHR ''0'')) 0"

definition zone_seconds :: "string \<Rightarrow> int option" where
  "zone_seconds s =
    (if s = ''Z'' then Some 0
     else case s of
       [sign, a, b, c, d, e] \<Rightarrow>
         (case (two_digits 0 23 [a, b], two_digits 0 59 [d, e]) of
            (Some hh, Some mm) \<Rightarrow>
              if c = CHR '':'' \<and> sign = CHR ''+'' then Some (hh * 3600 + mm * 60)
              else if c = CHR '':'' \<and> sign = CHR ''-'' then Some (- (hh * 3600 + mm * 60)) else None
          | _ \<Rightarrow> None)
     | _ \<Rightarrow> None)"

definition parse_clock :: "string \<Rightarrow> int option" where
  "parse_clock s =
    (case (two_digits 0 99 (take 2 s), two_digits 0 99 (take 2 (drop 2 s)), two_digits 1 12 (take 2 (drop 5 s)),
           two_digits 1 31 (take 2 (drop 8 s)), two_digits 0 23 (take 2 (drop 11 s)),
           two_digits 0 59 (take 2 (drop 14 s)), two_digits 0 59 (take 2 (drop 17 s))) of
       (Some c, Some yy, Some m, Some d, Some hh, Some mm, Some ss) \<Rightarrow>
         (let y = c * 100 + yy in
          if s ! 4 = CHR ''-'' \<and> s ! 7 = CHR ''-'' \<and> s ! 10 = CHR ''T'' \<and> s ! 13 = CHR '':'' \<and> s ! 16 = CHR '':'' \<and>
             d \<le> days_in_month y m
          then Some (days_from_civil y m d * 86400 + hh * 3600 + mm * 60 + ss) else None)
     | _ \<Rightarrow> None)"

definition parse_rfc3339 :: "string \<Rightarrow> time option" where
  "parse_rfc3339 s =
    (let rest = drop 19 s;
         frac = (case rest of c # t \<Rightarrow> if c = CHR ''.'' then takeWhile is_digit t else [] | [] \<Rightarrow> []);
         zone = (if frac = [] then rest else drop (Suc (length frac)) rest)
     in case (parse_clock (take 19 s), zone_seconds zone) of
          (Some t, Some z) \<Rightarrow> if length s < 20 then None else Some ((t - z) * second + fraction_nanos frac)
        | _ \<Rightarrow> None)"

end
