(* ===== verification/Catalog.thy ===== *)
theory Catalog
  imports GoStrings
begin

text \<open>
  \<^verbatim>\<open>internal/workflow/catalog.go\<close>: workflow definitions, their validation, the catalogue of the
  17 legacy workflows and the selection of the enabled ones. Go's string enumerations are
  datatypes with a constructor for any other string where the code has a default branch.
\<close>

section \<open>Definitions\<close>

datatype legacy_status = StatusPublished | StatusDraft | StatusOther string

datatype kind = KindRecurringSMS | KindSingleSMS | KindManualFollow | KindOther string

record rate =
  batch_size :: int
  rate_per :: duration

record send_window =
  start_minute :: int
  end_minute :: int

record defn =
  d_key :: string
  d_name :: string
  d_legacy_status :: legacy_status
  d_enabled :: bool
  d_kind :: kind
  d_initial_delay :: duration
  d_repeat_every :: duration
  d_max_occurrences :: int
  d_legacy_variant_count :: int
  d_messages :: "string list"
  d_rate :: rate
  d_window :: send_window
  d_stop_on_any_reply :: bool
  d_archive_negative :: bool
  d_crm_action :: string
  d_task_body :: string

text \<open>\<open>Definition{}\<close>: Go's zero value.\<close>

definition zero_defn :: defn where
  "zero_defn = \<lparr>d_key = [], d_name = [], d_legacy_status = StatusOther [], d_enabled = False,
     d_kind = KindOther [], d_initial_delay = 0, d_repeat_every = 0, d_max_occurrences = 0,
     d_legacy_variant_count = 0, d_messages = [], d_rate = \<lparr>batch_size = 0, rate_per = 0\<rparr>,
     d_window = \<lparr>start_minute = 0, end_minute = 0\<rparr>, d_stop_on_any_reply = False,
     d_archive_negative = False, d_crm_action = [], d_task_body = []\<rparr>"

definition kind_error :: "defn \<Rightarrow> error option" where
  "kind_error d =
    (case d_kind d of
       KindRecurringSMS \<Rightarrow>
         (if d_initial_delay d \<le> 0 \<or> d_repeat_every d < 0 \<or> d_max_occurrences d \<le> 0 \<or> length (d_messages d) = 0
          then Some (ErrMsg ''delayed SMS requires a delay, bounded occurrences, and message'' []) else None)
     | KindSingleSMS \<Rightarrow>
         (if length (d_messages d) = 0 \<or> d_max_occurrences d \<noteq> 1 \<or> batch_size (d_rate d) \<le> 0 \<or> rate_per (d_rate d) \<le> 0
          then Some (ErrMsg ''single SMS requires messages and a positive rate'' []) else None)
     | KindManualFollow \<Rightarrow>
         (if d_initial_delay d \<le> 0 \<or> d_task_body d = []
          then Some (ErrMsg ''manual follow-up requires delay and task body'' []) else None)
     | KindOther k \<Rightarrow> Some (ErrMsg ''unknown workflow kind %q'' [k]))"

definition validate_defn :: "defn \<Rightarrow> error option" where
  "validate_defn d =
    (if d_key d = [] \<or> d_name d = [] then Some (ErrMsg ''identity is required'' [])
     else case kind_error d of
       Some err \<Rightarrow> Some err
     | None \<Rightarrow>
         (if length (d_messages d) > 0 \<and>
             (start_minute (d_window d) < 0 \<or> end_minute (d_window d) > 24 * 60 \<or>
              start_minute (d_window d) \<ge> end_minute (d_window d))
          then Some (ErrMsg ''invalid send window'' []) else None))"

fun find_by_name :: "defn list \<Rightarrow> string \<Rightarrow> defn \<times> bool" where
  "find_by_name [] name = (zero_defn, False)"
| "find_by_name (d # ds) name = (if d_name d = name then (d, True) else find_by_name ds name)"

section \<open>The legacy catalogue\<close>

definition default_start :: int where "default_start = 9 * 60"
definition default_end :: int where "default_end = 20 * 60"
definition blast_start :: int where "blast_start = 11 * 60 + 30"
definition blast_end :: int where "blast_end = 19 * 60"

definition follow_up_text :: string where
  "follow_up_text = ''Hi, this is {{location.name}} following up about {{contact.full_address}}. Has anything changed? Reply STOP to opt out.''"

definition blast_text :: string where
  "blast_text = ''Hi {{contact.first_name}}, this is {{location.name}}. Would you be open to discussing {{contact.full_address}}? Reply STOP to opt out.''"

definition manual :: "string \<Rightarrow> string \<Rightarrow> duration \<Rightarrow> string \<Rightarrow> defn" where
  "manual key name delay body =
    zero_defn\<lparr>d_key := key, d_name := name, d_legacy_status := StatusPublished, d_kind := KindManualFollow,
      d_initial_delay := delay, d_crm_action := ''manual_follow_up'', d_task_body := body\<rparr>"

definition blast :: "string \<Rightarrow> string \<Rightarrow> legacy_status \<Rightarrow> string list \<Rightarrow> int \<Rightarrow> duration \<Rightarrow> int \<Rightarrow> int \<Rightarrow> defn" where
  "blast key name status messages batch per start stop =
    zero_defn\<lparr>d_key := key, d_name := name, d_legacy_status := status, d_kind := KindSingleSMS,
      d_max_occurrences := 1, d_legacy_variant_count := 5, d_messages := messages,
      d_rate := \<lparr>batch_size = batch, rate_per = per\<rparr>,
      d_window := \<lparr>start_minute = start, end_minute = stop\<rparr>,
      d_stop_on_any_reply := True, d_archive_negative := True, d_crm_action := ''blast_reply''\<rparr>"

text \<open>The five recurring entries of the list are written out in the code; they share this shape.\<close>

definition recurring :: "string \<Rightarrow> string \<Rightarrow> int \<Rightarrow> string \<Rightarrow> defn" where
  "recurring key name days action =
    zero_defn\<lparr>d_key := key, d_name := name, d_legacy_status := StatusPublished, d_kind := KindRecurringSMS,
      d_initial_delay := days * 24 * hour, d_repeat_every := days * 24 * hour, d_max_occurrences := 12,
      d_messages := [follow_up_text], d_window := \<lparr>start_minute = default_start, end_minute = default_end\<rparr>,
      d_stop_on_any_reply := True, d_crm_action := action\<rparr>"

definition legacy_catalog :: "defn list" where
  "legacy_catalog =
    [recurring ''monthly-text'' ''1 x month Text'' 30 ''monthly_reply'',
     recurring ''three-month-text'' ''1x 3months text'' 90 ''three_month_reply'',
     recurring ''weekly-follow-up'' ''1x week follow up'' 7 ''weekly_reply'',
     recurring ''six-day-offer-follow-up'' ''6 day offer followup'' 6 ''six_day_reply'',
     blast ''copy-copy-sms-blast'' ''Copy - Copy - SMS Blast'' StatusDraft [blast_text] 1 (3 * minute) default_start default_end,
     manual ''manual-follow-up-six-month'' ''Copy - Manual Follow Up 6 Month'' (180 * 24 * hour) ''6 mo follow uo'',
     blast ''copy-sms-blast'' ''Copy - SMS Blast'' StatusDraft [blast_text] 6 minute blast_start blast_end,
     recurring ''every-two-day-check-in'' ''Every 2 Day check in'' 2 ''remove_self_on_reply'',
     manual ''manual-follow-up-one-month'' ''Manual Follow Up 1 Month'' (30 * 24 * hour) ''1 mo follow uo'',
     manual ''manual-follow-up-one-week'' ''Manual Follow Up 1 Week'' (7 * 24 * hour) ''7 day follow uo'',
     manual ''manual-follow-up-two-month'' ''Manual Follow Up 2 Month'' (60 * 24 * hour) ''2 mo follow uo'',
     manual ''manual-follow-up-two-week'' ''Manual Follow Up 2 Week'' (14 * 24 * hour) ''14 day follow uo'',
     manual ''manual-follow-up-three-month'' ''Manual Follow Up 3 Month'' (90 * 24 * hour) ''3 mo follow uo'',
     blast ''sms-blast'' ''SMS Blast'' StatusDraft [blast_text] 1 (135 * second) default_start default_end,
     blast ''sms-blast-full-address'' ''SMS Blast Full Address'' StatusPublished [blast_text] 7 minute blast_start blast_end,
     blast ''upper-darby-sms-blast'' ''Upper Darby- SMS Blast'' StatusDraft [blast_text] 10 minute default_start default_end,
     blast ''sms-v2'' ''smsv2'' StatusDraft [blast_text] 1 (105 * second) (8 * 60) (17 * 60 + 30)]"

section \<open>The enabled catalogue\<close>

text \<open>
  \<open>EnabledCatalog\<close> walks the catalogue once, with the set of keys still to be matched and the map
  built so far. \<open>range_keys\<close> is the order in which Go happens to iterate over the remaining keys
  (it decides which unknown key the error names).
\<close>

fun enable_all :: "string list \<Rightarrow> defn list \<Rightarrow> (string \<rightharpoonup> defn) \<Rightarrow> (string list \<times> (string \<rightharpoonup> defn)) result" where
  "enable_all enabled [] definitions = Inr (enabled, definitions)"
| "enable_all enabled (d # ds) definitions =
    (if d_key d \<in> set enabled then
       (if d_legacy_status d = StatusDraft then Inl (ErrMsg ''draft workflow %q cannot be enabled'' [d_key d])
        else enable_all (removeAll (d_key d) enabled) ds (definitions(d_key d \<mapsto> d\<lparr>d_enabled := True\<rparr>)))
     else enable_all enabled ds (definitions(d_key d \<mapsto> d)))"

definition enabled_catalog :: "(string list \<Rightarrow> string list) \<Rightarrow> string list \<Rightarrow> (string \<rightharpoonup> defn) result" where
  "enabled_catalog range_keys keys =
    (let enabled = remdups (filter (\<lambda>key. key \<noteq> []) keys) in
     case enable_all enabled legacy_catalog Map.empty of
       Inl err \<Rightarrow> Inl err
     | Inr (remaining, definitions) \<Rightarrow>
         (case range_keys remaining of
            key # _ \<Rightarrow> Inl (ErrMsg ''unknown workflow key %q'' [key])
          | [] \<Rightarrow> Inr definitions))"

section \<open>Lemmas\<close>

lemma recurring_valid:
  "key \<noteq> [] \<Longrightarrow> name \<noteq> [] \<Longrightarrow> 0 < days \<Longrightarrow> validate_defn (recurring key name days action) = None"
  by (simp add: validate_defn_def kind_error_def zero_defn_def recurring_def default_start_def default_end_def)

lemma manual_valid:
  "key \<noteq> [] \<Longrightarrow> name \<noteq> [] \<Longrightarrow> 0 < delay \<Longrightarrow> body \<noteq> [] \<Longrightarrow> validate_defn (manual key name delay body) = None"
  by (simp add: validate_defn_def kind_error_def zero_defn_def manual_def)

lemma blast_valid:
  "key \<noteq> [] \<Longrightarrow> name \<noteq> [] \<Longrightarrow> messages \<noteq> [] \<Longrightarrow> 0 < batch \<Longrightarrow> 0 < per \<Longrightarrow>
   0 \<le> start \<Longrightarrow> start < stop \<Longrightarrow> stop \<le> 24 * 60 \<Longrightarrow>
   validate_defn (blast key name status messages batch per start stop) = None"
  by (simp add: validate_defn_def kind_error_def zero_defn_def blast_def)

lemmas catalog_windows = default_start_def default_end_def blast_start_def blast_end_def

lemma legacy_catalog_all_valid: "list_all (\<lambda>d. validate_defn d = None) legacy_catalog"
  by (simp add: legacy_catalog_def recurring_valid manual_valid blast_valid catalog_windows)

lemma legacy_catalog_valid: "d \<in> set legacy_catalog \<Longrightarrow> validate_defn d = None"
  using legacy_catalog_all_valid by (simp add: list_all_iff)

lemma catalog_fields [simp]:
  "d_key (recurring k n days act) = k" "d_key (manual k n del b) = k" "d_key (blast k n st ms ba per s e) = k"
  "\<not> d_enabled (recurring k n days act)" "\<not> d_enabled (manual k n del b)"
  "\<not> d_enabled (blast k n st ms ba per s e)"
  "d_legacy_status (recurring k n days act) = StatusPublished"
  "d_legacy_status (manual k n del b) = StatusPublished"
  "d_legacy_status (blast k n st ms ba per s e) = st"
  by (simp_all add: recurring_def manual_def blast_def zero_defn_def)

lemma legacy_catalog_keys: "distinct (map d_key legacy_catalog)"
  by (simp add: legacy_catalog_def)

lemma legacy_catalog_all_disabled: "list_all (\<lambda>d. \<not> d_enabled d) legacy_catalog"
  by (simp add: legacy_catalog_def)

lemma legacy_catalog_disabled: "d \<in> set legacy_catalog \<Longrightarrow> \<not> d_enabled d"
  using legacy_catalog_all_disabled by (simp add: list_all_iff)

lemma legacy_catalog_length: "length legacy_catalog = 17"
  by (simp add: legacy_catalog_def)

text \<open>What one pass over the catalogue does, when no requested entry is a draft and when one is.\<close>

definition mark_enabled :: "string list \<Rightarrow> defn \<Rightarrow> string \<times> defn" where
  "mark_enabled enabled d = (d_key d, if d_key d \<in> set enabled then d\<lparr>d_enabled := True\<rparr> else d)"

lemma mark_enabled_key [simp]: "fst (mark_enabled en d) = d_key d"
  by (simp add: mark_enabled_def)

lemma mark_enabled_removeAll:
  "d_key d \<noteq> k \<Longrightarrow> mark_enabled (removeAll k en) d = mark_enabled en d"
  by (simp add: mark_enabled_def)

lemma enable_all_Inr:
  assumes "distinct (map d_key ds)" and "\<forall>d \<in> set ds. d_key d \<in> set en \<longrightarrow> d_legacy_status d \<noteq> StatusDraft"
  shows "enable_all en ds m =
    Inr (filter (\<lambda>k. k \<notin> d_key ` set ds) en, m ++ map_of (map (mark_enabled en) ds))"
  using assms
proof (induction ds arbitrary: en m)
  case Nil
  then show ?case by simp
next
  case (Cons d ds)
  have new: "d_key d \<notin> dom (map_of (map (mark_enabled en) ds))"
    using Cons.prems(1) by (auto simp: dom_map_of_conv_image_fst)
  have same: "map (mark_enabled (removeAll (d_key d) en)) ds = map (mark_enabled en) ds"
  proof (rule map_cong[OF refl])
    fix x assume "x \<in> set ds"
    then have "d_key x \<noteq> d_key d" using Cons.prems(1) distinct_key_head by metis
    then show "mark_enabled (removeAll (d_key d) en) x = mark_enabled en x"
      by (rule mark_enabled_removeAll)
  qed
  have step: "m ++ map_of (map (mark_enabled en) (d # ds)) =
      m(d_key d \<mapsto> snd (mark_enabled en d)) ++ map_of (map (mark_enabled en) ds)"
    using new by (simp add: map_add_upd_left)
  show ?case
  proof (cases "d_key d \<in> set en")
    case True
    then have flag: "snd (mark_enabled en d) = d\<lparr>d_enabled := True\<rparr>" by (simp add: mark_enabled_def)
    from True have "enable_all en (d # ds) m =
        enable_all (removeAll (d_key d) en) ds (m(d_key d \<mapsto> d\<lparr>d_enabled := True\<rparr>))"
      using Cons.prems(2) by simp
    also have "\<dots> = Inr (filter (\<lambda>k. k \<notin> d_key ` set ds) (removeAll (d_key d) en),
        m(d_key d \<mapsto> d\<lparr>d_enabled := True\<rparr>) ++ map_of (map (mark_enabled en) ds))"
      using Cons.prems by (subst Cons.IH) (auto simp: same)
    also have "filter (\<lambda>k. k \<notin> d_key ` set ds) (removeAll (d_key d) en) =
        filter (\<lambda>k. k \<notin> d_key ` set (d # ds)) en"
      by (induction en) auto
    finally show ?thesis unfolding step flag .
  next
    case False
    then have "filter (\<lambda>k. k \<notin> d_key ` set ds) en = filter (\<lambda>k. k \<notin> d_key ` set (d # ds)) en"
      by (auto intro: filter_cong)
    moreover have "snd (mark_enabled en d) = d" using False by (simp add: mark_enabled_def)
    moreover have "enable_all en (d # ds) m =
        Inr (filter (\<lambda>k. k \<notin> d_key ` set ds) en, m(d_key d \<mapsto> d) ++ map_of (map (mark_enabled en) ds))"
      using False Cons by simp
    ultimately show ?thesis unfolding step by simp
  qed
qed

lemma enable_all_Inl:
  assumes "d \<in> set ds" and "d_key d \<in> set en" and "d_legacy_status d = StatusDraft" and "distinct (map d_key ds)"
  shows "\<exists>e. enable_all en ds m = Inl e"
  using assms
proof (induction ds arbitrary: en m)
  case Nil
  then show ?case by simp
next
  case (Cons a ds)
  show ?case
  proof (cases "a = d")
    case True
    with Cons.prems show ?thesis by simp
  next
    case False
    with Cons.prems have d: "d \<in> set ds" by simp
    with Cons.prems have "d_key d \<noteq> d_key a" using distinct_key_head by metis
    with d Cons.prems show ?thesis by (simp add: Cons.IH)
  qed
qed

definition enableable :: "string \<Rightarrow> bool" where
  "enableable k \<longleftrightarrow> list_ex (\<lambda>d. d_key d = k \<and> d_legacy_status d \<noteq> StatusDraft) legacy_catalog"

lemma enableableD: "enableable (d_key d) \<Longrightarrow> d \<in> set legacy_catalog \<Longrightarrow> d_legacy_status d \<noteq> StatusDraft"
  using distinct_key_eq[OF legacy_catalog_keys] by (auto simp: enableable_def list_ex_iff)

section \<open>Properties\<close>

text \<open>
  C34. The process only starts with workflows that are in the legacy catalogue and were published
  there: \<open>EnabledCatalog\<close> succeeds exactly when every non-empty key names a catalogue entry that is
  not a draft, and then returns the whole catalogue, each entry unchanged but for its enabled flag,
  which is set for exactly the requested keys.
\<close>

theorem enabled_catalog_spec:
  assumes range: "\<And>xs. set (range_keys xs) = set xs"
  shows "enabled_catalog range_keys keys = Inr m \<longleftrightarrow>
     list_all (\<lambda>k. k = [] \<or> enableable k) keys \<and>
     m = map_of (map (\<lambda>d. (d_key d, d\<lparr>d_enabled := d_key d \<in> set keys\<rparr>)) legacy_catalog)"
proof -
  let ?en = "remdups (filter (\<lambda>key. key \<noteq> []) keys)"
  let ?left = "filter (\<lambda>k. k \<notin> d_key ` set legacy_catalog) ?en"
  have mark: "map (mark_enabled ?en) legacy_catalog =
      map (\<lambda>d. (d_key d, d\<lparr>d_enabled := d_key d \<in> set keys\<rparr>)) legacy_catalog"
  proof (rule map_cong[OF refl])
    fix d assume d: "d \<in> set legacy_catalog"
    then have "d_key d \<noteq> []" using legacy_catalog_valid[OF d] by (auto simp: validate_defn_def)
    then show "mark_enabled ?en d = (d_key d, d\<lparr>d_enabled := d_key d \<in> set keys\<rparr>)"
      using legacy_catalog_disabled[OF d] by (cases d) (auto simp: mark_enabled_def)
  qed
  show ?thesis
  proof (cases "\<exists>d \<in> set legacy_catalog. d_key d \<in> set ?en \<and> d_legacy_status d = StatusDraft")
    case True
    then obtain d where d: "d \<in> set legacy_catalog" "d_key d \<in> set ?en" "d_legacy_status d = StatusDraft" by blast
    then have "\<not> enableable (d_key d)" using enableableD by blast
    moreover obtain e where "enable_all ?en legacy_catalog Map.empty = Inl e"
      using enable_all_Inl[OF d legacy_catalog_keys] by blast
    ultimately show ?thesis using d(2) by (auto simp: enabled_catalog_def list_all_iff)
  next
    case False
    then have run: "enable_all ?en legacy_catalog Map.empty = Inr (?left, map_of (map (mark_enabled ?en) legacy_catalog))"
      by (subst enable_all_Inr[OF legacy_catalog_keys]) auto
    have "list_all (\<lambda>k. k = [] \<or> enableable k) keys \<longleftrightarrow> ?left = []"
      using False by (fastforce simp: list_all_iff filter_empty_conv enableable_def list_ex_iff)
    moreover have "range_keys ?left = [] \<longleftrightarrow> ?left = []"
      using range[of ?left] by (metis set_empty)
    ultimately show ?thesis
      by (auto simp: enabled_catalog_def run mark split: list.split)
  qed
qed

theorem enabled_catalog_witness:
  "\<exists>m. enabled_catalog (\<lambda>ks. ks) [''weekly-follow-up'', ''''] = Inr m \<and> map_option d_enabled (m ''weekly-follow-up'') = Some True"
proof -
  have "enableable ''weekly-follow-up''"
    by (simp add: enableable_def legacy_catalog_def)
  then have "enabled_catalog (\<lambda>ks. ks) [''weekly-follow-up'', ''''] =
     Inr (map_of (map (\<lambda>d. (d_key d, d\<lparr>d_enabled := d_key d \<in> set [''weekly-follow-up'', '''']\<rparr>)) legacy_catalog))"
    by (subst enabled_catalog_spec[of "\<lambda>ks. ks"]) simp_all
  then show ?thesis by (simp add: legacy_catalog_def)
qed

end
