(* ===== verification/Render.thy ===== *)
theory Render
  imports GoStrings
begin

text \<open>
  \<open>Render\<close> of \<^verbatim>\<open>internal/workflow/engine.go\<close>: replacing the variables of a message template. The
  code iterates over a Go map, so the order of the replacements is not determined; here the
  variables are the list of the map's entries in the order the loop visits them.
\<close>

fun replace_vars :: "(string \<times> string) list \<Rightarrow> string \<Rightarrow> string" where
  "replace_vars [] body = body"
| "replace_vars ((key, value) # rest) body =
     replace_vars rest (replace_all (''{{'' @ key @ ''}}'') value body)"

definition render :: "string \<Rightarrow> (string \<times> string) list \<Rightarrow> string result" where
  "render template variables =
    (let body = replace_vars variables template in
     case index_of ''{{'' body of
       Some start \<Rightarrow>
         (let tail = drop start body in
          case index_of ''}}'' tail of
            Some stop \<Rightarrow> Inl (ErrMsg ''missing template variable %s'' [take (stop + 2) tail])
          | None \<Rightarrow> Inl (ErrMsg ''malformed template variable'' []))
     | None \<Rightarrow> Inr body)"

lemma render_no_braces: "render template variables = Inr body \<Longrightarrow> \<not> contains ''{{'' body"
  by (auto simp: render_def Let_def index_of_None split: option.splits)

section \<open>Templates as token lists\<close>

text \<open>
  A well-formed template is a sequence of ordinary characters and placeholders. \<open>expand\<close> is what
  rendering it should give: every placeholder replaced by its value, or the first placeholder
  that has none.
\<close>

datatype token = Lit char | Var string

fun token_text :: "token \<Rightarrow> string" where
  "token_text (Lit c) = [c]"
| "token_text (Var k) = ''{{'' @ k @ ''}}''"

definition flatten :: "token list \<Rightarrow> string" where
  "flatten ts = concat (map token_text ts)"

definition brace_free :: "string \<Rightarrow> bool" where
  "brace_free s \<longleftrightarrow> CHR ''{'' \<notin> set s \<and> CHR ''}'' \<notin> set s"

fun token_ok :: "token \<Rightarrow> bool" where
  "token_ok (Lit c) = brace_free [c]"
| "token_ok (Var k) = brace_free k"

definition vars_ok :: "(string \<times> string) list \<Rightarrow> bool" where
  "vars_ok vars \<longleftrightarrow> distinct (map fst vars) \<and> list_all (\<lambda>(k, v). brace_free k \<and> brace_free v) vars"

fun expand :: "(string \<rightharpoonup> string) \<Rightarrow> token list \<Rightarrow> string result" where
  "expand env [] = Inr []"
| "expand env (Lit c # ts) = (case expand env ts of Inl e \<Rightarrow> Inl e | Inr s \<Rightarrow> Inr (c # s))"
| "expand env (Var k # ts) =
    (case env k of
       None \<Rightarrow> Inl (ErrMsg ''missing template variable %s'' [''{{'' @ k @ ''}}''])
     | Some v \<Rightarrow> (case expand env ts of Inl e \<Rightarrow> Inl e | Inr s \<Rightarrow> Inr (v @ s)))"

lemma flatten_simps [simp]:
  "flatten [] = []" "flatten (t # ts) = token_text t @ flatten ts" "flatten (xs @ ys) = flatten xs @ flatten ys"
  by (simp_all add: flatten_def)

lemma flatten_lits [simp]: "flatten (map Lit s) = s"
  by (induction s) simp_all

subsection \<open>One replacement\<close>

lemma replace_go_skip: "length xs = k \<Longrightarrow> replace_go old new k (xs @ ys) = replace_go old new 0 ys"
proof (induction xs arbitrary: k)
  case Nil
  then show ?case by simp
next
  case (Cons c cs)
  then show ?case by (cases k) auto
qed

lemma replace_go_plain:
  "CHR ''{'' \<notin> set xs \<Longrightarrow> replace_go (CHR ''{'' # p) v 0 (xs @ ys) = xs @ replace_go (CHR ''{'' # p) v 0 ys"
  by (induction xs) auto

lemma append_key_eq:
  "CHR ''}'' \<notin> set k \<Longrightarrow> CHR ''}'' \<notin> set k' \<Longrightarrow> k' @ CHR ''}'' # s = k @ CHR ''}'' # t \<longleftrightarrow> k' = k \<and> s = t"
proof (induction k arbitrary: k')
  case Nil
  then show ?case by (cases k') auto
next
  case (Cons c cs)
  then show ?case by (cases k') auto
qed

lemma replace_go_other_var:
  assumes "brace_free k" and "brace_free k'" and "k' \<noteq> k"
  shows "replace_go (''{{'' @ k @ ''}}'') v 0 (''{{'' @ k' @ ''}}'' @ ys) =
    ''{{'' @ k' @ ''}}'' @ replace_go (''{{'' @ k @ ''}}'') v 0 ys"
proof -
  let ?pat = "''{{'' @ k @ ''}}''"
  have "\<not> has_prefix ?pat (''{{'' @ k' @ ''}}'' @ ys)"
    using assms append_key_eq[of k k'] by (auto simp: has_prefix_iff brace_free_def)
  moreover have "\<not> has_prefix ?pat (''{'' @ k' @ ''}}'' @ ys)"
    using assms by (cases k') (auto simp: has_prefix_iff brace_free_def)
  moreover have "replace_go ?pat v 0 ((k' @ ''}}'') @ ys) = (k' @ ''}}'') @ replace_go ?pat v 0 ys"
    using assms replace_go_plain[of "k' @ ''}}''" "CHR ''{'' # k @ ''}}''" v ys] by (simp add: brace_free_def)
  ultimately show ?thesis by simp
qed

definition subst_token :: "string \<Rightarrow> string \<Rightarrow> token \<Rightarrow> token list" where
  "subst_token k v t = (if t = Var k then map Lit v else [t])"

lemma replace_all_flatten:
  assumes "brace_free k" and "list_all token_ok ts"
  shows "replace_all (''{{'' @ k @ ''}}'') v (flatten ts) = flatten (concat (map (subst_token k v) ts))"
  unfolding replace_all_def using assms(2)
proof (induction ts)
  case Nil
  then show ?case by simp
next
  case (Cons t ts)
  let ?pat = "''{{'' @ k @ ''}}''"
  show ?case
  proof (cases t)
    case (Lit c)
    then show ?thesis using Cons by (simp add: subst_token_def brace_free_def)
  next
    case (Var k')
    show ?thesis
    proof (cases "k' = k")
      case True
      have "replace_go ?pat v 0 (?pat @ flatten ts) = v @ replace_go ?pat v 0 (flatten ts)"
        using replace_go_skip[of "CHR ''{'' # k @ ''}}''" "Suc (length k + 2)" ?pat v "flatten ts"]
          has_prefix_self[of ?pat "flatten ts"] by simp
      with True Var Cons show ?thesis by (simp add: subst_token_def)
    next
      case False
      with Var Cons assms(1) show ?thesis
        using replace_go_other_var[of k k' v "flatten ts"] by (simp add: subst_token_def)
    qed
  qed
qed

lemma subst_token_ok:
  "brace_free v \<Longrightarrow> list_all token_ok ts \<Longrightarrow> list_all token_ok (concat (map (subst_token k v) ts))"
  by (induction ts) (auto simp: subst_token_def list_all_iff brace_free_def)

subsection \<open>All replacements, and the final check\<close>

fun subst_env :: "(string \<rightharpoonup> string) \<Rightarrow> token \<Rightarrow> token list" where
  "subst_env env (Lit c) = [Lit c]"
| "subst_env env (Var k) = (case env k of None \<Rightarrow> [Var k] | Some v \<Rightarrow> map Lit v)"

lemma subst_env_lits: "concat (map (subst_env env) (map Lit s)) = map Lit s"
  by (induction s) simp_all

lemma subst_env_step:
  "concat (map (subst_env env) (subst_token k v t)) = subst_env (env(k \<mapsto> v)) t"
  by (cases t) (simp_all add: subst_token_def subst_env_lits[simplified])

lemma replace_vars_flatten:
  assumes "list_all (\<lambda>(k, v). brace_free k \<and> brace_free v) vars" and "list_all token_ok ts"
  shows "replace_vars vars (flatten ts) = flatten (concat (map (subst_env (map_of vars)) ts))"
  using assms
proof (induction vars arbitrary: ts)
  case Nil
  have "concat (map (subst_env Map.empty) ts) = ts"
  proof (induction ts)
    case (Cons t ts)
    then show ?case by (cases t) simp_all
  qed simp
  then show ?case by simp
next
  case (Cons kv vars)
  obtain k v where kv: "kv = (k, v)" by (cases kv) auto
  let ?ts = "concat (map (subst_token k v) ts)"
  have "replace_vars (kv # vars) (flatten ts) = replace_vars vars (flatten ?ts)"
    using Cons.prems by (simp add: kv replace_all_flatten[simplified])
  also have "\<dots> = flatten (concat (map (subst_env (map_of vars)) ?ts))"
    using Cons.prems by (intro Cons.IH) (auto simp: kv subst_token_ok)
  also have "concat (map (subst_env (map_of vars)) ?ts) = concat (map (subst_env (map_of (kv # vars))) ts)"
    by (induction ts) (simp_all add: kv subst_env_step fun_upd_def)
  finally show ?case .
qed

definition final_check :: "string \<Rightarrow> string result" where
  "final_check body =
    (case index_of ''{{'' body of
       Some start \<Rightarrow>
         (let tail = drop start body in
          case index_of ''}}'' tail of
            Some stop \<Rightarrow> Inl (ErrMsg ''missing template variable %s'' [take (stop + 2) tail])
          | None \<Rightarrow> Inl (ErrMsg ''malformed template variable'' []))
     | None \<Rightarrow> Inr body)"

lemma render_final_check: "render template vars = final_check (replace_vars vars template)"
  by (simp add: render_def final_check_def Let_def)

lemma index_of_plain:
  "CHR ''}'' \<notin> set xs \<Longrightarrow> index_of ''}}'' (xs @ ''}}'' @ ys) = Some (length xs)"
  by (induction xs) auto

lemma final_check_flatten: "list_all token_ok ts \<Longrightarrow> final_check (flatten ts) = expand Map.empty ts"
proof (induction ts)
  case Nil
  then show ?case by (simp add: final_check_def)
next
  case (Cons t ts)
  show ?case
  proof (cases t)
    case (Lit c)
    then have "c \<noteq> CHR ''{''" using Cons.prems by (auto simp: brace_free_def)
    then have "final_check (c # flatten ts) = (case final_check (flatten ts) of Inl e \<Rightarrow> Inl e | Inr s \<Rightarrow> Inr (c # s))"
      by (simp add: final_check_def Let_def split: option.splits)
    with Cons Lit show ?thesis by simp
  next
    case (Var k)
    then have "CHR ''}'' \<notin> set k" using Cons.prems by (simp add: brace_free_def)
    then have "index_of ''}}'' ((''{{'' @ k) @ ''}}'' @ flatten ts) = Some (length (''{{'' @ k))"
      by (intro index_of_plain) simp
    with Var show ?thesis by (simp add: final_check_def)
  qed
qed

lemma expand_lits: "expand Map.empty (map Lit s @ ts) = (case expand Map.empty ts of Inl e \<Rightarrow> Inl e | Inr r \<Rightarrow> Inr (s @ r))"
  by (induction s) (auto split: sum.splits)

lemma expand_subst_env: "expand Map.empty (concat (map (subst_env env) ts)) = expand env ts"
proof (induction ts)
  case Nil
  then show ?case by simp
next
  case (Cons t ts)
  then show ?case by (cases t) (auto simp: expand_lits split: option.splits)
qed

lemma subst_env_ok:
  assumes "list_all token_ok ts" and "list_all (\<lambda>(k, v). brace_free k \<and> brace_free v) vars"
  shows "list_all token_ok (concat (map (subst_env (map_of vars)) ts))"
  using assms(1)
proof (induction ts)
  case Nil
  then show ?case by simp
next
  case (Cons t ts)
  have "brace_free v" if "map_of vars k = Some v" for k v
    using map_of_SomeD[OF that] assms(2) by (auto simp: list_all_iff)
  then have "list_all token_ok (subst_env (map_of vars) t)"
    using Cons.prems by (cases t) (auto simp: list_all_iff brace_free_def split: option.splits)
  with Cons show ?case by simp
qed

section \<open>Properties\<close>

text \<open>
  C36. On a well-formed template and variables whose names and values hold no braces, rendering
  gives exactly the template with every placeholder replaced by its value, or an error that names
  the first placeholder without one. Go's random map order does not matter: the result depends
  only on the mapping from names to values.
\<close>

theorem render_expand:
  assumes "list_all token_ok ts" and "vars_ok vars"
  shows "render (flatten ts) vars = expand (map_of vars) ts"
proof -
  have vs: "list_all (\<lambda>(k, v). brace_free k \<and> brace_free v) vars"
    using assms(2) by (simp add: vars_ok_def)
  show ?thesis
    by (simp add: render_final_check replace_vars_flatten[OF vs assms(1)]
        final_check_flatten[OF subst_env_ok[OF assms(1) vs]] expand_subst_env)
qed

theorem render_expand_witness:
  "render ''Hi {{a}}, {{b}}'' [(''b'', ''x''), (''a'', ''Sam'')] = Inr ''Hi Sam, x''"
  using render_expand[of "map Lit ''Hi '' @ [Var ''a''] @ map Lit '', '' @ [Var ''b'']" "[(''b'', ''x''), (''a'', ''Sam'')]"]
  by (simp add: vars_ok_def brace_free_def)

text \<open>
  A value that itself contains a placeholder makes the message depend on the order in which
  Go visits the map: with \<open>a\<close> visited first the text of \<open>b\<close> is substituted into the value of \<open>a\<close>
  and the message is sent, with \<open>b\<close> visited first rendering fails. The two lists are the same
  map.
\<close>

lemma render_order_dependent:
  "map_of [(''a'', ''{{b}}''), (''b'', ''x'')] = map_of [(''b'', ''x''), (''a'', ''{{b}}'')] \<and>
   render ''Hi {{a}}'' [(''a'', ''{{b}}''), (''b'', ''x'')] = Inr ''Hi x'' \<and>
   render ''Hi {{a}}'' [(''b'', ''x''), (''a'', ''{{b}}'')] =
     Inl (ErrMsg ''missing template variable %s'' [''{{b}}''])"
proof (intro conjI)
  show "map_of [(''a'', ''{{b}}''), (''b'', ''x'')] = map_of [(''b'', ''x''), (''a'', ''{{b}}'')]"
    by (auto simp: fun_eq_iff)
qed (simp_all add: render_def replace_all_def)

end
