(* ===== verification/Engine.thy ===== *)
theory Engine
  imports Domain GoTime Catalog Render "HOL-Library.Word"
begin

unbundle bit_operations_syntax

text \<open>
  \<^verbatim>\<open>internal/workflow/engine.go\<close>: enrolling a contact in a workflow, advancing the enrollment when
  its time has come, and reacting to the contact's reply. A pointer argument the code mutates is
  an argument and a second result here. What the Go runtime and the time-zone database supply is
  collected in a \<open>runtime\<close>: \<open>time.LoadLocation\<close> and the order in which a map is iterated over.
\<close>

section \<open>State\<close>

text \<open>
  The states are strings in the code; \<open>StateFailed\<close> is the string \<open>failed\<close> that
  \<open>Store.FailWorkflow\<close> writes and the engine has no name for.
\<close>

datatype wf_state = StatePending | StateAwaitingReply | StateCompleted | StateSuppressed | StateFailed

datatype command_type =
  CommandSendSMS | CommandSuppress | CommandArchiveConversation | CommandCRMAction | CommandCreateTask

record contact =
  c_id :: string
  c_phone :: string
  c_timezone :: string
  c_consent_at :: time
  c_consent_source :: string
  c_variables :: "(string \<times> string) list"

record enrollment =
  e_workflow_key :: string
  e_contact :: contact
  e_state :: wf_state
  e_next_run :: time
  e_variant :: int
  e_sent_count :: int

record command =
  cmd_type :: command_type
  cmd_body :: string
  cmd_action :: string
  cmd_rate :: rate

record runtime =
  rt_load_location :: "string \<Rightarrow> location option"
  rt_range_vars :: "(string \<times> string) list \<Rightarrow> (string \<times> string) list"

definition zero_rate :: rate where
  "zero_rate = \<lparr>batch_size = 0, rate_per = 0\<rparr>"

section \<open>Operations\<close>

text \<open>\<open>fnv.New32a\<close>, the 32-bit FNV-1a hash.\<close>

definition fnv32a :: "string \<Rightarrow> 32 word" where
  "fnv32a s = fold (\<lambda>c h. (h XOR of_nat (of_char c)) * 16777619) s 2166136261"

definition deterministic_variant :: "defn \<Rightarrow> string \<Rightarrow> int" where
  "deterministic_variant d contact_id =
    (if length (d_messages d) \<le> 1 then 0
     else uint (fnv32a (d_key d @ '':'' @ contact_id) mod of_nat (length (d_messages d))))"

definition start :: "defn \<Rightarrow> contact \<Rightarrow> time \<Rightarrow> enrollment result" where
  "start d c now =
    (if \<not> d_enabled d then Inl (ErrMsg ''workflow %q is disabled'' [d_name d])
     else case validate_defn d of Some err \<Rightarrow> Inl err | None \<Rightarrow>
       (if c_id c = [] then Inl (ErrMsg ''contact ID is required'' [])
        else if length (d_messages d) > 0 \<and> c_phone c = [] then Inl (ErrMsg ''contact phone is required'' [])
        else if length (d_messages d) > 0 \<and> (is_zero (c_consent_at c) \<or> trim_space (c_consent_source c) = [])
          then Inl (ErrMsg ''documented SMS consent is required'' [])
        else Inr \<lparr>e_workflow_key = d_key d, e_contact = c, e_state = StatePending,
                  e_next_run = (if d_initial_delay d > 0 then now + d_initial_delay d else now),
                  e_variant = deterministic_variant d (c_id c), e_sent_count = 0\<rparr>))"

text \<open>\<open>nextAllowed\<close>: the instant itself when it is inside the window, else the start of the window
  later today or tomorrow, in the recipient's zone.\<close>

definition next_allowed :: "send_window \<Rightarrow> location \<Rightarrow> time \<Rightarrow> time \<times> bool" where
  "next_allowed window loc now =
    (let m = hour_of loc now * 60 + minute_of loc now in
     if m \<ge> start_minute window \<and> m < end_minute window then (now, True)
     else if m < start_minute window then
       (date_in loc (day_of loc now) (start_minute window sdiv 60) (start_minute window smod 60) 0 0, False)
     else (let tomorrow = next_day loc now in
       (date_in loc (day_of loc tomorrow) (start_minute window sdiv 60) (start_minute window smod 60) 0 0, False)))"

text \<open>\<open>now\<close> comes with its own location \<open>here\<close> (the worker passes UTC).\<close>

definition advance :: "runtime \<Rightarrow> defn \<Rightarrow> enrollment \<Rightarrow> location \<Rightarrow> time \<Rightarrow> command list result \<times> enrollment" where
  "advance rt d e here now =
    (if e_workflow_key e \<noteq> d_key d then (Inl (ErrMsg ''workflow definition does not match enrollment'' []), e)
     else if e_state e = StateCompleted \<or> e_state e = StateSuppressed \<or> is_zero (e_next_run e) \<or> now < e_next_run e
       then (Inr [], e)
     else if d_kind d = KindManualFollow then
       (Inr [\<lparr>cmd_type = CommandCreateTask, cmd_body = d_task_body d, cmd_action = [], cmd_rate = zero_rate\<rparr>,
             \<lparr>cmd_type = CommandCRMAction, cmd_body = [], cmd_action = d_crm_action d, cmd_rate = zero_rate\<rparr>],
        e\<lparr>e_state := StateCompleted, e_next_run := zero_time\<rparr>)
     else if e_sent_count e \<ge> d_max_occurrences d then
       (Inr [], e\<lparr>e_state := StateCompleted, e_next_run := zero_time\<rparr>)
     else case (if c_timezone (e_contact e) \<noteq> [] then rt_load_location rt (c_timezone (e_contact e)) else Some here) of
       None \<Rightarrow> (Inl (ErrMsg ''invalid contact timezone: %w'' [c_timezone (e_contact e)]), e)
     | Some loc \<Rightarrow>
       (let (next, allowed) = next_allowed (d_window d) loc now in
        if \<not> allowed then (Inr [], e\<lparr>e_next_run := next\<rparr>)
        else if e_variant e < 0 \<or> e_variant e \<ge> int (length (d_messages d)) then
          (Inl (ErrMsg ''message variant %d is out of range'' [show_int (e_variant e)]), e)
        else case render (d_messages d ! nat (e_variant e)) (rt_range_vars rt (c_variables (e_contact e))) of
          Inl err \<Rightarrow> (Inl err, e)
        | Inr body \<Rightarrow>
          (let r = (if batch_size (d_rate d) \<le> 0 \<or> rate_per (d_rate d) \<le> 0
                    then \<lparr>batch_size = 1, rate_per = second\<rparr> else d_rate d) in
           (Inr [\<lparr>cmd_type = CommandSendSMS, cmd_body = body, cmd_action = [], cmd_rate = r\<rparr>],
            e\<lparr>e_sent_count := e_sent_count e + 1, e_state := StateAwaitingReply,
              e_next_run := (if d_repeat_every d > 0 then now + d_repeat_every d else zero_time)\<rparr>))))"

text \<open>The nil checks of the two entry points; every caller passes a non-nil enrollment.\<close>

definition advance_ptr ::
  "runtime \<Rightarrow> defn \<Rightarrow> enrollment option \<Rightarrow> location \<Rightarrow> time \<Rightarrow> command list result \<times> enrollment option" where
  "advance_ptr rt d p here now =
    (case p of None \<Rightarrow> (Inl (ErrMsg ''enrollment is required'' []), None)
     | Some e \<Rightarrow> (case advance rt d e here now of (r, e') \<Rightarrow> (r, Some e')))"

datatype reply_class = Negative | Positive | Unknown

definition negative_phrases :: "string list" where
  "negative_phrases =
    [''not interested'', ''do not contact'', ''don'' @ [CHR 0x27] @ ''t contact'', ''wrong number'',
     ''already sold'', ''no thanks'', ''no thank you'']"

fun classify_words :: "string list \<Rightarrow> reply_class" where
  "classify_words [] = Unknown"
| "classify_words (w # ws) =
    (let t = trim_set ''.,!?:;'' w in
     if t = ''no'' \<or> t = ''never'' then Negative
     else if t = ''yes'' \<or> t = ''sure'' \<or> t = ''interested'' then Positive
     else classify_words ws)"

definition classify_reply :: "string \<Rightarrow> reply_class" where
  "classify_reply text =
    (let normalized = to_lower (join '' '' (str_fields text)) in
     if list_ex (\<lambda>phrase. contains phrase normalized) negative_phrases then Negative
     else classify_words (str_fields normalized))"

definition simple_command :: "command_type \<Rightarrow> string \<Rightarrow> command" where
  "simple_command t action = \<lparr>cmd_type = t, cmd_body = [], cmd_action = action, cmd_rate = zero_rate\<rparr>"

definition reply :: "defn \<Rightarrow> enrollment \<Rightarrow> string \<Rightarrow> command list \<times> enrollment" where
  "reply d e text =
    (if e_state e = StateCompleted \<or> e_state e = StateSuppressed then ([], e)
     else let e' = e\<lparr>e_next_run := zero_time\<rparr> in
       if is_opt_out text then ([simple_command CommandSuppress []], e'\<lparr>e_state := StateSuppressed\<rparr>)
       else if d_archive_negative d \<and> classify_reply text = Negative then
         ([simple_command CommandCRMAction ''not_interested'', simple_command CommandArchiveConversation []],
          e'\<lparr>e_state := StateCompleted\<rparr>)
       else
         ((if d_crm_action d \<noteq> [] then [simple_command CommandCRMAction (d_crm_action d)] else []),
          e'\<lparr>e_state := StateCompleted\<rparr>))"

definition reply_ptr :: "defn \<Rightarrow> enrollment option \<Rightarrow> string \<Rightarrow> command list \<times> enrollment option" where
  "reply_ptr d p text =
    (case p of None \<Rightarrow> ([], None) | Some e \<Rightarrow> (case reply d e text of (cmds, e') \<Rightarrow> (cmds, Some e')))"

section \<open>Lemmas\<close>

definition is_sms :: "command \<Rightarrow> bool" where
  "is_sms c = (cmd_type c = CommandSendSMS)"

definition terminal :: "enrollment \<Rightarrow> bool" where
  "terminal e = (e_state e = StateCompleted \<or> e_state e = StateSuppressed)"

text \<open>The location the sending window is read in: the contact's, or that of the clock.\<close>

definition recipient_zone :: "runtime \<Rightarrow> enrollment \<Rightarrow> location \<Rightarrow> location option" where
  "recipient_zone rt e here =
    (if c_timezone (e_contact e) \<noteq> [] then rt_load_location rt (c_timezone (e_contact e)) else Some here)"

definition in_window :: "send_window \<Rightarrow> location \<Rightarrow> time \<Rightarrow> bool" where
  "in_window w loc t \<longleftrightarrow>
    start_minute w \<le> hour_of loc t * 60 + minute_of loc t \<and> hour_of loc t * 60 + minute_of loc t < end_minute w"

lemma next_allowed_True: "next_allowed w loc now = (t, True) \<longleftrightarrow> t = now \<and> in_window w loc now"
  by (auto simp: next_allowed_def in_window_def Let_def split: if_splits)

lemma next_allowed_snd: "snd (next_allowed w loc now) = in_window w loc now"
  by (auto simp: next_allowed_def in_window_def Let_def)

text \<open>What one call of \<open>advance\<close> can do: nothing or an error, a manual task, the end of the
  sequence, a postponement, or one message.\<close>

lemma advance_cases:
  obtains
    (idle) err where "advance rt d e here now = (err, e)" "err = Inr [] \<or> (\<exists>m. err = Inl m)"
  | (task) t1 t2 where
      "advance rt d e here now = (Inr [t1, t2], e\<lparr>e_state := StateCompleted, e_next_run := zero_time\<rparr>)"
      "\<not> is_sms t1" "\<not> is_sms t2"
  | (finish) "advance rt d e here now = (Inr [], e\<lparr>e_state := StateCompleted, e_next_run := zero_time\<rparr>)"
  | (postpone) loc where "advance rt d e here now = (Inr [], e\<lparr>e_next_run := fst (next_allowed (d_window d) loc now)\<rparr>)"
      "recipient_zone rt e here = Some loc" "\<not> in_window (d_window d) loc now"
      "\<not> terminal e" "\<not> is_zero (e_next_run e)" "e_next_run e \<le> now"
  | (send) loc c body where
      "advance rt d e here now =
        (Inr [c], e\<lparr>e_sent_count := e_sent_count e + 1, e_state := StateAwaitingReply,
           e_next_run := (if d_repeat_every d > 0 then now + d_repeat_every d else zero_time)\<rparr>)"
      "is_sms c" "cmd_body c = body" "batch_size (cmd_rate c) > 0" "rate_per (cmd_rate c) > 0"
      "\<not> terminal e" "\<not> is_zero (e_next_run e)" "e_next_run e \<le> now" "e_sent_count e < d_max_occurrences d"
      "recipient_zone rt e here = Some loc" "in_window (d_window d) loc now"
      "0 \<le> e_variant e" "e_variant e < int (length (d_messages d))"
      "render (d_messages d ! nat (e_variant e)) (rt_range_vars rt (c_variables (e_contact e))) = Inr body"
proof -
  let ?t = "rt_range_vars rt (c_variables (e_contact e))"
  consider "e_workflow_key e \<noteq> d_key d \<or> terminal e \<or> is_zero (e_next_run e) \<or> now < e_next_run e"
    | "e_workflow_key e = d_key d" "\<not> terminal e" "\<not> is_zero (e_next_run e)" "e_next_run e \<le> now" by fastforce
  then show thesis
  proof cases
    case 1
    then show thesis
      by (intro idle[of "fst (advance rt d e here now)"]) (auto simp: advance_def terminal_def)
  next
    case act: 2
    show thesis
    proof (cases "d_kind d = KindManualFollow")
      case True
      with act show thesis by (intro task) (auto simp: advance_def terminal_def is_sms_def)
    next
      case kind: False
      show thesis
      proof (cases "e_sent_count e \<ge> d_max_occurrences d")
        case True
        with act kind show thesis by (intro finish) (auto simp: advance_def terminal_def)
      next
        case cnt: False
        show thesis
        proof (cases "recipient_zone rt e here")
          case None
          with act kind cnt show thesis
            by (intro idle[of "fst (advance rt d e here now)"]) (auto simp: advance_def terminal_def recipient_zone_def)
        next
          case zone: (Some loc)
          obtain nxt allowed where na: "next_allowed (d_window d) loc now = (nxt, allowed)" by fastforce
          then have al: "allowed = in_window (d_window d) loc now" using next_allowed_snd by (metis snd_conv)
          have zone': "(if c_timezone (e_contact e) \<noteq> [] then rt_load_location rt (c_timezone (e_contact e)) else Some here) = Some loc"
            using zone unfolding recipient_zone_def .
          note unf = advance_def terminal_def zone' na
          show thesis
          proof (cases allowed)
            case False
            with act kind cnt al na zone show thesis
              by (intro postpone[of loc]) (simp_all add: unf)
          next
            case True
            show thesis
            proof (cases "e_variant e < 0 \<or> e_variant e \<ge> int (length (d_messages d))")
              case bad: True
              with act kind cnt True show thesis
                by (intro idle[of "fst (advance rt d e here now)"]) (auto simp: unf)
            next
              case ok: False
              show thesis
              proof (cases "render (d_messages d ! nat (e_variant e)) ?t")
                case (Inl err)
                with act kind cnt True ok show thesis
                  by (intro idle[of "fst (advance rt d e here now)"]) (auto simp: unf)
              next
                case (Inr body)
                let ?r = "if batch_size (d_rate d) \<le> 0 \<or> rate_per (d_rate d) \<le> 0
                    then \<lparr>batch_size = 1, rate_per = second\<rparr> else d_rate d"
                let ?c = "\<lparr>cmd_type = CommandSendSMS, cmd_body = body, cmd_action = [], cmd_rate = ?r\<rparr>"
                show thesis
                  using act kind cnt True ok Inr al zone
                  by (intro send[of ?c body loc]) (auto simp: unf is_sms_def Let_def)
              qed
            qed
          qed
        qed
      qed
    qed
  qed
qed

end
