(* ===== verification/Provider.thy ===== *)
theory Provider
  imports Domain
begin

text \<open>
  \<^verbatim>\<open>internal/provider/provider.go\<close>, \<^verbatim>\<open>tokens.go\<close> and \<^verbatim>\<open>fake.go\<close>: the two interfaces through which
  the application reaches Telnyx and HighLevel, their data, and the in-memory implementations.
  An interface value is a record of its methods, each a function of the implementation's state;
  a method that returns only an \<open>error\<close> returns \<open>unit result\<close>.
\<close>

section \<open>Data\<close>

record send_request =
  sr_to :: string
  sr_from :: string
  sr_text :: string
  sr_idempotency_key :: string

record inbound =
  ib_location_id :: string
  ib_contact_id :: string
  ib_conversation_id :: string
  ib_from :: string
  ib_to :: string
  ib_text :: string
  ib_provider_event_id :: string

record crm_job =
  cj_action :: string
  cj_body :: string
  cj_contact_id :: string
  cj_location_id :: string
  cj_phone :: string
  cj_reply :: string

record contact_hit =
  ch_id :: string
  ch_name :: string
  ch_phone :: string

record conversation_message =
  cm_id :: string
  cm_provider_message_id :: string
  cm_direction :: string
  cm_contact_number :: string
  cm_telnyx_number :: string
  cm_body :: string
  cm_media_json :: string
  cm_occurred_at :: int

record conversation =
  cv_contact_id :: string
  cv_contact_number :: string
  cv_telnyx_number :: string
  cv_last_body :: string
  cv_last_direction :: string
  cv_last_at :: int
  cv_message_count :: int
  cv_messages :: "conversation_message list"

section \<open>Interfaces\<close>

record 't telnyx_api =
  tx_send :: "send_request \<Rightarrow> 't \<Rightarrow> string result \<times> 't"
  tx_owned_numbers :: "'t \<Rightarrow> string list result \<times> 't"

text \<open>\<open>SendingNumberFor\<close> is the optional method the application looks for with a type assertion.\<close>

record 'h highlevel_api =
  hl_forward_inbound :: "inbound \<Rightarrow> 'h \<Rightarrow> unit result \<times> 'h"
  hl_promote_inbound :: "inbound \<Rightarrow> 'h \<Rightarrow> unit result \<times> 'h"
  hl_set_sms_dnd :: "string \<Rightarrow> 'h \<Rightarrow> unit result \<times> 'h"
  hl_update_message_status :: "string \<Rightarrow> string \<Rightarrow> 'h \<Rightarrow> unit result \<times> 'h"
  hl_execute_crm :: "crm_job \<Rightarrow> 'h \<Rightarrow> unit result \<times> 'h"
  hl_search_contacts :: "string \<Rightarrow> 'h \<Rightarrow> contact_hit list result \<times> 'h"
  hl_recent_conversations :: "string \<Rightarrow> int \<Rightarrow> 'h \<Rightarrow> conversation list result \<times> 'h"
  hl_sending_number :: "string \<Rightarrow> 'h \<Rightarrow> string result \<times> 'h"
  hl_sending_number_for :: "(string \<Rightarrow> string \<Rightarrow> 'h \<Rightarrow> string result \<times> 'h) option"

section \<open>The fakes\<close>

record fake_telnyx =
  ft_sent :: "send_request list"
  ft_owned :: "string list"
  ft_err :: "error option"

definition fake_send :: "send_request \<Rightarrow> fake_telnyx \<Rightarrow> string result \<times> fake_telnyx" where
  "fake_send r f =
    (case ft_err f of
       Some err \<Rightarrow> (Inl err, f)
     | None \<Rightarrow> (Inr (''fake-'' @ sr_idempotency_key r), f\<lparr>ft_sent := ft_sent f @ [r]\<rparr>))"

definition fake_owned_numbers :: "fake_telnyx \<Rightarrow> string list result \<times> fake_telnyx" where
  "fake_owned_numbers f = (Inr (ft_owned f), f)"

definition fake_telnyx_api :: "fake_telnyx telnyx_api" where
  "fake_telnyx_api = \<lparr>tx_send = fake_send, tx_owned_numbers = fake_owned_numbers\<rparr>"

record fake_highlevel =
  fh_inbound :: "inbound list"
  fh_promoted :: "inbound list"
  fh_dnd :: "string list"
  fh_statuses :: "(string \<times> string) list"
  fh_crm :: "crm_job list"
  fh_contacts :: "contact_hit list"
  fh_conversations :: "conversation list"
  fh_from_numbers :: "(string \<times> string) list"
  fh_last_conversation_limit :: int
  fh_err :: "error option"

text \<open>Every method takes the lock, fails with \<open>Err\<close> if it is set, and otherwise records its argument.\<close>

definition fake_do :: "(fake_highlevel \<Rightarrow> fake_highlevel) \<Rightarrow> fake_highlevel \<Rightarrow> unit result \<times> fake_highlevel" where
  "fake_do upd f = (case fh_err f of Some err \<Rightarrow> (Inl err, f) | None \<Rightarrow> (Inr (), upd f))"

definition fake_promote_inbound :: "inbound \<Rightarrow> fake_highlevel \<Rightarrow> unit result \<times> fake_highlevel" where
  "fake_promote_inbound i = fake_do (\<lambda>f. f\<lparr>fh_promoted := fh_promoted f @ [i]\<rparr>)"

definition fake_forward_inbound :: "inbound \<Rightarrow> fake_highlevel \<Rightarrow> unit result \<times> fake_highlevel" where
  "fake_forward_inbound i = fake_do (\<lambda>f. f\<lparr>fh_inbound := fh_inbound f @ [i]\<rparr>)"

definition fake_set_sms_dnd :: "string \<Rightarrow> fake_highlevel \<Rightarrow> unit result \<times> fake_highlevel" where
  "fake_set_sms_dnd n = fake_do (\<lambda>f. f\<lparr>fh_dnd := fh_dnd f @ [n]\<rparr>)"

definition fake_update_message_status :: "string \<Rightarrow> string \<Rightarrow> fake_highlevel \<Rightarrow> unit result \<times> fake_highlevel" where
  "fake_update_message_status message_id status =
     fake_do (\<lambda>f. f\<lparr>fh_statuses := (message_id, status) # filter (\<lambda>(m, _). m \<noteq> message_id) (fh_statuses f)\<rparr>)"

definition fake_execute_crm :: "crm_job \<Rightarrow> fake_highlevel \<Rightarrow> unit result \<times> fake_highlevel" where
  "fake_execute_crm job = fake_do (\<lambda>f. f\<lparr>fh_crm := fh_crm f @ [job]\<rparr>)"

definition fake_search_contacts :: "string \<Rightarrow> fake_highlevel \<Rightarrow> contact_hit list result \<times> fake_highlevel" where
  "fake_search_contacts q f = (case fh_err f of Some err \<Rightarrow> (Inl err, f) | None \<Rightarrow> (Inr (fh_contacts f), f))"

definition fake_recent_conversations ::
  "string \<Rightarrow> int \<Rightarrow> fake_highlevel \<Rightarrow> conversation list result \<times> fake_highlevel" where
  "fake_recent_conversations loc limit f0 =
    (let f = f0\<lparr>fh_last_conversation_limit := limit\<rparr> in
     case fh_err f of
       Some err \<Rightarrow> (Inl err, f)
     | None \<Rightarrow>
         (let n = int (length (fh_conversations f));
              l = (if limit \<le> 0 \<or> limit > n then n else limit)
          in (Inr (take (nat l) (fh_conversations f)), f)))"

definition fake_sending_number :: "string \<Rightarrow> fake_highlevel \<Rightarrow> string result \<times> fake_highlevel" where
  "fake_sending_number contact_id f =
    (case fh_err f of
       Some err \<Rightarrow> (Inl err, f)
     | None \<Rightarrow> (Inr (case map_of (fh_from_numbers f) contact_id of None \<Rightarrow> [] | Some n \<Rightarrow> n), f))"

definition fake_highlevel_api :: "fake_highlevel highlevel_api" where
  "fake_highlevel_api = \<lparr>
     hl_forward_inbound = fake_forward_inbound, hl_promote_inbound = fake_promote_inbound,
     hl_set_sms_dnd = fake_set_sms_dnd, hl_update_message_status = fake_update_message_status,
     hl_execute_crm = fake_execute_crm, hl_search_contacts = fake_search_contacts,
     hl_recent_conversations = fake_recent_conversations, hl_sending_number = fake_sending_number,
     hl_sending_number_for = None\<rparr>"

text \<open>\<open>StaticToken.Token\<close>.\<close>

definition static_token :: "string \<Rightarrow> string result" where
  "static_token s = Inr s"

end
