(* ===== verification/Json.thy ===== *)
theory Json
  imports GoStrings Prelude
begin

text \<open>
  What the handlers use of \<open>encoding/json\<close>: the parser of its scanner (whole document, nesting up to
  10000), the unquoting of strings (escapes, surrogate pairs, and the replacement of invalid UTF-8 by
  U+FFFD), and the decoding of an object's members into the fields of a struct. Strings are lists of
  bytes.
\<close>

datatype json =
    JsNull
  | JsBool bool
  | JsNum string
  | JsStr string
  | JsArr "json list"
  | JsObj "(string \<times> json) list"

section \<open>Text\<close>

abbreviation byte :: "char \<Rightarrow> nat" where
  "byte c \<equiv> of_char c"

definition json_space :: "char \<Rightarrow> bool" where
  "json_space c = (byte c = 32 \<or> byte c = 9 \<or> byte c = 10 \<or> byte c = 13)"

definition skip_space :: "string \<Rightarrow> string" where
  "skip_space s = dropWhile json_space s"

definition is_cont :: "char \<Rightarrow> bool" where
  "is_cont c = (128 \<le> byte c \<and> byte c \<le> 191)"

definition between :: "nat \<Rightarrow> nat \<Rightarrow> char \<Rightarrow> bool" where
  "between lo hi c = (lo \<le> byte c \<and> byte c \<le> hi)"

text \<open>The width of the UTF-8 sequence at the front; 0 if there is no valid one.\<close>

definition rune_len :: "string \<Rightarrow> nat" where
  "rune_len s =
    (case s of
       [] \<Rightarrow> 0
     | a # t1 \<Rightarrow>
         if byte a < 128 then 1
         else (case t1 of
             [] \<Rightarrow> 0
           | b # t2 \<Rightarrow>
               if between 194 223 a \<and> is_cont b then 2
               else (case t2 of
                   [] \<Rightarrow> 0
                 | c # t3 \<Rightarrow>
                     if is_cont c \<and>
                        (byte a = 224 \<and> between 160 191 b \<or> byte a = 237 \<and> between 128 159 b \<or>
                         between 225 239 a \<and> byte a \<noteq> 237 \<and> is_cont b) then 3
                     else (case t3 of
                         [] \<Rightarrow> 0
                       | d # _ \<Rightarrow>
                           if is_cont c \<and> is_cont d \<and>
                              (byte a = 240 \<and> between 144 191 b \<or> between 241 243 a \<and> is_cont b \<or>
                               byte a = 244 \<and> between 128 143 b) then 4 else 0))))"

definition replacement :: string where
  "replacement = [char_of (239 :: nat), char_of (191 :: nat), char_of (189 :: nat)]"

text \<open>\<open>utf8.AppendRune\<close> for a code point that is not a surrogate.\<close>

definition utf8_encode :: "nat \<Rightarrow> string" where
  "utf8_encode n = map char_of
    (if n < 128 then [n]
     else if n < 2048 then [192 + n div 64, 128 + n mod 64]
     else if n < 65536 then [224 + n div 4096, 128 + n div 64 mod 64, 128 + n mod 64]
     else [240 + n div 262144, 128 + n div 4096 mod 64, 128 + n div 64 mod 64, 128 + n mod 64])"

definition hex_val :: "char \<Rightarrow> nat option" where
  "hex_val c =
    (if between 48 57 c then Some (byte c - 48)
     else if between 97 102 c then Some (byte c - 87)
     else if between 65 70 c then Some (byte c - 55) else None)"

fun hex4 :: "string \<Rightarrow> nat option" where
  "hex4 (a # b # c # d # _) =
    (case (hex_val a, hex_val b, hex_val c, hex_val d) of
       (Some w, Some x, Some y, Some z) \<Rightarrow> Some (((w * 16 + x) * 16 + y) * 16 + z)
     | _ \<Rightarrow> None)"
| "hex4 _ = None"

definition escape_char :: "char \<Rightarrow> char option" where
  "escape_char c =
    (if c = CHR 0x22 \<or> c = CHR 0x5C \<or> c = CHR 0x2F then Some c
     else if c = CHR ''b'' then Some (char_of (8 :: nat)) else if c = CHR ''f'' then Some (char_of (12 :: nat))
     else if c = CHR ''n'' then Some (char_of (10 :: nat)) else if c = CHR ''r'' then Some (char_of (13 :: nat))
     else if c = CHR ''t'' then Some (char_of (9 :: nat)) else None)"

text \<open>The code unit after a backslash and \<open>u\<close>: the text it stands for and the rest, joining a pair of
  surrogates and replacing a lone one.\<close>

definition unicode_escape :: "nat \<Rightarrow> string \<Rightarrow> string \<times> string" where
  "unicode_escape u rest =
    (if 55296 \<le> u \<and> u \<le> 57343 then
       (case rest of
          x # y # rest' \<Rightarrow>
            (case (if x = CHR 0x5C \<and> y = CHR ''u'' then hex4 rest' else None) of
               Some v \<Rightarrow>
                 if u \<le> 56319 \<and> 56320 \<le> v \<and> v \<le> 57343
                 then (utf8_encode ((u - 55296) * 1024 + (v - 56320) + 65536), drop 4 rest')
                 else (replacement, rest)
             | None \<Rightarrow> (replacement, rest))
        | _ \<Rightarrow> (replacement, rest))
     else (utf8_encode u, rest))"

text \<open>The rest of a string literal after its opening quote; the fuel is the length of the text.\<close>

fun parse_string :: "nat \<Rightarrow> string \<Rightarrow> (string \<times> string) option" where
  "parse_string 0 _ = None"
| "parse_string (Suc n) [] = None"
| "parse_string (Suc n) (c # s) =
    (if c = CHR 0x22 then Some ([], s)
     else if byte c < 32 then None
     else if c = CHR 0x5C then
       (case s of
          [] \<Rightarrow> None
        | e # t \<Rightarrow>
            if e = CHR ''u'' then
              (case hex4 t of
                 None \<Rightarrow> None
               | Some u \<Rightarrow>
                   (let (text, rest) = unicode_escape u (drop 4 t) in
                    case parse_string n rest of None \<Rightarrow> None | Some (v, r) \<Rightarrow> Some (text @ v, r)))
            else (case escape_char e of
                None \<Rightarrow> None
              | Some x \<Rightarrow> (case parse_string n t of None \<Rightarrow> None | Some (v, r) \<Rightarrow> Some (x # v, r))))
     else (let l = rune_len (c # s) in
       if l = 0 then (case parse_string n s of None \<Rightarrow> None | Some (v, r) \<Rightarrow> Some (replacement @ v, r))
       else (case parse_string n (drop l (c # s)) of
           None \<Rightarrow> None | Some (v, r) \<Rightarrow> Some (take l (c # s) @ v, r))))"

text \<open>A number literal: its text and the rest.\<close>

definition digits1 :: "string \<Rightarrow> (string \<times> string) option" where
  "digits1 s = (let d = takeWhile is_digit s in if d = [] then None else Some (d, dropWhile is_digit s))"

definition parse_int_part :: "string \<Rightarrow> (string \<times> string) option" where
  "parse_int_part s =
    (case s of
       [] \<Rightarrow> None
     | c # t \<Rightarrow> if c = CHR ''0'' then Some ([c], t) else digits1 s)"

definition parse_frac :: "string \<Rightarrow> (string \<times> string) option" where
  "parse_frac s =
    (case s of
       c # t \<Rightarrow> if c = CHR ''.'' then map_option (\<lambda>(d, r). (c # d, r)) (digits1 t) else Some ([], s)
     | [] \<Rightarrow> Some ([], s))"

definition parse_exp :: "string \<Rightarrow> (string \<times> string) option" where
  "parse_exp s =
    (case s of
       c # t \<Rightarrow>
         if c = CHR ''e'' \<or> c = CHR ''E'' then
           (case t of
              g # u \<Rightarrow>
                if g = CHR ''+'' \<or> g = CHR ''-'' then map_option (\<lambda>(d, r). (c # g # d, r)) (digits1 u)
                else map_option (\<lambda>(d, r). (c # d, r)) (digits1 t)
            | [] \<Rightarrow> None)
         else Some ([], s)
     | [] \<Rightarrow> Some ([], s))"

definition parse_number :: "string \<Rightarrow> (string \<times> string) option" where
  "parse_number s =
    (let (sign, t) = (case s of c # u \<Rightarrow> if c = CHR ''-'' then ([c], u) else ([], s) | [] \<Rightarrow> ([], s)) in
     case parse_int_part t of
       None \<Rightarrow> None
     | Some (i, r1) \<Rightarrow>
         (case parse_frac r1 of
            None \<Rightarrow> None
          | Some (f, r2) \<Rightarrow>
              (case parse_exp r2 of None \<Rightarrow> None | Some (e, r3) \<Rightarrow> Some (sign @ i @ f @ e, r3))))"

section \<open>Values\<close>

text \<open>
  \<open>parse_value fuel depth s\<close>: every call consumes a byte or ends the list it is in, so twice the
  length of the text is fuel enough; \<open>depth\<close> counts the open arrays and objects.
\<close>

fun parse_value :: "nat \<Rightarrow> nat \<Rightarrow> string \<Rightarrow> (json \<times> string) option"
and parse_elements :: "nat \<Rightarrow> nat \<Rightarrow> string \<Rightarrow> (json list \<times> string) option"
and parse_members :: "nat \<Rightarrow> nat \<Rightarrow> string \<Rightarrow> ((string \<times> json) list \<times> string) option" where
  "parse_value 0 depth s = None"
| "parse_value (Suc n) depth s =
    (case skip_space s of
       [] \<Rightarrow> None
     | c # t \<Rightarrow>
         if c = CHR 0x22 then map_option (\<lambda>(v, r). (JsStr v, r)) (parse_string (Suc (length t)) t)
         else if c = CHR 0x7B then
           (if depth \<ge> 10000 then None
            else case skip_space t of
                d # u \<Rightarrow> if d = CHR 0x7D then Some (JsObj [], u)
                  else map_option (\<lambda>(ms, r). (JsObj ms, r)) (parse_members n (Suc depth) t)
              | [] \<Rightarrow> None)
         else if c = CHR 0x5B then
           (if depth \<ge> 10000 then None
            else case skip_space t of
                d # u \<Rightarrow> if d = CHR 0x5D then Some (JsArr [], u)
                  else map_option (\<lambda>(vs, r). (JsArr vs, r)) (parse_elements n (Suc depth) t)
              | [] \<Rightarrow> None)
         else if has_prefix ''true'' (c # t) then Some (JsBool True, drop 4 (c # t))
         else if has_prefix ''false'' (c # t) then Some (JsBool False, drop 5 (c # t))
         else if has_prefix ''null'' (c # t) then Some (JsNull, drop 4 (c # t))
         else map_option (\<lambda>(v, r). (JsNum v, r)) (parse_number (c # t)))"
| "parse_elements 0 depth s = None"
| "parse_elements (Suc n) depth s =
    (case parse_value n depth s of
       None \<Rightarrow> None
     | Some (v, r) \<Rightarrow>
         (case skip_space r of
            c # t \<Rightarrow>
              if c = CHR 0x5D then Some ([v], t)
              else if c = CHR 0x2C then map_option (\<lambda>(vs, r'). (v # vs, r')) (parse_elements n depth t)
              else None
          | [] \<Rightarrow> None))"
| "parse_members 0 depth s = None"
| "parse_members (Suc n) depth s =
    (case skip_space s of
       [] \<Rightarrow> None
     | q # t \<Rightarrow>
         if q \<noteq> CHR 0x22 then None
         else (case parse_string (Suc (length t)) t of
             None \<Rightarrow> None
           | Some (k, r) \<Rightarrow>
               (case skip_space r of
                  [] \<Rightarrow> None
                | c # u \<Rightarrow>
                    if c \<noteq> CHR 0x3A then None
                    else (case parse_value n depth u of
                        None \<Rightarrow> None
                      | Some (v, r1) \<Rightarrow>
                          (case skip_space r1 of
                             d # x \<Rightarrow>
                               if d = CHR 0x7D then Some ([(k, v)], x)
                               else if d = CHR 0x2C then
                                 map_option (\<lambda>(ms, r2). ((k, v) # ms, r2)) (parse_members n depth x)
                               else None
                           | [] \<Rightarrow> None)))))"

text \<open>The first value of the text and what follows it (\<open>json.Decoder\<close>), and the whole text as one
  value (\<open>json.Unmarshal\<close>).\<close>

definition parse_first :: "string \<Rightarrow> (json \<times> string) option" where
  "parse_first s = parse_value (2 * length s + 2) 0 s"

definition parse_json :: "string \<Rightarrow> json option" where
  "parse_json s = (case parse_first s of Some (v, r) \<Rightarrow> if skip_space r = [] then Some v else None | None \<Rightarrow> None)"

section \<open>Decoding into structs\<close>

text \<open>
  A key names a field if the two are equal up to case. Go folds the whole of Unicode; of the
  characters beyond ASCII only U+017F (long s) and U+212A (Kelvin) fold to ASCII letters.
\<close>

fun fold_name :: "string \<Rightarrow> string" where
  "fold_name [] = []"
| "fold_name (a # s) =
    (if a = CHR 0xC5 then (case s of
        b # t \<Rightarrow> if b = CHR 0xBF then CHR ''s'' # fold_name t else a # fold_name s
      | [] \<Rightarrow> [a])
     else if a = CHR 0xE2 then (case s of
        b # c # t \<Rightarrow> if b = CHR 0x84 \<and> c = CHR 0xAA then CHR ''k'' # fold_name t else a # fold_name s
      | _ \<Rightarrow> a # fold_name s)
     else lower_char a # fold_name s)"

definition key_matches :: "string \<Rightarrow> string \<Rightarrow> bool" where
  "key_matches k name = (fold_name k = fold_name name)"

text \<open>
  A field decoder takes the value and the struct so far to the new struct and whether the value had
  the field's type; decoding goes on after a mismatch and reports it at the end. With \<open>strict\<close>
  (\<open>DisallowUnknownFields\<close>) a key that names no field is an error.
\<close>

type_synonym 's field = "json \<Rightarrow> 's \<Rightarrow> 's \<times> bool"

fun decode_members :: "bool \<Rightarrow> (string \<times> 's field) list \<Rightarrow> (string \<times> json) list \<Rightarrow> 's \<Rightarrow> 's \<times> bool" where
  "decode_members strict fs [] s = (s, True)"
| "decode_members strict fs ((k, v) # ms) s =
    (case find (\<lambda>(n, h). key_matches k n) fs of
       None \<Rightarrow> (let (s', ok) = decode_members strict fs ms s in (s', ok \<and> \<not> strict))
     | Some (n, h) \<Rightarrow>
         (let (s1, ok1) = h v s; (s2, ok2) = decode_members strict fs ms s1 in (s2, ok1 \<and> ok2)))"

definition struct_field :: "bool \<Rightarrow> (string \<times> 's field) list \<Rightarrow> 's field" where
  "struct_field strict fs v s =
    (case v of JsNull \<Rightarrow> (s, True) | JsObj ms \<Rightarrow> decode_members strict fs ms s | _ \<Rightarrow> (s, False))"

definition str_field :: "(string \<Rightarrow> 's \<Rightarrow> 's) \<Rightarrow> 's field" where
  "str_field upd v s = (case v of JsStr x \<Rightarrow> (upd x s, True) | JsNull \<Rightarrow> (s, True) | _ \<Rightarrow> (s, False))"

definition bool_field :: "(bool \<Rightarrow> 's \<Rightarrow> 's) \<Rightarrow> 's field" where
  "bool_field upd v s = (case v of JsBool b \<Rightarrow> (upd b s, True) | JsNull \<Rightarrow> (s, True) | _ \<Rightarrow> (s, False))"

text \<open>A slice: every element is decoded into a zero value.\<close>

definition list_field :: "'e \<Rightarrow> 'e field \<Rightarrow> ('e list \<Rightarrow> 's \<Rightarrow> 's) \<Rightarrow> 's field" where
  "list_field zero h upd v s =
    (case v of
       JsArr vs \<Rightarrow> (upd (map (\<lambda>x. fst (h x zero)) vs) s, list_all (\<lambda>x. snd (h x zero)) vs)
     | JsNull \<Rightarrow> (upd [] s, True)
     | _ \<Rightarrow> (s, False))"

text \<open>A \<open>map[string]string\<close>: entries are added to the map there is.\<close>

definition map_field :: "('s \<Rightarrow> (string \<times> string) list) \<Rightarrow> ((string \<times> string) list \<Rightarrow> 's \<Rightarrow> 's) \<Rightarrow> 's field" where
  "map_field get upd v s =
    (case v of
       JsObj ms \<Rightarrow>
         (upd (fold (\<lambda>(k, x) m. filter (\<lambda>(k', _). k' \<noteq> k) m @ [(k, fst (str_field (\<lambda>y _. y) x []))]) ms (get s)) s,
          list_all (\<lambda>(k, x). snd (str_field (\<lambda>y _. y) x [])) ms)
     | JsNull \<Rightarrow> (upd [] s, True)
     | _ \<Rightarrow> (s, False))"

text \<open>\<open>json.Unmarshal(body, &s) == nil\<close>.\<close>

definition unmarshal :: "(string \<times> 's field) list \<Rightarrow> string \<Rightarrow> 's \<Rightarrow> 's option" where
  "unmarshal fs body zero =
    (case parse_json body of
       None \<Rightarrow> None
     | Some v \<Rightarrow> (case struct_field False fs v zero of (s, ok) \<Rightarrow> if ok then Some s else None))"

text \<open>\<open>json.NewDecoder(body).Decode(&s) == nil\<close>, with or without \<open>DisallowUnknownFields\<close>.\<close>

definition decode_first :: "bool \<Rightarrow> (string \<times> 's field) list \<Rightarrow> string \<Rightarrow> 's \<Rightarrow> 's option" where
  "decode_first strict fs body zero =
    (case parse_first body of
       None \<Rightarrow> None
     | Some (v, _) \<Rightarrow> (case struct_field strict fs v zero of (s, ok) \<Rightarrow> if ok then Some s else None))"

end
