(* ===== verification/Schema.thy ===== *)
theory Schema
  imports Engine Provider Json
begin

text \<open>
  The PostgreSQL schema of \<^verbatim>\<open>migrations/*.sql\<close> as records: one record per table row, one list per
  table in the order of insertion, a counter per \<open>bigserial\<close> column. A column that may be NULL is an
  \<open>option\<close>. The \<open>updated_at\<close> columns, which nothing reads, are left out, as are the \<open>created_at\<close>
  columns nothing reads. \<open>jsonb\<close> payloads are lists of fields.
\<close>

section \<open>JSON payloads\<close>

type_synonym payload = "(string \<times> json) list"

text \<open>
  \<open>json.Unmarshal\<close> of an object into a string field: the last match wins, null leaves the field
  alone, and any other type is an error reported after the rest has been decoded.
\<close>

fun decode_str :: "string \<Rightarrow> string \<Rightarrow> payload \<Rightarrow> string \<times> bool" where
  "decode_str name cur [] = (cur, True)"
| "decode_str name cur ((k, v) # rest) =
    (if key_matches k name then
       (case v of
          JsStr s \<Rightarrow> decode_str name s rest
        | JsNull \<Rightarrow> decode_str name cur rest
        | _ \<Rightarrow> (fst (decode_str name cur rest), False))
     else decode_str name cur rest)"

section \<open>Rows\<close>

datatype job_status = Queued | Sending | Sent | Failed | Cancelled

datatype crm_status = CQueued | CRunning | CDone | CFailed

record outbound_row =
  ob_id :: int
  ob_location :: string
  ob_message :: string
  ob_to :: string
  ob_from :: string
  ob_body :: string
  ob_payload :: payload
  ob_status :: job_status
  ob_attempts :: int
  ob_available :: time
  ob_provider :: "string option"
  ob_created :: time
  ob_enrollment :: "int option"
  ob_locked :: "time option"

record suppression_row =
  su_number :: string
  su_source :: string
  su_event :: string

record delivery_row =
  de_event :: string
  de_job :: "int option"
  de_status :: string
  de_created :: time
  de_provider :: "string option"
  de_synced :: "time option"
  de_locked :: "time option"
  de_attempts :: int
  de_failed :: "time option"

record inbound_row =
  in_event :: string
  in_from :: string
  in_to :: string
  in_body :: string
  in_created :: time
  in_processed :: "time option"
  in_locked :: "time option"
  in_attempts :: int
  in_failed :: "time option"
  in_resolved :: "time option"

record enrollment_row =
  en_id :: int
  en_external :: string
  en_location :: string
  en_workflow_key :: string
  en_contact_id :: string
  en_to :: string
  en_from :: string
  en_timezone :: string
  en_variables :: "(string \<times> string) list"
  en_consent_at :: "time option"
  en_consent_source :: string
  en_state :: wf_state
  en_next_run :: "time option"
  en_variant :: int
  en_sent_count :: int
  en_locked :: "time option"
  en_last_reply :: string

record crm_row =
  cr_id :: int
  cr_enrollment :: int
  cr_action :: string
  cr_body :: string
  cr_payload :: payload
  cr_status :: crm_status
  cr_attempts :: int
  cr_available :: time
  cr_locked :: "time option"

record rate_row =
  rl_key :: string
  rl_next :: time
  rl_remaining :: int

record oauth_token =
  oa_provider :: string
  oa_location :: string
  oa_access :: string
  oa_refresh :: string
  oa_token_type :: string
  oa_user_type :: string
  oa_scope :: string
  oa_expires :: time

record oauth_state_row =
  os_state :: string
  os_expires :: time

record audit_row =
  au_action :: string
  au_detail :: payload

record db =
  db_sending_paused :: bool
  db_outbound :: "outbound_row list"
  db_outbound_seq :: int
  db_suppressions :: "suppression_row list"
  db_delivery :: "delivery_row list"
  db_inbound :: "inbound_row list"
  db_enrollments :: "enrollment_row list"
  db_enrollment_seq :: int
  db_crm :: "crm_row list"
  db_crm_seq :: int
  db_rates :: "rate_row list"
  db_oauth_tokens :: "oauth_token list"
  db_oauth_states :: "oauth_state_row list"
  db_audit :: "audit_row list"

text \<open>The database right after the migrations: one settings row, sending paused, all tables empty.\<close>

definition empty_db :: db where
  "empty_db = \<lparr>db_sending_paused = True, db_outbound = [], db_outbound_seq = 1, db_suppressions = [],
     db_delivery = [], db_inbound = [], db_enrollments = [], db_enrollment_seq = 1, db_crm = [], db_crm_seq = 1,
     db_rates = [], db_oauth_tokens = [], db_oauth_states = [], db_audit = []\<rparr>"

section \<open>Constraints\<close>

text \<open>The primary keys, the unique constraints, and \<open>bigserial\<close> ids below their counter.\<close>

definition db_ok :: "db \<Rightarrow> bool" where
  "db_ok d \<longleftrightarrow>
     distinct (map ob_id (db_outbound d)) \<and>
     (\<forall>r \<in> set (db_outbound d). ob_id r < db_outbound_seq d) \<and>
     distinct (map (\<lambda>r. (ob_location r, ob_message r)) (db_outbound d)) \<and>
     distinct (map su_number (db_suppressions d)) \<and>
     distinct (map de_event (db_delivery d)) \<and>
     distinct (map in_event (db_inbound d)) \<and>
     distinct (map en_id (db_enrollments d)) \<and>
     (\<forall>r \<in> set (db_enrollments d). en_id r < db_enrollment_seq d) \<and>
     distinct (map (\<lambda>r. (en_location r, en_external r)) (db_enrollments d)) \<and>
     distinct (map cr_id (db_crm d)) \<and>
     (\<forall>r \<in> set (db_crm d). cr_id r < db_crm_seq d) \<and>
     distinct (map (\<lambda>r. (cr_enrollment r, cr_action r)) (db_crm d)) \<and>
     distinct (map rl_key (db_rates d)) \<and>
     distinct (map (\<lambda>r. (oa_provider r, oa_location r)) (db_oauth_tokens d)) \<and>
     distinct (map os_state (db_oauth_states d))"

lemma empty_db_ok: "db_ok empty_db"
  by (simp add: db_ok_def empty_db_def)

text \<open>The numbers that have revoked their consent.\<close>

definition suppressed :: "db \<Rightarrow> string \<Rightarrow> bool" where
  "suppressed d n = list_ex (\<lambda>r. su_number r = n) (db_suppressions d)"

lemma suppressed_iff: "suppressed d n \<longleftrightarrow> n \<in> su_number ` set (db_suppressions d)"
  by (auto simp: suppressed_def list_ex_iff)

section \<open>The constraints under changes of one table\<close>

named_theorems db_ok_intros
named_theorems frame_simps

lemma keys_ball: "map f rows = map f rows' \<Longrightarrow> (\<forall>r \<in> set rows. P (f r)) = (\<forall>r \<in> set rows'. P (f r))"
  by (metis (mono_tags, lifting) image_eqI imageE list.set_map)

lemma db_ok_outbound [db_ok_intros]:
  assumes "db_ok d" and "map ob_id rows = map ob_id (db_outbound d)"
    and "map (\<lambda>r. (ob_location r, ob_message r)) rows = map (\<lambda>r. (ob_location r, ob_message r)) (db_outbound d)"
  shows "db_ok (d\<lparr>db_outbound := rows\<rparr>)"
  using assms keys_ball[OF assms(2), of "\<lambda>i. i < db_outbound_seq d"] by (simp add: db_ok_def)

lemma db_ok_delivery [db_ok_intros]:
  "db_ok d \<Longrightarrow> distinct (map de_event rows) \<Longrightarrow> db_ok (d\<lparr>db_delivery := rows\<rparr>)"
  by (simp add: db_ok_def)

lemma db_ok_suppressions [db_ok_intros]:
  "db_ok d \<Longrightarrow> distinct (map su_number rows) \<Longrightarrow> db_ok (d\<lparr>db_suppressions := rows\<rparr>)"
  by (simp add: db_ok_def)

lemma suppressed_frame: "db_suppressions d' = db_suppressions d \<Longrightarrow> suppressed d' n = suppressed d n"
  by (simp add: suppressed_def)

end
