(* ===== verification/World.thy ===== *)
theory World
  imports Schema
begin

text \<open>
  What a running process sees: the database, the clock, the state of the Telnyx and HighLevel
  services, and a log of the calls made to them.

  The database is shared with the other processes and can fail. \<open>w_script\<close> says, for each database
  call to come, how much time passes before it, what the other processes do to the database
  meanwhile (\<open>tk_env\<close>), and whether the call succeeds, fails before it takes effect (\<open>Lost\<close>), or takes
  effect without the acknowledgement arriving (\<open>Unacknowledged\<close>). A theorem that holds for every
  script holds under every interleaving with other processes and every pattern of failures; with
  the empty script the process runs alone and no call fails.

  A statement, or a transaction, is a function of \<open>now()\<close> and the database. A transaction is one
  statement here: it takes effect as a whole, and one that returns an error leaves the database as
  it was.
\<close>

datatype fault = Fine | Lost | Unacknowledged

record tick =
  tk_delay :: nat
  tk_env :: "db \<Rightarrow> db"
  tk_fault :: fault

datatype event =
    EvSend send_request
  | EvOwnedNumbers
  | EvForward inbound
  | EvPromote inbound
  | EvSetDND string
  | EvStatus string string
  | EvCRM crm_job
  | EvSendingNumber string string
  | EvConversations string int
  | EvToken
  | EvVoice string string

record ('t, 'h) world =
  w_db :: db
  w_clock :: time
  w_script :: "tick list"
  w_telnyx :: 't
  w_highlevel :: 'h
  w_log :: "event list"

type_synonym 'a stmt = "time \<Rightarrow> db \<Rightarrow> 'a result \<times> db"

definition sql :: "'a stmt \<Rightarrow> ('t, 'h) world \<Rightarrow> 'a result \<times> ('t, 'h) world" where
  "sql st w =
    (case w_script w of
       [] \<Rightarrow> (case st (w_clock w) (w_db w) of (r, d) \<Rightarrow> (r, w\<lparr>w_db := d\<rparr>))
     | tk # rest \<Rightarrow>
         (let now = w_clock w + int (tk_delay tk); d = tk_env tk (w_db w);
              w' = w\<lparr>w_script := rest, w_clock := now\<rparr>
          in case tk_fault tk of
               Fine \<Rightarrow> (fst (st now d), w'\<lparr>w_db := snd (st now d)\<rparr>)
             | Lost \<Rightarrow> (Inl ErrDB, w'\<lparr>w_db := d\<rparr>)
             | Unacknowledged \<Rightarrow> (Inl ErrDB, w'\<lparr>w_db := snd (st now d)\<rparr>)))"

text \<open>\<open>time.Sleep\<close>.\<close>

definition sleep :: "duration \<Rightarrow> ('t, 'h) world \<Rightarrow> ('t, 'h) world" where
  "sleep d w = w\<lparr>w_clock := w_clock w + d\<rparr>"

text \<open>A call of a service: it is logged and changes that service's state.\<close>

definition call_telnyx :: "event \<Rightarrow> ('t \<Rightarrow> 'a result \<times> 't) \<Rightarrow> ('t, 'h) world \<Rightarrow> 'a result \<times> ('t, 'h) world" where
  "call_telnyx ev f w = (case f (w_telnyx w) of (r, t) \<Rightarrow> (r, w\<lparr>w_telnyx := t, w_log := w_log w @ [ev]\<rparr>))"

definition call_highlevel :: "event \<Rightarrow> ('h \<Rightarrow> 'a result \<times> 'h) \<Rightarrow> ('t, 'h) world \<Rightarrow> 'a result \<times> ('t, 'h) world" where
  "call_highlevel ev f w = (case f (w_highlevel w) of (r, h) \<Rightarrow> (r, w\<lparr>w_highlevel := h, w_log := w_log w @ [ev]\<rparr>))"

section \<open>Lemmas\<close>

named_theorems world_simps

lemma sql_calm [world_simps]:
  "w_script w = [] \<Longrightarrow> sql st w = (fst (st (w_clock w) (w_db w)), w\<lparr>w_db := snd (st (w_clock w) (w_db w))\<rparr>)"
  by (simp add: sql_def split: prod.split)

lemma sql_frame [world_simps]:
  "w_log (snd (sql st w)) = w_log w" "w_telnyx (snd (sql st w)) = w_telnyx w"
  "w_highlevel (snd (sql st w)) = w_highlevel w"
  by (auto simp: sql_def Let_def split: list.split fault.split prod.split)

lemma sql_script_calm: "w_script w = [] \<Longrightarrow> w_script (snd (sql st w)) = []"
  by (simp add: sql_calm)

lemma sql_clock_mono: "w_clock w \<le> w_clock (snd (sql st w))"
  by (auto simp: sql_def Let_def split: list.split fault.split prod.split)

text \<open>
  What a database call can do: it saw some database \<open>d\<close> at some time \<open>now\<close>, and either its answer
  and effect are those of the statement there, or it failed. \<open>reached\<close> relates the two databases.
\<close>

lemma sql_cases:
  obtains (ran) now d where "w_clock w \<le> now" "w_clock (snd (sql st w)) = now"
      "fst (sql st w) = fst (st now d)" "w_db (snd (sql st w)) = snd (st now d)"
      "w_script w = [] \<and> d = w_db w \<or> (\<exists>tk rest. w_script w = tk # rest \<and> d = tk_env tk (w_db w))"
  | (failed) tk rest where "w_script w = tk # rest" "fst (sql st w) = Inl ErrDB"
      "w_db (snd (sql st w)) = tk_env tk (w_db w) \<or>
       w_db (snd (sql st w)) = snd (st (w_clock w + int (tk_delay tk)) (tk_env tk (w_db w)))"
proof (cases "w_script w")
  case Nil
  then show thesis by (intro ran[of "w_clock w" "w_db w"]) (simp_all add: sql_calm)
next
  case (Cons tk rest)
  show thesis
  proof (cases "tk_fault tk")
    case Fine
    with Cons show thesis
      by (intro ran[of "w_clock w + int (tk_delay tk)" "tk_env tk (w_db w)"]) (simp_all add: sql_def Let_def)
  next
    case Lost
    with Cons show thesis by (intro failed[of tk rest]) (simp_all add: sql_def Let_def)
  next
    case Unacknowledged
    with Cons show thesis by (intro failed[of tk rest]) (simp_all add: sql_def Let_def)
  qed
qed

text \<open>
  An invariant \<open>P\<close> of the database that the statement and the other processes keep is kept by the
  call.
\<close>

definition env_keeps :: "(db \<Rightarrow> bool) \<Rightarrow> ('t, 'h) world \<Rightarrow> bool" where
  "env_keeps P w \<longleftrightarrow> (\<forall>tk \<in> set (w_script w). \<forall>d. P d \<longrightarrow> P (tk_env tk d))"

lemma env_keeps_calm [simp]: "w_script w = [] \<Longrightarrow> env_keeps P w"
  by (simp add: env_keeps_def)

lemma sql_script_suffix: "set (w_script (snd (sql st w))) \<subseteq> set (w_script w)"
  by (auto simp: sql_def Let_def split: list.split fault.split prod.split)

lemma env_keeps_sql [world_simps]: "env_keeps P w \<Longrightarrow> env_keeps P (snd (sql st w))"
  using sql_script_suffix unfolding env_keeps_def by blast

lemma sql_invariant:
  assumes "env_keeps P w" and "P (w_db w)" and "\<And>now d. P d \<Longrightarrow> P (snd (st now d))"
  shows "P (w_db (snd (sql st w)))"
  using assms by (cases rule: sql_cases[of w st]) (auto simp: env_keeps_def)

lemma call_telnyx_frame [world_simps]:
  "w_db (snd (call_telnyx ev f w)) = w_db w" "w_script (snd (call_telnyx ev f w)) = w_script w"
  "w_clock (snd (call_telnyx ev f w)) = w_clock w" "w_highlevel (snd (call_telnyx ev f w)) = w_highlevel w"
  "w_log (snd (call_telnyx ev f w)) = w_log w @ [ev]"
  "w_telnyx (snd (call_telnyx ev f w)) = snd (f (w_telnyx w))" "fst (call_telnyx ev f w) = fst (f (w_telnyx w))"
  by (simp_all add: call_telnyx_def split: prod.split)

lemma call_highlevel_frame [world_simps]:
  "w_db (snd (call_highlevel ev f w)) = w_db w" "w_script (snd (call_highlevel ev f w)) = w_script w"
  "w_clock (snd (call_highlevel ev f w)) = w_clock w" "w_telnyx (snd (call_highlevel ev f w)) = w_telnyx w"
  "w_log (snd (call_highlevel ev f w)) = w_log w @ [ev]"
  "w_highlevel (snd (call_highlevel ev f w)) = snd (f (w_highlevel w))"
  "fst (call_highlevel ev f w) = fst (f (w_highlevel w))"
  by (simp_all add: call_highlevel_def split: prod.split)

lemma sleep_frame [world_simps]:
  "w_db (sleep d w) = w_db w" "w_script (sleep d w) = w_script w" "w_log (sleep d w) = w_log w"
  "w_telnyx (sleep d w) = w_telnyx w" "w_highlevel (sleep d w) = w_highlevel w"
  "w_clock (sleep d w) = w_clock w + d"
  by (simp_all add: sleep_def)

lemma env_keeps_frame [world_simps]:
  "env_keeps P (sleep d w) = env_keeps P w" "env_keeps P (snd (call_telnyx ev f w)) = env_keeps P w"
  "env_keeps P (snd (call_highlevel ev g w)) = env_keeps P w"
  by (simp_all add: env_keeps_def world_simps)

end
