(* ===== verification/StoreOutbound.thy ===== *)
theory StoreOutbound
  imports Lease World
begin

text \<open>
  The outbound queue of \<^verbatim>\<open>internal/store/store.go\<close>: jobs, suppressions and the sending pause. For
  each method there is the SQL statement as a function on the database (\<open>q_...\<close>) and the method
  itself as a function of the world (\<open>store_...\<close>).
\<close>

section \<open>Jobs\<close>

record outbound =
  o_location :: string
  o_contact :: string
  o_message :: string
  o_to :: string
  o_from :: string
  o_text :: string

record job = outbound +
  j_id :: int
  j_attempts :: int

text \<open>\<open>json.Marshal\<close> of an \<open>Outbound\<close>: the field names are the keys.\<close>

definition marshal_outbound :: "outbound \<Rightarrow> payload" where
  "marshal_outbound o0 = [(''LocationID'', JsStr (o_location o0)), (''ContactID'', JsStr (o_contact o0)),
     (''MessageID'', JsStr (o_message o0)), (''To'', JsStr (o_to o0)), (''From'', JsStr (o_from o0)),
     (''Text'', JsStr (o_text o0))]"

text \<open>The insert statement all writers of \<open>outbound_jobs\<close> share; the id is drawn from the sequence
  also when the insert conflicts.\<close>

definition insert_outbound ::
  "string \<Rightarrow> string \<Rightarrow> string \<Rightarrow> string \<Rightarrow> string \<Rightarrow> payload \<Rightarrow> int option \<Rightarrow> time \<Rightarrow> time \<Rightarrow> db \<Rightarrow> bool \<times> db" where
  "insert_outbound loc msg to from body payload enr available now d =
    (let d' = d\<lparr>db_outbound_seq := db_outbound_seq d + 1\<rparr> in
     if list_ex (\<lambda>r. ob_location r = loc \<and> ob_message r = msg) (db_outbound d) then (False, d')
     else (True, d'\<lparr>db_outbound := db_outbound d @
       [\<lparr>ob_id = db_outbound_seq d, ob_location = loc, ob_message = msg, ob_to = to, ob_from = from,
         ob_body = body, ob_payload = payload, ob_status = Queued, ob_attempts = 0, ob_available = available,
         ob_provider = None, ob_created = now, ob_enrollment = enr, ob_locked = None\<rparr>]\<rparr>))"

definition q_enqueue :: "outbound \<Rightarrow> bool stmt" where
  "q_enqueue o0 now d =
    (case insert_outbound (o_location o0) (o_message o0) (o_to o0) (o_from o0) (o_text o0)
       (marshal_outbound o0) None now now d of (created, d') \<Rightarrow> (Inr created, d'))"

definition store_enqueue :: "outbound \<Rightarrow> ('t, 'h) world \<Rightarrow> bool result \<times> ('t, 'h) world" where
  "store_enqueue o0 = sql (q_enqueue o0)"

section \<open>Suppressions\<close>

text \<open>\<open>INSERT ... ON CONFLICT(phone_number) DO UPDATE\<close>.\<close>

definition upsert_suppression :: "string \<Rightarrow> (suppression_row \<Rightarrow> suppression_row) \<Rightarrow> suppression_row \<Rightarrow> db \<Rightarrow> db" where
  "upsert_suppression n upd fresh d =
    (if suppressed d n then d\<lparr>db_suppressions := update_where (\<lambda>r. su_number r = n) upd (db_suppressions d)\<rparr>
     else d\<lparr>db_suppressions := db_suppressions d @ [fresh]\<rparr>)"

definition q_suppress_insert :: "string \<Rightarrow> string \<Rightarrow> string \<Rightarrow> unit stmt" where
  "q_suppress_insert number source event now d =
    (Inr (), upsert_suppression number (\<lambda>r. r\<lparr>su_source := source, su_event := event\<rparr>)
       \<lparr>su_number = number, su_source = source, su_event = event\<rparr> d)"

definition cancel_queued :: "string \<Rightarrow> db \<Rightarrow> db" where
  "cancel_queued number d =
    d\<lparr>db_outbound := update_where (\<lambda>r. ob_to r = number \<and> ob_status r = Queued)
       (\<lambda>r. r\<lparr>ob_status := Cancelled\<rparr>) (db_outbound d)\<rparr>"

definition q_suppress_cancel :: "string \<Rightarrow> unit stmt" where
  "q_suppress_cancel number now d = (Inr (), cancel_queued number d)"

definition store_suppress :: "string \<Rightarrow> string \<Rightarrow> string \<Rightarrow> ('t, 'h) world \<Rightarrow> unit result \<times> ('t, 'h) world" where
  "store_suppress number source event w =
    (case sql (q_suppress_insert number source event) w of
       (Inl e, w1) \<Rightarrow> (Inl e, w1)
     | (Inr _, w1) \<Rightarrow> sql (q_suppress_cancel number) w1)"

definition q_is_suppressed :: "string \<Rightarrow> bool stmt" where
  "q_is_suppressed n now d = (Inr (suppressed d n), d)"

definition store_is_suppressed :: "string \<Rightarrow> ('t, 'h) world \<Rightarrow> bool result \<times> ('t, 'h) world" where
  "store_is_suppressed n = sql (q_is_suppressed n)"

section \<open>Claiming and finishing a job\<close>

definition outbound_ready :: "time \<Rightarrow> outbound_row \<Rightarrow> bool" where
  "outbound_ready now r \<longleftrightarrow>
    (ob_status r = Queued \<and> ob_available r \<le> now) \<or>
    (ob_status r = Sending \<and> (case ob_locked r of None \<Rightarrow> False | Some t \<Rightarrow> t < now))"

definition outbound_order :: "outbound_row \<Rightarrow> time \<times> int" where
  "outbound_order r = (ob_available r, ob_id r)"

definition outbound_lock :: "time \<Rightarrow> outbound_row \<Rightarrow> outbound_row" where
  "outbound_lock now r =
    r\<lparr>ob_status := Sending, ob_attempts := ob_attempts r + 1, ob_locked := Some (now + 2 * minute)\<rparr>"

text \<open>The columns the statement returns, scanned into a \<open>Job\<close>: there is no contact id among them.\<close>

definition scan_job :: "outbound_row \<Rightarrow> job" where
  "scan_job r = \<lparr>o_location = ob_location r, o_contact = [], o_message = ob_message r, o_to = ob_to r,
     o_from = ob_from r, o_text = ob_body r, j_id = ob_id r, j_attempts = ob_attempts r\<rparr>"

definition q_claim :: "job stmt" where
  "q_claim now d =
    (case claim_where ob_id outbound_order outbound_ready outbound_lock now (db_outbound d) of
       None \<Rightarrow> (Inl ErrNoRows, d)
     | Some (r, rows) \<Rightarrow> (Inr (scan_job r), d\<lparr>db_outbound := rows\<rparr>))"

definition store_claim :: "('t, 'h) world \<Rightarrow> job result \<times> ('t, 'h) world" where
  "store_claim = sql q_claim"

definition update_job :: "int \<Rightarrow> (outbound_row \<Rightarrow> outbound_row) \<Rightarrow> db \<Rightarrow> db" where
  "update_job i f d = d\<lparr>db_outbound := update_where (\<lambda>r. ob_id r = i) f (db_outbound d)\<rparr>"

definition q_complete :: "int \<Rightarrow> string \<Rightarrow> unit stmt" where
  "q_complete i provider_id now d =
    (let d1 = update_job i (\<lambda>r. r\<lparr>ob_status := Sent, ob_provider := Some provider_id, ob_locked := None\<rparr>) d in
     (Inr (), d1\<lparr>db_delivery := update_where (\<lambda>r. de_provider r = Some provider_id \<and> de_job r = None)
        (\<lambda>r. r\<lparr>de_job := Some i\<rparr>) (db_delivery d1)\<rparr>))"

definition store_complete :: "int \<Rightarrow> string \<Rightarrow> ('t, 'h) world \<Rightarrow> unit result \<times> ('t, 'h) world" where
  "store_complete i provider_id = sql (q_complete i provider_id)"

definition q_retry :: "int \<Rightarrow> duration \<Rightarrow> unit stmt" where
  "q_retry i delay now d =
    (Inr (), update_job i (\<lambda>r. r\<lparr>ob_status := Queued, ob_available := now + delay, ob_locked := None\<rparr>) d)"

definition store_retry :: "int \<Rightarrow> duration \<Rightarrow> ('t, 'h) world \<Rightarrow> unit result \<times> ('t, 'h) world" where
  "store_retry i delay = sql (q_retry i delay)"

definition q_fail :: "int \<Rightarrow> unit stmt" where
  "q_fail i now d = (Inr (), update_job i (\<lambda>r. r\<lparr>ob_status := Failed, ob_locked := None\<rparr>) d)"

definition store_fail :: "int \<Rightarrow> ('t, 'h) world \<Rightarrow> unit result \<times> ('t, 'h) world" where
  "store_fail i = sql (q_fail i)"

definition q_sending_paused :: "bool stmt" where
  "q_sending_paused now d = (Inr (db_sending_paused d), d)"

definition store_sending_paused :: "('t, 'h) world \<Rightarrow> bool result \<times> ('t, 'h) world" where
  "store_sending_paused = sql q_sending_paused"

section \<open>Finding the job of a provider message\<close>

definition outbound_of_payload :: "payload \<Rightarrow> outbound result" where
  "outbound_of_payload p =
    (let get = (\<lambda>name. decode_str name [] p);
         fields = map get [''LocationID'', ''ContactID'', ''MessageID'', ''To'', ''From'', ''Text''];
         alt = (\<lambda>name cur. if cur = [] then fst (get name) else cur)
     in if list_all snd fields then
          Inr \<lparr>o_location = alt ''location_id'' (fst (get ''LocationID'')),
               o_contact = alt ''contact_id'' (fst (get ''ContactID'')),
               o_message = alt ''message_id'' (fst (get ''MessageID'')),
               o_to = alt ''to'' (fst (get ''To'')), o_from = alt ''from'' (fst (get ''From'')),
               o_text = alt ''text'' (fst (get ''Text''))\<rparr>
        else Inl (ErrMsg ''json: cannot unmarshal into Go struct field'' []))"

definition q_find_outbound :: "string \<Rightarrow> outbound stmt" where
  "q_find_outbound provider_id now d =
    (case find (\<lambda>r. ob_provider r = Some provider_id) (db_outbound d) of
       None \<Rightarrow> (Inl ErrNoRows, d)
     | Some r \<Rightarrow> (outbound_of_payload (ob_payload r), d))"

definition store_find_outbound :: "string \<Rightarrow> ('t, 'h) world \<Rightarrow> outbound result \<times> ('t, 'h) world" where
  "store_find_outbound provider_id = sql (q_find_outbound provider_id)"

section \<open>Lemmas\<close>

lemma db_ok_insert_outbound: "db_ok d \<Longrightarrow> db_ok (snd (insert_outbound loc msg to from body p enr av now d))"
  by (auto simp: insert_outbound_def Let_def db_ok_def list_ex_iff)

interpretation outbound_q: lease_queue ob_id outbound_order outbound_ready outbound_lock "2 * minute"
  by unfold_locales (auto simp: outbound_lock_def outbound_ready_def)

lemma update_job_ok: "db_ok d \<Longrightarrow> (\<And>r. ob_id (f r) = ob_id r \<and> ob_location (f r) = ob_location r \<and> ob_message (f r) = ob_message r)
  \<Longrightarrow> db_ok (update_job i f d)"
  by (auto simp: update_job_def map_update_where intro: db_ok_intros)

lemma q_enqueue_ok: "db_ok d \<Longrightarrow> db_ok (snd (q_enqueue o0 now d))"
  using db_ok_insert_outbound by (simp add: q_enqueue_def split: prod.split) (metis snd_conv)

lemma upsert_suppression_ok:
  "db_ok d \<Longrightarrow> (\<And>r. su_number (upd r) = su_number r) \<Longrightarrow> su_number fresh = n \<Longrightarrow> db_ok (upsert_suppression n upd fresh d)"
  by (auto simp: upsert_suppression_def map_update_where suppressed_iff db_ok_def)

lemma cancel_queued_ok: "db_ok d \<Longrightarrow> db_ok (cancel_queued n d)"
  by (auto simp: cancel_queued_def map_update_where intro: db_ok_intros)

lemma q_claim_ok: "db_ok d \<Longrightarrow> db_ok (snd (q_claim now d))"
  by (auto simp: q_claim_def claim_where_def map_update_where outbound_lock_def intro!: db_ok_intros split: option.split)

lemma q_complete_ok: "db_ok d \<Longrightarrow> db_ok (snd (q_complete i pid now d))"
  by (auto simp: q_complete_def Let_def map_update_where intro!: db_ok_intros update_job_ok)
     (simp add: db_ok_def update_job_def)

lemma q_suppress_insert_ok: "db_ok d \<Longrightarrow> db_ok (snd (q_suppress_insert n src ev now d))"
  by (simp add: q_suppress_insert_def upsert_suppression_ok)

lemma q_suppress_cancel_ok: "db_ok d \<Longrightarrow> db_ok (snd (q_suppress_cancel n now d))"
  by (simp add: q_suppress_cancel_def cancel_queued_ok)

lemma q_retry_ok: "db_ok d \<Longrightarrow> db_ok (snd (q_retry i delay now d))"
  by (simp add: q_retry_def update_job_ok)

lemma q_fail_ok: "db_ok d \<Longrightarrow> db_ok (snd (q_fail i now d))"
  by (simp add: q_fail_def update_job_ok)

lemma q_read_frame [simp]:
  "snd (q_is_suppressed n now d) = d" "snd (q_sending_paused now d) = d" "snd (q_find_outbound pid now d) = d"
  by (simp_all add: q_is_suppressed_def q_sending_paused_def q_find_outbound_def split: option.split)

lemmas outbound_ok = q_enqueue_ok q_suppress_insert_ok q_suppress_cancel_ok q_claim_ok q_complete_ok q_retry_ok q_fail_ok

lemma snd_q_enqueue: "snd (q_enqueue o0 now d) =
    snd (insert_outbound (o_location o0) (o_message o0) (o_to o0) (o_from o0) (o_text o0) (marshal_outbound o0) None now now d)"
  by (simp add: q_enqueue_def split: prod.split)

lemma snd_q_claim: "snd (q_claim now d) =
    (case claim_where ob_id outbound_order outbound_ready outbound_lock now (db_outbound d) of
       None \<Rightarrow> d | Some (_, rows) \<Rightarrow> d\<lparr>db_outbound := rows\<rparr>)"
  by (simp add: q_claim_def split: option.split)

text \<open>No statement of the queue touches the suppressions, and only \<open>Suppress\<close> adds to them.\<close>

lemma outbound_suppressions [frame_simps]:
  "db_suppressions (snd (insert_outbound loc msg to from body p enr av now d)) = db_suppressions d"
  "db_suppressions (snd (q_enqueue o0 now d)) = db_suppressions d"
  "db_suppressions (cancel_queued n d) = db_suppressions d"
  "db_suppressions (snd (q_suppress_cancel n now d)) = db_suppressions d"
  "db_suppressions (snd (q_claim now d)) = db_suppressions d"
  "db_suppressions (update_job i f d) = db_suppressions d"
  "db_suppressions (snd (q_complete i pid now d)) = db_suppressions d"
  "db_suppressions (snd (q_retry i delay now d)) = db_suppressions d"
  "db_suppressions (snd (q_fail i now d)) = db_suppressions d"
  by (simp_all add: insert_outbound_def snd_q_enqueue cancel_queued_def q_suppress_cancel_def snd_q_claim
      update_job_def q_complete_def q_retry_def q_fail_def Let_def split: option.split)

lemma outbound_paused [frame_simps]:
  "db_sending_paused (snd (insert_outbound loc msg to from body p enr av now d)) = db_sending_paused d"
  "db_sending_paused (snd (q_enqueue o0 now d)) = db_sending_paused d"
  "db_sending_paused (cancel_queued n d) = db_sending_paused d"
  "db_sending_paused (upsert_suppression n upd fresh d) = db_sending_paused d"
  "db_sending_paused (snd (q_suppress_insert n src ev now d)) = db_sending_paused d"
  "db_sending_paused (snd (q_suppress_cancel n now d)) = db_sending_paused d"
  "db_sending_paused (snd (q_claim now d)) = db_sending_paused d"
  "db_sending_paused (update_job i f d) = db_sending_paused d"
  "db_sending_paused (snd (q_complete i pid now d)) = db_sending_paused d"
  "db_sending_paused (snd (q_retry i delay now d)) = db_sending_paused d"
  "db_sending_paused (snd (q_fail i now d)) = db_sending_paused d"
  by (simp add: insert_outbound_def snd_q_enqueue cancel_queued_def q_suppress_cancel_def snd_q_claim
      upsert_suppression_def q_suppress_insert_def
      update_job_def q_complete_def q_retry_def q_fail_def Let_def split: option.split)+

lemma suppressed_upsert:
  assumes "\<And>r. su_number (upd r) = su_number r" and "su_number fresh = n"
  shows "suppressed (upsert_suppression n upd fresh d) m \<longleftrightarrow> m = n \<or> suppressed d m"
proof (cases "suppressed d n")
  case True
  have "map su_number (update_where (\<lambda>r. su_number r = n) upd (db_suppressions d)) = map su_number (db_suppressions d)"
    by (rule map_update_where) (rule assms(1))
  then have "su_number ` set (update_where (\<lambda>r. su_number r = n) upd (db_suppressions d)) = su_number ` set (db_suppressions d)"
    by (metis list.set_map)
  with True show ?thesis by (auto simp: upsert_suppression_def suppressed_iff)
next
  case False
  with assms(2) show ?thesis by (auto simp: upsert_suppression_def suppressed_iff)
qed

lemma suppressed_q_suppress_insert [frame_simps]:
  "suppressed (snd (q_suppress_insert n src ev now d)) m \<longleftrightarrow> m = n \<or> suppressed d m"
  by (simp add: q_suppress_insert_def suppressed_upsert)

text \<open>Reading back the payload written by \<open>Enqueue\<close>.\<close>

lemma decode_marshal:
  "decode_str ''LocationID'' [] (marshal_outbound o0) = (o_location o0, True)"
  "decode_str ''ContactID'' [] (marshal_outbound o0) = (o_contact o0, True)"
  "decode_str ''MessageID'' [] (marshal_outbound o0) = (o_message o0, True)"
  "decode_str ''To'' [] (marshal_outbound o0) = (o_to o0, True)"
  "decode_str ''From'' [] (marshal_outbound o0) = (o_from o0, True)"
  "decode_str ''Text'' [] (marshal_outbound o0) = (o_text o0, True)"
  "decode_str ''location_id'' [] (marshal_outbound o0) = ([], True)"
  "decode_str ''contact_id'' [] (marshal_outbound o0) = ([], True)"
  "decode_str ''message_id'' [] (marshal_outbound o0) = ([], True)"
  "decode_str ''to'' [] (marshal_outbound o0) = (o_to o0, True)"
  "decode_str ''from'' [] (marshal_outbound o0) = (o_from o0, True)"
  "decode_str ''text'' [] (marshal_outbound o0) = (o_text o0, True)"
  by (simp_all add: marshal_outbound_def key_matches_def lower_char_lits)

lemma outbound_of_marshal: "outbound_of_payload (marshal_outbound o0) = Inr (o0 :: outbound)"
  by (simp add: outbound_of_payload_def decode_marshal Let_def)

lemma find_unique:
  assumes "x \<in> set xs" and "p x" and "\<And>y. y \<in> set xs \<Longrightarrow> p y \<Longrightarrow> y = x"
  shows "find p xs = Some x"
proof (cases "find p xs")
  case None
  with assms(1,2) show ?thesis by (simp add: find_None_iff)
next
  case (Some y)
  then have "y \<in> set xs" "p y" by (auto simp: find_Some_iff)
  with assms(3) Some show ?thesis by simp
qed

text \<open>A job as the insert statement leaves it.\<close>

lemma insert_outbound_new:
  assumes "fst (insert_outbound loc msg to from body p enr av now d)"
  shows "\<exists>r. db_outbound (snd (insert_outbound loc msg to from body p enr av now d)) = db_outbound d @ [r] \<and>
     ob_id r = db_outbound_seq d \<and> ob_payload r = p \<and> ob_status r = Queued \<and> ob_to r = to \<and> ob_from r = from \<and>
     ob_body r = body \<and> ob_location r = loc \<and> ob_message r = msg \<and> ob_available r = av \<and> ob_attempts r = 0 \<and> ob_provider r = None"
  using assms by (auto simp: insert_outbound_def Let_def split: if_splits)

text \<open>
  A delivery report finds its message: once a queued message has been sent and completed under a
  new provider id, looking that id up returns the very message that was enqueued, its HighLevel
  contact and message id included.
\<close>

lemma find_after_complete:
  assumes "db_ok d" and "fst (q_enqueue o0 now d) = Inr True"
    and "\<forall>r \<in> set (db_outbound d). ob_provider r \<noteq> Some pid"
  shows "fst (q_find_outbound pid u (snd (q_complete (db_outbound_seq d) pid t (snd (q_enqueue o0 now d))))) = Inr o0"
proof -
  let ?i = "db_outbound_seq d"
  have "fst (insert_outbound (o_location o0) (o_message o0) (o_to o0) (o_from o0) (o_text o0) (marshal_outbound o0) None now now d)"
    using assms(2) by (simp add: q_enqueue_def split: prod.splits)
  from insert_outbound_new[OF this] obtain r
    where rows: "db_outbound (snd (q_enqueue o0 now d)) = db_outbound d @ [r]" and r: "ob_id r = ?i" "ob_payload r = marshal_outbound o0"
    by (auto simp: snd_q_enqueue)
  let ?f = "\<lambda>r. r\<lparr>ob_status := Sent, ob_provider := Some pid, ob_locked := None\<rparr>"
  have "update_where (\<lambda>r. ob_id r = ?i) ?f (db_outbound d) = db_outbound d"
    using assms(1) by (intro update_where_noop) (auto simp: db_ok_def)
  then have "db_outbound (snd (q_complete ?i pid t (snd (q_enqueue o0 now d)))) = db_outbound d @ [?f r]"
    using rows r by (simp add: q_complete_def update_job_def Let_def table_simps)
  moreover have "find (\<lambda>r. ob_provider r = Some pid) (db_outbound d @ [?f r]) = Some (?f r)"
    using assms(3) by (intro find_unique) auto
  ultimately show ?thesis
    using r by (simp add: q_find_outbound_def outbound_of_marshal)
qed

definition sample_outbound :: outbound where
  "sample_outbound = \<lparr>o_location = ''loc'', o_contact = ''c1'', o_message = ''m1'', o_to = ''+13135550101'',
     o_from = ''+13135550100'', o_text = ''hello''\<rparr>"

lemma find_after_complete_sample:
  "fst (q_find_outbound ''p1'' 9 (snd (q_complete 1 ''p1'' 8 (snd (q_enqueue sample_outbound 5 empty_db))))) = Inr sample_outbound"
proof -
  have "fst (q_enqueue sample_outbound 5 empty_db) = Inr True" "db_outbound empty_db = []" "db_outbound_seq empty_db = 1"
    by (simp_all add: empty_db_def q_enqueue_def insert_outbound_def Let_def)
  then show ?thesis using find_after_complete[OF empty_db_ok, of sample_outbound 5 "''p1''" 9 8] by simp
qed

text \<open>
  HighLevel may deliver the same outbound webhook several times: the first delivery queues one
  job, every further one with the same location and message id reports a duplicate and leaves the
  queue as it was, also when the text or the numbers differ.
\<close>

lemma enqueue_idempotent:
  "let d1 = snd (q_enqueue o0 now d); again = o0\<lparr>o_to := to, o_from := from, o_text := txt, o_contact := c\<rparr>;
       d2 = snd (q_enqueue again t d1)
   in fst (q_enqueue again t d1) = Inr False \<and> db_outbound d2 = db_outbound d1 \<and>
      (fst (q_enqueue o0 now d) = Inr True \<longleftrightarrow>
         \<not> (\<exists>r \<in> set (db_outbound d). ob_location r = o_location o0 \<and> ob_message r = o_message o0)) \<and>
      length (db_outbound d1) = length (db_outbound d) + (if fst (q_enqueue o0 now d) = Inr True then 1 else 0)"
proof (cases "list_ex (\<lambda>r. ob_location r = o_location o0 \<and> ob_message r = o_message o0) (db_outbound d)")
  case True
  then have "\<exists>r \<in> set (db_outbound d). ob_location r = o_location o0 \<and> ob_message r = o_message o0" by (simp add: list_ex_iff)
  with True show ?thesis by (simp add: q_enqueue_def insert_outbound_def Let_def)
next
  case False
  then have "\<not> (\<exists>r \<in> set (db_outbound d). ob_location r = o_location o0 \<and> ob_message r = o_message o0)" by (simp add: list_ex_iff)
  with False show ?thesis by (simp add: q_enqueue_def insert_outbound_def Let_def)
qed


definition sample_job_db :: db where
  "sample_job_db = snd (q_enqueue sample_outbound 5 empty_db)"


text \<open>As long as a claimed job's row is as the claim left it, no other claim gets it within the lease.\<close>

lemma claim_exclusive_row:
  assumes "q_claim now d = (Inr j, d1)" and "db_ok d2"
    and "\<forall>r \<in> set (db_outbound d1). ob_id r = j_id j \<longrightarrow> r \<in> set (db_outbound d2)"
    and "t \<le> now + 2 * minute" and "q_claim t d2 = (Inr j', d3)"
  shows "j_id j' \<noteq> j_id j"
proof -
  obtain r rows where c: "outbound_q.claim_q now (db_outbound d) = Some (r, rows)" "j = scan_job r" "d1 = d\<lparr>db_outbound := rows\<rparr>"
    using assms(1) by (auto simp: q_claim_def split: option.splits)
  obtain s rows' where c': "outbound_q.claim_q t (db_outbound d2) = Some (s, rows')" "j' = scan_job s"
    using assms(5) by (auto simp: q_claim_def split: option.splits)
  have "r \<in> set (db_outbound d2)" using outbound_q.claim_in[OF c(1)] c(2,3) assms(3) by (simp add: scan_job_def)
  from outbound_q.claim_exclusive[OF c(1) this _ c'(1) assms(4)] assms(2)
  show ?thesis by (simp add: c(2) c'(2) scan_job_def db_ok_def)
qed


end
