(* ===== verification/StoreInbound.thy ===== *)
theory StoreInbound
  imports StoreOutbound
begin

text \<open>
  The inbound side of \<^verbatim>\<open>internal/store/store.go\<close>: received messages and delivery reports, each
  recorded once, leased to one worker at a time, and finished by being processed (synchronised) or
  given up as failed.
\<close>

section \<open>Delivery reports\<close>

text \<open>
  \<open>RecordDelivery\<close> casts its job id to \<open>bigint\<close>; \<open>parse\<close> is PostgreSQL's conversion. The insert fails
  when the job does not exist.
\<close>

definition new_delivery :: "string \<Rightarrow> int option \<Rightarrow> string \<Rightarrow> string option \<Rightarrow> time option \<Rightarrow> time \<Rightarrow> delivery_row" where
  "new_delivery event job status provider locked now =
    \<lparr>de_event = event, de_job = job, de_status = status, de_created = now, de_provider = provider,
     de_synced = None, de_locked = locked, de_attempts = 0, de_failed = None\<rparr>"

definition delivery_exists :: "string \<Rightarrow> db \<Rightarrow> bool" where
  "delivery_exists event d = list_ex (\<lambda>r. de_event r = event) (db_delivery d)"

definition q_record_delivery :: "(string \<Rightarrow> int option) \<Rightarrow> string \<Rightarrow> string \<Rightarrow> string \<Rightarrow> unit stmt" where
  "q_record_delivery parse event job_id status now d =
    (if job_id \<noteq> [] \<and> parse job_id = None then (Inl ErrDB, d)
     else let job = (if job_id = [] then None else parse job_id) in
       if delivery_exists event d then (Inr (), d)
       else if (case job of None \<Rightarrow> False | Some i \<Rightarrow> \<not> list_ex (\<lambda>r. ob_id r = i) (db_outbound d)) then (Inl ErrDB, d)
       else (Inr (), d\<lparr>db_delivery := db_delivery d @ [new_delivery event job status None None now]\<rparr>))"

definition store_record_delivery ::
  "(string \<Rightarrow> int option) \<Rightarrow> string \<Rightarrow> string \<Rightarrow> string \<Rightarrow> ('t, 'h) world \<Rightarrow> unit result \<times> ('t, 'h) world" where
  "store_record_delivery parse event job_id status = sql (q_record_delivery parse event job_id status)"

text \<open>A scalar subquery that finds more than one row is an error.\<close>

definition q_update_delivery :: "string \<Rightarrow> string \<Rightarrow> string \<Rightarrow> bool stmt" where
  "q_update_delivery event provider_id status now d =
    (case filter (\<lambda>r. ob_provider r = Some provider_id) (db_outbound d) of
       _ # _ # _ \<Rightarrow> (Inl ErrDB, d)
     | jobs \<Rightarrow>
         if delivery_exists event d then (Inr False, d)
         else (Inr True, d\<lparr>db_delivery := db_delivery d @
           [new_delivery event (case jobs of [] \<Rightarrow> None | r # _ \<Rightarrow> Some (ob_id r)) status (Some provider_id)
              (Some (now + 2 * minute)) now]\<rparr>))"

definition store_update_delivery :: "string \<Rightarrow> string \<Rightarrow> string \<Rightarrow> ('t, 'h) world \<Rightarrow> bool result \<times> ('t, 'h) world" where
  "store_update_delivery event provider_id status = sql (q_update_delivery event provider_id status)"

record delivery_event =
  dv_event :: string
  dv_provider :: string
  dv_status :: string
  dv_attempts :: int

definition delivery_ready :: "time \<Rightarrow> delivery_row \<Rightarrow> bool" where
  "delivery_ready now r \<longleftrightarrow> de_synced r = None \<and> de_failed r = None \<and>
    (case de_locked r of None \<Rightarrow> True | Some t \<Rightarrow> t < now)"

text \<open>Events of the same instant are ordered bytewise by their id, the order of the C collation.\<close>

definition delivery_order :: "delivery_row \<Rightarrow> time \<times> string" where
  "delivery_order r = (de_created r, de_event r)"

definition delivery_lock :: "time \<Rightarrow> delivery_row \<Rightarrow> delivery_row" where
  "delivery_lock now r = r\<lparr>de_locked := Some (now + 2 * minute), de_attempts := de_attempts r + 1\<rparr>"

definition scan_delivery :: "delivery_row \<Rightarrow> delivery_event" where
  "scan_delivery r = \<lparr>dv_event = de_event r, dv_provider = (case de_provider r of None \<Rightarrow> [] | Some p \<Rightarrow> p),
     dv_status = de_status r, dv_attempts = de_attempts r\<rparr>"

definition q_claim_delivery :: "delivery_event stmt" where
  "q_claim_delivery now d =
    (case claim_where de_event delivery_order delivery_ready delivery_lock now (db_delivery d) of
       None \<Rightarrow> (Inl ErrNoRows, d)
     | Some (r, rows) \<Rightarrow> (Inr (scan_delivery r), d\<lparr>db_delivery := rows\<rparr>))"

definition store_claim_delivery :: "('t, 'h) world \<Rightarrow> delivery_event result \<times> ('t, 'h) world" where
  "store_claim_delivery = sql q_claim_delivery"

definition update_delivery_row :: "string \<Rightarrow> (delivery_row \<Rightarrow> delivery_row) \<Rightarrow> db \<Rightarrow> db" where
  "update_delivery_row event f d = d\<lparr>db_delivery := update_where (\<lambda>r. de_event r = event) f (db_delivery d)\<rparr>"

definition q_mark_delivery :: "string \<Rightarrow> unit stmt" where
  "q_mark_delivery event now d =
    (Inr (), update_delivery_row event (\<lambda>r. r\<lparr>de_synced := Some now, de_locked := None\<rparr>) d)"

definition store_mark_delivery :: "string \<Rightarrow> ('t, 'h) world \<Rightarrow> unit result \<times> ('t, 'h) world" where
  "store_mark_delivery event = sql (q_mark_delivery event)"

definition q_retry_delivery :: "string \<Rightarrow> duration \<Rightarrow> unit stmt" where
  "q_retry_delivery event delay now d =
    (Inr (), update_delivery_row event (\<lambda>r. r\<lparr>de_locked := Some (now + delay)\<rparr>) d)"

definition store_retry_delivery :: "string \<Rightarrow> duration \<Rightarrow> ('t, 'h) world \<Rightarrow> unit result \<times> ('t, 'h) world" where
  "store_retry_delivery event delay = sql (q_retry_delivery event delay)"

definition q_fail_delivery :: "string \<Rightarrow> unit stmt" where
  "q_fail_delivery event now d =
    (Inr (), update_delivery_row event (\<lambda>r. r\<lparr>de_failed := Some now, de_locked := None\<rparr>) d)"

definition store_fail_delivery :: "string \<Rightarrow> ('t, 'h) world \<Rightarrow> unit result \<times> ('t, 'h) world" where
  "store_fail_delivery event = sql (q_fail_delivery event)"

section \<open>Received messages\<close>

definition q_record_inbound :: "string \<Rightarrow> string \<Rightarrow> string \<Rightarrow> string \<Rightarrow> bool stmt" where
  "q_record_inbound event from to body now d =
    (if list_ex (\<lambda>r. in_event r = event) (db_inbound d) then (Inr False, d)
     else (Inr True, d\<lparr>db_inbound := db_inbound d @
       [\<lparr>in_event = event, in_from = from, in_to = to, in_body = body, in_created = now, in_processed = None,
         in_locked = Some (now + 2 * minute), in_attempts = 0, in_failed = None, in_resolved = None\<rparr>]\<rparr>))"

definition store_record_inbound ::
  "string \<Rightarrow> string \<Rightarrow> string \<Rightarrow> string \<Rightarrow> ('t, 'h) world \<Rightarrow> bool result \<times> ('t, 'h) world" where
  "store_record_inbound event from to body = sql (q_record_inbound event from to body)"

record inbound_message =
  im_event :: string
  im_from :: string
  im_to :: string
  im_body :: string
  im_attempts :: int

record unknown_inbound =
  ui_event :: string
  ui_sender :: string
  ui_receiving :: string
  ui_body :: string
  ui_received_at :: int

text \<open>Midnight of 4 October 2026 in Detroit (UTC-4).\<close>

definition unknown_since :: time where
  "unknown_since = 1791086400 * second"

definition is_unknown :: "db \<Rightarrow> inbound_row \<Rightarrow> bool" where
  "is_unknown d i \<longleftrightarrow> unknown_since \<le> in_created i \<and> in_resolved i = None \<and>
    \<not> list_ex (\<lambda>o0. ob_to o0 = in_from i \<and> ob_created o0 \<le> in_created i) (db_outbound d)"

text \<open>The rows \<open>i\<close> selects are newer than 2026, so the cast rounds a positive number.\<close>

definition scan_unknown :: "inbound_row \<Rightarrow> unknown_inbound" where
  "scan_unknown i = \<lparr>ui_event = in_event i, ui_sender = in_from i, ui_receiving = in_to i, ui_body = in_body i,
     ui_received_at = (in_created i + 500000) div 1000000\<rparr>"

definition q_recent_unknown :: "int \<Rightarrow> unknown_inbound list stmt" where
  "q_recent_unknown limit now d =
    (let l = (if limit \<le> 0 \<or> limit > 20 then 20 else limit);
         rows = rev (sort_key (\<lambda>i. (in_created i, in_event i)) (filter (is_unknown d) (db_inbound d)))
     in (Inr (map scan_unknown (take (nat l) rows)), d))"

definition store_recent_unknown :: "int \<Rightarrow> ('t, 'h) world \<Rightarrow> unknown_inbound list result \<times> ('t, 'h) world" where
  "store_recent_unknown limit = sql (q_recent_unknown limit)"

definition update_inbound_row :: "string \<Rightarrow> (inbound_row \<Rightarrow> inbound_row) \<Rightarrow> db \<Rightarrow> db" where
  "update_inbound_row event f d = d\<lparr>db_inbound := update_where (\<lambda>r. in_event r = event) f (db_inbound d)\<rparr>"

definition q_resolve_inbound :: "string \<Rightarrow> unit stmt" where
  "q_resolve_inbound event now d = (Inr (), update_inbound_row event (\<lambda>r. r\<lparr>in_resolved := Some now\<rparr>) d)"

definition store_resolve_inbound :: "string \<Rightarrow> ('t, 'h) world \<Rightarrow> unit result \<times> ('t, 'h) world" where
  "store_resolve_inbound event = sql (q_resolve_inbound event)"

definition inbound_ready :: "time \<Rightarrow> inbound_row \<Rightarrow> bool" where
  "inbound_ready now r \<longleftrightarrow> in_processed r = None \<and> in_failed r = None \<and>
    (case in_locked r of None \<Rightarrow> True | Some t \<Rightarrow> t < now)"

definition inbound_order :: "inbound_row \<Rightarrow> time \<times> string" where
  "inbound_order r = (in_created r, in_event r)"

definition inbound_lock :: "time \<Rightarrow> inbound_row \<Rightarrow> inbound_row" where
  "inbound_lock now r = r\<lparr>in_locked := Some (now + 2 * minute), in_attempts := in_attempts r + 1\<rparr>"

definition scan_inbound :: "inbound_row \<Rightarrow> inbound_message" where
  "scan_inbound r = \<lparr>im_event = in_event r, im_from = in_from r, im_to = in_to r, im_body = in_body r,
     im_attempts = in_attempts r\<rparr>"

definition q_claim_inbound :: "inbound_message stmt" where
  "q_claim_inbound now d =
    (case claim_where in_event inbound_order inbound_ready inbound_lock now (db_inbound d) of
       None \<Rightarrow> (Inl ErrNoRows, d)
     | Some (r, rows) \<Rightarrow> (Inr (scan_inbound r), d\<lparr>db_inbound := rows\<rparr>))"

definition store_claim_inbound :: "('t, 'h) world \<Rightarrow> inbound_message result \<times> ('t, 'h) world" where
  "store_claim_inbound = sql q_claim_inbound"

definition q_mark_inbound :: "string \<Rightarrow> unit stmt" where
  "q_mark_inbound event now d =
    (Inr (), update_inbound_row event (\<lambda>r. r\<lparr>in_processed := Some now, in_locked := None\<rparr>) d)"

definition store_mark_inbound :: "string \<Rightarrow> ('t, 'h) world \<Rightarrow> unit result \<times> ('t, 'h) world" where
  "store_mark_inbound event = sql (q_mark_inbound event)"

definition q_retry_inbound :: "string \<Rightarrow> duration \<Rightarrow> unit stmt" where
  "q_retry_inbound event delay now d =
    (Inr (), update_inbound_row event (\<lambda>r. r\<lparr>in_locked := Some (now + delay)\<rparr>) d)"

definition store_retry_inbound :: "string \<Rightarrow> duration \<Rightarrow> ('t, 'h) world \<Rightarrow> unit result \<times> ('t, 'h) world" where
  "store_retry_inbound event delay = sql (q_retry_inbound event delay)"

definition q_fail_inbound :: "string \<Rightarrow> unit stmt" where
  "q_fail_inbound event now d =
    (Inr (), update_inbound_row event (\<lambda>r. r\<lparr>in_failed := Some now, in_locked := None\<rparr>) d)"

definition store_fail_inbound :: "string \<Rightarrow> ('t, 'h) world \<Rightarrow> unit result \<times> ('t, 'h) world" where
  "store_fail_inbound event = sql (q_fail_inbound event)"

section \<open>Lemmas\<close>

interpretation delivery_q: lease_queue de_event delivery_order delivery_ready delivery_lock "2 * minute"
  by unfold_locales (auto simp: delivery_lock_def delivery_ready_def)

interpretation inbound_q: lease_queue in_event inbound_order inbound_ready inbound_lock "2 * minute"
  by unfold_locales (auto simp: inbound_lock_def inbound_ready_def)

lemma snd_q_claim_delivery: "snd (q_claim_delivery now d) =
    (case claim_where de_event delivery_order delivery_ready delivery_lock now (db_delivery d) of
       None \<Rightarrow> d | Some (_, rows) \<Rightarrow> d\<lparr>db_delivery := rows\<rparr>)"
  by (simp add: q_claim_delivery_def split: option.split)

lemma snd_q_claim_inbound: "snd (q_claim_inbound now d) =
    (case claim_where in_event inbound_order inbound_ready inbound_lock now (db_inbound d) of
       None \<Rightarrow> d | Some (_, rows) \<Rightarrow> d\<lparr>db_inbound := rows\<rparr>)"
  by (simp add: q_claim_inbound_def split: option.split)

lemma db_ok_inbound [db_ok_intros]:
  "db_ok d \<Longrightarrow> distinct (map in_event rows) \<Longrightarrow> db_ok (d\<lparr>db_inbound := rows\<rparr>)"
  by (simp add: db_ok_def)

lemma update_delivery_row_ok: "db_ok d \<Longrightarrow> (\<And>r. de_event (f r) = de_event r) \<Longrightarrow> db_ok (update_delivery_row e f d)"
  by (simp add: update_delivery_row_def db_ok_def map_update_where)

lemma update_inbound_row_ok: "db_ok d \<Longrightarrow> (\<And>r. in_event (f r) = in_event r) \<Longrightarrow> db_ok (update_inbound_row e f d)"
  by (simp add: update_inbound_row_def db_ok_def map_update_where)

lemma q_record_delivery_ok: "db_ok d \<Longrightarrow> db_ok (snd (q_record_delivery parse event job status now d))"
  by (auto simp: q_record_delivery_def delivery_exists_def list_ex_iff Let_def new_delivery_def intro!: db_ok_intros)
     (auto simp: db_ok_def)

lemma q_update_delivery_ok: "db_ok d \<Longrightarrow> db_ok (snd (q_update_delivery event pid status now d))"
  by (auto simp: q_update_delivery_def delivery_exists_def list_ex_iff new_delivery_def db_ok_def split: list.split)

lemma q_claim_delivery_ok: "db_ok d \<Longrightarrow> db_ok (snd (q_claim_delivery now d))"
  by (auto simp: snd_q_claim_delivery db_ok_def delivery_q.claim_keys split: option.split)

lemma q_record_inbound_ok: "db_ok d \<Longrightarrow> db_ok (snd (q_record_inbound event from to body now d))"
  by (auto simp: q_record_inbound_def list_ex_iff db_ok_def)

lemma q_claim_inbound_ok: "db_ok d \<Longrightarrow> db_ok (snd (q_claim_inbound now d))"
  by (auto simp: snd_q_claim_inbound db_ok_def inbound_q.claim_keys split: option.split)

lemma inbound_marks_ok:
  "db_ok d \<Longrightarrow> db_ok (snd (q_mark_delivery event now d))" "db_ok d \<Longrightarrow> db_ok (snd (q_retry_delivery event delay now d))"
  "db_ok d \<Longrightarrow> db_ok (snd (q_fail_delivery event now d))" "db_ok d \<Longrightarrow> db_ok (snd (q_mark_inbound event now d))"
  "db_ok d \<Longrightarrow> db_ok (snd (q_retry_inbound event delay now d))" "db_ok d \<Longrightarrow> db_ok (snd (q_fail_inbound event now d))"
  "db_ok d \<Longrightarrow> db_ok (snd (q_resolve_inbound event now d))"
  by (simp_all add: q_mark_delivery_def q_retry_delivery_def q_fail_delivery_def q_mark_inbound_def
      q_retry_inbound_def q_fail_inbound_def q_resolve_inbound_def update_delivery_row_ok update_inbound_row_ok)

lemmas inbound_ok = q_record_delivery_ok q_update_delivery_ok q_claim_delivery_ok q_record_inbound_ok
  q_claim_inbound_ok inbound_marks_ok

lemma snd_q_recent_unknown [simp]: "snd (q_recent_unknown limit now d) = d"
  by (simp add: q_recent_unknown_def Let_def)

text \<open>None of these statements touches the suppressions or the pause.\<close>

lemma inbound_suppressions [frame_simps]:
  "db_suppressions (snd (q_record_delivery parse event job status now d)) = db_suppressions d"
  "db_suppressions (snd (q_update_delivery event pid status now d)) = db_suppressions d"
  "db_suppressions (snd (q_claim_delivery now d)) = db_suppressions d"
  "db_suppressions (snd (q_mark_delivery event now d)) = db_suppressions d"
  "db_suppressions (snd (q_retry_delivery event delay now d)) = db_suppressions d"
  "db_suppressions (snd (q_fail_delivery event now d)) = db_suppressions d"
  "db_suppressions (snd (q_record_inbound event from to body now d)) = db_suppressions d"
  "db_suppressions (snd (q_claim_inbound now d)) = db_suppressions d"
  "db_suppressions (snd (q_mark_inbound event now d)) = db_suppressions d"
  "db_suppressions (snd (q_retry_inbound event delay now d)) = db_suppressions d"
  "db_suppressions (snd (q_fail_inbound event now d)) = db_suppressions d"
  "db_suppressions (snd (q_resolve_inbound event now d)) = db_suppressions d"
  by (simp_all add: q_record_delivery_def q_update_delivery_def snd_q_claim_delivery q_mark_delivery_def
      q_retry_delivery_def q_fail_delivery_def q_record_inbound_def snd_q_claim_inbound q_mark_inbound_def
      q_retry_inbound_def q_fail_inbound_def q_resolve_inbound_def update_delivery_row_def update_inbound_row_def
      Let_def split: option.split list.split)

lemma inbound_paused [frame_simps]:
  "db_sending_paused (snd (q_record_delivery parse event job status now d)) = db_sending_paused d"
  "db_sending_paused (snd (q_update_delivery event pid status now d)) = db_sending_paused d"
  "db_sending_paused (snd (q_claim_delivery now d)) = db_sending_paused d"
  "db_sending_paused (snd (q_mark_delivery event now d)) = db_sending_paused d"
  "db_sending_paused (snd (q_retry_delivery event delay now d)) = db_sending_paused d"
  "db_sending_paused (snd (q_fail_delivery event now d)) = db_sending_paused d"
  "db_sending_paused (snd (q_record_inbound event from to body now d)) = db_sending_paused d"
  "db_sending_paused (snd (q_claim_inbound now d)) = db_sending_paused d"
  "db_sending_paused (snd (q_mark_inbound event now d)) = db_sending_paused d"
  "db_sending_paused (snd (q_retry_inbound event delay now d)) = db_sending_paused d"
  "db_sending_paused (snd (q_fail_inbound event now d)) = db_sending_paused d"
  "db_sending_paused (snd (q_resolve_inbound event now d)) = db_sending_paused d"
  by (simp_all add: q_record_delivery_def q_update_delivery_def snd_q_claim_delivery q_mark_delivery_def
      q_retry_delivery_def q_fail_delivery_def q_record_inbound_def snd_q_claim_inbound q_mark_inbound_def
      q_retry_inbound_def q_fail_inbound_def q_resolve_inbound_def update_delivery_row_def update_inbound_row_def
      Let_def split: option.split list.split)

section \<open>Properties\<close>

text \<open>
  The list of unknown senders shown to Signal Desk holds the newest messages (at most 20 of
  them), newest first, among those that are unresolved and whose sender had never been texted by
  any job created before the message arrived.
\<close>

lemma recent_unknown_spec:
  "\<exists>rows. q_recent_unknown limit now d = (Inr (map scan_unknown rows), d) \<and>
     length rows = min (if limit \<le> 0 \<or> limit > 20 then 20 else nat limit) (count_where (is_unknown d) (db_inbound d)) \<and>
     sorted (rev (map inbound_order rows)) \<and>
     (\<forall>i \<in> set rows. i \<in> set (db_inbound d) \<and> is_unknown d i) \<and>
     (\<forall>i \<in> set (db_inbound d). is_unknown d i \<and> i \<notin> set rows \<longrightarrow> (\<forall>j \<in> set rows. inbound_order i \<le> inbound_order j))"
proof -
  let ?s = "sort_key inbound_order (filter (is_unknown d) (db_inbound d))"
  let ?l = "if limit \<le> 0 \<or> limit > 20 then 20 else nat limit"
  let ?n = "length ?s - ?l"
  let ?rows = "take ?l (rev ?s)"
  have rows: "?rows = rev (drop ?n ?s)" by (simp add: take_rev)
  have eq: "q_recent_unknown limit now d = (Inr (map scan_unknown ?rows), d)"
    by (simp add: q_recent_unknown_def Let_def inbound_order_def[abs_def])
  have len: "length ?rows = min ?l (count_where (is_unknown d) (db_inbound d))"
    by (simp add: count_where_def min.commute)
  have srt: "sorted (map inbound_order ?s)" by simp
  then have sorted: "sorted (rev (map inbound_order ?rows))"
    by (simp add: rows rev_map drop_map[symmetric] sorted_wrt_drop)
  have mem: "\<forall>i \<in> set ?rows. i \<in> set (db_inbound d) \<and> is_unknown d i"
    using set_drop_subset[of ?n ?s] by (auto simp: rows)
  have newest: "\<forall>i \<in> set (db_inbound d). is_unknown d i \<and> i \<notin> set ?rows \<longrightarrow> (\<forall>j \<in> set ?rows. inbound_order i \<le> inbound_order j)"
  proof (intro ballI impI)
    fix i j assume i: "i \<in> set (db_inbound d)" "is_unknown d i \<and> i \<notin> set ?rows" and j: "j \<in> set ?rows"
    have split: "?s = take ?n ?s @ drop ?n ?s" by simp
    have "i \<in> set (take ?n ?s @ drop ?n ?s)" using i by simp
    moreover have "i \<notin> set (drop ?n ?s)" using i(2) unfolding rows by simp
    ultimately have "i \<in> set (take ?n ?s)" by (metis Un_iff set_append)
    moreover have "j \<in> set (drop ?n ?s)" using j by (simp add: rows)
    moreover have "sorted (map inbound_order (take ?n ?s @ drop ?n ?s))" using srt split by metis
    ultimately show "inbound_order i \<le> inbound_order j" by (intro sorted_app_le)
  qed
  show ?thesis by (rule exI[of _ ?rows], intro conjI) (fact eq, fact len, fact sorted, fact mem, fact newest)
qed

definition sample_inbound_db :: db where
  "sample_inbound_db = empty_db\<lparr>db_inbound :=
     [\<lparr>in_event = ''e1'', in_from = ''+13135550101'', in_to = ''+13135550100'', in_body = ''hi'',
       in_created = 1800000000 * second, in_processed = None, in_locked = None, in_attempts = 0,
       in_failed = None, in_resolved = None\<rparr>]\<rparr>"

lemma recent_unknown_witness:
  "\<exists>m. fst (q_recent_unknown 0 5 sample_inbound_db) = Inr [m]"
proof -
  have "count_where (is_unknown sample_inbound_db) (db_inbound sample_inbound_db) = 1"
    by (simp add: sample_inbound_db_def empty_db_def is_unknown_def unknown_since_def count_where_def)
  then obtain rows where "q_recent_unknown 0 5 sample_inbound_db = (Inr (map scan_unknown rows), sample_inbound_db)" "length rows = 1"
    using recent_unknown_spec[of 0 5 sample_inbound_db] by auto
  then show ?thesis by (cases rows) auto
qed

text \<open>
  Each received message is stored once: the first webhook for an event stores it unprocessed,
  leased for two minutes to the request that is handling it; a repeated webhook for the same event
  stores nothing and is told so.
\<close>

lemma record_inbound_once:
  "let d1 = snd (q_record_inbound event from to body now d) in
     q_record_inbound event from' to' body' t d1 = (Inr False, d1) \<and>
     (case row_of in_event event (db_inbound d) of
        Some _ \<Rightarrow> q_record_inbound event from to body now d = (Inr False, d)
      | None \<Rightarrow> fst (q_record_inbound event from to body now d) = Inr True \<and>
          (\<exists>r. row_of in_event event (db_inbound d1) = Some r \<and> in_processed r = None \<and> in_failed r = None \<and>
             in_from r = from \<and> in_to r = to \<and> in_body r = body \<and> \<not> inbound_ready (now + 2 * minute) r \<and>
             inbound_ready (now + 2 * minute + 1) r))"
proof (cases "list_ex (\<lambda>r. in_event r = event) (db_inbound d)")
  case True
  then have "row_of in_event event (db_inbound d) \<noteq> None" by (auto simp: row_of_None list_ex_iff)
  with True show ?thesis by (auto simp: q_record_inbound_def Let_def)
next
  case False
  then have none: "row_of in_event event (db_inbound d) = None" by (auto simp: row_of_None list_ex_iff)
  moreover have "row_of in_event event (db_inbound d @ [r]) = Some r" if "in_event r = event" for r
    using none that by (simp add: row_of_append)
  ultimately show ?thesis using False by (simp add: q_record_inbound_def Let_def inbound_ready_def)
qed

end
