(* ===== verification/StoreWorkflow.thy ===== *)
theory StoreWorkflow
  imports StoreInbound
begin

text \<open>
  \<^verbatim>\<open>internal/store/workflows.go\<close>: the stored enrollments, the transaction that carries out the
  engine's commands, and the rate limiter.
\<close>

section \<open>Records\<close>

record workflow_record =
  wr_id :: int
  wr_external :: string
  wr_location :: string
  wr_from :: string
  wr_enrollment :: enrollment

text \<open>The zero time is stored as NULL; any other time to the microsecond.\<close>

definition nullable_time :: "time \<Rightarrow> time option" where
  "nullable_time t = (if is_zero t then None else Some (pg_time t))"

definition scan_time :: "time option \<Rightarrow> time" where
  "scan_time t = (case t of None \<Rightarrow> zero_time | Some v \<Rightarrow> v)"

definition scan_workflow_record :: "enrollment_row \<Rightarrow> workflow_record" where
  "scan_workflow_record r =
    \<lparr>wr_id = en_id r, wr_external = en_external r, wr_location = en_location r, wr_from = en_from r,
     wr_enrollment =
       \<lparr>e_workflow_key = en_workflow_key r,
        e_contact = \<lparr>c_id = en_contact_id r, c_phone = en_to r, c_timezone = en_timezone r,
          c_consent_at = scan_time (en_consent_at r), c_consent_source = en_consent_source r,
          c_variables = en_variables r\<rparr>,
        e_state = en_state r, e_next_run = scan_time (en_next_run r), e_variant = en_variant r,
        e_sent_count = en_sent_count r\<rparr>\<rparr>"

section \<open>Creating an enrollment\<close>

definition enrollment_row_of :: "int \<Rightarrow> string \<Rightarrow> string \<Rightarrow> string \<Rightarrow> enrollment \<Rightarrow> enrollment_row" where
  "enrollment_row_of i external loc from e =
    \<lparr>en_id = i, en_external = external, en_location = loc, en_workflow_key = e_workflow_key e,
     en_contact_id = c_id (e_contact e), en_to = c_phone (e_contact e), en_from = from,
     en_timezone = c_timezone (e_contact e), en_variables = c_variables (e_contact e),
     en_consent_at = nullable_time (c_consent_at (e_contact e)), en_consent_source = c_consent_source (e_contact e),
     en_state = e_state e, en_next_run = nullable_time (e_next_run e), en_variant = e_variant e,
     en_sent_count = e_sent_count e, en_locked = None, en_last_reply = []\<rparr>"

definition q_create_enrollment :: "string \<Rightarrow> string \<Rightarrow> string \<Rightarrow> enrollment \<Rightarrow> (int \<times> bool) stmt" where
  "q_create_enrollment external loc from e now d =
    (let i = db_enrollment_seq d; d' = d\<lparr>db_enrollment_seq := i + 1\<rparr> in
     if list_ex (\<lambda>r. en_location r = loc \<and> en_external r = external) (db_enrollments d) then (Inr (0, False), d')
     else (Inr (i, True), d'\<lparr>db_enrollments := db_enrollments d @ [enrollment_row_of i external loc from e]\<rparr>))"

definition store_create_enrollment ::
  "string \<Rightarrow> string \<Rightarrow> string \<Rightarrow> enrollment \<Rightarrow> ('t, 'h) world \<Rightarrow> (int \<times> bool) result \<times> ('t, 'h) world" where
  "store_create_enrollment external loc from e = sql (q_create_enrollment external loc from e)"

section \<open>Claiming\<close>

definition active_row :: "enrollment_row \<Rightarrow> bool" where
  "active_row r = (en_state r = StatePending \<or> en_state r = StateAwaitingReply)"

definition unlocked :: "time \<Rightarrow> enrollment_row \<Rightarrow> bool" where
  "unlocked now r = (case en_locked r of None \<Rightarrow> True | Some t \<Rightarrow> t < now)"

definition workflow_ready :: "time \<Rightarrow> enrollment_row \<Rightarrow> bool" where
  "workflow_ready now r \<longleftrightarrow>
    active_row r \<and> (case en_next_run r of None \<Rightarrow> False | Some t \<Rightarrow> t \<le> now) \<and> unlocked now r"

definition workflow_order :: "enrollment_row \<Rightarrow> time \<times> int" where
  "workflow_order r = (scan_time (en_next_run r), en_id r)"

definition workflow_lock :: "time \<Rightarrow> enrollment_row \<Rightarrow> enrollment_row" where
  "workflow_lock now r = r\<lparr>en_locked := Some (now + 5 * minute)\<rparr>"

definition q_claim_due :: "workflow_record stmt" where
  "q_claim_due now d =
    (case claim_where en_id workflow_order workflow_ready workflow_lock now (db_enrollments d) of
       None \<Rightarrow> (Inl ErrNoRows, d)
     | Some (r, rows) \<Rightarrow> (Inr (scan_workflow_record r), d\<lparr>db_enrollments := rows\<rparr>))"

definition store_claim_due :: "('t, 'h) world \<Rightarrow> workflow_record result \<times> ('t, 'h) world" where
  "store_claim_due = sql q_claim_due"

text \<open>The statement does not order its rows; here they come in the order of the table.\<close>

definition replied_row :: "string \<Rightarrow> string \<Rightarrow> time \<Rightarrow> enrollment_row \<Rightarrow> bool" where
  "replied_row phone from now r \<longleftrightarrow>
    en_to r = phone \<and> (from = [] \<or> en_from r = from) \<and> active_row r \<and> unlocked now r"

definition q_claim_reply :: "string \<Rightarrow> string \<Rightarrow> workflow_record list stmt" where
  "q_claim_reply phone from now d =
    (Inr (map (\<lambda>r. scan_workflow_record (workflow_lock now r)) (filter (replied_row phone from now) (db_enrollments d))),
     d\<lparr>db_enrollments := update_where (replied_row phone from now) (workflow_lock now) (db_enrollments d)\<rparr>)"

definition store_claim_reply :: "string \<Rightarrow> string \<Rightarrow> ('t, 'h) world \<Rightarrow> workflow_record list result \<times> ('t, 'h) world" where
  "store_claim_reply phone from = sql (q_claim_reply phone from)"

section \<open>The rate limiter\<close>

text \<open>\<open>now\<close> stands for the database's clock, kept to the microsecond, and for the process's.\<close>

definition default_rate :: "rate \<Rightarrow> rate" where
  "default_rate r = (if batch_size r \<le> 0 \<or> rate_per r \<le> 0 then \<lparr>batch_size = 1, rate_per = second\<rparr> else r)"

definition reserve_step :: "rate \<Rightarrow> time \<Rightarrow> time \<times> int \<Rightarrow> time \<times> (time \<times> int)" where
  "reserve_step r now st =
    (let (next, remaining) = st;
         (next, remaining) = (if next < now then (now, batch_size r) else (next, remaining));
         available = next;
         remaining = remaining - 1;
         (next, remaining) = (if remaining \<le> 0 then (next + rate_per r, batch_size r) else (next, remaining))
     in (available, (pg_time next, remaining)))"

definition reserve_workflow_rate :: "string \<Rightarrow> rate \<Rightarrow> time \<Rightarrow> db \<Rightarrow> time \<times> db" where
  "reserve_workflow_rate key rate0 now d =
    (let r = default_rate rate0;
         rows = (if list_ex (\<lambda>x. rl_key x = key) (db_rates d) then db_rates d
                 else db_rates d @ [\<lparr>rl_key = key, rl_next = pg_time now, rl_remaining = batch_size r\<rparr>]);
         st = (case row_of rl_key key rows of
                 Some x \<Rightarrow> (rl_next x, rl_remaining x) | None \<Rightarrow> (pg_time now, batch_size r));
         (available, next, remaining) = reserve_step r now st
     in (available, d\<lparr>db_rates :=
          update_where (\<lambda>x. rl_key x = key) (\<lambda>x. x\<lparr>rl_next := next, rl_remaining := remaining\<rparr>) rows\<rparr>))"

section \<open>Carrying out commands\<close>

text \<open>The strings of the command types, which name the CRM actions that have no name of their own.\<close>

fun command_name :: "command_type \<Rightarrow> string" where
  "command_name CommandSendSMS = ''send_sms''"
| "command_name CommandSuppress = ''suppress''"
| "command_name CommandArchiveConversation = ''archive_conversation''"
| "command_name CommandCRMAction = ''crm_action''"
| "command_name CommandCreateTask = ''create_task''"

definition workflow_message_id :: "workflow_record \<Rightarrow> string" where
  "workflow_message_id w = ''workflow:'' @ show_int (wr_id w) @ '':'' @ show_int (e_sent_count (wr_enrollment w))"

definition workflow_payload :: "workflow_record \<Rightarrow> string \<Rightarrow> payload" where
  "workflow_payload w text =
    (let c = e_contact (wr_enrollment w) in
     [(''contact_id'', JsStr (c_id c)), (''enrollment_id'', JsNum (show_int (wr_id w))), (''from'', JsStr (wr_from w)),
      (''location_id'', JsStr (wr_location w)), (''message_id'', JsStr (workflow_message_id w)),
      (''text'', JsStr text), (''to'', JsStr (c_phone c)),
      (''workflow_key'', JsStr (e_workflow_key (wr_enrollment w)))])"

definition apply_send :: "workflow_record \<Rightarrow> command \<Rightarrow> time \<Rightarrow> db \<Rightarrow> db" where
  "apply_send w c now d =
    (case reserve_workflow_rate (e_workflow_key (wr_enrollment w)) (cmd_rate c) now d of
       (available, d1) \<Rightarrow>
         snd (insert_outbound (wr_location w) (workflow_message_id w) (c_phone (e_contact (wr_enrollment w)))
                (wr_from w) (cmd_body c) (workflow_payload w (cmd_body c)) (Some (wr_id w)) (pg_time available) now d1))"

definition apply_suppress :: "workflow_record \<Rightarrow> db \<Rightarrow> db" where
  "apply_suppress w d =
    (let phone = c_phone (e_contact (wr_enrollment w)) in
     cancel_queued phone (upsert_suppression phone (\<lambda>r. r\<lparr>su_source := ''workflow_reply''\<rparr>)
       \<lparr>su_number = phone, su_source = ''workflow_reply'', su_event = []\<rparr> d))"

definition crm_payload :: "workflow_record \<Rightarrow> string \<Rightarrow> payload" where
  "crm_payload w rep =
    (let c = e_contact (wr_enrollment w) in
     [(''contact_id'', JsStr (c_id c)), (''location_id'', JsStr (wr_location w)), (''phone'', JsStr (c_phone c)),
      (''reply'', JsStr rep)])"

definition apply_crm :: "workflow_record \<Rightarrow> command \<Rightarrow> string \<Rightarrow> time \<Rightarrow> db \<Rightarrow> db" where
  "apply_crm w c rep now d =
    (let action = (if cmd_action c = [] then command_name (cmd_type c) else cmd_action c);
         d' = d\<lparr>db_crm_seq := db_crm_seq d + 1\<rparr>
     in if list_ex (\<lambda>r. cr_enrollment r = wr_id w \<and> cr_action r = action) (db_crm d) then d'
        else d'\<lparr>db_crm := db_crm d @
          [\<lparr>cr_id = db_crm_seq d, cr_enrollment = wr_id w, cr_action = action, cr_body = cmd_body c,
            cr_payload = crm_payload w rep, cr_status = CQueued, cr_attempts = 0, cr_available = now,
            cr_locked = None\<rparr>]\<rparr>)"

definition apply_command :: "workflow_record \<Rightarrow> string \<Rightarrow> time \<Rightarrow> command \<Rightarrow> db \<Rightarrow> db" where
  "apply_command w rep now c d =
    (case cmd_type c of
       CommandSendSMS \<Rightarrow> apply_send w c now d
     | CommandSuppress \<Rightarrow> apply_suppress w d
     | _ \<Rightarrow> apply_crm w c rep now d)"

definition store_enrollment_row :: "workflow_record \<Rightarrow> string \<Rightarrow> enrollment_row \<Rightarrow> enrollment_row" where
  "store_enrollment_row w rep r =
    (let e = wr_enrollment w in
     r\<lparr>en_state := e_state e, en_next_run := nullable_time (e_next_run e), en_variant := e_variant e,
       en_sent_count := e_sent_count e, en_last_reply := (if rep = [] then en_last_reply r else rep),
       en_locked := None\<rparr>)"

definition q_apply_commands :: "workflow_record \<Rightarrow> command list \<Rightarrow> string \<Rightarrow> unit stmt" where
  "q_apply_commands w cmds rep now d =
    (let claimed = (\<lambda>r. en_id r = wr_id w \<and> en_locked r \<noteq> None) in
     if count_where claimed (db_enrollments d) \<noteq> 1
     then (Inl (ErrMsg ''workflow enrollment %d is not claimed'' [show_int (wr_id w)]), d)
     else (Inr (), fold (apply_command w rep now) cmds
             (d\<lparr>db_enrollments := update_where claimed (store_enrollment_row w rep) (db_enrollments d)\<rparr>)))"

definition store_apply_commands ::
  "workflow_record \<Rightarrow> command list \<Rightarrow> string \<Rightarrow> ('t, 'h) world \<Rightarrow> unit result \<times> ('t, 'h) world" where
  "store_apply_commands w cmds rep = sql (q_apply_commands w cmds rep)"

definition update_enrollment :: "int \<Rightarrow> (enrollment_row \<Rightarrow> enrollment_row) \<Rightarrow> db \<Rightarrow> db" where
  "update_enrollment i f d = d\<lparr>db_enrollments := update_where (\<lambda>r. en_id r = i) f (db_enrollments d)\<rparr>"

definition q_fail_workflow :: "int \<Rightarrow> unit stmt" where
  "q_fail_workflow i now d =
    (Inr (), update_enrollment i (\<lambda>r. r\<lparr>en_state := StateFailed, en_next_run := None, en_locked := None\<rparr>) d)"

definition store_fail_workflow :: "int \<Rightarrow> ('t, 'h) world \<Rightarrow> unit result \<times> ('t, 'h) world" where
  "store_fail_workflow i = sql (q_fail_workflow i)"

definition q_retry_workflow :: "int \<Rightarrow> duration \<Rightarrow> unit stmt" where
  "q_retry_workflow i delay now d =
    (Inr (), update_enrollment i (\<lambda>r. r\<lparr>en_next_run := Some (now + delay), en_locked := None\<rparr>) d)"

definition store_retry_workflow :: "int \<Rightarrow> duration \<Rightarrow> ('t, 'h) world \<Rightarrow> unit result \<times> ('t, 'h) world" where
  "store_retry_workflow i delay = sql (q_retry_workflow i delay)"

section \<open>Lemmas\<close>

interpretation workflow_q: lease_queue en_id workflow_order workflow_ready workflow_lock "5 * minute"
  by unfold_locales (auto simp: workflow_lock_def workflow_ready_def unlocked_def)

lemma snd_q_claim_due: "snd (q_claim_due now d) =
    (case claim_where en_id workflow_order workflow_ready workflow_lock now (db_enrollments d) of
       None \<Rightarrow> d | Some (_, rows) \<Rightarrow> d\<lparr>db_enrollments := rows\<rparr>)"
  by (simp add: q_claim_due_def split: option.split)

lemma db_ok_enrollments [db_ok_intros]:
  assumes "db_ok d" and "map en_id rows = map en_id (db_enrollments d)"
    and "map (\<lambda>r. (en_location r, en_external r)) rows = map (\<lambda>r. (en_location r, en_external r)) (db_enrollments d)"
  shows "db_ok (d\<lparr>db_enrollments := rows\<rparr>)"
  using assms keys_ball[OF assms(2), of "\<lambda>i. i < db_enrollment_seq d"] by (simp add: db_ok_def)

lemma db_ok_rates [db_ok_intros]: "db_ok d \<Longrightarrow> distinct (map rl_key rows) \<Longrightarrow> db_ok (d\<lparr>db_rates := rows\<rparr>)"
  by (simp add: db_ok_def)

lemma update_enrollment_ok:
  "db_ok d \<Longrightarrow> (\<And>r. en_id (f r) = en_id r \<and> en_location (f r) = en_location r \<and> en_external (f r) = en_external r)
   \<Longrightarrow> db_ok (update_enrollment i f d)"
  by (auto simp: update_enrollment_def map_update_where intro: db_ok_intros)

lemma q_create_enrollment_ok: "db_ok d \<Longrightarrow> db_ok (snd (q_create_enrollment external loc from e now d))"
  by (auto simp: q_create_enrollment_def enrollment_row_of_def Let_def db_ok_def list_ex_iff)

lemma q_claim_due_ok: "db_ok d \<Longrightarrow> db_ok (snd (q_claim_due now d))"
  by (auto simp: snd_q_claim_due claim_where_def map_update_where workflow_lock_def intro!: db_ok_intros split: option.split)

lemma q_claim_reply_ok: "db_ok d \<Longrightarrow> db_ok (snd (q_claim_reply phone from now d))"
  by (auto simp: q_claim_reply_def map_update_where workflow_lock_def intro!: db_ok_intros)

lemma reserve_rate_ok: "db_ok d \<Longrightarrow> db_ok (snd (reserve_workflow_rate key r now d))"
  by (auto simp: reserve_workflow_rate_def Let_def map_update_where list_ex_iff split: prod.split intro!: db_ok_intros)
     (auto simp: db_ok_def)

lemma apply_send_ok: "db_ok d \<Longrightarrow> db_ok (apply_send w c now d)"
  using reserve_rate_ok by (auto simp: apply_send_def intro!: db_ok_insert_outbound split: prod.split) (metis snd_conv)

lemma apply_suppress_ok: "db_ok d \<Longrightarrow> db_ok (apply_suppress w d)"
  by (simp add: apply_suppress_def Let_def cancel_queued_ok upsert_suppression_ok)

lemma apply_crm_ok: "db_ok d \<Longrightarrow> db_ok (apply_crm w c rep now d)"
  by (auto simp: apply_crm_def Let_def db_ok_def list_ex_iff)

lemma apply_command_ok: "db_ok d \<Longrightarrow> db_ok (apply_command w rep now c d)"
  by (simp add: apply_command_def apply_send_ok apply_suppress_ok apply_crm_ok split: command_type.split)

lemma fold_invariant: "P d \<Longrightarrow> (\<And>x d. P d \<Longrightarrow> P (f x d)) \<Longrightarrow> P (fold f xs d)"
  by (induction xs arbitrary: d) auto

lemma q_apply_commands_ok: "db_ok d \<Longrightarrow> db_ok (snd (q_apply_commands w cmds rep now d))"
  by (auto simp: q_apply_commands_def map_update_where store_enrollment_row_def Let_def
      intro!: fold_invariant[where P = db_ok] apply_command_ok db_ok_intros)

lemma q_fail_workflow_ok: "db_ok d \<Longrightarrow> db_ok (snd (q_fail_workflow i now d))"
  by (simp add: q_fail_workflow_def update_enrollment_ok)

lemma q_retry_workflow_ok: "db_ok d \<Longrightarrow> db_ok (snd (q_retry_workflow i delay now d))"
  by (simp add: q_retry_workflow_def update_enrollment_ok)

lemmas workflow_ok = q_create_enrollment_ok q_claim_due_ok q_claim_reply_ok q_apply_commands_ok
  q_fail_workflow_ok q_retry_workflow_ok

text \<open>Suppressions are only added; the pause is never touched.\<close>

lemma reserve_rate_frame [frame_simps]:
  "db_suppressions (snd (reserve_workflow_rate key r now d)) = db_suppressions d"
  "db_sending_paused (snd (reserve_workflow_rate key r now d)) = db_sending_paused d"
  "db_outbound (snd (reserve_workflow_rate key r now d)) = db_outbound d"
  "db_outbound_seq (snd (reserve_workflow_rate key r now d)) = db_outbound_seq d"
  "db_enrollments (snd (reserve_workflow_rate key r now d)) = db_enrollments d"
  by (simp_all add: reserve_workflow_rate_def Let_def split: prod.split)

lemma apply_send_frame [frame_simps]:
  "db_suppressions (apply_send w c now d) = db_suppressions d"
  "db_sending_paused (apply_send w c now d) = db_sending_paused d"
  by (simp_all add: apply_send_def case_prod_beta frame_simps)

lemma apply_crm_frame [frame_simps]:
  "db_suppressions (apply_crm w c rep now d) = db_suppressions d"
  "db_sending_paused (apply_crm w c rep now d) = db_sending_paused d"
  by (simp_all add: apply_crm_def Let_def)

lemma suppressed_apply_suppress [frame_simps]:
  "suppressed (apply_suppress w d) n \<longleftrightarrow> n = c_phone (e_contact (wr_enrollment w)) \<or> suppressed d n"
  by (simp add: apply_suppress_def Let_def suppressed_frame[OF outbound_suppressions(3)] suppressed_upsert)

lemma apply_suppress_paused [frame_simps]: "db_sending_paused (apply_suppress w d) = db_sending_paused d"
  by (simp add: apply_suppress_def Let_def frame_simps)

lemma suppressed_apply_command: "suppressed d n \<Longrightarrow> suppressed (apply_command w rep now c d) n"
  by (auto simp: apply_command_def frame_simps suppressed_frame[OF apply_send_frame(1)]
      suppressed_frame[OF apply_crm_frame(1)] split: command_type.split)

lemma paused_apply_command: "db_sending_paused (apply_command w rep now c d) = db_sending_paused d"
  by (auto simp: apply_command_def frame_simps split: command_type.split)

lemma suppressed_q_apply: "suppressed d n \<Longrightarrow> suppressed (snd (q_apply_commands w cmds rep now d)) n"
  by (auto simp: q_apply_commands_def Let_def suppressed_def
      intro!: fold_invariant[where P = "\<lambda>d. suppressed d n", unfolded suppressed_def]
        suppressed_apply_command[unfolded suppressed_def])

lemma paused_q_apply [frame_simps]: "db_sending_paused (snd (q_apply_commands w cmds rep now d)) = db_sending_paused d"
  by (auto simp: q_apply_commands_def Let_def paused_apply_command
      intro!: fold_invariant[where P = "\<lambda>d'. db_sending_paused d' = db_sending_paused d"])

lemma workflow_suppressions [frame_simps]:
  "db_suppressions (snd (q_create_enrollment external loc from e now d)) = db_suppressions d"
  "db_suppressions (snd (q_claim_due now d)) = db_suppressions d"
  "db_suppressions (snd (q_claim_reply phone from now d)) = db_suppressions d"
  "db_suppressions (snd (q_fail_workflow i now d)) = db_suppressions d"
  "db_suppressions (snd (q_retry_workflow i delay now d)) = db_suppressions d"
  by (simp_all add: q_create_enrollment_def snd_q_claim_due q_claim_reply_def q_fail_workflow_def
      q_retry_workflow_def update_enrollment_def Let_def split: option.split)

lemma workflow_paused [frame_simps]:
  "db_sending_paused (snd (q_create_enrollment external loc from e now d)) = db_sending_paused d"
  "db_sending_paused (snd (q_claim_due now d)) = db_sending_paused d"
  "db_sending_paused (snd (q_claim_reply phone from now d)) = db_sending_paused d"
  "db_sending_paused (snd (q_fail_workflow i now d)) = db_sending_paused d"
  "db_sending_paused (snd (q_retry_workflow i delay now d)) = db_sending_paused d"
  by (simp_all add: q_create_enrollment_def snd_q_claim_due q_claim_reply_def q_fail_workflow_def
      q_retry_workflow_def update_enrollment_def Let_def split: option.split)

section \<open>Properties\<close>

text \<open>Reservations one after the other, at the given times.\<close>

fun reserve_run :: "string \<Rightarrow> rate \<Rightarrow> time list \<Rightarrow> db \<Rightarrow> time list" where
  "reserve_run key r [] d = []"
| "reserve_run key r (now # nows) d =
    (case reserve_workflow_rate key r now d of (t, d') \<Rightarrow> pg_time t # reserve_run key r nows d')"

definition rate_state :: "string \<Rightarrow> db \<Rightarrow> (time \<times> int) option" where
  "rate_state key d = map_option (\<lambda>x. (rl_next x, rl_remaining x)) (row_of rl_key key (db_rates d))"

lemma row_of_update:
  "(\<And>x. key (f x) = key x) \<Longrightarrow> row_of key k (update_where (\<lambda>x. key x = k) f rows) = map_option f (row_of key k rows)"
  unfolding row_of_def by (induction rows) (auto simp: table_simps)

lemma row_of_update_any:
  "(\<And>x. key (f x) = key x) \<Longrightarrow>
   row_of key i (update_where (\<lambda>x. key x = k) f rows) = (if i = k then map_option f (row_of key i rows) else row_of key i rows)"
  unfolding row_of_def by (induction rows) (auto simp: table_simps)

lemma list_ex_row_of: "list_ex (\<lambda>x. key x = k) rows \<longleftrightarrow> row_of key k rows \<noteq> None"
  by (auto simp: list_ex_iff row_of_None)

lemma reserve_rate_step:
  assumes "0 < batch_size r" and "0 < rate_per r"
    and "st = (case rate_state key d of None \<Rightarrow> (pg_time now, batch_size r) | Some s \<Rightarrow> s)"
  shows "fst (reserve_workflow_rate key r now d) = fst (reserve_step r now st)"
    and "rate_state key (snd (reserve_workflow_rate key r now d)) = Some (snd (reserve_step r now st))"
  using assms
  by (auto simp: reserve_workflow_rate_def rate_state_def default_rate_def Let_def row_of_update row_of_append
      list_ex_row_of case_prod_beta split: option.splits)

lemma reserve_run_step:
  assumes "0 < batch_size r" and "0 < rate_per r"
    and "st = (case rate_state key d of None \<Rightarrow> (pg_time now, batch_size r) | Some s \<Rightarrow> s)"
  shows "\<exists>d'. reserve_run key r (now # nows) d = pg_time (fst (reserve_step r now st)) # reserve_run key r nows d' \<and>
    rate_state key d' = Some (snd (reserve_step r now st))"
  using reserve_rate_step[OF assms] by (auto simp: case_prod_beta)

lemma pg_time_add: "p mod 1000 = 0 \<Longrightarrow> pg_time (t + p) = pg_time t + p"
  by (simp add: pg_time_def mod_add_eq) (metis add.right_neutral mod_add_right_eq)

lemma reserve_step_single:
  fixes nx now :: time
  assumes "batch_size r = 1" "rem \<le> 1" "rate_per r mod 1000 = 0"
  shows "nx \<le> fst (reserve_step r now (nx, rem))"
    and "snd (reserve_step r now (nx, rem)) = (pg_time (fst (reserve_step r now (nx, rem))) + rate_per r, 1)"
  using assms by (auto simp: reserve_step_def Let_def pg_time_add)

lemma reserve_run_single:
  assumes "batch_size r = 1" and "0 < rate_per r" and "rate_per r mod 1000 = 0"
    and "rate_state key d = Some (nx, rem)" and "rem \<le> 1"
  shows "successively (\<lambda>a b. a + rate_per r \<le> b) (reserve_run key r nows d) \<and>
    (\<forall>t \<in> set (take 1 (reserve_run key r nows d)). pg_time nx \<le> t)"
  using assms(4,5)
proof (induction nows arbitrary: d nx rem)
  case Nil
  then show ?case by simp
next
  case (Cons now nows)
  let ?a = "fst (reserve_step r now (nx, rem))"
  obtain d' where run: "reserve_run key r (now # nows) d = pg_time ?a # reserve_run key r nows d'"
    and st: "rate_state key d' = Some (snd (reserve_step r now (nx, rem)))"
    using reserve_run_step[of r "(nx, rem)" now key d nows] assms(1,2) Cons.prems(1) by auto
  note step = reserve_step_single[OF assms(1) Cons.prems(2) assms(3), where nx = nx and now = now]
  have "rate_state key d' = Some (pg_time ?a + rate_per r, 1)" using st step(2) by simp
  from Cons.IH[OF this] have IH: "successively (\<lambda>a b. a + rate_per r \<le> b) (reserve_run key r nows d')"
    "\<forall>t \<in> set (take 1 (reserve_run key r nows d')). pg_time (pg_time ?a + rate_per r) \<le> t" by auto
  have "pg_time (pg_time ?a + rate_per r) = pg_time ?a + rate_per r" by (simp add: pg_time_add assms(3))
  with IH run pg_time_mono[OF step(1)] show ?case
    by (cases "reserve_run key r nows d'") auto
qed

text \<open>
  C33. A workflow limited to one message per period is really limited: however many enrollments ask
  for a slot and whatever the clock does, the stored sending times of two successive messages are
  at least a period apart.
\<close>

theorem rate_limit_spacing:
  assumes "batch_size r = 1" and "0 < rate_per r" and "rate_per r mod 1000 = 0"
    and "row_of rl_key key (db_rates d) = None"
  shows "successively (\<lambda>a b. a + rate_per r \<le> b) (reserve_run key r nows d)"
proof (cases nows)
  case Nil
  then show ?thesis by simp
next
  case (Cons now rest)
  let ?st = "(pg_time now, 1)" let ?a = "fst (reserve_step r now ?st)"
  have none: "rate_state key d = None" using assms(4) by (simp add: rate_state_def)
  obtain d' where run: "reserve_run key r nows d = pg_time ?a # reserve_run key r rest d'"
    and st: "rate_state key d' = Some (snd (reserve_step r now ?st))"
    using reserve_run_step[of r ?st now key d rest] assms(1,2) none Cons by auto
  note step = reserve_step_single[OF assms(1) _ assms(3), where rem = 1 and nx = "pg_time now" and now = now]
  have "rate_state key d' = Some (pg_time ?a + rate_per r, 1)" using st step(2) by simp
  from reserve_run_single[OF assms(1-3) this, of rest] run pg_time_add[OF assms(3), of "pg_time ?a"] show ?thesis
    by (cases "reserve_run key r rest d'") auto
qed

theorem rate_limit_spacing_witness:
  "successively (\<lambda>a b. a + 135 * second \<le> b)
     (reserve_run ''sms-blast'' \<lparr>batch_size = 1, rate_per = 135 * second\<rparr> [7, 7, 9] empty_db)"
  using rate_limit_spacing[of "\<lparr>batch_size = 1, rate_per = 135 * second\<rparr>" "''sms-blast''" empty_db "[7, 7, 9]"]
  by (simp add: empty_db_def row_of_def)

text \<open>
  C39. A workflow allowed more than one message per period is not limited at all: as long as each
  request comes at a later instant than the one before, every message may be sent at once, however
  many there are and however short the time. (The slot's start is overwritten with the current time
  on every request, which also refills the batch.)
\<close>

theorem rate_limit_batch_unlimited:
  assumes "1 < batch_size r" and "0 < rate_per r" and "sorted_wrt (<) nows"
    and "row_of rl_key key (db_rates d) = None"
  shows "reserve_run key r nows d = map pg_time nows"
proof -
  have run: "reserve_run key r nows d = map pg_time nows"
    if "sorted_wrt (<) nows" "case rate_state key d of None \<Rightarrow> True | Some (nx, _) \<Rightarrow> (\<forall>t \<in> set nows. nx < t)"
    for nows d using that
  proof (induction nows arbitrary: d)
    case Nil
    then show ?case by simp
  next
    case (Cons now nows)
    let ?st = "case rate_state key d of None \<Rightarrow> (pg_time now, batch_size r) | Some s \<Rightarrow> s"
    obtain d' where d': "reserve_run key r (now # nows) d = pg_time (fst (reserve_step r now ?st)) # reserve_run key r nows d'"
      "rate_state key d' = Some (snd (reserve_step r now ?st))"
      using reserve_run_step[of r ?st now key d nows] assms(1,2) by auto
    have step: "pg_time (fst (reserve_step r now ?st)) = pg_time now \<and> fst (snd (reserve_step r now ?st)) = pg_time now"
      using Cons.prems(2) assms(1) pg_time_le[of now]
      by (auto simp: reserve_step_def Let_def split: option.splits prod.splits)
    have "\<forall>t \<in> set nows. pg_time now < t" using Cons.prems(1) pg_time_le[of now] by fastforce
    then have "reserve_run key r nows d' = map pg_time nows"
      using Cons.prems(1) step d'(2) by (intro Cons.IH) (auto split: option.splits prod.splits)
    with d'(1) step show ?case by simp
  qed
  show ?thesis by (rule run[OF assms(3)]) (simp add: rate_state_def assms(4))
qed

theorem rate_limit_batch_unlimited_witness:
  "reserve_run ''sms-blast-full-address'' \<lparr>batch_size = 7, rate_per = minute\<rparr> (map (\<lambda>n. 1000 * n) [1..10]) empty_db =
     map (\<lambda>n. 1000 * n) [1..10]"
  using rate_limit_batch_unlimited[of "\<lparr>batch_size = 7, rate_per = minute\<rparr>" "map (\<lambda>n. 1000 * n) [1..10]"
      "''sms-blast-full-address''" empty_db]
  by (simp add: empty_db_def row_of_def upto.simps pg_time_def)


text \<open>Carrying out commands leaves the enrollments alone.\<close>

lemma apply_command_enrollments: "db_enrollments (apply_command w rep now c d) = db_enrollments d"
  by (auto simp: apply_command_def apply_send_def apply_suppress_def apply_crm_def Let_def insert_outbound_def
      cancel_queued_def upsert_suppression_def case_prod_beta frame_simps split: command_type.split)

lemma fold_apply_enrollments: "db_enrollments (fold (apply_command w rep now) cmds d) = db_enrollments d"
  by (rule fold_invariant[where P = "\<lambda>d'. db_enrollments d' = db_enrollments d"]) (simp_all add: apply_command_enrollments)

lemma count_where_0: "count_where p rows = 0 \<longleftrightarrow> (\<forall>r \<in> set rows. \<not> p r)"
  by (simp add: count_where_def filter_empty_conv)

lemma apply_unclaimed:
  "count_where (\<lambda>r. en_id r = wr_id w \<and> en_locked r \<noteq> None) (db_enrollments d) = 0 \<Longrightarrow>
   \<exists>e. q_apply_commands w cmds rep now d = (Inl e, d)"
  by (simp add: q_apply_commands_def Let_def)

text \<open>
  C11. The commands computed for an enrollment are carried out at most once per claim: after a
  successful \<open>ApplyWorkflowCommands\<close> a second one for the same enrollment, from whatever worker,
  fails and changes nothing until the enrollment is claimed again.
\<close>

theorem apply_commands_once:
  assumes "fst (q_apply_commands w cmds rep now d) = Inr ()" and "wr_id w' = wr_id w"
  shows "\<exists>e. q_apply_commands w' cmds' rep' t (snd (q_apply_commands w cmds rep now d)) =
    (Inl e, snd (q_apply_commands w cmds rep now d))"
proof -
  let ?p = "\<lambda>r. en_id r = wr_id w \<and> en_locked r \<noteq> None"
  let ?d' = "snd (q_apply_commands w cmds rep now d)"
  have "db_enrollments ?d' = update_where ?p (store_enrollment_row w rep) (db_enrollments d)"
    using assms(1) by (auto simp: q_apply_commands_def Let_def fold_apply_enrollments split: if_splits)
  then have "count_where ?p (db_enrollments ?d') = 0"
    by (auto simp: count_where_0 in_update_where store_enrollment_row_def Let_def)
  then show ?thesis using apply_unclaimed[of w' ?d'] assms(2) by simp
qed

text \<open>What the database keeps of an enrollment: times to the microsecond.\<close>

definition stored_enrollment :: "enrollment \<Rightarrow> enrollment" where
  "stored_enrollment e = e\<lparr>e_next_run := scan_time (nullable_time (e_next_run e)),
     e_contact := (e_contact e)\<lparr>c_consent_at := scan_time (nullable_time (c_consent_at (e_contact e)))\<rparr>\<rparr>"

lemma scan_nullable: "t mod 1000 = 0 \<Longrightarrow> scan_time (nullable_time t) = t"
  by (auto simp: scan_time_def nullable_time_def is_zero_def pg_time_def)

lemma stored_enrollment_exact:
  "e_next_run e mod 1000 = 0 \<Longrightarrow> c_consent_at (e_contact e) mod 1000 = 0 \<Longrightarrow> stored_enrollment e = e"
  by (simp add: stored_enrollment_def scan_nullable)

lemma scan_enrollment_row_of:
  "scan_workflow_record (enrollment_row_of i external loc from (e :: enrollment)) =
    \<lparr>wr_id = i, wr_external = external, wr_location = loc, wr_from = from, wr_enrollment = stored_enrollment e\<rparr>"
  by (simp add: scan_workflow_record_def enrollment_row_of_def stored_enrollment_def)

lemma scan_workflow_lock: "scan_workflow_record (workflow_lock now r) = scan_workflow_record r"
  by (simp add: scan_workflow_record_def workflow_lock_def)


definition sample_wf_enrollment :: enrollment where
  "sample_wf_enrollment = \<lparr>e_workflow_key = ''sms-v2'', e_contact = \<lparr>c_id = ''c1'', c_phone = ''+13135550101'',
     c_timezone = [], c_consent_at = second, c_consent_source = ''form'', c_variables = []\<rparr>,
     e_state = StatePending, e_next_run = 1500, e_variant = 0, e_sent_count = 0\<rparr>"

definition sample_wf_db :: db where
  "sample_wf_db = snd (q_create_enrollment ''x1'' ''loc'' ''+13135550100'' sample_wf_enrollment 5 empty_db)"

lemma sample_wf_claim: "\<exists>w. fst (q_claim_due 2000 sample_wf_db) = Inr w \<and> wr_id w = 1"
  by (simp add: q_claim_due_def claim_where_def select_first_def sample_wf_db_def q_create_enrollment_def empty_db_def
      sample_wf_enrollment_def enrollment_row_of_def workflow_ready_def active_row_def unlocked_def nullable_time_def
      is_zero_def zero_time_def pg_time_def workflow_lock_def scan_workflow_record_def)


definition sample_wf_record :: workflow_record where
  "sample_wf_record = \<lparr>wr_id = 1, wr_external = ''x1'', wr_location = ''loc'',
     wr_from = ''+13135550100'', wr_enrollment = sample_wf_enrollment\<rparr>"

theorem apply_commands_once_witness:
  "\<exists>e. q_apply_commands sample_wf_record [] [] 4000
      (snd (q_apply_commands sample_wf_record [] [] 3000 (snd (q_claim_due 2000 sample_wf_db)))) =
    (Inl e, snd (q_apply_commands sample_wf_record [] [] 3000 (snd (q_claim_due 2000 sample_wf_db))))"
proof -
  have "fst (q_apply_commands sample_wf_record [] [] 3000 (snd (q_claim_due 2000 sample_wf_db))) = Inr ()"
    by (simp add: q_apply_commands_def sample_wf_record_def q_claim_due_def claim_where_def select_first_def
      sample_wf_db_def q_create_enrollment_def empty_db_def sample_wf_enrollment_def enrollment_row_of_def
      workflow_ready_def active_row_def unlocked_def nullable_time_def is_zero_def zero_time_def pg_time_def
      workflow_lock_def update_where_def count_where_def)
  from apply_commands_once[OF this refl] show ?thesis .
qed

end
