(* ===== verification/StoreAdmin.thy ===== *)
theory StoreAdmin
  imports StoreWorkflow
begin

text \<open>
  The rest of the store: the CRM queue (\<^verbatim>\<open>internal/store/crm.go\<close>), the administrator's operations
  (\<^verbatim>\<open>admin.go\<close>), the OAuth tokens (\<^verbatim>\<open>oauth.go\<close>) and the one-time OAuth states
  (\<^verbatim>\<open>oauth_state.go\<close>).
\<close>

section \<open>CRM jobs\<close>

record crm_task =
  ct_id :: int
  ct_enrollment :: int
  ct_action :: string
  ct_body :: string
  ct_contact :: string
  ct_location :: string
  ct_phone :: string
  ct_reply :: string
  ct_attempts :: int

definition crm_ready :: "time \<Rightarrow> crm_row \<Rightarrow> bool" where
  "crm_ready now r \<longleftrightarrow>
    (cr_status r = CQueued \<and> cr_available r \<le> now) \<or>
    (cr_status r = CRunning \<and> (case cr_locked r of None \<Rightarrow> False | Some t \<Rightarrow> t < now))"

definition crm_order :: "crm_row \<Rightarrow> time \<times> int" where
  "crm_order r = (cr_available r, cr_id r)"

definition crm_lock :: "time \<Rightarrow> crm_row \<Rightarrow> crm_row" where
  "crm_lock now r = r\<lparr>cr_status := CRunning, cr_attempts := cr_attempts r + 1, cr_locked := Some (now + 2 * minute)\<rparr>"

text \<open>A decoding error of the payload is ignored; the fields read so far stay.\<close>

definition scan_crm :: "crm_row \<Rightarrow> crm_task" where
  "scan_crm r =
    (let field = (\<lambda>name. fst (decode_str name [] (cr_payload r))) in
     \<lparr>ct_id = cr_id r, ct_enrollment = cr_enrollment r, ct_action = cr_action r, ct_body = cr_body r,
      ct_contact = field ''contact_id'', ct_location = field ''location_id'', ct_phone = field ''phone'',
      ct_reply = field ''reply'', ct_attempts = cr_attempts r\<rparr>)"

definition q_claim_crm :: "crm_task stmt" where
  "q_claim_crm now d =
    (case claim_where cr_id crm_order crm_ready crm_lock now (db_crm d) of
       None \<Rightarrow> (Inl ErrNoRows, d)
     | Some (r, rows) \<Rightarrow> (Inr (scan_crm r), d\<lparr>db_crm := rows\<rparr>))"

definition store_claim_crm :: "('t, 'h) world \<Rightarrow> crm_task result \<times> ('t, 'h) world" where
  "store_claim_crm = sql q_claim_crm"

definition update_crm :: "int \<Rightarrow> (crm_row \<Rightarrow> crm_row) \<Rightarrow> db \<Rightarrow> db" where
  "update_crm i f d = d\<lparr>db_crm := update_where (\<lambda>r. cr_id r = i) f (db_crm d)\<rparr>"

definition q_complete_crm :: "int \<Rightarrow> unit stmt" where
  "q_complete_crm i now d = (Inr (), update_crm i (\<lambda>r. r\<lparr>cr_status := CDone, cr_locked := None\<rparr>) d)"

definition store_complete_crm :: "int \<Rightarrow> ('t, 'h) world \<Rightarrow> unit result \<times> ('t, 'h) world" where
  "store_complete_crm i = sql (q_complete_crm i)"

definition q_retry_crm :: "int \<Rightarrow> duration \<Rightarrow> unit stmt" where
  "q_retry_crm i delay now d =
    (Inr (), update_crm i (\<lambda>r. r\<lparr>cr_status := CQueued, cr_available := now + delay, cr_locked := None\<rparr>) d)"

definition store_retry_crm :: "int \<Rightarrow> duration \<Rightarrow> ('t, 'h) world \<Rightarrow> unit result \<times> ('t, 'h) world" where
  "store_retry_crm i delay = sql (q_retry_crm i delay)"

definition q_fail_crm :: "int \<Rightarrow> unit stmt" where
  "q_fail_crm i now d = (Inr (), update_crm i (\<lambda>r. r\<lparr>cr_status := CFailed, cr_locked := None\<rparr>) d)"

definition store_fail_crm :: "int \<Rightarrow> ('t, 'h) world \<Rightarrow> unit result \<times> ('t, 'h) world" where
  "store_fail_crm i = sql (q_fail_crm i)"

interpretation crm_q: lease_queue cr_id crm_order crm_ready crm_lock "2 * minute"
  by unfold_locales (auto simp: crm_lock_def crm_ready_def)

section \<open>Administration\<close>

record queue_counts =
  qc_queued_outbound :: nat
  qc_sending_outbound :: nat
  qc_failed_outbound :: nat
  qc_queued_crm :: nat
  qc_failed_crm :: nat
  qc_failed_inbound :: nat
  qc_failed_delivery :: nat
  qc_suppressions :: nat
  qc_active_enrollments :: nat
  qc_token_present :: bool
  qc_expires_at :: time
  qc_has_expiry :: bool

definition q_set_paused :: "bool \<Rightarrow> unit stmt" where
  "q_set_paused paused now d = (Inr (), d\<lparr>db_sending_paused := paused\<rparr>)"

definition store_set_paused :: "bool \<Rightarrow> ('t, 'h) world \<Rightarrow> unit result \<times> ('t, 'h) world" where
  "store_set_paused paused = sql (q_set_paused paused)"

definition q_record_admin :: "string \<Rightarrow> payload \<Rightarrow> unit stmt" where
  "q_record_admin action detail now d =
    (Inr (), d\<lparr>db_audit := db_audit d @ [\<lparr>au_action = action, au_detail = detail\<rparr>]\<rparr>)"

definition store_record_admin :: "string \<Rightarrow> payload \<Rightarrow> ('t, 'h) world \<Rightarrow> unit result \<times> ('t, 'h) world" where
  "store_record_admin action detail = sql (q_record_admin action detail)"

definition q_counts :: "queue_counts stmt" where
  "q_counts now d =
    (Inr \<lparr>qc_queued_outbound = count_where (\<lambda>r. ob_status r = Queued) (db_outbound d),
          qc_sending_outbound = count_where (\<lambda>r. ob_status r = Sending) (db_outbound d),
          qc_failed_outbound = count_where (\<lambda>r. ob_status r = Failed) (db_outbound d),
          qc_queued_crm = count_where (\<lambda>r. cr_status r = CQueued \<or> cr_status r = CRunning) (db_crm d),
          qc_failed_crm = count_where (\<lambda>r. cr_status r = CFailed) (db_crm d),
          qc_failed_inbound = count_where (\<lambda>r. in_failed r \<noteq> None) (db_inbound d),
          qc_failed_delivery = count_where (\<lambda>r. de_failed r \<noteq> None) (db_delivery d),
          qc_suppressions = length (db_suppressions d),
          qc_active_enrollments = count_where active_row (db_enrollments d),
          qc_token_present = False, qc_expires_at = zero_time, qc_has_expiry = False\<rparr>, d)"

definition token_row :: "string \<Rightarrow> string \<Rightarrow> oauth_token \<Rightarrow> bool" where
  "token_row provider loc r \<longleftrightarrow> oa_provider r = provider \<and> oa_location r = loc"

definition q_expires :: "string \<Rightarrow> time stmt" where
  "q_expires loc now d =
    (case find (token_row ''highlevel'' loc) (db_oauth_tokens d) of
       None \<Rightarrow> (Inl ErrNoRows, d) | Some r \<Rightarrow> (Inr (oa_expires r), d))"

definition store_queue_counts :: "string \<Rightarrow> ('t, 'h) world \<Rightarrow> queue_counts result \<times> ('t, 'h) world" where
  "store_queue_counts loc w =
    (case sql q_counts w of
       (Inl e, w1) \<Rightarrow> (Inl e, w1)
     | (Inr counts, w1) \<Rightarrow>
         if loc = [] then (Inr counts, w1)
         else (case sql (q_expires loc) w1 of
             (Inl ErrNoRows, w2) \<Rightarrow> (Inr counts, w2)
           | (Inl e, w2) \<Rightarrow> (Inl e, w2)
           | (Inr t, w2) \<Rightarrow>
               (Inr (counts\<lparr>qc_token_present := True, qc_expires_at := t, qc_has_expiry := True\<rparr>), w2)))"

section \<open>OAuth tokens\<close>

definition value_or_bearer :: "string \<Rightarrow> string" where
  "value_or_bearer token_type = (if token_type = [] then ''Bearer'' else token_type)"

definition stored_token :: "oauth_token \<Rightarrow> oauth_token" where
  "stored_token t = t\<lparr>oa_token_type := value_or_bearer (oa_token_type t), oa_expires := pg_time (oa_expires t)\<rparr>"

definition q_save_token :: "oauth_token \<Rightarrow> unit stmt" where
  "q_save_token t now d =
    (if list_ex (token_row (oa_provider t) (oa_location t)) (db_oauth_tokens d)
     then (Inr (), d\<lparr>db_oauth_tokens := update_where (token_row (oa_provider t) (oa_location t))
            (\<lambda>r. (stored_token t)\<lparr>oa_refresh := (if oa_refresh t = [] then oa_refresh r else oa_refresh t)\<rparr>)
            (db_oauth_tokens d)\<rparr>)
     else (Inr (), d\<lparr>db_oauth_tokens := db_oauth_tokens d @ [stored_token t]\<rparr>))"

definition store_save_token :: "oauth_token \<Rightarrow> ('t, 'h) world \<Rightarrow> unit result \<times> ('t, 'h) world" where
  "store_save_token t w =
    (if oa_provider t = [] \<or> oa_location t = [] \<or> oa_access t = []
     then (Inl (ErrMsg ''oauth token provider, location, and access token are required'' []), w)
     else sql (q_save_token t) w)"

definition q_load_token :: "string \<Rightarrow> string \<Rightarrow> oauth_token stmt" where
  "q_load_token provider loc now d =
    (case find (token_row provider loc) (db_oauth_tokens d) of
       None \<Rightarrow> (Inl ErrNoRows, d) | Some r \<Rightarrow> (Inr r, d))"

definition store_load_token :: "string \<Rightarrow> string \<Rightarrow> ('t, 'h) world \<Rightarrow> oauth_token result \<times> ('t, 'h) world" where
  "store_load_token provider loc = sql (q_load_token provider loc)"

text \<open>
  \<open>ReplaceOAuthToken\<close> reads the token for update, asks \<open>refresh\<close> for the next one, and writes it,
  all in one transaction. The row it writes is that of the new token's own provider and location.
\<close>

definition complete_token :: "oauth_token \<Rightarrow> oauth_token \<Rightarrow> oauth_token" where
  "complete_token current t =
    t\<lparr>oa_refresh := (if oa_refresh t = [] then oa_refresh current else oa_refresh t),
      oa_location := (if oa_location t = [] then oa_location current else oa_location t),
      oa_provider := (if oa_provider t = [] then oa_provider current else oa_provider t)\<rparr>"

definition q_replace_token :: "string \<Rightarrow> string \<Rightarrow> (oauth_token \<Rightarrow> oauth_token result) \<Rightarrow> oauth_token stmt" where
  "q_replace_token provider loc refresh now d =
    (case find (token_row provider loc) (db_oauth_tokens d) of
       None \<Rightarrow> (Inl ErrNoRows, d)
     | Some current \<Rightarrow>
         (case refresh current of
            Inl e \<Rightarrow> (Inl e, d)
          | Inr t \<Rightarrow>
              if oa_access t = [] then (Inl (ErrMsg ''oauth refresh returned an empty access token'' []), d)
              else let t = complete_token current t in
                (Inr t, d\<lparr>db_oauth_tokens := update_where (token_row (oa_provider t) (oa_location t))
                   (\<lambda>r. stored_token t) (db_oauth_tokens d)\<rparr>)))"

section \<open>OAuth states\<close>

text \<open>The state is the hexadecimal form of 32 random bytes; inserting the same one twice violates the
  primary key.\<close>

definition hex_digit :: "nat \<Rightarrow> char" where
  "hex_digit n = ''0123456789abcdef'' ! (n mod 16)"

definition hex_encode :: "string \<Rightarrow> string" where
  "hex_encode bytes = concat (map (\<lambda>c. [hex_digit (of_char c div 16), hex_digit (of_char c)]) bytes)"

definition q_create_state :: "string \<Rightarrow> duration \<Rightarrow> unit stmt" where
  "q_create_state state ttl now d =
    (if list_ex (\<lambda>r. os_state r = state) (db_oauth_states d) then (Inl ErrDB, d)
     else (Inr (), d\<lparr>db_oauth_states := db_oauth_states d @ [\<lparr>os_state = state, os_expires = now + ttl\<rparr>]\<rparr>))"

text \<open>\<open>rand\<close> is what \<open>rand.Read\<close> filled the buffer with, or its error.\<close>

definition store_create_state ::
  "string result \<Rightarrow> duration \<Rightarrow> ('t, 'h) world \<Rightarrow> string result \<times> ('t, 'h) world" where
  "store_create_state rand ttl w =
    (case rand of
       Inl e \<Rightarrow> (Inl e, w)
     | Inr raw \<Rightarrow> (case sql (q_create_state (hex_encode raw) ttl) w of
           (Inl e, w1) \<Rightarrow> (Inl e, w1) | (Inr _, w1) \<Rightarrow> (Inr (hex_encode raw), w1)))"

definition q_consume_state :: "string \<Rightarrow> unit stmt" where
  "q_consume_state state now d =
    (let hit = (\<lambda>r. os_state r = state \<and> now < os_expires r);
         d' = d\<lparr>db_oauth_states := filter (\<lambda>r. \<not> hit r) (db_oauth_states d)\<rparr>
     in if count_where hit (db_oauth_states d) = 1 then (Inr (), d')
        else (Inl (ErrMsg ''invalid or expired oauth state'' []), d'))"

definition store_consume_state :: "string \<Rightarrow> ('t, 'h) world \<Rightarrow> unit result \<times> ('t, 'h) world" where
  "store_consume_state state = sql (q_consume_state state)"

section \<open>Lemmas\<close>

lemma snd_q_claim_crm: "snd (q_claim_crm now d) =
    (case claim_where cr_id crm_order crm_ready crm_lock now (db_crm d) of
       None \<Rightarrow> d | Some (_, rows) \<Rightarrow> d\<lparr>db_crm := rows\<rparr>)"
  by (simp add: q_claim_crm_def split: option.split)

lemma db_ok_crm [db_ok_intros]:
  assumes "db_ok d" and "map cr_id rows = map cr_id (db_crm d)"
    and "map (\<lambda>r. (cr_enrollment r, cr_action r)) rows = map (\<lambda>r. (cr_enrollment r, cr_action r)) (db_crm d)"
  shows "db_ok (d\<lparr>db_crm := rows\<rparr>)"
  using assms keys_ball[OF assms(2), of "\<lambda>i. i < db_crm_seq d"] by (simp add: db_ok_def)

lemma update_crm_ok:
  "db_ok d \<Longrightarrow> (\<And>r. cr_id (f r) = cr_id r \<and> cr_enrollment (f r) = cr_enrollment r \<and> cr_action (f r) = cr_action r)
   \<Longrightarrow> db_ok (update_crm i f d)"
  by (auto simp: update_crm_def map_update_where intro: db_ok_intros)

lemma q_claim_crm_ok: "db_ok d \<Longrightarrow> db_ok (snd (q_claim_crm now d))"
  by (auto simp: snd_q_claim_crm claim_where_def map_update_where crm_lock_def intro!: db_ok_intros split: option.split)

lemma crm_marks_ok:
  "db_ok d \<Longrightarrow> db_ok (snd (q_complete_crm i now d))" "db_ok d \<Longrightarrow> db_ok (snd (q_retry_crm i delay now d))"
  "db_ok d \<Longrightarrow> db_ok (snd (q_fail_crm i now d))"
  by (simp_all add: q_complete_crm_def q_retry_crm_def q_fail_crm_def update_crm_ok)

lemma q_set_paused_ok: "db_ok d \<Longrightarrow> db_ok (snd (q_set_paused p now d))"
  by (simp add: q_set_paused_def db_ok_def)

lemma q_record_admin_ok: "db_ok d \<Longrightarrow> db_ok (snd (q_record_admin action detail now d))"
  by (simp add: q_record_admin_def db_ok_def)

lemma stored_token_simps [simp]:
  "oa_provider (stored_token t) = oa_provider t" "oa_location (stored_token t) = oa_location t"
  "oa_access (stored_token t) = oa_access t" "oa_refresh (stored_token t) = oa_refresh t"
  by (simp_all add: stored_token_def)

lemma db_ok_tokens: "db_ok d \<Longrightarrow> distinct (map (\<lambda>r. (oa_provider r, oa_location r)) rows) \<Longrightarrow>
  db_ok (d\<lparr>db_oauth_tokens := rows\<rparr>)"
  by (simp add: db_ok_def)

lemma tokens_distinct: "db_ok d \<Longrightarrow> distinct (map (\<lambda>r. (oa_provider r, oa_location r)) (db_oauth_tokens d))"
  by (simp add: db_ok_def)

lemma map_token_update:
  assumes "\<And>r. oa_provider (f r) = p \<and> oa_location (f r) = l"
  shows "map (\<lambda>r. (oa_provider r, oa_location r)) (update_where (token_row p l) f rows) =
    map (\<lambda>r. (oa_provider r, oa_location r)) rows"
  by (rule map_update_where) (simp add: token_row_def assms)

lemma q_save_token_ok: "db_ok d \<Longrightarrow> db_ok (snd (q_save_token t now d))"
  using tokens_distinct[of d]
  by (auto simp: q_save_token_def map_token_update list_ex_iff token_row_def intro!: db_ok_tokens) fastforce

lemma q_replace_token_ok: "db_ok d \<Longrightarrow> db_ok (snd (q_replace_token p l refresh now d))"
  using tokens_distinct[of d]
  by (auto simp: q_replace_token_def Let_def map_token_update intro!: db_ok_tokens split: option.split sum.split)

lemma q_create_state_ok: "db_ok d \<Longrightarrow> db_ok (snd (q_create_state s ttl now d))"
  by (auto simp: q_create_state_def db_ok_def list_ex_iff)

lemma q_consume_state_ok: "db_ok d \<Longrightarrow> db_ok (snd (q_consume_state s now d))"
  by (auto simp: q_consume_state_def Let_def db_ok_def distinct_map_filter)

lemmas admin_ok = q_claim_crm_ok crm_marks_ok q_set_paused_ok q_record_admin_ok q_save_token_ok
  q_replace_token_ok q_create_state_ok q_consume_state_ok

lemma admin_read_frame [simp]:
  "snd (q_counts now d) = d" "snd (q_expires loc now d) = d" "snd (q_load_token p l now d) = d"
  by (simp_all add: q_counts_def q_expires_def q_load_token_def split: option.split)

lemma admin_suppressions [frame_simps]:
  "db_suppressions (snd (q_claim_crm now d)) = db_suppressions d"
  "db_suppressions (snd (q_complete_crm i now d)) = db_suppressions d"
  "db_suppressions (snd (q_retry_crm i delay now d)) = db_suppressions d"
  "db_suppressions (snd (q_fail_crm i now d)) = db_suppressions d"
  "db_suppressions (snd (q_set_paused p now d)) = db_suppressions d"
  "db_suppressions (snd (q_record_admin action detail now d)) = db_suppressions d"
  "db_suppressions (snd (q_save_token t now d)) = db_suppressions d"
  "db_suppressions (snd (q_replace_token pr l refresh now d)) = db_suppressions d"
  "db_suppressions (snd (q_create_state s ttl now d)) = db_suppressions d"
  "db_suppressions (snd (q_consume_state s now d)) = db_suppressions d"
  by (simp_all add: snd_q_claim_crm q_complete_crm_def q_retry_crm_def q_fail_crm_def update_crm_def q_set_paused_def
      q_record_admin_def q_save_token_def q_replace_token_def q_create_state_def q_consume_state_def Let_def
      split: option.split sum.split)

lemma admin_paused [frame_simps]:
  "db_sending_paused (snd (q_claim_crm now d)) = db_sending_paused d"
  "db_sending_paused (snd (q_complete_crm i now d)) = db_sending_paused d"
  "db_sending_paused (snd (q_retry_crm i delay now d)) = db_sending_paused d"
  "db_sending_paused (snd (q_fail_crm i now d)) = db_sending_paused d"
  "db_sending_paused (snd (q_set_paused p now d)) = p"
  "db_sending_paused (snd (q_record_admin action detail now d)) = db_sending_paused d"
  "db_sending_paused (snd (q_save_token t now d)) = db_sending_paused d"
  "db_sending_paused (snd (q_replace_token pr l refresh now d)) = db_sending_paused d"
  "db_sending_paused (snd (q_create_state s ttl now d)) = db_sending_paused d"
  "db_sending_paused (snd (q_consume_state s now d)) = db_sending_paused d"
  by (simp_all add: snd_q_claim_crm q_complete_crm_def q_retry_crm_def q_fail_crm_def update_crm_def q_set_paused_def
      q_record_admin_def q_save_token_def q_replace_token_def q_create_state_def q_consume_state_def Let_def
      split: option.split sum.split)

section \<open>Properties\<close>

text \<open>
  An OAuth state authorises one callback: a fresh state is accepted exactly while its lifetime
  lasts, and once it has been presented (accepted) it is refused for ever after; an unknown state is
  refused and a refused one changes nothing.
\<close>

lemma oauth_state_single_use:
  assumes "\<forall>r \<in> set (db_oauth_states d). os_state r \<noteq> s"
  shows "let d1 = snd (q_create_state s ttl now d); d2 = snd (q_consume_state s t d1) in
      fst (q_create_state s ttl now d) = Inr () \<and>
      is_ok (fst (q_consume_state s t d1)) = (t < now + ttl) \<and>
      (t < now + ttl \<longrightarrow> d2 = d1\<lparr>db_oauth_states := db_oauth_states d\<rparr> \<and>
         \<not> is_ok (fst (q_consume_state s u d2)) \<and> snd (q_consume_state s u d2) = d2) \<and>
      (\<not> t < now + ttl \<longrightarrow> d2 = d1) \<and>
      \<not> is_ok (fst (q_consume_state s t d)) \<and> snd (q_consume_state s t d) = d"
proof -
  let ?hit = "\<lambda>t r. os_state r = s \<and> t < os_expires r"
  have none: "filter (?hit t) (db_oauth_states d) = []" "filter (\<lambda>r. \<not> ?hit t r) (db_oauth_states d) = db_oauth_states d" for t
    using assms by (auto simp: filter_empty_conv filter_id_conv)
  have "\<not> list_ex (\<lambda>r. os_state r = s) (db_oauth_states d)" using assms by (auto simp: list_ex_iff)
  then show ?thesis using none by (simp add: q_create_state_def q_consume_state_def Let_def count_where_def is_ok_def)
qed

lemma fst_load_token: "fst (q_load_token p l u d) =
    (case find (token_row p l) (db_oauth_tokens d) of None \<Rightarrow> Inl ErrNoRows | Some r \<Rightarrow> Inr r)"
  by (simp add: q_load_token_def split: option.split)

text \<open>
  Saving a token and loading it gives back what was saved: the type defaults to Bearer, the
  expiry is cut to the microsecond, and a token response without a refresh token keeps the refresh
  token that was stored before instead of erasing it. The tokens of other locations stay as they
  were.
\<close>

lemma save_load_token:
  "let d' = snd (q_save_token t now d);
       old = (case fst (q_load_token (oa_provider t) (oa_location t) now d) of Inr r \<Rightarrow> oa_refresh r | Inl _ \<Rightarrow> [])
   in fst (q_load_token p l u d') =
        (if p = oa_provider t \<and> l = oa_location t then
           Inr (t\<lparr>oa_token_type := value_or_bearer (oa_token_type t), oa_expires := pg_time (oa_expires t),
                  oa_refresh := (if oa_refresh t = [] then old else oa_refresh t)\<rparr>)
         else fst (q_load_token p l u d))"
proof -
  let ?p = "oa_provider t" let ?l = "oa_location t"
  have find_upd: "find (token_row a b) (update_where (token_row ?p ?l) f rows) =
      (if a = ?p \<and> b = ?l then map_option f (find (token_row a b) rows) else find (token_row a b) rows)"
    if "\<And>r. oa_provider (f r) = ?p \<and> oa_location (f r) = ?l" for a b f rows
    using that by (induction rows) (auto simp: table_simps token_row_def)
  have find_app: "find q (rows @ [x]) = (case find q rows of None \<Rightarrow> (if q x then Some x else None) | Some y \<Rightarrow> Some y)"
    for q rows and x :: oauth_token by (induction rows) auto
  show ?thesis
  proof (cases "find (token_row ?p ?l) (db_oauth_tokens d)")
    case None
    then have "\<not> list_ex (token_row ?p ?l) (db_oauth_tokens d)" by (simp add: find_None_iff list_ex_iff)
    with None show ?thesis
      by (auto simp: q_save_token_def fst_load_token find_app Let_def token_row_def stored_token_def split: option.split)
  next
    case (Some r)
    then have "list_ex (token_row ?p ?l) (db_oauth_tokens d)" by (auto simp: find_Some_iff list_ex_iff)
    with Some show ?thesis
      by (auto simp: q_save_token_def fst_load_token find_upd Let_def stored_token_def)
  qed
qed

end
