(* ===== verification/StoreSteps.thy ===== *)
theory StoreSteps
  imports StoreAdmin
begin

text \<open>
  The store as a state machine: \<open>db_step now d d'\<close> holds when one statement (or transaction) of the
  store, with any arguments and at time \<open>now\<close>, takes the database \<open>d\<close> to \<open>d'\<close>. Whatever processes
  and requests run concurrently, PostgreSQL executes such a sequence, so an invariant of \<open>db_step\<close>
  holds in production, and the assumption that the other processes keep it is justified.
\<close>

inductive db_step :: "time \<Rightarrow> db \<Rightarrow> db \<Rightarrow> bool" where
  enqueue: "db_step now d (snd (q_enqueue o0 now d))"
| suppress: "db_step now d (snd (q_suppress_insert n src ev now d))"
| cancel: "db_step now d (snd (q_suppress_cancel n now d))"
| claim: "db_step now d (snd (q_claim now d))"
| complete: "db_step now d (snd (q_complete i pid now d))"
| retry: "db_step now d (snd (q_retry i delay now d))"
| fail: "db_step now d (snd (q_fail i now d))"
| record_delivery: "db_step now d (snd (q_record_delivery parse event job status now d))"
| update_delivery: "db_step now d (snd (q_update_delivery event pid status now d))"
| claim_delivery: "db_step now d (snd (q_claim_delivery now d))"
| mark_delivery: "db_step now d (snd (q_mark_delivery event now d))"
| retry_delivery: "db_step now d (snd (q_retry_delivery event delay now d))"
| fail_delivery: "db_step now d (snd (q_fail_delivery event now d))"
| record_inbound: "db_step now d (snd (q_record_inbound event from to body now d))"
| claim_inbound: "db_step now d (snd (q_claim_inbound now d))"
| mark_inbound: "db_step now d (snd (q_mark_inbound event now d))"
| retry_inbound: "db_step now d (snd (q_retry_inbound event delay now d))"
| fail_inbound: "db_step now d (snd (q_fail_inbound event now d))"
| resolve_inbound: "db_step now d (snd (q_resolve_inbound event now d))"
| create_enrollment: "db_step now d (snd (q_create_enrollment external loc from e now d))"
| claim_due: "db_step now d (snd (q_claim_due now d))"
| claim_reply: "db_step now d (snd (q_claim_reply phone from now d))"
| apply_commands: "db_step now d (snd (q_apply_commands w cmds rep now d))"
| fail_workflow: "db_step now d (snd (q_fail_workflow i now d))"
| retry_workflow: "db_step now d (snd (q_retry_workflow i delay now d))"
| claim_crm: "db_step now d (snd (q_claim_crm now d))"
| complete_crm: "db_step now d (snd (q_complete_crm i now d))"
| retry_crm: "db_step now d (snd (q_retry_crm i delay now d))"
| fail_crm: "db_step now d (snd (q_fail_crm i now d))"
| set_paused: "db_step now d (snd (q_set_paused p now d))"
| record_admin: "db_step now d (snd (q_record_admin action detail now d))"
| save_token: "db_step now d (snd (q_save_token t now d))"
| replace_token: "db_step now d (snd (q_replace_token pr l refresh now d))"
| create_state: "db_step now d (snd (q_create_state s ttl now d))"
| consume_state: "db_step now d (snd (q_consume_state s now d))"

text \<open>Any number of steps, with a clock that does not go back.\<close>

inductive db_steps :: "time \<Rightarrow> db \<Rightarrow> time \<Rightarrow> db \<Rightarrow> bool" where
  start: "db_steps now d now d"
| wait: "db_steps now d t d1 \<Longrightarrow> t \<le> u \<Longrightarrow> db_steps now d u d1"
| step: "db_steps now d t d1 \<Longrightarrow> db_step t d1 d2 \<Longrightarrow> db_steps now d t d2"

inductive_cases db_stepE: "db_step now d d'"

lemma db_steps_time: "db_steps now d t d' \<Longrightarrow> now \<le> t"
  by (induction rule: db_steps.induct) auto

lemma db_steps_trans: "db_steps t d1 u d2 \<Longrightarrow> db_steps now d t d1 \<Longrightarrow> db_steps now d u d2"
  by (induction rule: db_steps.induct) (auto intro: db_steps.intros)

text \<open>An invariant of the single steps holds after any number of them.\<close>

lemma db_steps_invariant:
  assumes "db_steps now d t d'" and "P d" and "\<And>u d d'. db_step u d d' \<Longrightarrow> P d \<Longrightarrow> P d'"
  shows "P d'"
  using assms(1,2) by (induction rule: db_steps.induct) (auto intro: assms(3))

section \<open>What every statement keeps\<close>

lemma step_ok: "db_step now d d' \<Longrightarrow> db_ok d \<Longrightarrow> db_ok d'"
  by (induction rule: db_step.induct) (simp_all add: outbound_ok inbound_ok workflow_ok admin_ok)

lemma step_suppressed: "db_step now d d' \<Longrightarrow> suppressed d n \<Longrightarrow> suppressed d' n"
proof (induction rule: db_step.induct)
  case suppress
  then show ?case by (simp add: frame_simps)
next
  case apply_commands
  then show ?case by (simp add: suppressed_q_apply)
qed (simp_all add: suppressed_def frame_simps)

text \<open>
  C21. In every database the system can reach from the migrated, empty one, by any interleaving of
  the store's statements from any number of processes, the keys and unique constraints hold, and a
  number that has revoked its consent stays suppressed for ever.
\<close>

theorem store_invariant:
  assumes "db_steps t0 empty_db t d" and "db_steps t d u d'"
  shows "db_ok d \<and> db_ok d' \<and> (\<forall>n. suppressed d n \<longrightarrow> suppressed d' n)"
proof -
  have ok: "db_ok d" using db_steps_invariant[OF assms(1), of db_ok] empty_db_ok step_ok by blast
  then have "db_ok d'" using db_steps_invariant[OF assms(2), of db_ok] step_ok by blast
  moreover have "suppressed d' n" if "suppressed d n" for n
    using db_steps_invariant[OF assms(2), of "\<lambda>d. suppressed d n"] that step_suppressed by blast
  ultimately show ?thesis using ok by blast
qed

lemma store_invariant_reach:
  "db_steps 0 empty_db 5 (snd (q_suppress_insert ''+13135550101'' ''telnyx'' ''e1'' 5 empty_db))"
  by (rule db_steps.step[OF db_steps.wait[OF db_steps.start] db_step.suppress]) simp

theorem store_invariant_witness:
  "suppressed (snd (q_claim 6 (snd (q_suppress_insert ''+13135550101'' ''telnyx'' ''e1'' 5 empty_db)))) ''+13135550101''"
proof -
  let ?d = "snd (q_suppress_insert ''+13135550101'' ''telnyx'' ''e1'' 5 empty_db)"
  have "db_steps 5 ?d 6 (snd (q_claim 6 ?d))"
    by (rule db_steps.step[OF db_steps.wait[OF db_steps.start] db_step.claim]) simp
  from store_invariant[OF store_invariant_reach this] show ?thesis by (simp add: frame_simps)
qed

section \<open>Which statement touches which table\<close>

lemmas statement_defs =
  snd_q_enqueue insert_outbound_def q_suppress_insert_def upsert_suppression_def q_suppress_cancel_def cancel_queued_def
  snd_q_claim q_complete_def q_retry_def q_fail_def update_job_def q_record_delivery_def q_update_delivery_def
  snd_q_claim_delivery q_mark_delivery_def q_retry_delivery_def q_fail_delivery_def update_delivery_row_def
  q_record_inbound_def snd_q_claim_inbound q_mark_inbound_def q_retry_inbound_def q_fail_inbound_def
  q_resolve_inbound_def update_inbound_row_def q_create_enrollment_def snd_q_claim_due q_claim_reply_def
  q_fail_workflow_def q_retry_workflow_def update_enrollment_def snd_q_claim_crm q_complete_crm_def q_retry_crm_def
  q_fail_crm_def update_crm_def q_set_paused_def q_record_admin_def q_save_token_def q_replace_token_def
  q_create_state_def q_consume_state_def Let_def

lemma apply_commands_tables [frame_simps]:
  "db_inbound (apply_command w rep now c d) = db_inbound d"
  "db_delivery (apply_command w rep now c d) = db_delivery d"
  by (auto simp: apply_command_def apply_send_def apply_suppress_def apply_crm_def Let_def insert_outbound_def
      cancel_queued_def upsert_suppression_def case_prod_beta reserve_workflow_rate_def split: command_type.split)

lemma q_apply_commands_tables [frame_simps]:
  "db_inbound (snd (q_apply_commands w cmds rep now d)) = db_inbound d"
  "db_delivery (snd (q_apply_commands w cmds rep now d)) = db_delivery d"
  by (auto simp: q_apply_commands_def Let_def frame_simps
      intro!: fold_invariant[where P = "\<lambda>d'. db_inbound d' = db_inbound d"]
        fold_invariant[where P = "\<lambda>d'. db_delivery d' = db_delivery d"])

lemma outbound_untouched [frame_simps]:
  "db_outbound (snd (q_suppress_insert n src ev now d)) = db_outbound d"
  "db_outbound (snd (q_record_delivery parse event job status now d)) = db_outbound d"
  "db_outbound (snd (q_update_delivery event pid status now d)) = db_outbound d"
  "db_outbound (snd (q_claim_delivery now d)) = db_outbound d"
  "db_outbound (snd (q_mark_delivery event now d)) = db_outbound d"
  "db_outbound (snd (q_retry_delivery event delay now d)) = db_outbound d"
  "db_outbound (snd (q_fail_delivery event now d)) = db_outbound d"
  "db_outbound (snd (q_record_inbound event from to body now d)) = db_outbound d"
  "db_outbound (snd (q_claim_inbound now d)) = db_outbound d"
  "db_outbound (snd (q_mark_inbound event now d)) = db_outbound d"
  "db_outbound (snd (q_retry_inbound event delay now d)) = db_outbound d"
  "db_outbound (snd (q_fail_inbound event now d)) = db_outbound d"
  "db_outbound (snd (q_resolve_inbound event now d)) = db_outbound d"
  "db_outbound (snd (q_create_enrollment external loc from e now d)) = db_outbound d"
  "db_outbound (snd (q_claim_due now d)) = db_outbound d"
  "db_outbound (snd (q_claim_reply phone from now d)) = db_outbound d"
  "db_outbound (snd (q_fail_workflow k now d)) = db_outbound d"
  "db_outbound (snd (q_retry_workflow k delay now d)) = db_outbound d"
  "db_outbound (snd (q_claim_crm now d)) = db_outbound d"
  "db_outbound (snd (q_complete_crm i now d)) = db_outbound d"
  "db_outbound (snd (q_retry_crm i delay now d)) = db_outbound d"
  "db_outbound (snd (q_fail_crm i now d)) = db_outbound d"
  "db_outbound (snd (q_set_paused p now d)) = db_outbound d"
  "db_outbound (snd (q_record_admin action detail now d)) = db_outbound d"
  "db_outbound (snd (q_save_token t now d)) = db_outbound d"
  "db_outbound (snd (q_replace_token pr l refresh now d)) = db_outbound d"
  "db_outbound (snd (q_create_state s ttl now d)) = db_outbound d"
  "db_outbound (snd (q_consume_state s now d)) = db_outbound d"
  by (simp_all add: statement_defs split: option.split sum.split list.split)

lemma inbound_untouched [frame_simps]:
  "db_inbound (snd (q_enqueue o0 now d)) = db_inbound d"
  "db_inbound (snd (q_suppress_insert n src ev now d)) = db_inbound d"
  "db_inbound (snd (q_suppress_cancel n now d)) = db_inbound d"
  "db_inbound (snd (q_claim now d)) = db_inbound d"
  "db_inbound (snd (q_complete i pid now d)) = db_inbound d"
  "db_inbound (snd (q_retry i delay now d)) = db_inbound d"
  "db_inbound (snd (q_fail i now d)) = db_inbound d"
  "db_inbound (snd (q_record_delivery parse event job status now d)) = db_inbound d"
  "db_inbound (snd (q_update_delivery event pid status now d)) = db_inbound d"
  "db_inbound (snd (q_claim_delivery now d)) = db_inbound d"
  "db_inbound (snd (q_mark_delivery event now d)) = db_inbound d"
  "db_inbound (snd (q_retry_delivery event delay now d)) = db_inbound d"
  "db_inbound (snd (q_fail_delivery event now d)) = db_inbound d"
  "db_inbound (snd (q_create_enrollment external loc from e now d)) = db_inbound d"
  "db_inbound (snd (q_claim_due now d)) = db_inbound d"
  "db_inbound (snd (q_claim_reply phone from now d)) = db_inbound d"
  "db_inbound (snd (q_fail_workflow k now d)) = db_inbound d"
  "db_inbound (snd (q_retry_workflow k delay now d)) = db_inbound d"
  "db_inbound (snd (q_claim_crm now d)) = db_inbound d"
  "db_inbound (snd (q_complete_crm i now d)) = db_inbound d"
  "db_inbound (snd (q_retry_crm i delay now d)) = db_inbound d"
  "db_inbound (snd (q_fail_crm i now d)) = db_inbound d"
  "db_inbound (snd (q_set_paused p now d)) = db_inbound d"
  "db_inbound (snd (q_record_admin action detail now d)) = db_inbound d"
  "db_inbound (snd (q_save_token t now d)) = db_inbound d"
  "db_inbound (snd (q_replace_token pr l refresh now d)) = db_inbound d"
  "db_inbound (snd (q_create_state s ttl now d)) = db_inbound d"
  "db_inbound (snd (q_consume_state s now d)) = db_inbound d"
  by (simp_all add: statement_defs split: option.split sum.split list.split)

lemma delivery_untouched [frame_simps]:
  "db_delivery (snd (q_enqueue o0 now d)) = db_delivery d"
  "db_delivery (snd (q_suppress_insert n src ev now d)) = db_delivery d"
  "db_delivery (snd (q_suppress_cancel n now d)) = db_delivery d"
  "db_delivery (snd (q_claim now d)) = db_delivery d"
  "db_delivery (snd (q_retry i delay now d)) = db_delivery d"
  "db_delivery (snd (q_fail i now d)) = db_delivery d"
  "db_delivery (snd (q_record_inbound event from to body now d)) = db_delivery d"
  "db_delivery (snd (q_claim_inbound now d)) = db_delivery d"
  "db_delivery (snd (q_mark_inbound event now d)) = db_delivery d"
  "db_delivery (snd (q_retry_inbound event delay now d)) = db_delivery d"
  "db_delivery (snd (q_fail_inbound event now d)) = db_delivery d"
  "db_delivery (snd (q_resolve_inbound event now d)) = db_delivery d"
  "db_delivery (snd (q_create_enrollment external loc from e now d)) = db_delivery d"
  "db_delivery (snd (q_claim_due now d)) = db_delivery d"
  "db_delivery (snd (q_claim_reply phone from now d)) = db_delivery d"
  "db_delivery (snd (q_fail_workflow k now d)) = db_delivery d"
  "db_delivery (snd (q_retry_workflow k delay now d)) = db_delivery d"
  "db_delivery (snd (q_claim_crm now d)) = db_delivery d"
  "db_delivery (snd (q_complete_crm i now d)) = db_delivery d"
  "db_delivery (snd (q_retry_crm i delay now d)) = db_delivery d"
  "db_delivery (snd (q_fail_crm i now d)) = db_delivery d"
  "db_delivery (snd (q_set_paused p now d)) = db_delivery d"
  "db_delivery (snd (q_record_admin action detail now d)) = db_delivery d"
  "db_delivery (snd (q_save_token t now d)) = db_delivery d"
  "db_delivery (snd (q_replace_token pr l refresh now d)) = db_delivery d"
  "db_delivery (snd (q_create_state s ttl now d)) = db_delivery d"
  "db_delivery (snd (q_consume_state s now d)) = db_delivery d"
  by (simp_all add: statement_defs split: option.split sum.split list.split)

section \<open>Finished events stay finished\<close>

definition inbound_done :: "string \<Rightarrow> db \<Rightarrow> bool" where
  "inbound_done e d \<longleftrightarrow> (\<exists>r \<in> set (db_inbound d). in_event r = e \<and> (in_processed r \<noteq> None \<or> in_failed r \<noteq> None))"

lemma inbound_done_update:
  assumes "inbound_done e d" and "db_inbound d' = update_where p f (db_inbound d)"
    and "\<And>r. in_event (f r) = in_event r \<and> (in_processed r \<noteq> None \<longrightarrow> in_processed (f r) \<noteq> None) \<and>
            (in_failed r \<noteq> None \<longrightarrow> in_failed (f r) \<noteq> None)"
  shows "inbound_done e d'"
proof -
  obtain r where r: "r \<in> set (db_inbound d)" "in_event r = e" "in_processed r \<noteq> None \<or> in_failed r \<noteq> None"
    using assms(1) by (auto simp: inbound_done_def)
  have "(if p r then f r else r) \<in> set (db_inbound d')" using r(1) by (auto simp: assms(2) set_update_where)
  then show ?thesis using r(2,3) assms(3)[of r] unfolding inbound_done_def by (intro bexI) auto
qed

lemma inbound_done_claim: "inbound_done e d \<Longrightarrow> inbound_done e (snd (q_claim_inbound now d))"
  by (auto simp: snd_q_claim_inbound claim_where_def inbound_lock_def split: option.split elim!: inbound_done_update)

lemma inbound_done_record: "inbound_done e d \<Longrightarrow> inbound_done e (snd (q_record_inbound event from to body now d))"
  by (auto simp: q_record_inbound_def inbound_done_def)

lemma step_inbound_done: "db_step now d d' \<Longrightarrow> inbound_done e d \<Longrightarrow> inbound_done e d'"
proof (induction rule: db_step.induct)
  case (record_inbound)
  then show ?case by (rule inbound_done_record)
next
  case claim_inbound
  then show ?case by (rule inbound_done_claim)
next
  case mark_inbound
  then show ?case by (rule inbound_done_update) (auto simp: q_mark_inbound_def update_inbound_row_def)
next
  case retry_inbound
  then show ?case by (rule inbound_done_update) (auto simp: q_retry_inbound_def update_inbound_row_def)
next
  case fail_inbound
  then show ?case by (rule inbound_done_update) (auto simp: q_fail_inbound_def update_inbound_row_def)
next
  case resolve_inbound
  then show ?case by (rule inbound_done_update) (auto simp: q_resolve_inbound_def update_inbound_row_def)
qed (simp_all add: inbound_done_def frame_simps)

lemma inbound_done_not_claimed:
  assumes "db_ok d" and "inbound_done e d" and "q_claim_inbound now d = (Inr m, d')"
  shows "im_event m \<noteq> e"
proof
  assume e: "im_event m = e"
  obtain r' rows where c: "inbound_q.claim_q now (db_inbound d) = Some (r', rows)" "m = scan_inbound r'"
    using assms(3) by (auto simp: q_claim_inbound_def split: option.splits)
  from c(1) obtain r where r: "r \<in> set (db_inbound d)" "inbound_ready now r" "r' = inbound_lock now r"
    by (rule inbound_q.claim_SomeD)
  obtain s where s: "s \<in> set (db_inbound d)" "in_event s = e" "in_processed s \<noteq> None \<or> in_failed s \<noteq> None"
    using assms(2) by (auto simp: inbound_done_def)
  have "in_event r = e" using e c(2) r(3) by (simp add: scan_inbound_def inbound_lock_def)
  then have "r = s" using distinct_key_eq[of in_event "db_inbound d" r s] assms(1) r(1) s(1,2) by (simp add: db_ok_def)
  with r(2) s(3) show False by (auto simp: inbound_ready_def)
qed

lemma inbound_done_marked: "r \<in> set (db_inbound d) \<Longrightarrow> in_event r = e \<Longrightarrow> inbound_done e (snd (q_mark_inbound e now d))"
  by (simp add: inbound_done_def q_mark_inbound_def update_inbound_row_def) (rule bexI[OF _ update_where_hit[of r]], simp_all)

lemma inbound_done_failed: "r \<in> set (db_inbound d) \<Longrightarrow> in_event r = e \<Longrightarrow> inbound_done e (snd (q_fail_inbound e now d))"
  by (simp add: inbound_done_def q_fail_inbound_def update_inbound_row_def) (rule bexI[OF _ update_where_hit[of r]], simp_all)

text \<open>
  A received message that has been marked processed, or given up as failed, is never handed to a
  worker again, whatever statements any process executes in the meantime.
\<close>

lemma inbound_finished_for_good:
  assumes "db_steps t0 empty_db now d" and "db_steps now (snd (q_mark_inbound e now d)) u d'
      \<or> db_steps now (snd (q_fail_inbound e now d)) u d'"
    and "row_of in_event e (db_inbound d) \<noteq> None" and "q_claim_inbound u d' = (Inr m, d'')"
  shows "im_event m \<noteq> e"
proof -
  obtain r where "r \<in> set (db_inbound d)" "in_event r = e" using assms(3) by (auto simp: row_of_None)
  then have set: "inbound_done e (snd (q_mark_inbound e now d))" "inbound_done e (snd (q_fail_inbound e now d))"
    by (rule inbound_done_marked inbound_done_failed)+
  have ok: "db_ok d" using db_steps_invariant[OF assms(1), of db_ok] empty_db_ok step_ok by blast
  then have ok': "db_ok (snd (q_mark_inbound e now d))" "db_ok (snd (q_fail_inbound e now d))" by (simp_all add: inbound_ok)
  have "inbound_done e d' \<and> db_ok d'"
    using assms(2) set ok' db_steps_invariant[of now _ u d' "\<lambda>d. inbound_done e d \<and> db_ok d"] step_inbound_done step_ok
    by blast
  then show ?thesis using inbound_done_not_claimed[OF _ _ assms(4)] by blast
qed

definition sample_two_inbound :: db where
  "sample_two_inbound = snd (q_record_inbound ''e2'' ''+13135550102'' ''+13135550100'' ''yes'' 6
     (snd (q_record_inbound ''e1'' ''+13135550101'' ''+13135550100'' ''no'' 5 empty_db)))"

lemma sample_two_inbound_reach: "db_steps 5 empty_db 6 sample_two_inbound"
  unfolding sample_two_inbound_def
  by (rule db_steps.step[OF db_steps.wait[OF db_steps.step[OF db_steps.start db_step.record_inbound]] db_step.record_inbound]) simp

lemma sample_two_inbound_claim:
  "\<exists>m d. q_claim_inbound (3 * minute) (snd (q_mark_inbound ''e1'' 6 sample_two_inbound)) = (Inr m, d)"
  by (simp add: sample_two_inbound_def q_record_inbound_def empty_db_def q_mark_inbound_def update_inbound_row_def
      update_where_def q_claim_inbound_def claim_where_def select_first_def inbound_ready_def)

lemma inbound_finished_for_good_sample:
  "\<exists>m. fst (q_claim_inbound (3 * minute) (snd (q_mark_inbound ''e1'' 6 sample_two_inbound))) = Inr m \<and> im_event m \<noteq> ''e1''"
proof -
  let ?d = "snd (q_mark_inbound ''e1'' 6 sample_two_inbound)"
  have "db_steps 6 ?d (3 * minute) ?d" by (rule db_steps.wait[OF db_steps.start]) simp
  moreover have "row_of in_event ''e1'' (db_inbound sample_two_inbound) \<noteq> None"
    by (simp add: sample_two_inbound_def q_record_inbound_def empty_db_def row_of_def)
  moreover obtain m d where m: "q_claim_inbound (3 * minute) ?d = (Inr m, d)" using sample_two_inbound_claim by blast
  ultimately have "im_event m \<noteq> ''e1''"
    using inbound_finished_for_good[OF sample_two_inbound_reach] by blast
  with m show ?thesis by simp
qed

section \<open>A leased job belongs to its worker\<close>

lemma update_job_other: "r \<in> set (db_outbound d) \<Longrightarrow> ob_id r \<noteq> i \<Longrightarrow> r \<in> set (db_outbound (update_job i f d))"
  by (auto simp: update_job_def in_update_where)

lemma cancel_queued_other: "r \<in> set (db_outbound d) \<Longrightarrow> ob_status r \<noteq> Queued \<Longrightarrow> r \<in> set (db_outbound (cancel_queued n d))"
  by (auto simp: cancel_queued_def in_update_where)

lemma upsert_outbound [frame_simps]: "db_outbound (upsert_suppression n upd fresh d) = db_outbound d"
  by (simp add: upsert_suppression_def)

lemma insert_outbound_other: "r \<in> set (db_outbound d) \<Longrightarrow> r \<in> set (db_outbound (snd (insert_outbound loc msg to from body p enr av now d)))"
  by (auto simp: insert_outbound_def Let_def)

lemma apply_command_other:
  "r \<in> set (db_outbound d) \<Longrightarrow> ob_status r \<noteq> Queued \<Longrightarrow> r \<in> set (db_outbound (apply_command w rep now c d))"
  by (auto simp: apply_command_def apply_send_def apply_suppress_def apply_crm_def Let_def case_prod_beta frame_simps
      intro: insert_outbound_other cancel_queued_other split: command_type.split)

lemma q_apply_other:
  "r \<in> set (db_outbound d) \<Longrightarrow> ob_status r \<noteq> Queued \<Longrightarrow> r \<in> set (db_outbound (snd (q_apply_commands w cmds rep now d)))"
  by (auto simp: q_apply_commands_def Let_def
      intro!: fold_invariant[where P = "\<lambda>d'. r \<in> set (db_outbound d')"] intro: apply_command_other)

lemma q_claim_other:
  assumes "db_ok d" "r \<in> set (db_outbound d)" "\<not> outbound_ready now r"
  shows "r \<in> set (db_outbound (snd (q_claim now d)))"
proof (cases "outbound_q.claim_q now (db_outbound d)")
  case None
  then show ?thesis using assms(2) by (simp add: snd_q_claim)
next
  case (Some p)
  obtain s' rows where p: "p = (s', rows)" by fastforce
  from Some p obtain s where s: "s \<in> set (db_outbound d)" "outbound_ready now s" "s' = outbound_lock now s"
    by (metis outbound_q.claim_SomeD)
  then have "ob_id r \<noteq> ob_id s'" using assms distinct_key_eq[of ob_id "db_outbound d" r s]
    by (auto simp: db_ok_def outbound_lock_def)
  with outbound_q.claim_others Some p assms(2) show ?thesis by (simp add: snd_q_claim)
qed

text \<open>
  C18. While a worker holds the lease of a job, no statement of any other process changes that job: a
  step after which the row is not the same is a completion, retry or failure of that very job.
\<close>

theorem leased_job_owner:
  assumes "db_step now d d'" and "db_ok d" and "r \<in> set (db_outbound d)"
    and "ob_status r = Sending" and "ob_locked r = Some l" and "now \<le> l"
  shows "r \<in> set (db_outbound d') \<or> (\<exists>pid. d' = snd (q_complete (ob_id r) pid now d)) \<or>
    (\<exists>delay. d' = snd (q_retry (ob_id r) delay now d)) \<or> d' = snd (q_fail (ob_id r) now d)"
  using assms
proof (induction rule: db_step.induct)
  case enqueue
  then show ?case by (simp add: snd_q_enqueue insert_outbound_other)
next
  case cancel
  then show ?case by (simp add: q_suppress_cancel_def cancel_queued_other)
next
  case claim
  then show ?case by (auto simp: outbound_ready_def intro!: q_claim_other)
next
  case (complete now d i pid)
  then show ?case using update_job_other[of r d i] by (cases "i = ob_id r") (auto simp: q_complete_def Let_def)
next
  case (retry now d i delay)
  then show ?case using update_job_other[of r d i] by (cases "i = ob_id r") (auto simp: q_retry_def)
next
  case (fail now d i)
  then show ?case using update_job_other[of r d i] by (cases "i = ob_id r") (auto simp: q_fail_def)
next
  case apply_commands
  then show ?case by (simp add: q_apply_other)
qed (simp_all add: frame_simps)

definition sample_leased_row :: outbound_row where
  "sample_leased_row = \<lparr>ob_id = 1, ob_location = ''loc'', ob_message = ''m1'', ob_to = ''+13135550101'',
     ob_from = ''+13135550100'', ob_body = ''hi'', ob_payload = [], ob_status = Sending, ob_attempts = 1,
     ob_available = 0, ob_provider = None, ob_created = 0, ob_enrollment = None, ob_locked = Some 100\<rparr>"

definition sample_leased_db :: db where
  "sample_leased_db = empty_db\<lparr>db_outbound := [sample_leased_row], db_outbound_seq := 2\<rparr>"

theorem leased_job_owner_witness:
  "sample_leased_row \<in> set (db_outbound (snd (q_suppress_cancel ''+13135550101'' 50 sample_leased_db)))
   \<or> (\<exists>pid. snd (q_suppress_cancel ''+13135550101'' 50 sample_leased_db) = snd (q_complete 1 pid 50 sample_leased_db))
   \<or> (\<exists>delay. snd (q_suppress_cancel ''+13135550101'' 50 sample_leased_db) = snd (q_retry 1 delay 50 sample_leased_db))
   \<or> snd (q_suppress_cancel ''+13135550101'' 50 sample_leased_db) = snd (q_fail 1 50 sample_leased_db)"
proof -
  have "db_ok sample_leased_db" by (simp add: sample_leased_db_def sample_leased_row_def empty_db_def db_ok_def)
  moreover have "sample_leased_row \<in> set (db_outbound sample_leased_db)" by (simp add: sample_leased_db_def)
  moreover have "ob_status sample_leased_row = Sending" "ob_locked sample_leased_row = Some 100" "ob_id sample_leased_row = 1"
    by (simp_all add: sample_leased_row_def)
  ultimately show ?thesis
    using leased_job_owner[OF db_step.cancel[of 50 sample_leased_db "''+13135550101''"], of sample_leased_row 100] by simp
qed

end
