(* ===== verification/Auth.thy ===== *)
theory Auth
  imports Json GoTime "HOL-Library.Word"
begin

text \<open>
  HTTP requests and responses, and the three ways a request is authenticated: the shared secrets of
  \<^verbatim>\<open>internal/app/auth.go\<close>, and the Ed25519 signatures of \<^verbatim>\<open>internal/webhook/verify.go\<close> and
  \<^verbatim>\<open>highlevel.go\<close>. \<open>ed25519.Verify\<close> and HMAC-SHA256 are parameters, collected in \<open>crypto\<close>.
\<close>

section \<open>Requests\<close>

text \<open>\<open>rq_body\<close> is what could be read of the body and \<open>rq_read_error\<close> whether reading ended with an
  error; a header or query parameter that is absent is empty.\<close>

record request =
  rq_method :: string
  rq_header :: "string \<Rightarrow> string"
  rq_query :: "string \<Rightarrow> string"
  rq_body :: string
  rq_read_error :: bool

record crypto =
  cr_ed25519_verify :: "string \<Rightarrow> string \<Rightarrow> string \<Rightarrow> bool"
  cr_hmac_sha256 :: "string \<Rightarrow> string \<Rightarrow> string"

section \<open>Secrets\<close>

definition bearer_secret_ok :: "string \<Rightarrow> string \<Rightarrow> bool" where
  "bearer_secret_ok header secret =
    (if secret = [] then False
     else case cut_prefix ''Bearer '' header of
       None \<Rightarrow> False
     | Some token \<Rightarrow> if length token \<noteq> length secret then False else token = secret)"

section \<open>Base64\<close>

definition base64_value :: "char \<Rightarrow> nat option" where
  "base64_value c =
    (if between 65 90 c then Some (byte c - 65)
     else if between 97 122 c then Some (byte c - 71)
     else if between 48 57 c then Some (byte c + 4)
     else if c = CHR ''+'' then Some 62 else if c = CHR ''/'' then Some 63 else None)"

text \<open>\<open>base64.StdEncoding\<close>: groups of four, padding required, and line ends ignored.\<close>

fun base64_groups :: "string \<Rightarrow> string option" where
  "base64_groups [] = Some []"
| "base64_groups (a # b # c # d # rest) =
    (case (base64_value a, base64_value b) of
       (Some w, Some x) \<Rightarrow>
         (let b1 = char_of (w * 4 + x div 16) in
          if c = CHR ''='' then (if d = CHR ''='' \<and> rest = [] then Some [b1] else None)
          else case base64_value c of
            None \<Rightarrow> None
          | Some y \<Rightarrow>
              (let b2 = char_of (x mod 16 * 16 + y div 4) in
               if d = CHR ''='' then (if rest = [] then Some [b1, b2] else None)
               else case base64_value d of
                 None \<Rightarrow> None
               | Some z \<Rightarrow> map_option (\<lambda>r. b1 # b2 # char_of (y mod 4 * 64 + z) # r) (base64_groups rest)))
     | _ \<Rightarrow> None)"
| "base64_groups _ = None"

definition base64_decode :: "string \<Rightarrow> string option" where
  "base64_decode s = base64_groups (filter (\<lambda>c. byte c \<noteq> 10 \<and> byte c \<noteq> 13) s)"

section \<open>Signatures\<close>

text \<open>\<open>strconv.ParseInt(s, 10, 64)\<close>.\<close>

definition digits_value :: "string \<Rightarrow> int" where
  "digits_value ds = fold (\<lambda>c n. n * 10 + (of_char c - 48)) ds 0"

definition parse_int64 :: "string \<Rightarrow> int option" where
  "parse_int64 s =
    (let (neg, ds) = (case s of
           c # t \<Rightarrow> if c = CHR ''-'' then (True, t) else if c = CHR ''+'' then (False, t) else (False, s)
         | [] \<Rightarrow> (False, s));
         n = (if neg then - digits_value ds else digits_value ds)
     in if ds = [] \<or> \<not> list_all is_digit ds \<or> n < - (2 ^ 63) \<or> 2 ^ 63 \<le> n then None else Some n)"

text \<open>\<open>time.Unix(stamp, 0)\<close>: the seconds since year 1 are kept in 64 bits.\<close>

definition unix_time :: "int \<Rightarrow> time" where
  "unix_time stamp = (sint (word_of_int (stamp + 62135596800) :: 64 word) - 62135596800) * second"

definition public_key_size :: nat where
  "public_key_size = 32"

definition verify_telnyx :: "crypto \<Rightarrow> request \<Rightarrow> string \<Rightarrow> string \<Rightarrow> time \<Rightarrow> duration \<Rightarrow> error option" where
  "verify_telnyx cr r body key now max_age =
    (let sig = rq_header r ''telnyx-signature-ed25519''; ts = rq_header r ''telnyx-timestamp'' in
     if sig = [] \<or> ts = [] \<or> length key \<noteq> public_key_size then Some (ErrMsg ''missing webhook authentication'' [])
     else if (case parse_int64 ts of None \<Rightarrow> True
         | Some stamp \<Rightarrow> now - unix_time stamp > max_age \<or> now < unix_time stamp - max_age)
       then Some (ErrMsg ''stale webhook'' [])
     else if (case base64_decode sig of None \<Rightarrow> True | Some s \<Rightarrow> \<not> cr_ed25519_verify cr key (ts @ ''|'' @ body) s)
       then Some (ErrMsg ''invalid webhook signature'' [])
     else None)"

definition header_values :: "request \<Rightarrow> string" where
  "header_values r = join '','' [rq_header r ''telnyx-signature-ed25519'', rq_header r ''telnyx-timestamp'']"

definition verify_highlevel :: "crypto \<Rightarrow> request \<Rightarrow> string \<Rightarrow> string \<Rightarrow> error option" where
  "verify_highlevel cr r body key =
    (let encoded = rq_header r ''X-GHL-Signature'' in
     if encoded = [] \<or> length key \<noteq> public_key_size then Some (ErrMsg ''missing webhook authentication'' [])
     else if (case base64_decode encoded of None \<Rightarrow> True | Some s \<Rightarrow> \<not> cr_ed25519_verify cr key body s)
       then Some (ErrMsg ''invalid webhook signature'' [])
     else None)"

definition encoded_der :: string where
  "encoded_der = ''MCowBQYDK2VwAyEAi2HR1srL4o18O8BRa7gVJY7G7bupbN3H9AwJrHCDiOg=''"

definition official_highlevel_public_key :: "string result" where
  "official_highlevel_public_key =
    (case base64_decode encoded_der of
       None \<Rightarrow> Inl (ErrMsg ''illegal base64 data'' [])
     | Some der \<Rightarrow>
         if length der \<noteq> 44 then Inl (ErrMsg ''unexpected HighLevel public key length'' [])
         else Inr (drop (length der - public_key_size) der))"

section \<open>Lemmas\<close>

lemma bearer_secret_ok_iff: "bearer_secret_ok h s \<longleftrightarrow> s \<noteq> [] \<and> h = ''Bearer '' @ s"
proof (cases "cut_prefix ''Bearer '' h")
  case None
  then have "h \<noteq> ''Bearer '' @ s" using cut_prefix_append[of "''Bearer ''" s] by (metis option.distinct(1))
  with None show ?thesis by (simp add: bearer_secret_ok_def)
next
  case (Some t)
  then show ?thesis using cut_prefix_Some[of "''Bearer ''" h t] by (auto simp: bearer_secret_ok_def)
qed

lemma parse_int64_range: "parse_int64 s = Some n \<Longrightarrow> - (2 ^ 63) \<le> n \<and> n < 2 ^ 63"
  by (auto simp: parse_int64_def Let_def split: prod.splits if_splits)

text \<open>Only a timestamp far beyond any clock wraps around, and it then lies before 1970.\<close>

lemma unix_time_exact:
  assumes "- (2 ^ 63) \<le> n" and "n < 2 ^ 63" and "0 \<le> unix_time n \<or> 0 \<le> n \<and> n < 2 ^ 62"
  shows "unix_time n = n * second"
proof -
  let ?x = "n + 62135596800"
  have len: "LENGTH(64) = 64" "(64 :: nat) - 1 = 63" by simp_all
  have sint: "sint (word_of_int ?x :: 64 word) = (?x + 2 ^ 63) mod 2 ^ 64 - 2 ^ 63"
    using int_word_sint[where 'a = 64, of ?x] unfolding len .
  show ?thesis
  proof (cases "?x < 2 ^ 63")
    case True
    then have "(?x + 2 ^ 63) mod 2 ^ 64 = ?x + 2 ^ 63" using assms(1) by (intro mod_pos_pos_trivial) simp_all
    with sint show ?thesis by (simp add: unix_time_def)
  next
    case False
    then have "(?x + 2 ^ 63 - 2 ^ 64) mod 2 ^ 64 = ?x + 2 ^ 63 - 2 ^ 64"
      using assms(2) by (intro mod_pos_pos_trivial) simp_all
    then have "(?x + 2 ^ 63) mod 2 ^ 64 = ?x + 2 ^ 63 - 2 ^ 64" by (metis minus_mod_self2)
    with sint have "unix_time n = (n - 2 ^ 64) * second" by (simp add: unix_time_def)
    with assms False show ?thesis by simp
  qed
qed

section \<open>Properties\<close>

text \<open>
  C27. A Telnyx webhook is accepted exactly when both headers are present, the configured key is an
  Ed25519 public key, the timestamp is a decimal 64-bit number of seconds at most \<open>max_age\<close> away from
  now in either direction (no overflow makes a far timestamp look fresh), and the decoded signature
  is valid for the timestamp, a bar and the body.
\<close>

theorem verify_telnyx_spec:
  assumes "0 \<le> max_age" and "max_age \<le> now" and "now + max_age < 2 ^ 62"
  shows "verify_telnyx cr r body key now max_age = None \<longleftrightarrow>
     length key = 32 \<and>
     (\<exists>stamp s. parse_int64 (rq_header r ''telnyx-timestamp'') = Some stamp \<and>
        now - max_age \<le> stamp * second \<and> stamp * second \<le> now + max_age \<and>
        rq_header r ''telnyx-signature-ed25519'' \<noteq> [] \<and>
        base64_decode (rq_header r ''telnyx-signature-ed25519'') = Some s \<and>
        cr_ed25519_verify cr key (rq_header r ''telnyx-timestamp'' @ ''|'' @ body) s)"
proof -
  let ?ts = "rq_header r ''telnyx-timestamp''"
  have "parse_int64 [] = None" by (simp add: parse_int64_def)
  then have ne: "?ts \<noteq> []" if "parse_int64 ?ts = Some x" for x using that by auto
  have fresh: "(now - max_age \<le> unix_time n \<and> unix_time n \<le> now + max_age) =
      (now - max_age \<le> n * second \<and> n * second \<le> now + max_age)" if "parse_int64 ?ts = Some n" for n
  proof (cases "unix_time n = n * second")
    case False
    then have "\<not> 0 \<le> unix_time n" "\<not> (0 \<le> n \<and> n < 2 ^ 62)"
      using unix_time_exact[of n] parse_int64_range[OF that] by auto
    then show ?thesis using assms by linarith
  qed simp
  have "verify_telnyx cr r body key now max_age = None \<longleftrightarrow>
     length key = 32 \<and>
     (\<exists>stamp s. parse_int64 ?ts = Some stamp \<and>
        (now - max_age \<le> unix_time stamp \<and> unix_time stamp \<le> now + max_age) \<and>
        rq_header r ''telnyx-signature-ed25519'' \<noteq> [] \<and>
        base64_decode (rq_header r ''telnyx-signature-ed25519'') = Some s \<and>
        cr_ed25519_verify cr key (?ts @ ''|'' @ body) s)"
    using ne by (auto simp: verify_telnyx_def Let_def public_key_size_def split: option.splits)
  also have "\<dots> \<longleftrightarrow> length key = 32 \<and>
     (\<exists>stamp s. parse_int64 ?ts = Some stamp \<and>
        (now - max_age \<le> stamp * second \<and> stamp * second \<le> now + max_age) \<and>
        rq_header r ''telnyx-signature-ed25519'' \<noteq> [] \<and>
        base64_decode (rq_header r ''telnyx-signature-ed25519'') = Some s \<and>
        cr_ed25519_verify cr key (?ts @ ''|'' @ body) s)"
    using fresh by blast
  finally show ?thesis by blast
qed

definition sample_request :: "string \<Rightarrow> string \<Rightarrow> request" where
  "sample_request ts body = \<lparr>rq_method = ''POST'',
     rq_header = (\<lambda>n. if n = ''telnyx-timestamp'' then ts else if n = ''telnyx-signature-ed25519'' then ''AA==''
                     else if n = ''Authorization'' then ''Bearer s3cret'' else []),
     rq_query = (\<lambda>_. []), rq_body = body, rq_read_error = False\<rparr>"

definition sample_crypto :: crypto where
  "sample_crypto = \<lparr>cr_ed25519_verify = (\<lambda>key msg sig. sig = [CHR 0x00]), cr_hmac_sha256 = (\<lambda>key msg. msg)\<rparr>"

theorem verify_telnyx_witness:
  "verify_telnyx sample_crypto (sample_request ''1700000000'' ''{}'') ''{}'' (replicate 32 CHR ''k'')
     (1700000000 * second + minute) (5 * minute) = None"
proof -
  have "parse_int64 ''1700000000'' = Some 1700000000" by code_simp
  moreover have "base64_decode ''AA=='' = Some [CHR 0x00]" by code_simp
  ultimately show ?thesis
    using verify_telnyx_spec[of "5 * minute" "1700000000 * second + minute" sample_crypto
        "sample_request ''1700000000'' ''{}''" "''{}''" "replicate 32 CHR ''k''"]
    by (simp add: sample_request_def sample_crypto_def)
qed

text \<open>
  The key HighLevel signs with, as it is embedded in the program, decodes to an Ed25519 public
  key of 32 bytes, so the fallback of the configuration never fails.
\<close>

lemma official_key_ok: "\<exists>k. official_highlevel_public_key = Inr k \<and> length k = public_key_size"
proof -
  have "map_option length (base64_decode encoded_der) = Some 44" by code_simp
  then show ?thesis by (auto simp: official_highlevel_public_key_def public_key_size_def)
qed

end
