(* ===== verification/Http.thy ===== *)
theory Http
  imports Auth
begin

text \<open>
  What the HTTP clients use of \<open>net/http\<close>, \<open>net/url\<close> and \<open>encoding/json\<close>: requests and responses, the
  escaping of URLs, \<open>url.Values.Encode\<close>, \<open>json.Marshal\<close>, and two more field decoders. The server is a
  parameter: a function of the request and of the state of the network.
\<close>

section \<open>Requests and responses\<close>

text \<open>\<open>hp_body\<close> is what could be read of the body. An error of \<open>http.NewRequest\<close> counts as one of the
  exchange.\<close>

record http_request =
  hq_method :: string
  hq_url :: string
  hq_headers :: "(string \<times> string) list"
  hq_body :: "string option"

record http_response =
  hp_status :: int
  hp_body :: string

type_synonym 's http = "http_request \<Rightarrow> 's \<Rightarrow> http_response result \<times> 's"

definition success_status :: "int \<Rightarrow> bool" where
  "success_status n \<longleftrightarrow> 200 \<le> n \<and> n < 300"

section \<open>URLs\<close>

definition trim_slashes :: "string \<Rightarrow> string" where
  "trim_slashes s = rev (dropWhile (\<lambda>c. c = CHR ''/'') (rev s))"

definition upper_hex_digit :: "nat \<Rightarrow> char" where
  "upper_hex_digit n = ''0123456789ABCDEF'' ! (n mod 16)"

definition url_unreserved :: "char \<Rightarrow> bool" where
  "url_unreserved c \<longleftrightarrow> between 48 57 c \<or> between 65 90 c \<or> between 97 122 c \<or> c \<in> set ''-_.~''"

definition percent :: "char \<Rightarrow> string" where
  "percent c = [CHR ''%'', upper_hex_digit (of_char c div 16), upper_hex_digit (of_char c)]"

definition query_escape :: "string \<Rightarrow> string" where
  "query_escape s = concat (map (\<lambda>c. if url_unreserved c then [c] else if c = CHR '' '' then ''+'' else percent c) s)"

definition path_escape :: "string \<Rightarrow> string" where
  "path_escape s = concat (map (\<lambda>c. if url_unreserved c \<or> c \<in> set ''$&+=:@'' then [c] else percent c) s)"

text \<open>\<open>url.Values.Encode\<close> for one value per key: the keys in order.\<close>

definition values_encode :: "(string \<times> string) list \<Rightarrow> string" where
  "values_encode kvs = join ''&'' (map (\<lambda>(k, v). query_escape k @ ''='' @ query_escape v) (sort_key fst kvs))"

section \<open>Writing JSON\<close>

definition lower_hex_digit :: "nat \<Rightarrow> char" where
  "lower_hex_digit n = ''0123456789abcdef'' ! (n mod 16)"

definition quote :: char where
  "quote = CHR 0x22"

definition backslash :: char where
  "backslash = CHR 0x5C"

text \<open>The escaped form of an ASCII character; HTML characters are escaped too.\<close>

definition encode_ascii :: "char \<Rightarrow> string" where
  "encode_ascii c =
    (if c = quote \<or> c = backslash then [backslash, c]
     else if byte c = 8 then [backslash, CHR ''b''] else if byte c = 12 then [backslash, CHR ''f'']
     else if byte c = 10 then [backslash, CHR ''n''] else if byte c = 13 then [backslash, CHR ''r'']
     else if byte c = 9 then [backslash, CHR ''t'']
     else if byte c < 32 \<or> c = CHR ''<'' \<or> c = CHR ''>'' \<or> c = CHR ''&''
     then [backslash, CHR ''u'', CHR ''0'', CHR ''0'', lower_hex_digit (byte c div 16), lower_hex_digit (byte c)]
     else [c])"

text \<open>Byte by byte; the counter passes over the rest of a rune. Invalid UTF-8 becomes U+FFFD, and the
  two line separators of JavaScript are escaped.\<close>

fun encode_chars :: "nat \<Rightarrow> string \<Rightarrow> string" where
  "encode_chars k [] = []"
| "encode_chars (Suc k) (c # s) = encode_chars k s"
| "encode_chars 0 (c # s) =
    (if byte c < 128 then encode_ascii c @ encode_chars 0 s
     else (let l = rune_len (c # s); rune = take l (c # s) in
       if l = 0 then backslash # ''ufffd'' @ encode_chars 0 s
       else if rune = [CHR 0xE2, CHR 0x80, CHR 0xA8] then backslash # ''u2028'' @ encode_chars (l - 1) s
       else if rune = [CHR 0xE2, CHR 0x80, CHR 0xA9] then backslash # ''u2029'' @ encode_chars (l - 1) s
       else rune @ encode_chars (l - 1) s))"

definition encode_string :: "string \<Rightarrow> string" where
  "encode_string s = quote # encode_chars 0 s @ [quote]"

text \<open>\<open>json.Marshal\<close>; the members of an object are written in the order they have, which for a Go map
  is that of the keys (\<open>js_map\<close>).\<close>

fun json_encode :: "json \<Rightarrow> string" where
  "json_encode JsNull = ''null''"
| "json_encode (JsBool b) = (if b then ''true'' else ''false'')"
| "json_encode (JsNum n) = n"
| "json_encode (JsStr s) = encode_string s"
| "json_encode (JsArr vs) = CHR ''['' # join '','' (map json_encode vs) @ '']''"
| "json_encode (JsObj ms) = CHR 0x7B # join '','' (map (\<lambda>(k, v). encode_string k @ CHR '':'' # json_encode v) ms) @ [CHR 0x7D]"

definition js_map :: "(string \<times> json) list \<Rightarrow> json" where
  "js_map ms = JsObj (sort_key fst ms)"

section \<open>More fields\<close>

text \<open>An \<open>int\<close>, and a \<open>json.RawMessage\<close>, which is kept as the value it holds.\<close>

definition int_field :: "(int \<Rightarrow> 's \<Rightarrow> 's) \<Rightarrow> 's field" where
  "int_field upd v s =
    (case v of
       JsNum n \<Rightarrow> (case parse_int64 n of None \<Rightarrow> (s, False) | Some i \<Rightarrow> (upd i s, True))
     | JsNull \<Rightarrow> (s, True) | _ \<Rightarrow> (s, False))"

definition raw_field :: "(json option \<Rightarrow> 's \<Rightarrow> 's) \<Rightarrow> 's field" where
  "raw_field upd v s = (upd (Some v) s, True)"


text \<open>What \<open>Decode(&s)\<close> leaves in \<open>s\<close> when its error is ignored.\<close>

definition decode_ignoring :: "(string \<times> 's field) list \<Rightarrow> string \<Rightarrow> 's \<Rightarrow> 's" where
  "decode_ignoring fs body zero =
    (case parse_first body of None \<Rightarrow> zero | Some (v, _) \<Rightarrow> fst (struct_field False fs v zero))"

text \<open>A \<open>map[string]any\<close>: the last member of a name counts.\<close>

definition any_map_field :: "(string \<times> json) list field" where
  "any_map_field v s = (case v of JsObj ms \<Rightarrow> (rev ms @ s, True) | JsNull \<Rightarrow> ([], True) | _ \<Rightarrow> (s, False))"

definition any_at :: "string \<Rightarrow> (string \<times> json) list \<Rightarrow> json" where
  "any_at k m = (case map_of m k of None \<Rightarrow> JsNull | Some v \<Rightarrow> v)"

end
