(* ===== verification/OAuth.thy ===== *)
theory OAuth
  imports Http
begin

text \<open>
  \<^verbatim>\<open>internal/provider/oauth.go\<close>: the client of HighLevel's token endpoint. The HTTP client is the
  parameter \<open>http\<close>.
\<close>

record oauth_client =
  oc_base_url :: string
  oc_client_id :: string
  oc_client_secret :: string
  oc_redirect_uri :: string
  oc_user_type :: string

record token_set =
  ts_access :: string
  ts_refresh :: string
  ts_token_type :: string
  ts_user_type :: string
  ts_location :: string
  ts_company :: string
  ts_scope :: string
  ts_expires_in :: int

definition zero_token_set :: token_set where
  "zero_token_set = \<lparr>ts_access = [], ts_refresh = [], ts_token_type = [], ts_user_type = [], ts_location = [],
     ts_company = [], ts_scope = [], ts_expires_in = 0\<rparr>"

definition token_fields :: "(string \<times> token_set field) list" where
  "token_fields =
    [(''access_token'', str_field (\<lambda>x p. p\<lparr>ts_access := x\<rparr>)),
     (''refresh_token'', str_field (\<lambda>x p. p\<lparr>ts_refresh := x\<rparr>)),
     (''token_type'', str_field (\<lambda>x p. p\<lparr>ts_token_type := x\<rparr>)),
     (''userType'', str_field (\<lambda>x p. p\<lparr>ts_user_type := x\<rparr>)),
     (''locationId'', str_field (\<lambda>x p. p\<lparr>ts_location := x\<rparr>)),
     (''companyId'', str_field (\<lambda>x p. p\<lparr>ts_company := x\<rparr>)),
     (''scope'', str_field (\<lambda>x p. p\<lparr>ts_scope := x\<rparr>)),
     (''expires_in'', int_field (\<lambda>x p. p\<lparr>ts_expires_in := x\<rparr>))]"

definition highlevel_url :: string where
  "highlevel_url = ''https://services.leadconnectorhq.com''"

definition oauth_base_url :: "oauth_client \<Rightarrow> string" where
  "oauth_base_url c = (if oc_base_url c \<noteq> [] then oc_base_url c else highlevel_url)"

definition body_limit :: nat where
  "body_limit = 1048576"

definition do_token :: "'s http \<Rightarrow> http_request \<Rightarrow> 's \<Rightarrow> token_set result \<times> 's" where
  "do_token http q s =
    (case http q s of
       (Inl e, s1) \<Rightarrow> (Inl e, s1)
     | (Inr resp, s1) \<Rightarrow>
         (let payload = take body_limit (hp_body resp) in
          (if \<not> success_status (hp_status resp)
           then Inl (ErrProvider (hp_status resp) (show_int (hp_status resp)) (trim_space payload))
           else case unmarshal token_fields payload zero_token_set of
             None \<Rightarrow> Inl (ErrMsg ''decode HighLevel oauth response: %w'' [])
           | Some t \<Rightarrow>
               if ts_access t = [] then Inl (ErrMsg ''HighLevel oauth response is missing access_token'' []) else Inr t,
           s1)))"

definition token_request ::
  "'s http \<Rightarrow> oauth_client \<Rightarrow> (string \<times> string) list \<Rightarrow> string \<Rightarrow> 's \<Rightarrow> token_set result \<times> 's" where
  "token_request http c values bearer =
    do_token http \<lparr>hq_method = ''POST'', hq_url = trim_slashes (oauth_base_url c) @ ''/oauth/token'',
      hq_headers =
        [(''Accept'', ''application/json''), (''Content-Type'', ''application/x-www-form-urlencoded''),
         (''Version'', ''2021-07-28'')] @
        (if bearer \<noteq> [] then [(''Authorization'', ''Bearer '' @ bearer)] else []),
      hq_body = Some (values_encode values)\<rparr>"

definition oauth_exchange :: "'s http \<Rightarrow> oauth_client \<Rightarrow> string \<Rightarrow> 's \<Rightarrow> token_set result \<times> 's" where
  "oauth_exchange http c code =
    token_request http c
      ([(''client_id'', oc_client_id c), (''client_secret'', oc_client_secret c),
        (''grant_type'', ''authorization_code''), (''code'', code), (''redirect_uri'', oc_redirect_uri c)] @
       (if oc_user_type c \<noteq> [] then [(''user_type'', oc_user_type c)] else [])) []"

definition oauth_refresh :: "'s http \<Rightarrow> oauth_client \<Rightarrow> string \<Rightarrow> string \<Rightarrow> 's \<Rightarrow> token_set result \<times> 's" where
  "oauth_refresh http c refresh_token user_type0 s =
    (if refresh_token = [] then (Inl (ErrMsg ''HighLevel refresh token is required'' []), s)
     else let user_type = (if user_type0 = [] then oc_user_type c else user_type0) in
       token_request http c
         ([(''client_id'', oc_client_id c), (''client_secret'', oc_client_secret c),
           (''grant_type'', ''refresh_token''), (''refresh_token'', refresh_token)] @
          (if user_type \<noteq> [] then [(''user_type'', user_type)] else []) @
          (if oc_redirect_uri c \<noteq> [] then [(''redirect_uri'', oc_redirect_uri c)] else [])) [] s)"

definition oauth_location_token ::
  "'s http \<Rightarrow> oauth_client \<Rightarrow> string \<Rightarrow> string \<Rightarrow> string \<Rightarrow> 's \<Rightarrow> token_set result \<times> 's" where
  "oauth_location_token http c access company loc =
    do_token http \<lparr>hq_method = ''POST'', hq_url = trim_slashes (oauth_base_url c) @ ''/oauth/locationToken'',
      hq_headers =
        [(''Authorization'', ''Bearer '' @ access), (''Accept'', ''application/json''),
         (''Content-Type'', ''application/json''), (''Version'', ''2021-07-28'')],
      hq_body = Some (json_encode (js_map [(''companyId'', JsStr company), (''locationId'', JsStr loc)]))\<rparr>"

text \<open>The lifetime in nanoseconds is a 64-bit product.\<close>

definition expires_at :: "token_set \<Rightarrow> time \<Rightarrow> time" where
  "expires_at t now =
    (if ts_expires_in t \<le> 0 then now + 24 * hour
     else now + sint (word_of_int (ts_expires_in t * second) :: 64 word))"

section \<open>Lemmas\<close>

lemma do_token_ok:
  "fst (do_token http q s) = Inr t \<Longrightarrow>
   \<exists>resp. fst (http q s) = Inr resp \<and> success_status (hp_status resp) \<and> ts_access t \<noteq> []"
  by (auto simp: do_token_def Let_def case_prod_beta split: sum.splits if_splits option.splits)

text \<open>A 64-bit integer that is not too large does not wrap around.\<close>

lemma sint_exact64:
  assumes "- (2 ^ 63) \<le> x" and "x < 2 ^ 63"
  shows "sint (word_of_int x :: 64 word) = x"
proof -
  have len: "LENGTH(64) = 64" "(64 :: nat) - 1 = 63" by simp_all
  have "sint (word_of_int x :: 64 word) = (x + 2 ^ 63) mod 2 ^ 64 - 2 ^ 63"
    using int_word_sint[where 'a = 64, of x] unfolding len .
  also have "(x + 2 ^ 63) mod 2 ^ 64 = x + 2 ^ 63" using assms by (intro mod_pos_pos_trivial) simp_all
  finally show ?thesis by simp
qed

lemma expires_at_exact:
  assumes "0 < ts_expires_in t" and "ts_expires_in t \<le> 9223372036"
  shows "expires_at t now = now + ts_expires_in t * second"
  using assms sint_exact64[of "ts_expires_in t * second"] by (simp add: expires_at_def)

end
