(* ===== verification/TokenSource.thy ===== *)
theory TokenSource
  imports OAuth StoreSteps
begin

text \<open>
  \<^verbatim>\<open>internal/provider/tokensource.go\<close>: the access tokens of HighLevel, kept in the database and
  refreshed two minutes before they expire. The source itself is never nil, and \<open>Now\<close> is the clock.
\<close>

record token_source =
  src_location :: string
  src_fallback :: string
  src_oauth :: "oauth_client option"

definition highlevel_provider :: string where
  "highlevel_provider = ''highlevel''"

text \<open>
  \<open>ReplaceOAuthToken\<close> with a callback that calls a service. The read of the row and its update are two
  statements here, between which the others may act; in the database the row is locked meanwhile.
\<close>

definition store_replace_token ::
  "string \<Rightarrow> string \<Rightarrow> (oauth_token \<Rightarrow> ('t, 'h) world \<Rightarrow> oauth_token result \<times> ('t, 'h) world) \<Rightarrow>
   ('t, 'h) world \<Rightarrow> oauth_token result \<times> ('t, 'h) world" where
  "store_replace_token provider loc refresh w =
    (case sql (q_load_token provider loc) w of
       (Inl e, w1) \<Rightarrow> (Inl e, w1)
     | (Inr current, w1) \<Rightarrow>
         (case refresh current w1 of
            (Inl e, w2) \<Rightarrow> (Inl e, w2)
          | (Inr t, w2) \<Rightarrow> sql (q_replace_token provider loc (\<lambda>_. Inr t)) w2))"

definition refreshed_token :: "oauth_token \<Rightarrow> token_set \<Rightarrow> time \<Rightarrow> oauth_token" where
  "refreshed_token current t now =
    \<lparr>oa_provider = highlevel_provider,
     oa_location = (if ts_location t = [] then oa_location current else ts_location t),
     oa_access = ts_access t, oa_refresh = ts_refresh t, oa_token_type = ts_token_type t,
     oa_user_type = ts_user_type t, oa_scope = ts_scope t, oa_expires = expires_at t now\<rparr>"

definition refresh_callback ::
  "'h http \<Rightarrow> oauth_client \<Rightarrow> oauth_token \<Rightarrow> ('t, 'h) world \<Rightarrow> oauth_token result \<times> ('t, 'h) world" where
  "refresh_callback http c current w =
    (case call_highlevel EvToken (oauth_refresh http c (oa_refresh current) (oa_user_type current)) w of
       (Inl e, w1) \<Rightarrow> (Inl e, w1)
     | (Inr t, w1) \<Rightarrow> (Inr (refreshed_token current t (w_clock w1)), w1))"

definition force_refresh ::
  "'h http \<Rightarrow> token_source \<Rightarrow> ('t, 'h) world \<Rightarrow> string result \<times> ('t, 'h) world" where
  "force_refresh http src w =
    (case src_oauth src of
       None \<Rightarrow>
         (if src_fallback src \<noteq> [] then Inr (src_fallback src)
          else Inl (ErrMsg ''HighLevel oauth client is not configured'' []), w)
     | Some c \<Rightarrow>
         (case store_replace_token highlevel_provider (src_location src) (refresh_callback http c) w of
            (Inl e, w1) \<Rightarrow>
              (if src_fallback src \<noteq> [] \<and> e = ErrNoRows then Inr (src_fallback src) else Inl e, w1)
          | (Inr t, w1) \<Rightarrow> (Inr (oa_access t), w1)))"

definition source_token ::
  "'h http \<Rightarrow> token_source \<Rightarrow> ('t, 'h) world \<Rightarrow> string result \<times> ('t, 'h) world" where
  "source_token http src w =
    (let now = w_clock w in
     case store_load_token highlevel_provider (src_location src) w of
       (Inl e, w1) \<Rightarrow>
         (if e = ErrNoRows
          then if src_fallback src \<noteq> [] then Inr (src_fallback src)
            else Inl (ErrMsg ''HighLevel oauth token is missing'' [])
          else Inl e, w1)
     | (Inr t, w1) \<Rightarrow>
         if oa_expires t > now + 2 * minute then (Inr (oa_access t), w1) else force_refresh http src w1)"

definition source_token_for ::
  "'h http \<Rightarrow> token_source \<Rightarrow> string \<Rightarrow> ('t, 'h) world \<Rightarrow> string result \<times> ('t, 'h) world" where
  "source_token_for http src loc =
    (if loc = [] \<or> loc = src_location src then source_token http src
     else source_token http (src\<lparr>src_location := loc\<rparr>))"

section \<open>Properties\<close>

abbreviation token_at :: "string \<Rightarrow> db \<Rightarrow> oauth_token option" where
  "token_at loc d \<equiv> find (token_row ''highlevel'' loc) (db_oauth_tokens d)"

lemma find_update_where:
  assumes "\<And>r. p r \<Longrightarrow> q (f r) = q r"
  shows "find q (update_where p f rows) = map_option (\<lambda>r. if p r then f r else r) (find q rows)"
  using assms by (induction rows) (auto simp: table_simps)

lemma oauth_refresh_access:
  "fst (oauth_refresh http c rt ut s) = Inr t \<Longrightarrow> ts_access t \<noteq> [] \<and> rt \<noteq> []"
  by (auto simp: oauth_refresh_def token_request_def Let_def simp del: append.simps split: if_splits dest: do_token_ok)

lemma token_row_iff [simp]: "token_row p l r \<longleftrightarrow> oa_provider r = p \<and> oa_location r = l"
  by (simp add: token_row_def)

lemma find_token_row: "find (token_row p l) rows = Some r \<Longrightarrow> oa_provider r = p \<and> oa_location r = l"
  by (auto simp: find_Some_iff)

text \<open>The row a completed token is written to, and every other row.\<close>

lemma replace_token_rows:
  assumes "token_at loc d = Some t" and "oa_access n \<noteq> []" and "oa_provider n = ''highlevel''" and "oa_location n \<noteq> []"
  shows "fst (q_replace_token ''highlevel'' loc (\<lambda>_. Inr n) now d) = Inr (complete_token t n)"
    and "token_at l (snd (q_replace_token ''highlevel'' loc (\<lambda>_. Inr n) now d)) =
      (if l = oa_location n then map_option (\<lambda>_. stored_token (complete_token t n)) (token_at l d) else token_at l d)"
proof -
  have c: "oa_provider (complete_token t n) = ''highlevel''" "oa_location (complete_token t n) = oa_location n"
    using assms by (simp_all add: complete_token_def)
  show "fst (q_replace_token ''highlevel'' loc (\<lambda>_. Inr n) now d) = Inr (complete_token t n)"
    using assms by (simp add: q_replace_token_def Let_def)
  let ?p = "token_row ''highlevel'' (oa_location n)"
  have st: "oa_provider (stored_token (complete_token t n)) = ''highlevel''"
    "oa_location (stored_token (complete_token t n)) = oa_location n"
    using c by (simp_all add: stored_token_def)
  have "db_oauth_tokens (snd (q_replace_token ''highlevel'' loc (\<lambda>_. Inr n) now d)) =
      update_where ?p (\<lambda>r. stored_token (complete_token t n)) (db_oauth_tokens d)"
    using assms c by (simp add: q_replace_token_def Let_def)
  moreover have "find (token_row ''highlevel'' l) (update_where ?p (\<lambda>r. stored_token (complete_token t n)) (db_oauth_tokens d)) =
      map_option (\<lambda>r. if ?p r then stored_token (complete_token t n) else r) (token_at l d)"
    by (rule find_update_where) (auto simp: st c)
  ultimately show "token_at l (snd (q_replace_token ''highlevel'' loc (\<lambda>_. Inr n) now d)) =
      (if l = oa_location n then map_option (\<lambda>_. stored_token (complete_token t n)) (token_at l d) else token_at l d)"
    by (cases "token_at l d") (auto dest: find_token_row)
qed

lemma source_token_calm:
  assumes "w_script w = []"
  shows "source_token http src w =
    (case token_at (src_location src) (w_db w) of
       None \<Rightarrow>
         (if src_fallback src \<noteq> [] then Inr (src_fallback src) else Inl (ErrMsg ''HighLevel oauth token is missing'' []), w)
     | Some t \<Rightarrow>
         if oa_expires t > w_clock w + 2 * minute then (Inr (oa_access t), w) else force_refresh http src w)"
  using assms
  by (simp add: source_token_def store_load_token_def sql_calm q_load_token_def highlevel_provider_def split: option.split)

lemma force_refresh_calm:
  assumes "w_script w = []" and "src_oauth src = Some c" and "token_at (src_location src) (w_db w) = Some t"
    and "oauth_refresh http c (oa_refresh t) (oa_user_type t) (w_highlevel w) = (res, h)"
  shows "force_refresh http src w =
    (let w1 = w\<lparr>w_highlevel := h, w_log := w_log w @ [EvToken]\<rparr> in
     case res of
       Inl e \<Rightarrow> (if src_fallback src \<noteq> [] \<and> e = ErrNoRows then Inr (src_fallback src) else Inl e, w1)
     | Inr n \<Rightarrow> (case sql (q_replace_token ''highlevel'' (src_location src)
                        (\<lambda>_. Inr (refreshed_token t n (w_clock w)))) w1 of
           (Inl e, w2) \<Rightarrow> (if src_fallback src \<noteq> [] \<and> e = ErrNoRows then Inr (src_fallback src) else Inl e, w2)
         | (Inr t', w2) \<Rightarrow> (Inr (oa_access t'), w2)))"
proof -
  have load: "sql (q_load_token ''highlevel'' (src_location src)) w = (Inr t, w)"
    using assms by (simp add: sql_calm q_load_token_def)
  show ?thesis
    using assms(2,4) load
    by (simp add: force_refresh_def store_replace_token_def highlevel_provider_def refresh_callback_def call_highlevel_def
        Let_def case_prod_beta split: sum.split)
qed

text \<open>A refresh replaces the token of its location, keeps an old refresh token, and touches no other location.\<close>

lemma force_refresh_stores:
  assumes "w_script w = []" and "token_at (src_location src) (w_db w) = Some t"
    and "src_oauth src = Some c" and "src_location src \<noteq> []"
    and "oauth_refresh http c (oa_refresh t) (oa_user_type t) (w_highlevel w) = (Inr n, h)"
    and "ts_location n \<in> {[], src_location src}"
  obtains d t' where
    "force_refresh http src w = (Inr (ts_access n), w\<lparr>w_highlevel := h, w_log := w_log w @ [EvToken], w_db := d\<rparr>)"
    "token_at (src_location src) d = Some t'" "oa_access t' = ts_access n"
    "oa_refresh t' = (if ts_refresh n = [] then oa_refresh t else ts_refresh n)"
    "oa_expires t' = pg_time (expires_at n (w_clock w))"
    "\<forall>l. l \<noteq> src_location src \<longrightarrow> token_at l d = token_at l (w_db w)"
proof -
  let ?loc = "src_location src" let ?n = "refreshed_token t n (w_clock w)"
  let ?w1 = "w\<lparr>w_highlevel := h, w_log := w_log w @ [EvToken]\<rparr>"
  let ?d = "snd (q_replace_token ''highlevel'' ?loc (\<lambda>_. Inr ?n) (w_clock w) (w_db w))"
  have acc: "ts_access n \<noteq> []" using oauth_refresh_access[of http c] assms(5) by (metis fst_conv)
  have loc: "oa_location ?n = ?loc" "oa_provider ?n = ''highlevel''" "oa_access ?n = ts_access n"
    using assms(6) find_token_row[OF assms(2)] by (auto simp: refreshed_token_def highlevel_provider_def)
  note rep = replace_token_rows[OF assms(2), of ?n, unfolded loc, OF acc refl assms(4)]
  have sql: "sql (q_replace_token ''highlevel'' ?loc (\<lambda>_. Inr ?n)) ?w1 = (Inr (complete_token t ?n), ?w1\<lparr>w_db := ?d\<rparr>)"
    using assms(1) by (simp add: sql_calm rep(1))
  let ?t = "stored_token (complete_token t ?n)"
  have "force_refresh http src w = (Inr (ts_access n), ?w1\<lparr>w_db := ?d\<rparr>)"
    using force_refresh_calm[OF assms(1,3,2,5)] sql by (simp add: complete_token_def loc)
  moreover have "token_at ?loc ?d = Some ?t" using rep(2)[where l = ?loc] assms(2) by simp
  moreover have "oa_access ?t = ts_access n" "oa_refresh ?t = (if ts_refresh n = [] then oa_refresh t else ts_refresh n)"
    "oa_expires ?t = pg_time (expires_at n (w_clock w))"
    by (simp_all add: stored_token_def complete_token_def refreshed_token_def)
  moreover have "\<forall>l. l \<noteq> ?loc \<longrightarrow> token_at l ?d = token_at l (w_db w)" using rep(2) by simp
  ultimately show thesis by (rule that)
qed


text \<open>
  C38. If the token endpoint answers with another location than the one the token was stored under, the
  refresh is reported as a success but lost: the stored token, whose refresh token has been used up,
  stays as it was, and the next call refreshes again with the old one.
\<close>

theorem refresh_other_location_lost:
  assumes "w_script w = []" and "token_at (src_location src) (w_db w) = Some t"
    and "oa_expires t \<le> w_clock w + 2 * minute" and "src_oauth src = Some c"
    and "oauth_refresh http c (oa_refresh t) (oa_user_type t) (w_highlevel w) = (Inr n, h)"
    and "ts_location n \<notin> {[], src_location src}" and "token_at (ts_location n) (w_db w) = None"
  shows "\<exists>w'. source_token http src w = (Inr (ts_access n), w') \<and>
    (\<forall>l. token_at l (w_db w') = token_at l (w_db w)) \<and>
    source_token http src w' = force_refresh http src w'"
proof -
  let ?loc = "src_location src" let ?n = "refreshed_token t n (w_clock w)"
  let ?w1 = "w\<lparr>w_highlevel := h, w_log := w_log w @ [EvToken]\<rparr>"
  let ?d = "snd (q_replace_token ''highlevel'' ?loc (\<lambda>_. Inr ?n) (w_clock w) (w_db w))"
  have acc: "ts_access n \<noteq> []" using oauth_refresh_access[of http c] assms(5) by (metis fst_conv)
  have loc: "oa_location ?n = ts_location n" "oa_provider ?n = ''highlevel''" "oa_access ?n = ts_access n"
    using assms(6) by (auto simp: refreshed_token_def highlevel_provider_def)
  have ne: "ts_location n \<noteq> []" using assms(6) by simp
  note rep = replace_token_rows[OF assms(2), of ?n, unfolded loc, OF acc refl ne]
  have sql: "sql (q_replace_token ''highlevel'' ?loc (\<lambda>_. Inr ?n)) ?w1 = (Inr (complete_token t ?n), ?w1\<lparr>w_db := ?d\<rparr>)"
    using assms(1) by (simp add: sql_calm rep(1))
  have src: "source_token http src w = (Inr (ts_access n), ?w1\<lparr>w_db := ?d\<rparr>)"
    using assms(3) force_refresh_calm[OF assms(1,4,2,5)] sql
    by (simp add: source_token_calm[OF assms(1)] assms(2) complete_token_def loc)
  have same: "token_at l ?d = token_at l (w_db w)" for l using rep(2)[where l = l] assms(7) by auto
  have "source_token http src (?w1\<lparr>w_db := ?d\<rparr>) = force_refresh http src (?w1\<lparr>w_db := ?d\<rparr>)"
    using assms(1-3) same[of ?loc] by (simp add: source_token_calm)
  with src same show ?thesis by auto
qed

section \<open>Witnesses\<close>

definition sample_oauth :: oauth_client where
  "sample_oauth = \<lparr>oc_base_url = [], oc_client_id = ''id'', oc_client_secret = ''secret'',
     oc_redirect_uri = ''https://app/callback'', oc_user_type = ''Location''\<rparr>"

definition sample_answer :: "string \<Rightarrow> string" where
  "sample_answer loc =
    json_encode (js_map [(''access_token'', JsStr ''new''), (''expires_in'', JsNum ''86400''), (''locationId'', JsStr loc)])"

text \<open>A server that gives every request the same answer and counts the requests.\<close>

definition canned :: "string \<Rightarrow> nat http" where
  "canned body q n = (Inr \<lparr>hp_status = 200, hp_body = body\<rparr>, n + 1)"

definition sample_token :: oauth_token where
  "sample_token = \<lparr>oa_provider = ''highlevel'', oa_location = ''loc'', oa_access = ''old'', oa_refresh = ''r1'',
     oa_token_type = ''Bearer'', oa_user_type = [], oa_scope = [], oa_expires = 0\<rparr>"

definition sample_source :: token_source where
  "sample_source = \<lparr>src_location = ''loc'', src_fallback = [], src_oauth = Some sample_oauth\<rparr>"

definition sample_token_world :: "(unit, nat) world" where
  "sample_token_world = \<lparr>w_db = empty_db\<lparr>db_oauth_tokens := [sample_token]\<rparr>, w_clock = 10, w_script = [], w_telnyx = (),
     w_highlevel = 0, w_log = []\<rparr>"

lemma do_token_canned:
  "length body \<le> body_limit \<Longrightarrow> unmarshal token_fields body zero_token_set = Some t \<Longrightarrow> ts_access t \<noteq> [] \<Longrightarrow>
   do_token (canned body) q n = (Inr t, n + 1)"
  by (simp add: do_token_def canned_def success_status_def)

lemma sample_answers:
  "unmarshal token_fields (sample_answer []) zero_token_set = Some (zero_token_set\<lparr>ts_access := ''new'', ts_expires_in := 86400\<rparr>)"
  "unmarshal token_fields (sample_answer ''loc2'') zero_token_set =
     Some (zero_token_set\<lparr>ts_access := ''new'', ts_location := ''loc2'', ts_expires_in := 86400\<rparr>)"
  "length (sample_answer []) = 57" "length (sample_answer ''loc2'') = 61"
  by code_simp+

lemma sample_refresh:
  "oauth_refresh (canned (sample_answer [])) sample_oauth ''r1'' [] 0 =
     (Inr (zero_token_set\<lparr>ts_access := ''new'', ts_expires_in := 86400\<rparr>), 1)"
  "oauth_refresh (canned (sample_answer ''loc2'')) sample_oauth ''r1'' [] 0 =
     (Inr (zero_token_set\<lparr>ts_access := ''new'', ts_location := ''loc2'', ts_expires_in := 86400\<rparr>), 1)"
  by (simp_all add: oauth_refresh_def token_request_def Let_def do_token_canned sample_answers body_limit_def)


theorem refresh_other_location_lost_witness:
  "\<exists>w'. source_token (canned (sample_answer ''loc2'')) sample_source sample_token_world = (Inr ''new'', w') \<and>
     token_at ''loc'' (w_db w') = Some sample_token"
proof -
  have "token_at ''loc'' (w_db sample_token_world) = Some sample_token"
    "token_at ''loc2'' (w_db sample_token_world) = None"
    by (simp_all add: sample_token_world_def sample_token_def)
  then show ?thesis
    using refresh_other_location_lost[of sample_token_world sample_source sample_token sample_oauth "canned (sample_answer ''loc2'')"
        "zero_token_set\<lparr>ts_access := ''new'', ts_location := ''loc2'', ts_expires_in := 86400\<rparr>" 1] sample_refresh(2)
    by (auto simp: sample_token_world_def sample_source_def sample_token_def zero_token_set_def)
qed

end
