(* ===== verification/Telnyx.thy ===== *)
theory Telnyx
  imports Http Provider
begin

text \<open>
  \<^verbatim>\<open>internal/provider/telnyx.go\<close>: the implementation of the Telnyx interface over HTTP. The server is
  the parameter \<open>http\<close>, and its state is that of the client.
\<close>

record telnyx_client =
  tc_base_url :: string
  tc_token :: string
  tc_profile :: string

definition error_limit :: nat where
  "error_limit = 65536"

section \<open>Sending\<close>

record telnyx_error =
  tr_code :: string
  tr_detail :: string

definition telnyx_error_fields :: "(string \<times> telnyx_error list field) list" where
  "telnyx_error_fields =
    [(''errors'', list_field \<lparr>tr_code = [], tr_detail = []\<rparr>
       (struct_field False
         [(''code'', str_field (\<lambda>x p. p\<lparr>tr_code := x\<rparr>)), (''detail'', str_field (\<lambda>x p. p\<lparr>tr_detail := x\<rparr>))])
       (\<lambda>xs _. xs))]"

definition telnyx_error :: "http_response \<Rightarrow> error" where
  "telnyx_error resp =
    (let status = hp_status resp in
     case unmarshal telnyx_error_fields (take error_limit (hp_body resp)) [] of
       Some (e # _) \<Rightarrow>
         ErrProvider status (if tr_code e \<noteq> [] then tr_code e else show_int status)
           (if tr_detail e \<noteq> [] then tr_detail e else ''Telnyx request failed'')
     | _ \<Rightarrow> ErrProvider status (show_int status) ''Telnyx request failed'')"

definition telnyx_message :: "telnyx_client \<Rightarrow> send_request \<Rightarrow> json" where
  "telnyx_message c r =
    js_map [(''from'', JsStr (sr_from r)), (''to'', JsStr (sr_to r)), (''text'', JsStr (sr_text r)),
            (''messaging_profile_id'', JsStr (tc_profile c))]"

definition message_id_fields :: "(string \<times> string field) list" where
  "message_id_fields = [(''data'', struct_field False [(''id'', str_field (\<lambda>x _. x))])]"

definition telnyx_send :: "'s http \<Rightarrow> telnyx_client \<Rightarrow> send_request \<Rightarrow> 's \<Rightarrow> string result \<times> 's" where
  "telnyx_send http c r s =
    (case http \<lparr>hq_method = ''POST'', hq_url = tc_base_url c @ ''/v2/messages'',
        hq_headers = [(''Authorization'', ''Bearer '' @ tc_token c), (''Content-Type'', ''application/json''),
          (''Idempotency-Key'', sr_idempotency_key r)],
        hq_body = Some (json_encode (telnyx_message c r))\<rparr> s of
       (Inl e, s1) \<Rightarrow> (Inl e, s1)
     | (Inr resp, s1) \<Rightarrow>
         (if \<not> success_status (hp_status resp) then Inl (telnyx_error resp)
          else case decode_first False message_id_fields (hp_body resp) [] of
            None \<Rightarrow> Inl (ErrMsg ''decode'' [])
          | Some i \<Rightarrow> if i = [] then Inl (ErrMsg ''Telnyx response is missing message id'' []) else Inr i,
          s1))"

section \<open>Numbers\<close>

text \<open>\<open>sendJSON\<close>, without and with a struct to decode the answer into.\<close>

definition telnyx_exchange ::
  "'s http \<Rightarrow> telnyx_client \<Rightarrow> string \<Rightarrow> string \<Rightarrow> string option \<Rightarrow> 's \<Rightarrow> string result \<times> 's" where
  "telnyx_exchange http c method path body s =
    (case http \<lparr>hq_method = method, hq_url = tc_base_url c @ path,
        hq_headers = (''Authorization'', ''Bearer '' @ tc_token c) #
          (if body \<noteq> None then [(''Content-Type'', ''application/json'')] else []),
        hq_body = body\<rparr> s of
       (Inl e, s1) \<Rightarrow> (Inl e, s1)
     | (Inr resp, s1) \<Rightarrow>
         (if \<not> success_status (hp_status resp)
          then Inl (ErrProvider (hp_status resp) (show_int (hp_status resp)) ''Telnyx request failed'')
          else Inr (hp_body resp), s1))"

definition telnyx_get ::
  "'s http \<Rightarrow> telnyx_client \<Rightarrow> string \<Rightarrow> (string \<times> 'a field) list \<Rightarrow> 'a \<Rightarrow> 's \<Rightarrow> 'a result \<times> 's" where
  "telnyx_get http c path fs zero s =
    (case telnyx_exchange http c ''GET'' path None s of
       (Inl e, s1) \<Rightarrow> (Inl e, s1)
     | (Inr body, s1) \<Rightarrow>
         (case decode_first False fs (take 1048576 body) zero of
            None \<Rightarrow> Inl (ErrMsg ''decode'' []) | Some x \<Rightarrow> Inr x, s1))"

record phone_number =
  pn_id :: string
  pn_number :: string
  pn_profile :: string

definition number_fields :: "(string \<times> phone_number list field) list" where
  "number_fields =
    [(''data'', list_field \<lparr>pn_id = [], pn_number = [], pn_profile = []\<rparr>
       (struct_field False
         [(''id'', str_field (\<lambda>x p. p\<lparr>pn_id := x\<rparr>)),
          (''phone_number'', str_field (\<lambda>x p. p\<lparr>pn_number := x\<rparr>)),
          (''messaging_profile_id'', str_field (\<lambda>x p. p\<lparr>pn_profile := x\<rparr>))])
       (\<lambda>xs _. xs))]"

definition messaging_number_fields :: "(string \<times> phone_number list field) list" where
  "messaging_number_fields =
    [(''data'', list_field \<lparr>pn_id = [], pn_number = [], pn_profile = []\<rparr>
       (struct_field False
         [(''phone_number'', str_field (\<lambda>x p. p\<lparr>pn_number := x\<rparr>)),
          (''messaging_profile_id'', str_field (\<lambda>x p. p\<lparr>pn_profile := x\<rparr>))])
       (\<lambda>xs _. xs))]"

definition messaging_numbers :: "'s http \<Rightarrow> telnyx_client \<Rightarrow> 's \<Rightarrow> string list result \<times> 's" where
  "messaging_numbers http c s =
    (case telnyx_get http c ''/v2/messaging_phone_numbers?page[size]=250'' messaging_number_fields [] s of
       (Inl e, s1) \<Rightarrow> (Inl e, s1)
     | (Inr ns, s1) \<Rightarrow>
         (Inr (map pn_number (filter (\<lambda>n. \<not> (tc_profile c \<noteq> [] \<and> pn_profile n \<noteq> tc_profile c) \<and> pn_number n \<noteq> []) ns)), s1))"

record campaign =
  ca_id :: string
  ca_status :: string

definition campaign_fields :: "(string \<times> campaign list field) list" where
  "campaign_fields =
    [(''records'', list_field \<lparr>ca_id = [], ca_status = []\<rparr>
       (struct_field False
         [(''campaignId'', str_field (\<lambda>x p. p\<lparr>ca_id := x\<rparr>)), (''status'', str_field (\<lambda>x p. p\<lparr>ca_status := x\<rparr>))])
       (\<lambda>xs _. xs))]"

definition assign_to_campaign :: "'s http \<Rightarrow> telnyx_client \<Rightarrow> string \<Rightarrow> 's \<Rightarrow> unit result \<times> 's" where
  "assign_to_campaign http c phone s =
    (case telnyx_get http c ''/v2/10dlc/campaign?recordsPerPage=20'' campaign_fields [] s of
       (Inl e, s1) \<Rightarrow> (Inl e, s1)
     | (Inr cs, s1) \<Rightarrow>
         (case find (\<lambda>x. ca_status x = ''ACTIVE'' \<and> ca_id x \<noteq> []) cs of
            None \<Rightarrow> (Inr (), s1)
          | Some x \<Rightarrow>
              (case telnyx_exchange http c ''POST'' ''/v2/10dlc/phoneNumberCampaign''
                  (Some (json_encode (js_map [(''phoneNumber'', JsStr phone), (''campaignId'', JsStr (ca_id x))]))) s1 of
                 (Inl e, s2) \<Rightarrow> (Inl e, s2) | (Inr _, s2) \<Rightarrow> (Inr (), s2))))"

definition attachable :: "phone_number \<Rightarrow> bool" where
  "attachable n \<longleftrightarrow> pn_profile n = [] \<and> pn_id n \<noteq> [] \<and> pn_number n \<noteq> []"

fun attach_numbers :: "'s http \<Rightarrow> telnyx_client \<Rightarrow> phone_number list \<Rightarrow> 's \<Rightarrow> string list \<times> 's" where
  "attach_numbers http c [] s = ([], s)"
| "attach_numbers http c (n # ns) s =
    (if \<not> attachable n then attach_numbers http c ns s
     else case telnyx_exchange http c ''PATCH'' (''/v2/phone_numbers/'' @ path_escape (pn_id n) @ ''/messaging'')
         (Some (json_encode (js_map [(''messaging_profile_id'', JsStr (tc_profile c))]))) s of
       (Inl _, s1) \<Rightarrow> attach_numbers http c ns s1
     | (Inr _, s1) \<Rightarrow>
         (case attach_numbers http c ns (snd (assign_to_campaign http c (pn_number n) s1)) of
            (added, s2) \<Rightarrow> (pn_number n # added, s2)))"

definition attach_unassigned :: "'s http \<Rightarrow> telnyx_client \<Rightarrow> 's \<Rightarrow> string list result \<times> 's" where
  "attach_unassigned http c s =
    (if tc_profile c = [] then (Inr [], s)
     else case telnyx_get http c ''/v2/phone_numbers?page[size]=250'' number_fields [] s of
       (Inl e, s1) \<Rightarrow> (Inl e, s1)
     | (Inr ns, s1) \<Rightarrow> (case attach_numbers http c ns s1 of (added, s2) \<Rightarrow> (Inr added, s2)))"

definition telnyx_owned_numbers :: "'s http \<Rightarrow> telnyx_client \<Rightarrow> 's \<Rightarrow> string list result \<times> 's" where
  "telnyx_owned_numbers http c s =
    (case messaging_numbers http c s of
       (Inl e, s1) \<Rightarrow> (Inl e, s1)
     | (Inr assigned, s1) \<Rightarrow>
         (case attach_unassigned http c s1 of
            (Inl _, s2) \<Rightarrow> (Inr assigned, s2)
          | (Inr added, s2) \<Rightarrow> (Inr (assigned @ added), s2)))"

definition telnyx_client_api :: "'s http \<Rightarrow> telnyx_client \<Rightarrow> 's telnyx_api" where
  "telnyx_client_api http c = \<lparr>tx_send = telnyx_send http c, tx_owned_numbers = telnyx_owned_numbers http c\<rparr>"

end
