(* ===== verification/AppCore.thy ===== *)
theory AppCore
  imports StoreSteps TokenSource Telnyx
begin

text \<open>
  \<^verbatim>\<open>internal/app/app.go\<close> and \<^verbatim>\<open>workflows.go\<close>: the application's configuration and what its HTTP
  handlers and its background workers share. Every function takes the application and the world and
  returns its result with the new world.
\<close>

section \<open>The application\<close>

text \<open>
  The fields of \<open>App\<close>. A nil interface is \<open>None\<close>; \<open>ap_has_store\<close> says whether \<open>a.Store\<close> is set, as it
  always is in the running program. \<open>ap_telnyx_client\<close> is the Telnyx client if it is the one that
  speaks HTTP (the type assertion of the voice handlers). The HTTP client is seen through the servers
  it talks to: \<open>ap_telnyx_http\<close>, \<open>ap_oauth_http\<close>, and for Signal Desk \<open>ap_post\<close>, which takes a URL, headers
  and a body to the status of the answer.
\<close>

record ('t, 'h) app =
  ap_has_store :: bool
  ap_telnyx :: "'t telnyx_api option"
  ap_highlevel :: "'h highlevel_api option"
  ap_telnyx_client :: "telnyx_client option"
  ap_telnyx_http :: "'t http"
  ap_oauth :: "oauth_client option"
  ap_oauth_http :: "'h http"
  ap_voice_credential :: string
  ap_webhook_key :: string
  ap_highlevel_webhook_key :: string
  ap_hl_secret :: string
  ap_admin_token :: string
  ap_signal_desk_token :: string
  ap_signal_desk_url :: string
  ap_location :: string
  ap_allowed :: "string list"
  ap_from :: string
  ap_enable_sending :: bool
  ap_workflows :: "(string \<times> defn) list"
  ap_crypto :: crypto
  ap_runtime :: runtime
  ap_post :: "string \<Rightarrow> (string \<times> string) list \<Rightarrow> string \<Rightarrow> int result"

text \<open>\<open>ErrorBody e\<close> is the JSON object with the text of \<open>e\<close> under \<open>error\<close>.\<close>

datatype resp_body =
    NoBody
  | TextBody string
  | JsonBody payload
  | UnknownBody "unknown_inbound list"
  | ConversationsBody "conversation list"
  | ErrorBody error
  | Redirect string

record response =
  rs_status :: int
  rs_body :: resp_body

definition http_error :: "int \<Rightarrow> string \<Rightarrow> response" where
  "http_error status msg = \<lparr>rs_status = status, rs_body = TextBody msg\<rparr>"

definition write_json :: "int \<Rightarrow> payload \<Rightarrow> response" where
  "write_json status p = \<lparr>rs_status = status, rs_body = JsonBody p\<rparr>"

text \<open>\<open>io.ReadAll(io.LimitReader(r.Body, limit))\<close>.\<close>

definition read_body :: "nat \<Rightarrow> request \<Rightarrow> string \<times> bool" where
  "read_body limit r = (take limit (rq_body r), rq_read_error r \<and> length (rq_body r) < limit)"

section \<open>Secrets and locations\<close>

definition signal_desk_secret :: "('t, 'h) app \<Rightarrow> string" where
  "signal_desk_secret a =
    (if ap_admin_token a \<noteq> [] then hex_encode (cr_hmac_sha256 (ap_crypto a) (ap_admin_token a) ''signal-desk-v1'')
     else ap_signal_desk_token a)"

definition signal_desk_authorized :: "('t, 'h) app \<Rightarrow> request \<Rightarrow> bool" where
  "signal_desk_authorized a r \<longleftrightarrow>
    (let secret = signal_desk_secret a in secret \<noteq> [] \<and> bearer_secret_ok (rq_header r ''Authorization'') secret)"

definition default_signal_desk_url :: string where
  "default_signal_desk_url = ''https://signal-desk-inbox.chillindylan.chatgpt.site/api/telnyx''"

definition signal_desk_webhook_url :: "('t, 'h) app \<Rightarrow> string" where
  "signal_desk_webhook_url a =
    (if ap_signal_desk_url a \<noteq> [] then ap_signal_desk_url a
     else if signal_desk_secret a = [] then []
     else default_signal_desk_url @ ''?token='' @ query_escape (signal_desk_secret a))"

definition require_admin :: "('t, 'h) app \<Rightarrow> request \<Rightarrow> bool" where
  "require_admin a r =
    (if ap_admin_token a = [] then False
     else bearer_secret_ok (rq_header r ''Authorization'') (ap_admin_token a) \<or>
          bearer_secret_ok (''Bearer '' @ rq_header r ''X-Admin-Token'') (ap_admin_token a))"

definition allows_location :: "('t, 'h) app \<Rightarrow> string \<Rightarrow> ('t, 'h) world \<Rightarrow> bool \<times> ('t, 'h) world" where
  "allows_location a loc w =
    (if loc = [] then (False, w)
     else if ap_location a = [] \<and> ap_allowed a = [] then (True, w)
     else if loc = ap_location a then (True, w)
     else if loc \<in> set (ap_allowed a) then (True, w)
     else if \<not> ap_has_store a then (False, w)
     else (case store_load_token ''highlevel'' loc w of (r, w1) \<Rightarrow> (is_ok r, w1)))"

section \<open>Numbers\<close>

definition lookup_sending_number ::
  "'h highlevel_api \<Rightarrow> string \<Rightarrow> string \<Rightarrow> ('t, 'h) world \<Rightarrow> string result \<times> ('t, 'h) world" where
  "lookup_sending_number hl loc contact_id w =
    call_highlevel (EvSendingNumber loc contact_id)
      (case hl_sending_number_for hl of Some f \<Rightarrow> f loc contact_id | None \<Rightarrow> hl_sending_number hl contact_id) w"

definition owned_numbers :: "('t, 'h) app \<Rightarrow> ('t, 'h) world \<Rightarrow> string list result \<times> ('t, 'h) world" where
  "owned_numbers a w =
    (case ap_telnyx a of None \<Rightarrow> (Inr [], w) | Some tx \<Rightarrow> call_telnyx EvOwnedNumbers (tx_owned_numbers tx) w)"

definition resolve_sending_number ::
  "('t, 'h) app \<Rightarrow> string \<Rightarrow> string \<Rightarrow> string \<Rightarrow> ('t, 'h) world \<Rightarrow> string result \<times> ('t, 'h) world" where
  "resolve_sending_number a loc contact_id fallback w =
    (let (raw, w1) = (case ap_highlevel a of
           Some hl \<Rightarrow> if contact_id \<noteq> [] then lookup_sending_number hl loc contact_id w else (Inr [], w)
         | None \<Rightarrow> (Inr [], w))
     in case raw of
          Inl e \<Rightarrow> (Inl e, w1)
        | Inr raw \<Rightarrow>
            if trim_space raw = [] then (Inr fallback, w1)
            else (case owned_numbers a w1 of
                (Inl e, w2) \<Rightarrow> (Inl e, w2)
              | (Inr owned, w2) \<Rightarrow> (select_sending_number raw fallback owned, w2)))"

definition accepts_inbound :: "('t, 'h) app \<Rightarrow> string \<Rightarrow> ('t, 'h) world \<Rightarrow> bool \<times> ('t, 'h) world" where
  "accepts_inbound a to w =
    (if ap_from a = [] \<or> to = ap_from a then (True, w)
     else case ap_telnyx a of
       None \<Rightarrow> (False, w)
     | Some tx \<Rightarrow>
         (case call_telnyx EvOwnedNumbers (tx_owned_numbers tx) w of
            (Inl e, w1) \<Rightarrow> (False, w1)
          | (Inr owned, w1) \<Rightarrow> (to \<in> set owned, w1)))"

section \<open>Replies and deliveries\<close>

text \<open>The records are handled in turn; the first error ends it.\<close>

fun reply_records ::
  "('t, 'h) app \<Rightarrow> string \<Rightarrow> workflow_record list \<Rightarrow> ('t, 'h) world \<Rightarrow> unit result \<times> ('t, 'h) world" where
  "reply_records a text [] w = (Inr (), w)"
| "reply_records a text (r # rs) w =
    (case (case map_of (ap_workflows a) (e_workflow_key (wr_enrollment r)) of
             None \<Rightarrow> store_fail_workflow (wr_id r) w
           | Some d \<Rightarrow>
               (let (cmds, e) = reply d (wr_enrollment r) text
                in store_apply_commands (r\<lparr>wr_enrollment := e\<rparr>) cmds text w)) of
       (Inl e, w1) \<Rightarrow> (Inl e, w1)
     | (Inr _, w1) \<Rightarrow> reply_records a text rs w1)"

definition apply_workflow_reply ::
  "('t, 'h) app \<Rightarrow> string \<Rightarrow> string \<Rightarrow> string \<Rightarrow> ('t, 'h) world \<Rightarrow> unit result \<times> ('t, 'h) world" where
  "apply_workflow_reply a phone from text w =
    (case store_claim_reply phone from w of
       (Inl e, w1) \<Rightarrow> (Inl e, w1)
     | (Inr records, w1) \<Rightarrow> reply_records a text records w1)"

text \<open>The inbound message as it is passed to HighLevel: no location and no contact.\<close>

definition forwarded :: "string \<Rightarrow> string \<Rightarrow> string \<Rightarrow> string \<Rightarrow> inbound" where
  "forwarded event from to text =
    \<lparr>ib_location_id = [], ib_contact_id = [], ib_conversation_id = [], ib_from = from, ib_to = to,
     ib_text = text, ib_provider_event_id = event\<rparr>"

definition set_dnd :: "('t, 'h) app \<Rightarrow> string \<Rightarrow> ('t, 'h) world \<Rightarrow> unit result \<times> ('t, 'h) world" where
  "set_dnd a number w =
    (case ap_highlevel a of None \<Rightarrow> (Inr (), w) | Some hl \<Rightarrow> call_highlevel (EvSetDND number) (hl_set_sms_dnd hl number) w)"

definition forward_inbound :: "('t, 'h) app \<Rightarrow> inbound \<Rightarrow> ('t, 'h) world \<Rightarrow> unit result \<times> ('t, 'h) world" where
  "forward_inbound a i w =
    (case ap_highlevel a of None \<Rightarrow> (Inr (), w) | Some hl \<Rightarrow> call_highlevel (EvForward i) (hl_forward_inbound hl i) w)"

definition process_inbound ::
  "('t, 'h) app \<Rightarrow> string \<Rightarrow> string \<Rightarrow> string \<Rightarrow> string \<Rightarrow> ('t, 'h) world \<Rightarrow> unit result \<times> ('t, 'h) world" where
  "process_inbound a event from to text w =
    (case store_is_suppressed from w of
       (Inl e, w1) \<Rightarrow> (Inl e, w1)
     | (Inr supp, w1) \<Rightarrow>
         (case (if is_opt_out text \<or> supp then set_dnd a from w1 else (Inr (), w1)) of
            (Inl e, w2) \<Rightarrow> (Inl e, w2)
          | (Inr _, w2) \<Rightarrow>
              (case (if ap_workflows a \<noteq> [] then apply_workflow_reply a from to text w2 else (Inr (), w2)) of
                 (Inl e, w3) \<Rightarrow> (Inl e, w3)
               | (Inr _, w3) \<Rightarrow>
                   (case forward_inbound a (forwarded event from to text) w3 of
                      (Inl e, w4) \<Rightarrow> (Inl e, w4)
                    | (Inr _, w4) \<Rightarrow> store_mark_inbound event w4))))"

definition sync_delivery :: "('t, 'h) app \<Rightarrow> string \<Rightarrow> string \<Rightarrow> ('t, 'h) world \<Rightarrow> unit result \<times> ('t, 'h) world" where
  "sync_delivery a provider_id status w =
    (case store_find_outbound provider_id w of
       (Inl e, w1) \<Rightarrow> (Inl e, w1)
     | (Inr o0, w1) \<Rightarrow>
         if o_message o0 \<noteq> [] then
           (case ap_highlevel a of
              None \<Rightarrow> (Inr (), w1)
            | Some hl \<Rightarrow>
                call_highlevel (EvStatus (o_message o0) status) (hl_update_message_status hl (o_message o0) status) w1)
         else (Inr (), w1))"

definition sync_delivery_event ::
  "('t, 'h) app \<Rightarrow> string \<Rightarrow> string \<Rightarrow> string \<Rightarrow> ('t, 'h) world \<Rightarrow> unit result \<times> ('t, 'h) world" where
  "sync_delivery_event a event provider_id status w =
    (case sync_delivery a provider_id status w of
       (Inl e, w1) \<Rightarrow> (Inl e, w1)
     | (Inr _, w1) \<Rightarrow> store_mark_delivery event w1)"

section \<open>Delays\<close>

text \<open>\<open>1<<min(n, 6)\<close>; the attempts of a claimed job are never negative.\<close>

definition backoff :: "int \<Rightarrow> int" where
  "backoff n = 2 ^ nat (min n 6)"

definition highlevel_retry_delay :: "int \<Rightarrow> duration" where
  "highlevel_retry_delay attempt = backoff attempt * minute"

definition highlevel_delivery_status :: "string \<Rightarrow> (string \<times> string) list \<Rightarrow> string" where
  "highlevel_delivery_status event_type recipients =
    (if event_type = ''message.sent'' then ''pending''
     else case recipients of
       [] \<Rightarrow> ''failed''
     | (_, status) # _ \<Rightarrow>
         if status = ''delivered'' then ''delivered''
         else if status = ''delivery_unconfirmed'' then ''pending'' else ''failed'')"

end
