(* ===== verification/Workers.thy ===== *)
theory Workers
  imports AppCore
begin

text \<open>
  The background workers: \<open>RunWorker\<close>, \<open>RunCRMWorker\<close> and \<open>RunInboundWorker\<close> of
  \<^verbatim>\<open>internal/app/app.go\<close> and \<open>RunWorkflowWorker\<close> of \<^verbatim>\<open>workflows.go\<close>. Each is an endless loop;
  \<open>..._pass\<close> is one iteration, and \<open>run_...\<close> a number of them, ended by the cancellation of the context.
\<close>

section \<open>Outbound messages\<close>

definition job_request :: "job \<Rightarrow> string \<Rightarrow> send_request" where
  "job_request j from = \<lparr>sr_to = o_to j, sr_from = from, sr_text = o_text j,
     sr_idempotency_key = o_location j @ '':'' @ o_message j\<rparr>"

definition retry_or_fail :: "job \<Rightarrow> ('t, 'h) world \<Rightarrow> ('t, 'h) world" where
  "retry_or_fail j w =
    (if j_attempts j < 5 then snd (store_retry (j_id j) (backoff (j_attempts j) * second) w)
     else snd (store_fail (j_id j) w))"

definition finish_send :: "job \<Rightarrow> string result \<Rightarrow> ('t, 'h) world \<Rightarrow> ('t, 'h) world" where
  "finish_send j res w =
    (case res of
       Inr provider_id \<Rightarrow> snd (store_complete (j_id j) provider_id w)
     | Inl (ErrProvider status code msg) \<Rightarrow>
         (case classify_provider_error status code of
            RetrySuppression \<Rightarrow> snd (store_fail (j_id j) (snd (store_suppress (o_to j) ''telnyx'' code w)))
          | RetryPermanent \<Rightarrow> snd (store_fail (j_id j) w)
          | RetryTransient \<Rightarrow> retry_or_fail j w)
     | Inl _ \<Rightarrow> retry_or_fail j w)"

definition send_job :: "('t, 'h) app \<Rightarrow> 't telnyx_api \<Rightarrow> job \<Rightarrow> ('t, 'h) world \<Rightarrow> ('t, 'h) world" where
  "send_job a tx j w =
    (case resolve_sending_number a (o_location j) (o_contact j) (o_from j) w of
       (Inl e, w1) \<Rightarrow>
         if e = ErrUnknownSendingNumber then snd (store_fail (j_id j) w1) else snd (store_retry (j_id j) second w1)
     | (Inr from, w1) \<Rightarrow>
         (case call_telnyx (EvSend (job_request j from)) (tx_send tx (job_request j from)) w1 of
            (res, w2) \<Rightarrow> finish_send j res w2))"

definition worker_pass :: "('t, 'h) app \<Rightarrow> 't telnyx_api \<Rightarrow> ('t, 'h) world \<Rightarrow> ('t, 'h) world" where
  "worker_pass a tx w =
    (case store_claim w of
       (Inl e, w1) \<Rightarrow> sleep (250 * millisecond) w1
     | (Inr j, w1) \<Rightarrow>
         (case store_sending_paused w1 of
            (Inl e, w2) \<Rightarrow> snd (store_retry (j_id j) second w2)
          | (Inr paused, w2) \<Rightarrow>
              if paused then snd (store_retry (j_id j) second w2)
              else (case store_is_suppressed (o_to j) w2 of
                  (Inl e, w3) \<Rightarrow> snd (store_retry (j_id j) second w3)
                | (Inr supp, w3) \<Rightarrow> if supp then snd (store_fail (j_id j) w3) else send_job a tx j w3)))"

fun iterate :: "nat \<Rightarrow> ('w \<Rightarrow> 'w) \<Rightarrow> 'w \<Rightarrow> 'w" where
  "iterate 0 f w = w"
| "iterate (Suc n) f w = iterate n f (f w)"

text \<open>The worker runs only with sending enabled and a Telnyx client.\<close>

definition run_worker :: "('t, 'h) app \<Rightarrow> 't telnyx_api \<Rightarrow> nat \<Rightarrow> ('t, 'h) world \<Rightarrow> ('t, 'h) world" where
  "run_worker a tx n w = (if \<not> ap_enable_sending a then w else iterate n (worker_pass a tx) w)"

section \<open>CRM jobs\<close>

definition crm_request :: "crm_task \<Rightarrow> crm_job" where
  "crm_request t = \<lparr>cj_action = ct_action t, cj_body = ct_body t, cj_contact_id = ct_contact t,
     cj_location_id = ct_location t, cj_phone = ct_phone t, cj_reply = ct_reply t\<rparr>"

definition crm_pass :: "'h highlevel_api \<Rightarrow> ('t, 'h) world \<Rightarrow> ('t, 'h) world" where
  "crm_pass hl w =
    (case store_claim_crm w of
       (Inl ErrNoRows, w1) \<Rightarrow> sleep (250 * millisecond) w1
     | (Inl _, w1) \<Rightarrow> sleep second w1
     | (Inr t, w1) \<Rightarrow>
         (case call_highlevel (EvCRM (crm_request t)) (hl_execute_crm hl (crm_request t)) w1 of
            (Inl e, w2) \<Rightarrow>
              if ct_attempts t < 5 then snd (store_retry_crm (ct_id t) (backoff (ct_attempts t) * second) w2)
              else snd (store_fail_crm (ct_id t) w2)
          | (Inr _, w2) \<Rightarrow> snd (store_complete_crm (ct_id t) w2)))"

definition run_crm_worker :: "('t, 'h) app \<Rightarrow> nat \<Rightarrow> ('t, 'h) world \<Rightarrow> ('t, 'h) world" where
  "run_crm_worker a n w = (case ap_highlevel a of None \<Rightarrow> w | Some hl \<Rightarrow> iterate n (crm_pass hl) w)"

section \<open>Received messages and delivery reports\<close>

definition max_attempts :: int where
  "max_attempts = 5"

definition inbound_step :: "('t, 'h) app \<Rightarrow> inbound_message \<Rightarrow> ('t, 'h) world \<Rightarrow> ('t, 'h) world" where
  "inbound_step a m w =
    (case process_inbound a (im_event m) (im_from m) (im_to m) (im_body m) w of
       (Inl e, w1) \<Rightarrow>
         if im_attempts m \<ge> max_attempts then snd (store_fail_inbound (im_event m) w1)
         else snd (store_retry_inbound (im_event m) (highlevel_retry_delay (im_attempts m)) w1)
     | (Inr _, w1) \<Rightarrow> w1)"

definition delivery_step :: "('t, 'h) app \<Rightarrow> delivery_event \<Rightarrow> ('t, 'h) world \<Rightarrow> ('t, 'h) world" where
  "delivery_step a e w =
    (case sync_delivery_event a (dv_event e) (dv_provider e) (dv_status e) w of
       (Inl _, w1) \<Rightarrow>
         if dv_attempts e \<ge> max_attempts then snd (store_fail_delivery (dv_event e) w1)
         else snd (store_retry_delivery (dv_event e) (highlevel_retry_delay (dv_attempts e)) w1)
     | (Inr _, w1) \<Rightarrow> w1)"

definition inbound_pass :: "('t, 'h) app \<Rightarrow> ('t, 'h) world \<Rightarrow> ('t, 'h) world" where
  "inbound_pass a w =
    (case store_claim_inbound w of
       (r1, w1) \<Rightarrow>
         if \<not> is_ok r1 \<and> r1 \<noteq> Inl ErrNoRows then sleep second w1
         else
           (let w2 = (case r1 of Inl _ \<Rightarrow> w1 | Inr m \<Rightarrow> inbound_step a m w1) in
            case store_claim_delivery w2 of
              (r2, w3) \<Rightarrow>
                if \<not> is_ok r2 \<and> r2 \<noteq> Inl ErrNoRows then sleep second w3
                else (case r2 of
                    Inr e \<Rightarrow> delivery_step a e w3
                  | Inl _ \<Rightarrow> if is_ok r1 then w3 else sleep (250 * millisecond) w3)))"

definition run_inbound_worker :: "('t, 'h) app \<Rightarrow> nat \<Rightarrow> ('t, 'h) world \<Rightarrow> ('t, 'h) world" where
  "run_inbound_worker a n w = iterate n (inbound_pass a) w"

section \<open>Workflows\<close>

text \<open>The worker's clock is in UTC.\<close>

definition workflow_pass :: "('t, 'h) app \<Rightarrow> ('t, 'h) world \<Rightarrow> ('t, 'h) world" where
  "workflow_pass a w =
    (case store_claim_due w of
       (Inl ErrNoRows, w1) \<Rightarrow> sleep (250 * millisecond) w1
     | (Inl _, w1) \<Rightarrow> sleep second w1
     | (Inr r, w1) \<Rightarrow>
         (case map_of (ap_workflows a) (e_workflow_key (wr_enrollment r)) of
            None \<Rightarrow> snd (store_retry_workflow (wr_id r) hour w1)
          | Some d \<Rightarrow>
              if \<not> d_enabled d then snd (store_retry_workflow (wr_id r) hour w1)
              else (case advance (ap_runtime a) d (wr_enrollment r) utc (w_clock w1) of
                  (Inl e, _) \<Rightarrow> snd (store_fail_workflow (wr_id r) w1)
                | (Inr cmds, e) \<Rightarrow>
                    (case store_apply_commands (r\<lparr>wr_enrollment := e\<rparr>) cmds [] w1 of
                       (Inl _, w2) \<Rightarrow> snd (store_retry_workflow (wr_id r) minute w2)
                     | (Inr _, w2) \<Rightarrow> w2))))"

definition run_workflow_worker :: "('t, 'h) app \<Rightarrow> nat \<Rightarrow> ('t, 'h) world \<Rightarrow> ('t, 'h) world" where
  "run_workflow_worker a n w = (if \<not> ap_enable_sending a then w else iterate n (workflow_pass a) w)"

end
