(* ===== verification/AppInvariants.thy ===== *)
theory AppInvariants
  imports Workers
begin

text \<open>
  What every operation of the application keeps, whatever the other processes do and whichever calls
  fail: the invariants of the database, and the log of the messages sent.
\<close>

section \<open>Invariants of the database under the statements\<close>

text \<open>
  \<open>stable P\<close>: no statement of the store breaks \<open>P\<close>, except that the switch of the sending pause may.
  Such a \<open>P\<close> is kept by everything the application does with the database.
\<close>

definition stable :: "(db \<Rightarrow> bool) \<Rightarrow> bool" where
  "stable P \<longleftrightarrow> (\<forall>u d d'. db_step u d d' \<longrightarrow> db_sending_paused d' = db_sending_paused d \<longrightarrow> P d \<longrightarrow> P d')"

lemma stableD: "stable P \<Longrightarrow> db_step u d d' \<Longrightarrow> db_sending_paused d' = db_sending_paused d \<Longrightarrow> P d \<Longrightarrow> P d'"
  by (auto simp: stable_def)

lemma stable_suppressed: "stable (\<lambda>d. suppressed d n)"
  using step_suppressed by (auto simp: stable_def)

lemma stable_db_ok: "stable db_ok"
  using step_ok by (auto simp: stable_def)

lemma stable_inbound_done: "stable (inbound_done e)"
  using step_inbound_done by (auto simp: stable_def)

lemma stable_paused: "stable db_sending_paused"
  by (auto simp: stable_def)

lemma stable_conj: "stable P \<Longrightarrow> stable Q \<Longrightarrow> stable (\<lambda>d. P d \<and> Q d)"
  unfolding stable_def by blast

lemma stable_statements:
  assumes "stable P" and "P d"
  shows
    "P (snd (q_enqueue o0 now d))"
    "P (snd (q_suppress_insert n src ev now d))"
    "P (snd (q_suppress_cancel n now d))"
    "P (snd (q_claim now d))"
    "P (snd (q_complete i pid now d))"
    "P (snd (q_retry i delay now d))"
    "P (snd (q_fail i now d))"
    "P (snd (q_record_delivery parse event job status now d))"
    "P (snd (q_update_delivery event pid status now d))"
    "P (snd (q_claim_delivery now d))"
    "P (snd (q_mark_delivery event now d))"
    "P (snd (q_retry_delivery event delay now d))"
    "P (snd (q_fail_delivery event now d))"
    "P (snd (q_record_inbound event from to body now d))"
    "P (snd (q_claim_inbound now d))"
    "P (snd (q_mark_inbound event now d))"
    "P (snd (q_retry_inbound event delay now d))"
    "P (snd (q_fail_inbound event now d))"
    "P (snd (q_resolve_inbound event now d))"
    "P (snd (q_create_enrollment external loc from e now d))"
    "P (snd (q_claim_due now d))"
    "P (snd (q_claim_reply phone from now d))"
    "P (snd (q_apply_commands w cmds rep now d))"
    "P (snd (q_fail_workflow k now d))"
    "P (snd (q_retry_workflow k delay now d))"
    "P (snd (q_claim_crm now d))"
    "P (snd (q_complete_crm i now d))"
    "P (snd (q_retry_crm i delay now d))"
    "P (snd (q_fail_crm i now d))"
    "P (snd (q_record_admin action detail now d))"
    "P (snd (q_save_token t now d))"
    "P (snd (q_replace_token pr l refresh now d))"
    "P (snd (q_create_state s ttl now d))"
    "P (snd (q_consume_state s now d))"
  by (rule stableD[OF assms(1) _ _ assms(2)], rule db_step.intros, simp add: frame_simps)+

definition holds_at :: "(db \<Rightarrow> bool) \<Rightarrow> ('t, 'h) world \<Rightarrow> bool" where
  "holds_at P w \<longleftrightarrow> P (w_db w) \<and> env_keeps P w"

lemma holds_at_sql: "holds_at P w \<Longrightarrow> (\<And>now d. P d \<Longrightarrow> P (snd (st now d))) \<Longrightarrow> holds_at P (snd (sql st w))"
  unfolding holds_at_def using sql_invariant[of P w st] env_keeps_sql[of P w st] by blast

lemma holds_at_frame [world_simps]:
  "holds_at P (sleep t w) = holds_at P w" "holds_at P (snd (call_telnyx ev f w)) = holds_at P w"
  "holds_at P (snd (call_highlevel ev g w)) = holds_at P w"
  by (simp_all add: holds_at_def world_simps)

lemmas store_defs = store_enqueue_def store_is_suppressed_def store_claim_def store_complete_def store_retry_def
  store_fail_def store_sending_paused_def store_find_outbound_def store_update_delivery_def store_claim_delivery_def
  store_mark_delivery_def store_retry_delivery_def store_fail_delivery_def store_record_inbound_def
  store_recent_unknown_def store_resolve_inbound_def store_claim_inbound_def store_mark_inbound_def
  store_retry_inbound_def store_fail_inbound_def store_create_enrollment_def store_claim_due_def
  store_claim_reply_def store_apply_commands_def store_fail_workflow_def store_retry_workflow_def
  store_claim_crm_def store_complete_crm_def store_retry_crm_def store_fail_crm_def store_record_admin_def
  store_load_token_def store_consume_state_def

text \<open>Every method of the store keeps a stable invariant.\<close>

lemma holds_at_store:
  assumes "stable P" and "holds_at P w"
  shows
    "holds_at P (snd (store_enqueue o0 w))"
    "holds_at P (snd (store_is_suppressed n w))"
    "holds_at P (snd (store_claim w))"
    "holds_at P (snd (store_complete i pid w))"
    "holds_at P (snd (store_retry i delay w))"
    "holds_at P (snd (store_fail i w))"
    "holds_at P (snd (store_sending_paused w))"
    "holds_at P (snd (store_find_outbound pid w))"
    "holds_at P (snd (store_update_delivery event pid status w))"
    "holds_at P (snd (store_claim_delivery w))"
    "holds_at P (snd (store_mark_delivery event w))"
    "holds_at P (snd (store_retry_delivery event delay w))"
    "holds_at P (snd (store_fail_delivery event w))"
    "holds_at P (snd (store_record_inbound event from to body w))"
    "holds_at P (snd (store_recent_unknown limit w))"
    "holds_at P (snd (store_resolve_inbound event w))"
    "holds_at P (snd (store_claim_inbound w))"
    "holds_at P (snd (store_mark_inbound event w))"
    "holds_at P (snd (store_retry_inbound event delay w))"
    "holds_at P (snd (store_fail_inbound event w))"
    "holds_at P (snd (store_create_enrollment external loc from e w))"
    "holds_at P (snd (store_claim_due w))"
    "holds_at P (snd (store_claim_reply phone from w))"
    "holds_at P (snd (store_apply_commands wr cmds rep w))"
    "holds_at P (snd (store_fail_workflow k w))"
    "holds_at P (snd (store_retry_workflow k delay w))"
    "holds_at P (snd (store_claim_crm w))"
    "holds_at P (snd (store_complete_crm i w))"
    "holds_at P (snd (store_retry_crm i delay w))"
    "holds_at P (snd (store_fail_crm i w))"
    "holds_at P (snd (store_record_admin action detail w))"
    "holds_at P (snd (store_load_token pr l w))"
    "holds_at P (snd (store_consume_state s w))"
  unfolding store_defs by (rule holds_at_sql[OF assms(2)], simp add: stable_statements[OF assms(1)])+

text \<open>And none of them calls a service.\<close>

lemma log_store [world_simps]:
  "w_log (snd (store_enqueue o0 w)) = w_log w"
  "w_log (snd (store_is_suppressed n w)) = w_log w"
  "w_log (snd (store_claim w)) = w_log w"
  "w_log (snd (store_complete i pid w)) = w_log w"
  "w_log (snd (store_retry i delay w)) = w_log w"
  "w_log (snd (store_fail i w)) = w_log w"
  "w_log (snd (store_sending_paused w)) = w_log w"
  "w_log (snd (store_find_outbound pid w)) = w_log w"
  "w_log (snd (store_update_delivery event pid status w)) = w_log w"
  "w_log (snd (store_claim_delivery w)) = w_log w"
  "w_log (snd (store_mark_delivery event w)) = w_log w"
  "w_log (snd (store_retry_delivery event delay w)) = w_log w"
  "w_log (snd (store_fail_delivery event w)) = w_log w"
  "w_log (snd (store_record_inbound event from to body w)) = w_log w"
  "w_log (snd (store_recent_unknown limit w)) = w_log w"
  "w_log (snd (store_resolve_inbound event w)) = w_log w"
  "w_log (snd (store_claim_inbound w)) = w_log w"
  "w_log (snd (store_mark_inbound event w)) = w_log w"
  "w_log (snd (store_retry_inbound event delay w)) = w_log w"
  "w_log (snd (store_fail_inbound event w)) = w_log w"
  "w_log (snd (store_create_enrollment external loc from e w)) = w_log w"
  "w_log (snd (store_claim_due w)) = w_log w"
  "w_log (snd (store_claim_reply phone from w)) = w_log w"
  "w_log (snd (store_apply_commands wr cmds rep w)) = w_log w"
  "w_log (snd (store_fail_workflow k w)) = w_log w"
  "w_log (snd (store_retry_workflow k delay w)) = w_log w"
  "w_log (snd (store_claim_crm w)) = w_log w"
  "w_log (snd (store_complete_crm i w)) = w_log w"
  "w_log (snd (store_retry_crm i delay w)) = w_log w"
  "w_log (snd (store_fail_crm i w)) = w_log w"
  "w_log (snd (store_record_admin action detail w)) = w_log w"
  "w_log (snd (store_load_token pr l w)) = w_log w"
  "w_log (snd (store_consume_state s w)) = w_log w"
  unfolding store_defs by (simp_all add: world_simps)

lemma holds_at_store_suppress:
  assumes "stable P" and "holds_at P w"
  shows "holds_at P (snd (store_suppress n source event w))"
proof -
  have "holds_at P (snd (sql (q_suppress_insert n source event) w))"
    by (rule holds_at_sql[OF assms(2)]) (simp add: stable_statements[OF assms(1)])
  then have "holds_at P (snd (sql (q_suppress_cancel n) (snd (sql (q_suppress_insert n source event) w))))"
    by (rule holds_at_sql) (simp add: stable_statements[OF assms(1)])
  with \<open>holds_at P (snd (sql (q_suppress_insert n source event) w))\<close> show ?thesis
    by (simp add: store_suppress_def case_prod_beta split: sum.split)
qed

lemma log_store_suppress [world_simps]: "w_log (snd (store_suppress n source event w)) = w_log w"
  by (simp add: store_suppress_def world_simps case_prod_beta split: sum.split)

lemma holds_at_save_token: "stable P \<Longrightarrow> holds_at P w \<Longrightarrow> holds_at P (snd (store_save_token t w))"
  by (auto simp: store_save_token_def stable_statements intro: holds_at_sql)

lemma holds_at_create_state: "stable P \<Longrightarrow> holds_at P w \<Longrightarrow> holds_at P (snd (store_create_state rand ttl w))"
  by (auto simp: store_create_state_def case_prod_beta stable_statements intro!: holds_at_sql split: sum.split)

section \<open>The application's operations\<close>

text \<open>\<open>sends p w\<close>: the messages given to Telnyx so far that satisfy \<open>p\<close>.\<close>

fun sent_request :: "event \<Rightarrow> send_request list" where
  "sent_request (EvSend r) = [r]"
| "sent_request _ = []"

definition sends :: "(send_request \<Rightarrow> bool) \<Rightarrow> ('t, 'h) world \<Rightarrow> send_request list" where
  "sends p w = filter p (concat (map sent_request (w_log w)))"

lemma sends_log: "w_log w' = w_log w \<Longrightarrow> sends p w' = sends p w"
  by (simp add: sends_def)

lemma sends_call_telnyx [world_simps]:
  "sends p (snd (call_telnyx ev f w)) = sends p w @ filter p (sent_request ev)"
  by (simp add: sends_def world_simps)

lemma sends_call_highlevel [world_simps]:
  "sends p (snd (call_highlevel ev f w)) = sends p w @ filter p (sent_request ev)"
  by (simp add: sends_def world_simps)

lemma sends_sleep [world_simps]: "sends p (sleep t w) = sends p w"
  by (simp add: sends_def world_simps)

lemmas sends_store [world_simps] = log_store[THEN sends_log] log_store_suppress[THEN sends_log]

lemma app_numbers:
  assumes "stable P" and "holds_at P w"
  shows "holds_at P (snd (lookup_sending_number hl loc cid w))" "holds_at P (snd (owned_numbers a w))"
    "sends p (snd (lookup_sending_number hl loc cid w)) = sends p w" "sends p (snd (owned_numbers a w)) = sends p w"
  using assms by (simp_all add: lookup_sending_number_def owned_numbers_def world_simps split: option.split)

lemma resolve_keeps:
  "holds_at P w \<Longrightarrow> stable P \<Longrightarrow> holds_at P (snd (resolve_sending_number a loc cid fb w))"
  by (auto simp: resolve_sending_number_def Let_def case_prod_beta app_numbers split: option.split sum.split)

lemma owned_sends [world_simps]: "sends p (snd (owned_numbers a w)) = sends p w"
  by (simp add: owned_numbers_def world_simps split: option.split)

lemma lookup_sends [world_simps]: "sends p (snd (lookup_sending_number hl loc cid w)) = sends p w"
  by (simp add: lookup_sending_number_def world_simps)

lemma resolve_sends [world_simps]: "sends p (snd (resolve_sending_number a loc cid fb w)) = sends p w"
  by (auto simp: resolve_sending_number_def Let_def case_prod_beta world_simps split: option.split sum.split)

lemma accepts_inbound_keeps:
  "holds_at P w \<Longrightarrow> holds_at P (snd (accepts_inbound a to w))" "sends p (snd (accepts_inbound a to w)) = sends p w"
  by (auto simp: accepts_inbound_def case_prod_beta world_simps split: option.split sum.split)

lemma allows_location_keeps:
  "stable P \<Longrightarrow> holds_at P w \<Longrightarrow> holds_at P (snd (allows_location a loc w))"
  "sends p (snd (allows_location a loc w)) = sends p w"
  by (auto simp: allows_location_def case_prod_beta holds_at_store world_simps)

lemma reply_records_keeps:
  assumes "stable P"
  shows "holds_at P w \<Longrightarrow> holds_at P (snd (reply_records a text rs w))"
    and "sends p (snd (reply_records a text rs w)) = sends p w"
proof (induction rs arbitrary: w)
  case (Cons r rs)
  { case 1 then show ?case using Cons.IH(1)
      by (auto simp: case_prod_beta Let_def holds_at_store[OF assms] split: option.split sum.split)
  next
    case 2 show ?case using Cons.IH(2)
      by (auto simp: case_prod_beta Let_def world_simps split: option.split sum.split) }
qed simp_all

lemma apply_workflow_reply_keeps:
  "stable P \<Longrightarrow> holds_at P w \<Longrightarrow> holds_at P (snd (apply_workflow_reply a phone from text w))"
  by (simp add: apply_workflow_reply_def case_prod_beta holds_at_store reply_records_keeps split: sum.split)

lemma apply_workflow_reply_sends [world_simps]: "sends p (snd (apply_workflow_reply a phone from text w)) = sends p w"
  by (simp add: apply_workflow_reply_def case_prod_beta world_simps reply_records_keeps(2)[OF stable_paused] split: sum.split)

lemma set_dnd_keeps [world_simps]:
  "holds_at P (snd (set_dnd a n w)) = holds_at P w" "sends p (snd (set_dnd a n w)) = sends p w"
  by (simp_all add: set_dnd_def world_simps split: option.split)

lemma forward_inbound_keeps [world_simps]:
  "holds_at P (snd (forward_inbound a i w)) = holds_at P w" "sends p (snd (forward_inbound a i w)) = sends p w"
  by (simp_all add: forward_inbound_def world_simps split: option.split)

lemma process_inbound_keeps:
  "stable P \<Longrightarrow> holds_at P w \<Longrightarrow> holds_at P (snd (process_inbound a event from to text w))"
  by (simp add: process_inbound_def case_prod_beta holds_at_store apply_workflow_reply_keeps world_simps split: sum.split)

lemma process_inbound_sends [world_simps]: "sends p (snd (process_inbound a event from to text w)) = sends p w"
  by (simp add: process_inbound_def case_prod_beta world_simps split: sum.split)

lemma sync_delivery_event_keeps:
  "stable P \<Longrightarrow> holds_at P w \<Longrightarrow> holds_at P (snd (sync_delivery_event a event pid status w))"
  by (simp add: sync_delivery_event_def sync_delivery_def case_prod_beta holds_at_store world_simps split: sum.split option.split)

lemma sync_delivery_event_sends [world_simps]: "sends p (snd (sync_delivery_event a event pid status w)) = sends p w"
  by (simp add: sync_delivery_event_def sync_delivery_def case_prod_beta world_simps split: sum.split option.split)

section \<open>The workers\<close>

lemma finish_send_keeps: "stable P \<Longrightarrow> holds_at P w \<Longrightarrow> holds_at P (finish_send j res w)"
  by (simp add: finish_send_def retry_or_fail_def holds_at_store holds_at_store_suppress
      split: sum.split error.split retry_class.split)

lemma finish_send_sends [world_simps]: "sends p (finish_send j res w) = sends p w"
  by (simp add: finish_send_def retry_or_fail_def world_simps split: sum.split error.split retry_class.split)

lemma send_job_keeps: "stable P \<Longrightarrow> holds_at P w \<Longrightarrow> holds_at P (send_job a tx j w)"
  by (simp add: send_job_def case_prod_beta holds_at_store resolve_keeps finish_send_keeps world_simps split: sum.split)

lemma worker_pass_keeps: "stable P \<Longrightarrow> holds_at P w \<Longrightarrow> holds_at P (worker_pass a tx w)"
  by (simp add: worker_pass_def case_prod_beta holds_at_store send_job_keeps world_simps split: sum.split)

lemma crm_pass_keeps: "stable P \<Longrightarrow> holds_at P w \<Longrightarrow> holds_at P (crm_pass hl w)"
  by (simp add: crm_pass_def case_prod_beta holds_at_store world_simps split: sum.split error.split)

lemma crm_pass_sends [world_simps]: "sends p (crm_pass hl w) = sends p w"
  by (simp add: crm_pass_def case_prod_beta world_simps split: sum.split error.split)

lemma inbound_step_keeps: "stable P \<Longrightarrow> holds_at P w \<Longrightarrow> holds_at P (inbound_step a m w)"
  by (simp add: inbound_step_def case_prod_beta holds_at_store process_inbound_keeps split: sum.split)

lemma inbound_step_sends [world_simps]: "sends p (inbound_step a m w) = sends p w"
  by (simp add: inbound_step_def case_prod_beta world_simps split: sum.split)

lemma delivery_step_keeps: "stable P \<Longrightarrow> holds_at P w \<Longrightarrow> holds_at P (delivery_step a e w)"
  by (simp add: delivery_step_def case_prod_beta holds_at_store sync_delivery_event_keeps split: sum.split)

lemma delivery_step_sends [world_simps]: "sends p (delivery_step a e w) = sends p w"
  by (simp add: delivery_step_def case_prod_beta world_simps split: sum.split)

lemma inbound_pass_keeps: "stable P \<Longrightarrow> holds_at P w \<Longrightarrow> holds_at P (inbound_pass a w)"
  by (auto simp: inbound_pass_def case_prod_beta Let_def holds_at_store inbound_step_keeps delivery_step_keeps world_simps
      split: sum.split)

lemma inbound_pass_sends [world_simps]: "sends p (inbound_pass a w) = sends p w"
  by (auto simp: inbound_pass_def case_prod_beta Let_def world_simps split: sum.split)

lemma workflow_pass_keeps: "stable P \<Longrightarrow> holds_at P w \<Longrightarrow> holds_at P (workflow_pass a w)"
  by (simp add: workflow_pass_def case_prod_beta holds_at_store world_simps split: sum.split option.split error.split)

lemma workflow_pass_sends [world_simps]: "sends p (workflow_pass a w) = sends p w"
  by (simp add: workflow_pass_def case_prod_beta world_simps split: sum.split option.split error.split)

lemma iterate_invariant: "P w \<Longrightarrow> (\<And>w. P w \<Longrightarrow> P (f w)) \<Longrightarrow> P (iterate n f w)"
  by (induction n arbitrary: w) auto

end
