(* ===== verification/Handlers.thy ===== *)
theory Handlers
  imports AppInvariants
begin

text \<open>
  The HTTP handlers of \<^verbatim>\<open>internal/app/app.go\<close> and \<^verbatim>\<open>workflows.go\<close>. A handler takes the request and
  the world to the response and the new world. The response headers, and the timestamp in the reply
  to an outbound webhook, are left out.
\<close>

section \<open>Outbound webhook of HighLevel\<close>

record ghl_request =
  gr_contact_id :: string
  gr_conversation_id :: string
  gr_location_id :: string
  gr_message_id :: string
  gr_type :: string
  gr_attachments :: "string list"
  gr_message :: string
  gr_phone :: string
  gr_user_id :: string

definition zero_ghl :: ghl_request where
  "zero_ghl = \<lparr>gr_contact_id = [], gr_conversation_id = [], gr_location_id = [], gr_message_id = [], gr_type = [],
     gr_attachments = [], gr_message = [], gr_phone = [], gr_user_id = []\<rparr>"

definition ghl_fields :: "(string \<times> ghl_request field) list" where
  "ghl_fields =
    [(''contactId'', str_field (\<lambda>x p. p\<lparr>gr_contact_id := x\<rparr>)),
     (''conversationId'', str_field (\<lambda>x p. p\<lparr>gr_conversation_id := x\<rparr>)),
     (''locationId'', str_field (\<lambda>x p. p\<lparr>gr_location_id := x\<rparr>)),
     (''messageId'', str_field (\<lambda>x p. p\<lparr>gr_message_id := x\<rparr>)),
     (''type'', str_field (\<lambda>x p. p\<lparr>gr_type := x\<rparr>)),
     (''attachments'', list_field [] (str_field (\<lambda>x _. x)) (\<lambda>xs p. p\<lparr>gr_attachments := xs\<rparr>)),
     (''message'', str_field (\<lambda>x p. p\<lparr>gr_message := x\<rparr>)),
     (''phone'', str_field (\<lambda>x p. p\<lparr>gr_phone := x\<rparr>)),
     (''userId'', str_field (\<lambda>x p. p\<lparr>gr_user_id := x\<rparr>))]"

definition highlevel_authenticated :: "('t, 'h) app \<Rightarrow> request \<Rightarrow> string \<Rightarrow> bool" where
  "highlevel_authenticated a r body \<longleftrightarrow>
    (length (ap_highlevel_webhook_key a) = public_key_size \<and>
     verify_highlevel (ap_crypto a) r body (ap_highlevel_webhook_key a) = None) \<or>
    (ap_hl_secret a \<noteq> [] \<and> bearer_secret_ok (rq_header r ''Authorization'') (ap_hl_secret a))"

definition ghl_valid :: "('t, 'h) app \<Rightarrow> ghl_request \<Rightarrow> bool" where
  "ghl_valid a p \<longleftrightarrow>
    gr_type p = ''SMS'' \<and> gr_attachments p = [] \<and> gr_contact_id p \<noteq> [] \<and> gr_location_id p \<noteq> [] \<and>
    gr_message_id p \<noteq> [] \<and> gr_message p \<noteq> [] \<and> length (gr_message p) \<le> 1600 \<and>
    validate_e164 (gr_phone p) = None \<and> validate_e164 (ap_from a) = None"

definition ghl_outbound :: "('t, 'h) app \<Rightarrow> ghl_request \<Rightarrow> outbound" where
  "ghl_outbound a p = \<lparr>o_location = gr_location_id p, o_contact = gr_contact_id p, o_message = gr_message_id p,
     o_to = gr_phone p, o_from = ap_from a, o_text = gr_message p\<rparr>"

definition handle_highlevel :: "('t, 'h) app \<Rightarrow> request \<Rightarrow> ('t, 'h) world \<Rightarrow> response \<times> ('t, 'h) world" where
  "handle_highlevel a r w =
    (if rq_method r \<noteq> ''POST'' then (http_error 405 ''method not allowed'', w)
     else let (body, read_error) = read_body 1048576 r in
       if read_error then (http_error 400 ''invalid request'', w)
       else if \<not> highlevel_authenticated a r body then (http_error 401 ''unauthorized'', w)
       else case unmarshal ghl_fields body zero_ghl of
         None \<Rightarrow> (http_error 400 ''invalid request'', w)
       | Some p \<Rightarrow>
           if \<not> ghl_valid a p then (http_error 400 ''invalid request'', w)
           else let (allowed, w1) = allows_location a (gr_location_id p) w in
             if \<not> allowed then (http_error 403 ''unknown location'', w1)
             else (case store_enqueue (ghl_outbound a p) w1 of
                 (Inl e, w2) \<Rightarrow> (http_error 500 ''database error'', w2)
               | (Inr created, w2) \<Rightarrow>
                   (write_json 200 [(''success'', JsBool True), (''status'', JsStr ''success''), (''type'', JsStr ''SMS''),
                      (''messageId'', JsStr (gr_message_id p)), (''conversationId'', JsStr (gr_conversation_id p)),
                      (''duplicate'', JsBool (\<not> created))], w2)))"

section \<open>Webhook of Telnyx\<close>

record telnyx_event =
  te_id :: string
  te_event_type :: string
  te_payload_id :: string
  te_from :: string
  te_to :: "(string \<times> string) list"
  te_text :: string
  te_autoresponse :: string

definition zero_telnyx_event :: telnyx_event where
  "zero_telnyx_event = \<lparr>te_id = [], te_event_type = [], te_payload_id = [], te_from = [], te_to = [], te_text = [],
     te_autoresponse = []\<rparr>"

definition recipient_fields :: "(string \<times> (string \<times> string) field) list" where
  "recipient_fields =
    [(''phone_number'', str_field (\<lambda>x (_, s). (x, s))), (''status'', str_field (\<lambda>x (n, _). (n, x)))]"

definition telnyx_payload_fields :: "(string \<times> telnyx_event field) list" where
  "telnyx_payload_fields =
    [(''id'', str_field (\<lambda>x p. p\<lparr>te_payload_id := x\<rparr>)),
     (''from'', struct_field False [(''phone_number'', str_field (\<lambda>x p. p\<lparr>te_from := x\<rparr>))]),
     (''to'', list_field ([], []) (struct_field False recipient_fields) (\<lambda>xs p. p\<lparr>te_to := xs\<rparr>)),
     (''text'', str_field (\<lambda>x p. p\<lparr>te_text := x\<rparr>)),
     (''autoresponse_type'', str_field (\<lambda>x p. p\<lparr>te_autoresponse := x\<rparr>))]"

definition telnyx_fields :: "(string \<times> telnyx_event field) list" where
  "telnyx_fields =
    [(''data'', struct_field False
       [(''id'', str_field (\<lambda>x p. p\<lparr>te_id := x\<rparr>)),
        (''event_type'', str_field (\<lambda>x p. p\<lparr>te_event_type := x\<rparr>)),
        (''payload'', struct_field False telnyx_payload_fields)])]"

definition is_delivery :: "telnyx_event \<Rightarrow> bool" where
  "is_delivery e \<longleftrightarrow> te_event_type e = ''message.sent'' \<or> te_event_type e = ''message.finalized''"

definition is_received :: "telnyx_event \<Rightarrow> bool" where
  "is_received e \<longleftrightarrow> te_event_type e = ''message.received'' \<and> te_to e \<noteq> []"

definition event_status :: "telnyx_event \<Rightarrow> string" where
  "event_status e = highlevel_delivery_status (te_event_type e) (te_to e)"

text \<open>The number the message was sent to.\<close>

definition received_on :: "telnyx_event \<Rightarrow> string" where
  "received_on e = (case te_to e of [] \<Rightarrow> [] | (n, _) # _ \<Rightarrow> n)"

definition asks_to_stop :: "telnyx_event \<Rightarrow> bool" where
  "asks_to_stop e \<longleftrightarrow> is_opt_out (te_text e) \<or> te_autoresponse e = ''STOP''"

text \<open>
  The part before the response: the event is recorded and an opt-out takes effect. The result is the
  response that ends the request early, or whether the event was new.
\<close>

definition telnyx_record ::
  "('t, 'h) app \<Rightarrow> telnyx_event \<Rightarrow> ('t, 'h) world \<Rightarrow> (response + bool \<times> bool) \<times> ('t, 'h) world" where
  "telnyx_record a e w =
    (case (if is_delivery e then store_update_delivery (te_id e) (te_payload_id e) (event_status e) w else (Inr False, w)) of
       (Inl _, w1) \<Rightarrow> (Inl (http_error 500 ''database error''), w1)
     | (Inr fresh_delivery, w1) \<Rightarrow>
         if \<not> is_received e then (Inr (fresh_delivery, False), w1)
         else let (accepted, w2) = accepts_inbound a (received_on e) w1 in
           if \<not> accepted then (Inl \<lparr>rs_status = 202, rs_body = NoBody\<rparr>, w2)
           else (case store_record_inbound (te_id e) (te_from e) (received_on e) (te_text e) w2 of
               (Inl _, w3) \<Rightarrow> (Inl (http_error 500 ''database error''), w3)
             | (Inr fresh_inbound, w3) \<Rightarrow>
                 if asks_to_stop e then
                   (case store_suppress (te_from e) ''telnyx'' (te_id e) w3 of
                      (Inl _, w4) \<Rightarrow> (Inl (http_error 500 ''database error''), w4)
                    | (Inr _, w4) \<Rightarrow> (Inr (fresh_delivery, fresh_inbound), w4))
                 else (Inr (fresh_delivery, fresh_inbound), w3)))"

text \<open>The headers of the copy sent to Signal Desk, and the call; its result is only logged.\<close>

definition signal_desk_headers :: "request \<Rightarrow> (string \<times> string) list" where
  "signal_desk_headers r =
    [(''Content-Type'', ''application/json''), (''x-signal-desk-forwarded'', ''1'')] @
    filter (\<lambda>(_, v). v \<noteq> [])
      (map (\<lambda>n. (n, rq_header r n)) [''telnyx-signature-ed25519'', ''telnyx-timestamp''])"

definition forward_signal_desk :: "('t, 'h) app \<Rightarrow> request \<Rightarrow> string \<Rightarrow> string \<Rightarrow> unit result" where
  "forward_signal_desk a source body url =
    (case ap_post a url (signal_desk_headers source) body of
       Inl e \<Rightarrow> Inl e
     | Inr status \<Rightarrow>
         if status < 200 \<or> 300 \<le> status then Inl (ErrMsg ''Signal Desk webhook returned %d'' [show_int status]) else Inr ())"

text \<open>The part after the response: its errors are logged and the workers try again later.\<close>

definition telnyx_follow_up ::
  "('t, 'h) app \<Rightarrow> telnyx_event \<Rightarrow> bool \<times> bool \<Rightarrow> ('t, 'h) world \<Rightarrow> ('t, 'h) world" where
  "telnyx_follow_up a e news w =
    (let w1 = (if fst news then snd (sync_delivery_event a (te_id e) (te_payload_id e) (event_status e) w) else w)
     in if snd news then snd (process_inbound a (te_id e) (te_from e) (received_on e) (te_text e) w1) else w1)"

definition handle_telnyx :: "('t, 'h) app \<Rightarrow> request \<Rightarrow> ('t, 'h) world \<Rightarrow> response \<times> ('t, 'h) world" where
  "handle_telnyx a r w =
    (let body = fst (read_body 1048576 r) in
     if verify_telnyx (ap_crypto a) r body (ap_webhook_key a) (w_clock w) (5 * minute) \<noteq> None
     then (http_error 401 ''unauthorized'', w)
     else case unmarshal telnyx_fields body zero_telnyx_event of
       None \<Rightarrow> (http_error 400 ''bad json'', w)
     | Some e \<Rightarrow>
         (case telnyx_record a e w of
            (Inl resp, w1) \<Rightarrow> (resp, w1)
          | (Inr news, w1) \<Rightarrow> (\<lparr>rs_status = 202, rs_body = NoBody\<rparr>, telnyx_follow_up a e news w1)))"

text \<open>Whether the handler sends the copy to Signal Desk, and what comes of it.\<close>

definition telnyx_forwards :: "('t, 'h) app \<Rightarrow> request \<Rightarrow> unit result option" where
  "telnyx_forwards a r =
    (let url = signal_desk_webhook_url a in
     if url \<noteq> [] \<and> rq_header r ''x-signal-desk-forwarded'' = []
     then Some (forward_signal_desk a r (fst (read_body 1048576 r)) url) else None)"

section \<open>Enrolling a contact in a workflow\<close>

record enroll_request =
  er_external_id :: string
  er_location_id :: string
  er_workflow_key :: string
  er_contact_id :: string
  er_to :: string
  er_from :: string
  er_timezone :: string
  er_consent_at :: time
  er_consent_source :: string
  er_variables :: "(string \<times> string) list"

definition zero_enroll :: enroll_request where
  "zero_enroll = \<lparr>er_external_id = [], er_location_id = [], er_workflow_key = [], er_contact_id = [], er_to = [],
     er_from = [], er_timezone = [], er_consent_at = zero_time, er_consent_source = [], er_variables = []\<rparr>"

text \<open>\<open>Time.UnmarshalJSON\<close>; unlike Go it also accepts a timestamp written with JSON escapes.\<close>

definition time_field :: "(time \<Rightarrow> 's \<Rightarrow> 's) \<Rightarrow> 's field" where
  "time_field upd v s =
    (case v of
       JsNull \<Rightarrow> (s, True)
     | JsStr x \<Rightarrow> (case parse_rfc3339 x of None \<Rightarrow> (s, False) | Some t \<Rightarrow> (upd t s, True))
     | _ \<Rightarrow> (s, False))"

definition enroll_fields :: "(string \<times> enroll_request field) list" where
  "enroll_fields =
    [(''external_id'', str_field (\<lambda>x p. p\<lparr>er_external_id := x\<rparr>)),
     (''location_id'', str_field (\<lambda>x p. p\<lparr>er_location_id := x\<rparr>)),
     (''workflow_key'', str_field (\<lambda>x p. p\<lparr>er_workflow_key := x\<rparr>)),
     (''contact_id'', str_field (\<lambda>x p. p\<lparr>er_contact_id := x\<rparr>)),
     (''to'', str_field (\<lambda>x p. p\<lparr>er_to := x\<rparr>)),
     (''from'', str_field (\<lambda>x p. p\<lparr>er_from := x\<rparr>)),
     (''timezone'', str_field (\<lambda>x p. p\<lparr>er_timezone := x\<rparr>)),
     (''consent_at'', time_field (\<lambda>x p. p\<lparr>er_consent_at := x\<rparr>)),
     (''consent_source'', str_field (\<lambda>x p. p\<lparr>er_consent_source := x\<rparr>)),
     (''variables'', map_field er_variables (\<lambda>x p. p\<lparr>er_variables := x\<rparr>))]"

definition enroll_contact :: "enroll_request \<Rightarrow> contact" where
  "enroll_contact q = \<lparr>c_id = er_contact_id q, c_phone = er_to q, c_timezone = er_timezone q,
     c_consent_at = er_consent_at q, c_consent_source = er_consent_source q, c_variables = er_variables q\<rparr>"

definition handle_enroll :: "('t, 'h) app \<Rightarrow> request \<Rightarrow> ('t, 'h) world \<Rightarrow> response \<times> ('t, 'h) world" where
  "handle_enroll a r w =
    (if rq_method r \<noteq> ''POST'' then (http_error 405 ''method not allowed'', w)
     else if ap_hl_secret a = [] \<or> \<not> bearer_secret_ok (rq_header r ''Authorization'') (ap_hl_secret a)
       then (http_error 401 ''unauthorized'', w)
     else case decode_first True enroll_fields (fst (read_body 1048576 r)) zero_enroll of
       None \<Rightarrow> (http_error 400 ''invalid request'', w)
     | Some q \<Rightarrow>
         (case map_of (ap_workflows a) (er_workflow_key q) of
            None \<Rightarrow> (http_error 404 ''unknown workflow'', w)
          | Some d \<Rightarrow>
              if er_external_id q = [] \<or> er_location_id q = [] \<or> er_from q = []
                then (http_error 400 ''external_id, location_id, and from are required'', w)
              else if ap_location a \<noteq> [] \<and> er_location_id q \<noteq> ap_location a
                then (http_error 403 ''unknown location'', w)
              else if validate_e164 (er_from q) \<noteq> None \<or> (er_to q \<noteq> [] \<and> validate_e164 (er_to q) \<noteq> None)
                then (http_error 400 ''invalid request'', w)
              else (case start d (enroll_contact q) (w_clock w) of
                  Inl e \<Rightarrow> (http_error 422 (case e of ErrMsg m _ \<Rightarrow> m | _ \<Rightarrow> []), w)
                | Inr enrollment \<Rightarrow>
                    (case store_create_enrollment (er_external_id q) (er_location_id q) (er_from q) enrollment w of
                       (Inl e, w1) \<Rightarrow> (http_error 500 ''database error'', w1)
                     | (Inr (i, created), w1) \<Rightarrow>
                         (write_json (if created then 202 else 200)
                            [(''created'', JsBool created), (''enrollment_id'', JsNum (show_int i))], w1)))))"

end
