(* ===== verification/Voice.thy ===== *)
theory Voice
  imports AppInvariants
begin

text \<open>
  Browser calls for Signal Desk: \<^verbatim>\<open>internal/app/voice.go\<close> and the handlers of \<^verbatim>\<open>internal/app/app.go\<close> for
  the call token and the status. They speak to Telnyx directly and never use the database.
\<close>

definition voice_profile_name :: string where
  "voice_profile_name = ''Signal Desk Browser Calls''"

definition voice_connection_name :: string where
  "voice_connection_name = ''Signal Desk Browser''"

definition voice_credential_name :: string where
  "voice_credential_name = ''Signal Desk Browser''"

section \<open>Requests to Telnyx\<close>

record telnyx_resource =
  vr_id :: string
  vr_name :: string
  vr_connection_name :: string
  vr_resource_id :: string

definition zero_resource :: telnyx_resource where
  "zero_resource = \<lparr>vr_id = [], vr_name = [], vr_connection_name = [], vr_resource_id = []\<rparr>"

definition resource_field :: "telnyx_resource field" where
  "resource_field = struct_field False
    [(''id'', str_field (\<lambda>x p. p\<lparr>vr_id := x\<rparr>)), (''name'', str_field (\<lambda>x p. p\<lparr>vr_name := x\<rparr>)),
     (''connection_name'', str_field (\<lambda>x p. p\<lparr>vr_connection_name := x\<rparr>)),
     (''resource_id'', str_field (\<lambda>x p. p\<lparr>vr_resource_id := x\<rparr>))]"

definition failure_fields :: "(string \<times> string list field) list" where
  "failure_fields =
    [(''errors'', list_field [] (struct_field False [(''detail'', str_field (\<lambda>x _. x))]) (\<lambda>xs _. xs))]"

definition telnyx_base :: "telnyx_client \<Rightarrow> string" where
  "telnyx_base c = (let b = trim_slashes (tc_base_url c) in if b = [] then ''https://api.telnyx.com'' else b)"

text \<open>A request made with the application's HTTP client.\<close>

definition voice_http ::
  "('t, 'h) app \<Rightarrow> http_request \<Rightarrow> ('t, 'h) world \<Rightarrow> http_response result \<times> ('t, 'h) world" where
  "voice_http a q = call_telnyx (EvVoice (hq_method q) (hq_url q)) (ap_telnyx_http a q)"

definition voice_failure :: "http_response \<Rightarrow> error" where
  "voice_failure resp =
    (case decode_ignoring failure_fields (take error_limit (hp_body resp)) [] of
       detail # _ \<Rightarrow>
         if detail \<noteq> [] then ErrMsg ''%s'' [detail] else ErrMsg ''Telnyx returned status %d'' [show_int (hp_status resp)]
     | [] \<Rightarrow> ErrMsg ''Telnyx returned status %d'' [show_int (hp_status resp)])"

definition voice_json ::
  "('t, 'h) app \<Rightarrow> string \<Rightarrow> string \<Rightarrow> json option \<Rightarrow> (string \<times> 'a field) list \<Rightarrow> 'a \<Rightarrow> ('t, 'h) world \<Rightarrow>
   'a result \<times> ('t, 'h) world" where
  "voice_json a method path body fs zero w =
    (case ap_telnyx_client a of
       None \<Rightarrow> (Inl (ErrMsg ''Telnyx access is unavailable'' []), w)
     | Some c \<Rightarrow>
         if tc_token c = [] then (Inl (ErrMsg ''Telnyx access is unavailable'' []), w)
         else (case voice_http a \<lparr>hq_method = method, hq_url = telnyx_base c @ path,
             hq_headers = (''Authorization'', ''Bearer '' @ tc_token c) #
               (if body \<noteq> None then [(''Content-Type'', ''application/json'')] else []),
             hq_body = map_option json_encode body\<rparr> w of
           (Inl e, w1) \<Rightarrow> (Inl e, w1)
         | (Inr resp, w1) \<Rightarrow>
             (if \<not> success_status (hp_status resp) then Inl (voice_failure resp)
              else case decode_first False fs (take 1048576 (hp_body resp)) zero of
                None \<Rightarrow> Inl (ErrMsg ''decode'' []) | Some x \<Rightarrow> Inr x,
              w1)))"

definition find_resource ::
  "('t, 'h) app \<Rightarrow> string \<Rightarrow> string \<Rightarrow> ('t, 'h) world \<Rightarrow> string result \<times> ('t, 'h) world" where
  "find_resource a path name w =
    (case voice_json a ''GET'' path None
        [(''data'', list_field zero_resource resource_field (\<lambda>xs _. xs))] [] w of
       (Inl e, w1) \<Rightarrow> (Inl e, w1)
     | (Inr items, w1) \<Rightarrow>
         (Inr (case find (\<lambda>i. vr_name i = name \<or> vr_connection_name i = name) items of
                 None \<Rightarrow> [] | Some i \<Rightarrow> vr_id i), w1))"

definition create_resource ::
  "('t, 'h) app \<Rightarrow> string \<Rightarrow> json \<Rightarrow> ('t, 'h) world \<Rightarrow> string result \<times> ('t, 'h) world" where
  "create_resource a path body w =
    (case voice_json a ''POST'' path (Some body) [(''data'', resource_field)] zero_resource w of
       (Inl e, w1) \<Rightarrow> (Inl e, w1)
     | (Inr r, w1) \<Rightarrow>
         (if vr_id r = [] then Inl (ErrMsg ''Telnyx response did not include a resource id'' []) else Inr (vr_id r), w1))"

definition voice_credential_id :: "('t, 'h) app \<Rightarrow> ('t, 'h) world \<Rightarrow> string result \<times> ('t, 'h) world" where
  "voice_credential_id a w =
    (if ap_voice_credential a \<noteq> [] then (Inr (ap_voice_credential a), w)
     else find_resource a ''/v2/telephony_credentials?page[size]=100'' voice_credential_name w)"

section \<open>Provisioning\<close>

text \<open>\<open>base64.RawURLEncoding\<close>, and the SIP user made from what \<open>rand.Read\<close> put into the two buffers.\<close>

definition base64url_char :: "nat \<Rightarrow> char" where
  "base64url_char n = ''ABCDEFGHIJKLMNOPQRSTUVWXYZabcdefghijklmnopqrstuvwxyz0123456789-_'' ! (n mod 64)"

fun base64url_encode :: "string \<Rightarrow> string" where
  "base64url_encode [] = []"
| "base64url_encode [a] = [base64url_char (byte a div 4), base64url_char (byte a * 16)]"
| "base64url_encode [a, b] =
    [base64url_char (byte a div 4), base64url_char (byte a * 16 + byte b div 16), base64url_char (byte b * 4)]"
| "base64url_encode (a # b # c # s) =
    base64url_char (byte a div 4) # base64url_char (byte a * 16 + byte b div 16) #
    base64url_char (byte b * 4 + byte c div 64) # base64url_char (byte c) # base64url_encode s"

definition new_sip_credentials :: "(string \<times> string) result \<Rightarrow> (string \<times> string) result" where
  "new_sip_credentials rand =
    (case rand of
       Inl e \<Rightarrow> Inl e
     | Inr (username, password) \<Rightarrow> Inr (''signaldesk'' @ hex_encode username, base64url_encode password))"

definition wrap_error :: "string \<Rightarrow> 'a result \<times> 'w \<Rightarrow> 'a result \<times> 'w" where
  "wrap_error msg r = (case r of (Inl _, w) \<Rightarrow> (Inl (ErrMsg msg []), w) | (Inr x, w) \<Rightarrow> (Inr x, w))"

definition ensure_profile :: "('t, 'h) app \<Rightarrow> ('t, 'h) world \<Rightarrow> string result \<times> ('t, 'h) world" where
  "ensure_profile a w =
    (case wrap_error ''list Telnyx outbound voice profiles: %w''
        (find_resource a ''/v2/outbound_voice_profiles?page[size]=100'' voice_profile_name w) of
       (Inl e, w1) \<Rightarrow> (Inl e, w1)
     | (Inr i, w1) \<Rightarrow>
         if i \<noteq> [] then (Inr i, w1)
         else wrap_error ''create Telnyx outbound voice profile: %w''
           (create_resource a ''/v2/outbound_voice_profiles''
              (js_map [(''name'', JsStr voice_profile_name), (''enabled'', JsBool True),
                 (''whitelisted_destinations'', JsArr [JsStr ''US''])]) w1))"

definition ensure_connection ::
  "('t, 'h) app \<Rightarrow> (string \<times> string) result \<Rightarrow> string \<Rightarrow> ('t, 'h) world \<Rightarrow> string result \<times> ('t, 'h) world" where
  "ensure_connection a rand profile w =
    (case wrap_error ''list Telnyx SIP connections: %w''
        (find_resource a ''/v2/credential_connections?page[size]=100'' voice_connection_name w) of
       (Inl e, w1) \<Rightarrow> (Inl e, w1)
     | (Inr i, w1) \<Rightarrow>
         if i \<noteq> [] then (Inr i, w1)
         else (case new_sip_credentials rand of
             Inl e \<Rightarrow> (Inl e, w1)
           | Inr (username, password) \<Rightarrow>
               wrap_error ''create Telnyx SIP connection: %w''
                 (create_resource a ''/v2/credential_connections''
                    (js_map [(''active'', JsBool True), (''connection_name'', JsStr voice_connection_name),
                       (''user_name'', JsStr username), (''password'', JsStr password),
                       (''anchorsite_override'', JsStr ''Latency''),
                       (''outbound'', js_map [(''outbound_voice_profile_id'', JsStr profile)])]) w1)))"

definition ensure_voice ::
  "('t, 'h) app \<Rightarrow> (string \<times> string) result \<Rightarrow> ('t, 'h) world \<Rightarrow> string result \<times> ('t, 'h) world" where
  "ensure_voice a rand w =
    (case voice_credential_id a w of
       (Inl e, w1) \<Rightarrow> (Inl e, w1)
     | (Inr i, w1) \<Rightarrow>
         if i \<noteq> [] then (Inr i, w1)
         else (case ensure_profile a w1 of
             (Inl e, w2) \<Rightarrow> (Inl e, w2)
           | (Inr profile, w2) \<Rightarrow>
               (case ensure_connection a rand profile w2 of
                  (Inl e, w3) \<Rightarrow> (Inl e, w3)
                | (Inr connection, w3) \<Rightarrow>
                    wrap_error ''create Telnyx browser credential: %w''
                      (create_resource a ''/v2/telephony_credentials''
                         (js_map [(''connection_id'', JsStr connection), (''name'', JsStr voice_credential_name)]) w3))))"

definition handle_voice_provision ::
  "('t, 'h) app \<Rightarrow> (string \<times> string) result \<Rightarrow> request \<Rightarrow> ('t, 'h) world \<Rightarrow> response \<times> ('t, 'h) world" where
  "handle_voice_provision a rand r w =
    (if rq_method r \<noteq> ''POST'' then (http_error 405 ''method not allowed'', w)
     else if \<not> signal_desk_authorized a r then (http_error 401 ''unauthorized'', w)
     else case ensure_voice a rand w of
       (Inl e, w1) \<Rightarrow> (\<lparr>rs_status = 502, rs_body = ErrorBody e\<rparr>, w1)
     | (Inr i, w1) \<Rightarrow> (write_json 200 [(''connected'', JsBool True), (''credential_id'', JsStr i)], w1))"

section \<open>Call tokens\<close>

definition call_token :: "string \<Rightarrow> string" where
  "call_token payload =
    (let token = trim_space payload in
     if has_prefix [CHR 0x7B] token then
       (case unmarshal [(''data'', str_field (\<lambda>x _. x))] payload [] of
          Some d \<Rightarrow> if d \<noteq> [] then d else token
        | None \<Rightarrow> token)
     else token)"

text \<open>Without the HTTP client the request goes to the public address and carries no authorization.\<close>

definition token_target :: "('t, 'h) app \<Rightarrow> string" where
  "token_target a =
    (case ap_telnyx_client a of
       Some c \<Rightarrow> if tc_base_url c \<noteq> [] then trim_slashes (tc_base_url c) else ''https://api.telnyx.com''
     | None \<Rightarrow> ''https://api.telnyx.com'')"

definition handle_voice_token :: "('t, 'h) app \<Rightarrow> request \<Rightarrow> ('t, 'h) world \<Rightarrow> response \<times> ('t, 'h) world" where
  "handle_voice_token a r w =
    (if rq_method r \<noteq> ''POST'' then (http_error 405 ''method not allowed'', w)
     else if \<not> signal_desk_authorized a r then (http_error 401 ''unauthorized'', w)
     else case voice_credential_id a w of (cred, w1) \<Rightarrow>
       (case cred of
          Inl _ \<Rightarrow> (write_json 503 [(''error'', JsStr ''Voice calling has not been connected yet.'')], w1)
        | Inr i \<Rightarrow>
            if i = [] then (write_json 503 [(''error'', JsStr ''Voice calling has not been connected yet.'')], w1)
            else (case voice_http a \<lparr>hq_method = ''POST'',
                hq_url = token_target a @ ''/v2/telephony_credentials/'' @ path_escape i @ ''/token'',
                hq_headers = (case ap_telnyx_client a of None \<Rightarrow> []
                    | Some c \<Rightarrow> [(''Authorization'', ''Bearer '' @ tc_token c)]) @ [(''Accept'', ''text/plain'')],
                hq_body = None\<rparr> w1 of
              (Inl _, w2) \<Rightarrow> (http_error 502 ''voice token unavailable'', w2)
            | (Inr resp, w2) \<Rightarrow>
                (if \<not> success_status (hp_status resp)
                 then write_json 502 [(''error'', JsStr ''Telnyx could not create a call token.'')]
                 else (let token = call_token (take error_limit (hp_body resp)) in
                   if token = [] then write_json 502 [(''error'', JsStr ''Telnyx returned an empty call token.'')]
                   else write_json 200 [(''data'', JsStr token)]), w2))))"

section \<open>Status\<close>

fun first_non_nil :: "json list \<Rightarrow> string" where
  "first_non_nil [] = []"
| "first_non_nil (v # vs) = (case v of JsStr s \<Rightarrow> if s \<noteq> [] then s else first_non_nil vs | _ \<Rightarrow> first_non_nil vs)"

definition status_item :: "(string \<times> json) list \<Rightarrow> json" where
  "status_item item = JsObj
    [(''id'', any_at ''id'' item),
     (''name'', JsStr (first_non_nil [any_at ''connection_name'' item, any_at ''name'' item, any_at ''username'' item])),
     (''connectionId'', any_at ''connection_id'' item), (''active'', any_at ''active'' item)]"

definition status_paths :: "(string \<times> string) list" where
  "status_paths =
    [(''connections'', ''/v2/credential_connections?page[size]=100''),
     (''credentials'', ''/v2/telephony_credentials?page[size]=100''),
     (''outboundVoiceProfiles'', ''/v2/outbound_voice_profiles?page[size]=100'')]"

fun status_entries ::
  "('t, 'h) app \<Rightarrow> telnyx_client \<Rightarrow> (string \<times> string) list \<Rightarrow> ('t, 'h) world \<Rightarrow> payload \<times> ('t, 'h) world" where
  "status_entries a c [] w = ([], w)"
| "status_entries a c ((key, path) # rest) w =
    (case voice_http a \<lparr>hq_method = ''GET'', hq_url = telnyx_base c @ path,
        hq_headers = [(''Authorization'', ''Bearer '' @ tc_token c)], hq_body = None\<rparr> w of
       (res, w1) \<Rightarrow>
         (let entries = (case res of
              Inl _ \<Rightarrow> [(key @ ''Status'', JsNum (show_int 502))]
            | Inr resp \<Rightarrow>
                (key @ ''Status'', JsNum (show_int (hp_status resp))) #
                (case decode_first False [(''data'', list_field [] any_map_field (\<lambda>xs _. xs))]
                    (take 1048576 (hp_body resp)) [] of
                   Some items \<Rightarrow>
                     if success_status (hp_status resp) then [(key, JsArr (map status_item items))] else []
                 | None \<Rightarrow> []));
            (more, w2) = status_entries a c rest w1
          in (entries @ more, w2)))"

text \<open>The order of the three requests is that of a Go map.\<close>

definition handle_voice_status :: "('t, 'h) app \<Rightarrow> request \<Rightarrow> ('t, 'h) world \<Rightarrow> response \<times> ('t, 'h) world" where
  "handle_voice_status a r w =
    (if rq_method r \<noteq> ''GET'' then (http_error 405 ''method not allowed'', w)
     else if \<not> signal_desk_authorized a r then (http_error 401 ''unauthorized'', w)
     else case ap_telnyx_client a of
       None \<Rightarrow> (http_error 503 ''Telnyx access is unavailable'', w)
     | Some c \<Rightarrow>
         if tc_token c = [] then (http_error 503 ''Telnyx access is unavailable'', w)
         else (case voice_credential_id a w of
             (cred, w1) \<Rightarrow>
               (case status_entries a c (rt_range_vars (ap_runtime a) status_paths) w1 of
                  (entries, w2) \<Rightarrow>
                    (write_json 200 ((''configuredCredentialId'', JsStr (case cred of Inl _ \<Rightarrow> [] | Inr i \<Rightarrow> i)) # entries), w2))))"

section \<open>Lemmas\<close>

text \<open>None of this touches the database.\<close>

lemma voice_http_db [world_simps]:
  "w_db (snd (voice_http a q w)) = w_db w" "w_script (snd (voice_http a q w)) = w_script w"
  "holds_at P (snd (voice_http a q w)) = holds_at P w" "sends p (snd (voice_http a q w)) = sends p w"
  by (simp_all add: voice_http_def world_simps)

lemma voice_json_keeps [world_simps]:
  "holds_at P (snd (voice_json a m path b fs z w)) = holds_at P w"
  "sends p (snd (voice_json a m path b fs z w)) = sends p w"
  by (simp_all add: voice_json_def case_prod_beta world_simps split: option.split sum.split)

lemma find_resource_keeps [world_simps]:
  "holds_at P (snd (find_resource a path name w)) = holds_at P w"
  "sends p (snd (find_resource a path name w)) = sends p w"
  by (simp_all add: find_resource_def case_prod_beta world_simps split: option.split sum.split)

lemma create_resource_keeps [world_simps]:
  "holds_at P (snd (create_resource a path b w)) = holds_at P w"
  "sends p (snd (create_resource a path b w)) = sends p w"
  by (simp_all add: create_resource_def case_prod_beta world_simps split: option.split sum.split)

lemma wrap_error_keeps [world_simps]: "snd (wrap_error msg r) = snd r"
  by (simp add: wrap_error_def case_prod_beta split: sum.split)

lemma voice_credential_keeps [world_simps]:
  "holds_at P (snd (voice_credential_id a w)) = holds_at P w"
  "sends p (snd (voice_credential_id a w)) = sends p w"
  by (simp_all add: voice_credential_id_def world_simps)

lemma ensure_keeps [world_simps]:
  "holds_at P (snd (ensure_profile a w)) = holds_at P w" "sends p (snd (ensure_profile a w)) = sends p w"
  "holds_at P (snd (ensure_connection a rand i w)) = holds_at P w" "sends p (snd (ensure_connection a rand i w)) = sends p w"
  by (simp_all add: ensure_profile_def ensure_connection_def case_prod_beta world_simps split: sum.split)

lemma ensure_voice_keeps [world_simps]:
  "holds_at P (snd (ensure_voice a rand w)) = holds_at P w" "sends p (snd (ensure_voice a rand w)) = sends p w"
  by (simp_all add: ensure_voice_def case_prod_beta world_simps split: sum.split)

lemma handle_voice_provision_keeps [world_simps]:
  "holds_at P (snd (handle_voice_provision a rand r w)) = holds_at P w"
  "sends p (snd (handle_voice_provision a rand r w)) = sends p w"
  by (simp_all add: handle_voice_provision_def case_prod_beta world_simps split: sum.split)

lemma handle_voice_token_keeps [world_simps]:
  "holds_at P (snd (handle_voice_token a r w)) = holds_at P w"
  "sends p (snd (handle_voice_token a r w)) = sends p w"
  by (simp_all add: handle_voice_token_def case_prod_beta world_simps split: sum.split)

lemma status_entries_keeps [world_simps]:
  "holds_at P (snd (status_entries a c ps w)) = holds_at P w"
  "sends p (snd (status_entries a c ps w)) = sends p w"
  by (induction ps arbitrary: w) (auto simp: case_prod_beta Let_def world_simps)

lemma handle_voice_status_keeps [world_simps]:
  "holds_at P (snd (handle_voice_status a r w)) = holds_at P w"
  "sends p (snd (handle_voice_status a r w)) = sends p w"
  by (simp_all add: handle_voice_status_def case_prod_beta world_simps split: option.split)

end
