(* ===== verification/GoFormat.thy ===== *)
theory GoFormat
  imports GoTime
begin

text \<open>
  The other half of \<open>time\<close>: a UTC time written in the formats \<open>RFC3339\<close> and \<open>RFC3339Nano\<close>, and that
  reading it gives back the time.
\<close>

section \<open>Calendar\<close>

text \<open>The date of a day number: the years are counted from March, in cycles of 400, 100 and 4 years.\<close>

definition civil_from_days :: "int \<Rightarrow> int \<times> int \<times> int" where
  "civil_from_days z =
    (let era = (z + 719468) div 146097; doe = (z + 719468) mod 146097;
         c = min 3 (doe div 36524); r = doe - 36524 * c;
         q = r div 1461; r2 = r - 1461 * q;
         yy = min 3 (r2 div 365); doy = r2 - 365 * yy;
         mp = (5 * doy + 2) div 153;
         y = 400 * era + 100 * c + 4 * q + yy
     in (if mp \<ge> 10 then y + 1 else y, if mp < 10 then mp + 3 else mp - 9, doy - (153 * mp + 2) div 5 + 1))"

section \<open>Writing\<close>

definition digit_char :: "int \<Rightarrow> char" where
  "digit_char n = char_of (48 + nat (n mod 10))"

definition pad2 :: "int \<Rightarrow> string" where
  "pad2 n = [digit_char (n div 10), digit_char n]"

fun pad_digits :: "nat \<Rightarrow> int \<Rightarrow> string" where
  "pad_digits 0 n = []"
| "pad_digits (Suc k) n = pad_digits k (n div 10) @ [digit_char n]"

definition trim_zeros :: "string \<Rightarrow> string" where
  "trim_zeros s = rev (dropWhile (\<lambda>c. c = CHR ''0'') (rev s))"

definition format_clock :: "time \<Rightarrow> string" where
  "format_clock t =
    (let s = unix_sec t; (y, m, d) = civil_from_days (s div 86400); k = s mod 86400
     in pad2 (y div 100) @ pad2 (y mod 100) @ ''-'' @ pad2 m @ ''-'' @ pad2 d @ ''T'' @
        pad2 (k div 3600) @ '':'' @ pad2 (k mod 3600 div 60) @ '':'' @ pad2 (k mod 60))"

definition format_rfc3339 :: "time \<Rightarrow> string" where
  "format_rfc3339 t = format_clock t @ ''Z''"

definition format_rfc3339_nano :: "time \<Rightarrow> string" where
  "format_rfc3339_nano t =
    (let frac = trim_zeros (pad_digits 9 (nanosecond_of t))
     in format_clock t @ (if frac = [] then [] else CHR ''.'' # frac) @ ''Z'')"

section \<open>Reading back\<close>

lemma civil_bounds:
  fixes z :: int
  defines "doe \<equiv> (z + 719468) mod 146097"
  defines "c \<equiv> min 3 (doe div 36524)"
  defines "r \<equiv> doe - 36524 * c"
  defines "q \<equiv> r div 1461"
  defines "r2 \<equiv> r - 1461 * q"
  defines "yy \<equiv> min 3 (r2 div 365)"
  defines "doy \<equiv> r2 - 365 * yy"
  shows "0 \<le> c" "c \<le> 3" "0 \<le> q" "q \<le> 24" "0 \<le> yy" "yy \<le> 3" "0 \<le> doy" "doy \<le> 365"
    "doy = 365 \<Longrightarrow> yy = 3 \<and> (q = 24 \<longrightarrow> c = 3)" "doe = 36524 * c + 1461 * q + 365 * yy + doy"
proof -
  have doe: "0 \<le> doe" "doe < 146097" by (simp_all add: doe_def)
  show c: "0 \<le> c" "c \<le> 3" using doe by (simp_all add: c_def pos_imp_zdiv_nonneg_iff)
  have r: "0 \<le> r" "c < 3 \<Longrightarrow> r < 36524" "r < 36525"
  proof -
    have d: "doe div 36524 * 36524 \<le> doe" "doe < doe div 36524 * 36524 + 36524"
      by (simp_all add: minus_mod_eq_div_mult [symmetric])
    show "0 \<le> r" "c < 3 \<Longrightarrow> r < 36524" "r < 36525"
      using d doe unfolding r_def c_def by linarith+
  qed
  show q: "0 \<le> q" "q \<le> 24" using r unfolding q_def by (simp_all add: pos_imp_zdiv_nonneg_iff)
  have r2: "0 \<le> r2" "r2 < 1461" by (simp_all add: r2_def q_def minus_mult_div_eq_mod)
  have d2: "r2 div 365 * 365 \<le> r2" "r2 < r2 div 365 * 365 + 365" by (simp_all add: minus_mod_eq_div_mult [symmetric])
  show yy: "0 \<le> yy" "yy \<le> 3" using r2 by (simp_all add: yy_def pos_imp_zdiv_nonneg_iff)
  show "0 \<le> doy" "doy \<le> 365" using d2 r2 unfolding doy_def yy_def by linarith+
  show "doy = 365 \<Longrightarrow> yy = 3 \<and> (q = 24 \<longrightarrow> c = 3)"
  proof -
    assume "doy = 365"
    then have yy3: "yy = 3" "r2 = 1460" using d2 r2 unfolding doy_def yy_def by linarith+
    moreover have "q = 24 \<longrightarrow> c = 3" using yy3(2) r(2) c(2) unfolding r2_def by linarith
    ultimately show ?thesis by simp
  qed
  show "doe = 36524 * c + 1461 * q + 365 * yy + doy" by (simp add: doy_def r2_def r_def)
qed

text \<open>The month and day of a day of the year that starts in March.\<close>

lemma month_cases:
  fixes doy :: int
  assumes "0 \<le> doy" and "doy \<le> 365" and "mp = (5 * doy + 2) div 153" and "d = doy - (153 * mp + 2) div 5 + 1"
  shows "0 \<le> mp" "mp \<le> 11" "1 \<le> d" "(153 * mp + 2) div 5 + d = doy + 1"
    "d \<le> (if mp = 11 then 30 else if mp = 1 \<or> mp = 3 \<or> mp = 6 \<or> mp = 8 then 30 else 31)"
    "mp = 11 \<Longrightarrow> d = doy - 336"
proof -
  show mp: "0 \<le> mp" "mp \<le> 11" using assms by (simp_all add: pos_imp_zdiv_nonneg_iff)
  have b: "153 * mp \<le> 5 * doy + 2" "5 * doy + 2 < 153 * mp + 153"
    unfolding assms(3) by (simp_all add: minus_mod_eq_mult_div [symmetric])
  have e: "mp = 0 \<or> mp = 1 \<or> mp = 2 \<or> mp = 3 \<or> mp = 4 \<or> mp = 5 \<or> mp = 6 \<or> mp = 7 \<or> mp = 8 \<or> mp = 9 \<or> mp = 10 \<or> mp = 11"
    using mp by presburger
  from e show "1 \<le> d" using b unfolding assms(4) by (elim disjE) simp_all
  from e show "d \<le> (if mp = 11 then 30 else if mp = 1 \<or> mp = 3 \<or> mp = 6 \<or> mp = 8 then 30 else 31)"
    using b assms(2) unfolding assms(4) by (elim disjE) simp_all
  show "(153 * mp + 2) div 5 + d = doy + 1" "mp = 11 \<Longrightarrow> d = doy - 336" by (simp_all add: assms(4))
qed

lemma year_divs:
  fixes era c q yy :: int
  assumes "0 \<le> c" "c \<le> 3" "0 \<le> q" "q \<le> 24" "0 \<le> yy" "yy \<le> 3"
  defines "Y \<equiv> 400 * era + 100 * c + 4 * q + yy"
  shows "Y div 4 = 100 * era + 25 * c + q" "Y div 100 = 4 * era + c" "Y div 400 = era"
proof -
  have "Y = (100 * era + 25 * c + q) * 4 + yy" "Y = (4 * era + c) * 100 + (4 * q + yy)"
    "Y = era * 400 + (100 * c + 4 * q + yy)" by (simp_all add: Y_def)
  then show "Y div 4 = 100 * era + 25 * c + q" "Y div 100 = 4 * era + c" "Y div 400 = era"
    using assms(1-6) by (simp_all add: div_pos_pos_trivial)
qed

lemma civil_inverse:
  assumes "civil_from_days z = (y, m, d)"
  shows "days_from_civil y m d = z" "1 \<le> m" "m \<le> 12" "1 \<le> d" "d \<le> days_in_month y m"
proof -
  let ?era = "(z + 719468) div 146097" let ?doe = "(z + 719468) mod 146097"
  let ?c = "min 3 (?doe div 36524)" let ?r = "?doe - 36524 * ?c"
  let ?q = "?r div 1461" let ?r2 = "?r - 1461 * ?q"
  let ?yy = "min 3 (?r2 div 365)" let ?doy = "?r2 - 365 * ?yy"
  let ?mp = "(5 * ?doy + 2) div 153" let ?Y = "400 * ?era + 100 * ?c + 4 * ?q + ?yy"
  note b = civil_bounds[of z]
  note divs = year_divs[OF b(1-6), of ?era]
  note mc = month_cases[OF b(7,8) refl refl]
  define c q yy doy mp era where abb: "c = ?c" "q = ?q" "yy = ?yy" "doy = ?doy" "mp = ?mp" "era = ?era"
  have bb: "0 \<le> c" "c \<le> 3" "0 \<le> q" "q \<le> 24" "0 \<le> yy" "yy \<le> 3" "doy \<le> 365"
    "doy = 365 \<Longrightarrow> yy = 3 \<and> (q = 24 \<longrightarrow> c = 3)"
    using b(1-6,8,9) unfolding abb by blast+
  have z: "z = 146097 * era + (36524 * c + 1461 * q + 365 * yy + doy) - 719468"
  proof -
    have "?doe = 36524 * c + 1461 * q + 365 * yy + doy" unfolding abb by (rule b(10))
    moreover have "146097 * era + ?doe = z + 719468" unfolding abb by (rule mult_div_mod_eq)
    ultimately show ?thesis by linarith
  qed
  have "civil_from_days z = (if mp \<ge> 10 then 400 * era + 100 * c + 4 * q + yy + 1 else 400 * era + 100 * c + 4 * q + yy,
      if mp < 10 then mp + 3 else mp - 9, doy - (153 * mp + 2) div 5 + 1)"
    unfolding civil_from_days_def Let_def abb by (rule refl)
  with assms have y: "y = (if mp \<ge> 10 then 400 * era + 100 * c + 4 * q + yy + 1 else 400 * era + 100 * c + 4 * q + yy)"
    and m: "m = (if mp < 10 then mp + 3 else mp - 9)" and d: "d = doy - (153 * mp + 2) div 5 + 1"
    by simp_all
  have mp: "0 \<le> mp" "mp \<le> 11" "1 \<le> d" "(153 * mp + 2) div 5 + d = doy + 1"
    "d \<le> (if mp = 11 then 30 else if mp = 1 \<or> mp = 3 \<or> mp = 6 \<or> mp = 8 then 30 else 31)" "mp = 11 \<Longrightarrow> d = doy - 336"
    using mc unfolding d abb by blast+
  show "1 \<le> m" "m \<le> 12" using mp m by auto
  show "1 \<le> d" by (rule mp(3))
  have Y: "(if m \<le> 2 then y - 1 else y) = 400 * era + 100 * c + 4 * q + yy" "(if m > 2 then m - 3 else m + 9) = mp"
    using mp y m by auto
  show "days_from_civil y m d = z"
  proof -
    let ?Z = "400 * era + 100 * c + 4 * q + yy"
    have Z: "?Z div 4 = 100 * era + 25 * c + q" "?Z div 100 = 4 * era + c" "?Z div 400 = era"
      using divs unfolding abb by blast+
    define k where "k = (153 * mp + 2) div 5"
    have "k + d = doy + 1" using mp(4) by (simp add: k_def)
    then show ?thesis unfolding days_from_civil_def Let_def Y Z k_def[symmetric] z by simp
  qed
  show "d \<le> days_in_month y m"
  proof (cases "mp = 11")
    case False
    then show ?thesis using mp m by (auto simp: days_in_month_def split: if_splits)
  next
    case True
    then have my: "m = 2" "y = 400 * era + 100 * c + 4 * q + yy + 1" using m y by simp_all
    show ?thesis
    proof (cases "doy = 365")
      case False
      then have "d \<le> 28" using True mp(6) bb(7) by simp
      then show ?thesis using my by (simp add: days_in_month_def)
    next
      case doy: True
      then have yy: "yy = 3" and qc: "q = 24 \<longrightarrow> c = 3" using bb(8) by simp_all
      have "y mod 4 = 0"
      proof -
        have "y = 4 * (100 * era + 25 * c + q + 1)" using my yy by simp
        then show ?thesis by simp
      qed
      moreover have "y mod 100 \<noteq> 0 \<or> y mod 400 = 0"
      proof (cases "q = 24")
        case True
        then have "y = 400 * (era + 1)" using my yy qc by simp
        then show ?thesis by simp
      next
        case False
        then have "y = (4 * era + c) * 100 + 4 * (q + 1)" using my yy by simp
        then have "y mod 100 = 4 * (q + 1) mod 100" by (metis add.commute mod_mult_self1)
        moreover have "4 * (q + 1) mod 100 = 4 * (q + 1)" using bb False by (intro mod_pos_pos_trivial) auto
        ultimately show ?thesis using bb(3) by simp
      qed
      ultimately have "leap_year y" by (simp add: leap_year_def)
      then show ?thesis using my True mp(6) doy by (simp add: days_in_month_def)
    qed
  qed
qed

lemma digit_cases: "digit_char n \<in> set ''0123456789'' \<and> (of_char (digit_char n) :: nat) = 48 + nat (n mod 10)"
proof -
  have "k \<in> {0, 1, 2, 3, 4, 5, 6, 7, 8, 9}" if "k < 10" for k :: nat using that by auto
  moreover have "nat (n mod 10) < 10" by simp
  ultimately have "nat (n mod 10) \<in> {0, 1, 2, 3, 4, 5, 6, 7, 8, 9}" by blast
  moreover have "\<forall>k \<in> {0, 1, 2, 3, 4, 5, 6, 7, 8, 9 :: nat}. char_of (48 + k) \<in> set ''0123456789'' \<and>
      (of_char (char_of (48 + k) :: char) :: nat) = 48 + k" by code_simp
  ultimately show ?thesis unfolding digit_char_def by blast
qed

lemma of_digit_char: "(of_char (digit_char n) :: int) = 48 + n mod 10"
proof -
  have "(of_char (digit_char n) :: int) = int (of_char (digit_char n))" by (simp add: of_nat_of_char)
  also have "\<dots> = 48 + n mod 10" using digit_cases[of n] by simp
  finally show ?thesis .
qed

lemma is_digit_char: "is_digit (digit_char n)"
  using digit_cases[of n] by (simp only: is_digit_def)

lemma two_digits_pad2:
  assumes "0 \<le> n" "n \<le> 99" "lo \<le> n" "n \<le> hi"
  shows "two_digits lo hi (pad2 n) = Some n"
proof -
  have "n div 10 mod 10 = n div 10" using assms by (intro mod_pos_pos_trivial) simp_all
  then have "(n div 10 mod 10) * 10 + n mod 10 = n" by simp
  then show ?thesis using assms by (simp add: two_digits_def pad2_def is_digit_char of_digit_char Let_def)
qed

lemma length_pad2 [simp]: "length (pad2 n) = 2"
  by (simp add: pad2_def)

text \<open>The years a timestamp can have four digits for.\<close>

definition four_digit_year :: "time \<Rightarrow> bool" where
  "four_digit_year t \<longleftrightarrow> (let y = fst (civil_from_days (unix_sec t div 86400)) in 0 \<le> y \<and> y \<le> 9999)"

lemma format_clock_shape: "\<exists>a b c d e f g h i j k l m n. format_clock t =
   [a, b, c, d, CHR ''-'', e, f, CHR ''-'', g, h, CHR ''T'', i, j, CHR '':'', k, l, CHR '':'', m, n]"
  by (auto simp: format_clock_def Let_def pad2_def split: prod.split)

lemma length_format_clock [simp]: "length (format_clock t) = 19"
  using format_clock_shape[of t] by auto

lemma parse_clock_list:
  "parse_clock [a, b, c, d, CHR ''-'', e, f, CHR ''-'', g, h, CHR ''T'', i, j, CHR '':'', k, l, CHR '':'', m, n] =
    (case (two_digits 0 99 [a, b], two_digits 0 99 [c, d], two_digits 1 12 [e, f], two_digits 1 31 [g, h],
           two_digits 0 23 [i, j], two_digits 0 59 [k, l], two_digits 0 59 [m, n]) of
       (Some c, Some yy, Some mo, Some da, Some hh, Some mm, Some ss) \<Rightarrow>
         (if da \<le> days_in_month (c * 100 + yy) mo
          then Some (days_from_civil (c * 100 + yy) mo da * 86400 + hh * 3600 + mm * 60 + ss) else None)
     | _ \<Rightarrow> None)"
  by (simp add: parse_clock_def numeral_eq_Suc Let_def split: option.split)

lemma parse_format_clock:
  assumes "four_digit_year t"
  shows "parse_clock (format_clock t) = Some (unix_sec t)"
proof -
  let ?s = "unix_sec t" let ?k = "?s mod 86400"
  obtain y m d where c: "civil_from_days (?s div 86400) = (y, m, d)" by (metis prod_cases3)
  note inv = civil_inverse[OF c]
  have y: "0 \<le> y" "y \<le> 9999" using assms c by (simp_all add: four_digit_year_def)
  have dim: "days_in_month y m \<le> 31" by (simp add: days_in_month_def)
  have k: "0 \<le> ?k" "?k < 86400" by simp_all
  have parts: "two_digits 0 99 (pad2 (y div 100)) = Some (y div 100)" "two_digits 0 99 (pad2 (y mod 100)) = Some (y mod 100)"
    "two_digits 1 12 (pad2 m) = Some m" "two_digits 1 31 (pad2 d) = Some d"
    "two_digits 0 23 (pad2 (?k div 3600)) = Some (?k div 3600)"
    "two_digits 0 59 (pad2 (?k mod 3600 div 60)) = Some (?k mod 3600 div 60)"
    "two_digits 0 59 (pad2 (?k mod 60)) = Some (?k mod 60)"
    using y inv dim k by (intro two_digits_pad2; simp add: pos_imp_zdiv_nonneg_iff)+
  have sum: "?k div 3600 * 3600 + ?k mod 3600 div 60 * 60 + ?k mod 60 = ?k"
  proof -
    have "?k mod 60 = ?k mod 3600 mod 60" by (simp add: mod_mod_cancel)
    then have m: "?k mod 3600 div 60 * 60 + ?k mod 60 = ?k mod 3600" by (simp only: div_mult_mod_eq)
    have "?k div 3600 * 3600 + (?k mod 3600 div 60 * 60 + ?k mod 60) = ?k" unfolding m by (rule div_mult_mod_eq)
    then show ?thesis by (simp only: add.assoc)
  qed
  have all: "?s div 86400 * 86400 + ?k div 3600 * 3600 + ?k mod 3600 div 60 * 60 + ?k mod 60 = ?s"
  proof -
    have "?s div 86400 * 86400 + (?k div 3600 * 3600 + ?k mod 3600 div 60 * 60 + ?k mod 60) = ?s"
      unfolding sum by (rule div_mult_mod_eq)
    then show ?thesis by (simp only: add.assoc)
  qed
  have yy: "y div 100 * 100 + y mod 100 = y" by simp
  have list: "format_clock t =
      [digit_char (y div 100 div 10), digit_char (y div 100), digit_char (y mod 100 div 10), digit_char (y mod 100), CHR ''-'',
       digit_char (m div 10), digit_char m, CHR ''-'', digit_char (d div 10), digit_char d, CHR ''T'',
       digit_char (?k div 3600 div 10), digit_char (?k div 3600), CHR '':'',
       digit_char (?k mod 3600 div 60 div 10), digit_char (?k mod 3600 div 60), CHR '':'',
       digit_char (?k mod 60 div 10), digit_char (?k mod 60)]"
    by (simp add: format_clock_def Let_def c pad2_def)
  show ?thesis
    unfolding list parse_clock_list parts[unfolded pad2_def] option.case prod.case yy inv(1) all
    using inv(5) by (simp only: if_True)
qed

section \<open>Fractions\<close>

lemma length_pad_digits [simp]: "length (pad_digits k n) = k"
  by (induction k arbitrary: n) simp_all

lemma fold_pad_digits:
  "0 \<le> n \<Longrightarrow> n < 10 ^ k \<Longrightarrow> fold (\<lambda>c m. m * 10 + (of_char c - 48)) (pad_digits k n) (0 :: int) = n"
proof (induction k arbitrary: n)
  case (Suc k)
  then have "0 \<le> n div 10" "n div 10 < 10 ^ k" by (simp_all add: pos_imp_zdiv_nonneg_iff)
  from Suc.IH[OF this] show ?case by (simp add: of_digit_char)
qed simp

lemma list_all_pad_digits: "list_all is_digit (pad_digits k n)"
  by (induction k arbitrary: n) (simp_all add: is_digit_char)

lemma trim_zeros_split: "\<exists>k. s = trim_zeros s @ replicate k CHR ''0''"
proof -
  let ?z = "takeWhile (\<lambda>c. c = CHR ''0'') (rev s)"
  have "\<forall>c \<in> set ?z. c = CHR ''0''" by (auto dest: set_takeWhileD)
  then have z: "?z = replicate (length ?z) CHR ''0''" by (intro replicate_eqI) auto
  have "rev s = ?z @ rev (trim_zeros s)" by (simp add: trim_zeros_def)
  then have "rev s = replicate (length ?z) CHR ''0'' @ rev (trim_zeros s)" unfolding z[symmetric] .
  then have "s = trim_zeros s @ replicate (length ?z) CHR ''0''"
    by (metis rev_append rev_replicate rev_rev_ident)
  then show ?thesis by blast
qed

lemma fraction_trimmed:
  assumes "0 \<le> n" and "n < second"
  shows "fraction_nanos (trim_zeros (pad_digits 9 n)) = n"
proof -
  obtain k where k: "pad_digits 9 n = trim_zeros (pad_digits 9 n) @ replicate k CHR ''0''" using trim_zeros_split by blast
  then have "k \<le> 9" by (metis length_append length_pad_digits length_replicate le_add2)
  then have "replicate 9 CHR ''0'' = replicate k CHR ''0'' @ replicate (9 - k) CHR ''0''"
    by (metis le_add_diff_inverse replicate_add)
  then have "take 9 (trim_zeros (pad_digits 9 n) @ replicate 9 CHR ''0'') = take 9 (pad_digits 9 n @ replicate (9 - k) CHR ''0'')"
    using k by (metis append_assoc)
  also have "\<dots> = pad_digits 9 n" by simp
  finally show ?thesis using assms fold_pad_digits[of n 9] by (simp add: fraction_nanos_def)
qed

lemma digits_trim_zeros: "list_all is_digit s \<Longrightarrow> list_all is_digit (trim_zeros s)"
  using trim_zeros_split[of s] by (metis list_all_append)

lemma take_while_digits: "list_all is_digit ds \<Longrightarrow> takeWhile is_digit (ds @ ''Z'') = ds"
proof -
  have "\<not> is_digit CHR ''Z''" by (simp add: is_digit_def)
  then show "list_all is_digit ds \<Longrightarrow> takeWhile is_digit (ds @ ''Z'') = ds"
    by (simp add: list_all_iff takeWhile_append)
qed

section \<open>Properties\<close>

text \<open>
  A time written in the format the program sends to HighLevel and stores in JSON is read back as the
  same instant, to the nanosecond, for every year that has four digits: the calendar arithmetic is
  right for all dates, leap years and the ends of months included.
\<close>

lemma rfc3339_roundtrip:
  assumes "four_digit_year t"
  shows "parse_rfc3339 (format_rfc3339_nano t) = Some t"
proof -
  let ?f = "trim_zeros (pad_digits 9 (nanosecond_of t))"
  have frac: "fraction_nanos ?f = nanosecond_of t" using nanosecond_of_bounds by (intro fraction_trimmed)
  have digits: "list_all is_digit ?f" by (intro digits_trim_zeros list_all_pad_digits)
  have t: "unix_sec t * second + nanosecond_of t = t" by (rule time_split[symmetric])
  have zone: "zone_seconds ''Z'' = Some 0" by (simp add: zone_seconds_def)
  show ?thesis
  proof (cases "?f = []")
    case True
    moreover have "fraction_nanos [] = 0" by code_simp
    ultimately have "nanosecond_of t = 0" using frac by simp
    then show ?thesis
      using True parse_format_clock[OF assms] zone t \<open>fraction_nanos [] = 0\<close>
      by (simp add: parse_rfc3339_def format_rfc3339_nano_def Let_def)
  next
    case False
    then show ?thesis
      using parse_format_clock[OF assms] zone t frac take_while_digits[OF digits]
      by (simp add: parse_rfc3339_def format_rfc3339_nano_def Let_def)
  qed
qed

lemma rfc3339_example: "parse_rfc3339 (format_rfc3339_nano 951782399500000000) = Some 951782399500000000"
proof -
  have "four_digit_year 951782399500000000" by code_simp
  then show ?thesis by (rule rfc3339_roundtrip)
qed

end
