(* ===== verification/AdminHandlers.thy ===== *)
theory AdminHandlers
  imports Handlers Voice GoFormat
begin

text \<open>
  The remaining HTTP handlers of \<^verbatim>\<open>internal/app/app.go\<close>: Signal Desk, readiness, the operator's pages,
  the installation through OAuth, and the dispatch of \<open>Routes\<close>.
\<close>

section \<open>Signal Desk\<close>

definition handle_unknown :: "('t, 'h) app \<Rightarrow> request \<Rightarrow> ('t, 'h) world \<Rightarrow> response \<times> ('t, 'h) world" where
  "handle_unknown a r w =
    (if rq_method r \<noteq> ''GET'' then (http_error 405 ''method not allowed'', w)
     else if \<not> signal_desk_authorized a r then (http_error 401 ''unauthorized'', w)
     else (case store_recent_unknown 20 w of
         (Inl _, w1) \<Rightarrow> (http_error 500 ''messages unavailable'', w1)
       | (Inr ms, w1) \<Rightarrow> (\<lparr>rs_status = 200, rs_body = UnknownBody ms\<rparr>, w1)))"

record promote_request =
  pr_event_id :: string
  pr_location_id :: string
  pr_from :: string
  pr_to :: string
  pr_text :: string

definition zero_promote :: promote_request where
  "zero_promote = \<lparr>pr_event_id = [], pr_location_id = [], pr_from = [], pr_to = [], pr_text = []\<rparr>"

definition promote_fields :: "(string \<times> promote_request field) list" where
  "promote_fields =
    [(''event_id'', str_field (\<lambda>x p. p\<lparr>pr_event_id := x\<rparr>)), (''location_id'', str_field (\<lambda>x p. p\<lparr>pr_location_id := x\<rparr>)),
     (''from'', str_field (\<lambda>x p. p\<lparr>pr_from := x\<rparr>)), (''to'', str_field (\<lambda>x p. p\<lparr>pr_to := x\<rparr>)),
     (''text'', str_field (\<lambda>x p. p\<lparr>pr_text := x\<rparr>))]"

definition promote_valid :: "promote_request \<Rightarrow> bool" where
  "promote_valid p \<longleftrightarrow> pr_event_id p \<noteq> [] \<and> pr_location_id p \<noteq> [] \<and> validate_e164 (pr_from p) = None \<and>
     validate_e164 (pr_to p) = None"

definition promote_inbound :: "promote_request \<Rightarrow> inbound" where
  "promote_inbound p = \<lparr>ib_location_id = pr_location_id p, ib_contact_id = [], ib_conversation_id = [], ib_from = pr_from p,
     ib_to = pr_to p, ib_text = pr_text p, ib_provider_event_id = pr_event_id p\<rparr>"

text \<open>The response of a handler that panics: \<open>net/http\<close> closes the connection without one.\<close>

definition no_response :: response where
  "no_response = \<lparr>rs_status = 0, rs_body = NoBody\<rparr>"

definition promote_message :: "('t, 'h) app \<Rightarrow> promote_request \<Rightarrow> ('t, 'h) world \<Rightarrow> response \<times> ('t, 'h) world" where
  "promote_message a p w =
    (case ap_highlevel a of
       None \<Rightarrow> (no_response, w)
     | Some hl \<Rightarrow>
         (case call_highlevel (EvPromote (promote_inbound p)) (hl_promote_inbound hl (promote_inbound p)) w of
            (Inl _, w1) \<Rightarrow> (http_error 502 ''conversation could not be created'', w1)
          | (Inr _, w1) \<Rightarrow>
              (case (if ap_has_store a then store_resolve_inbound (pr_event_id p) w1 else (Inr (), w1)) of
                 (Inl _, w2) \<Rightarrow>
                   (http_error 500 ''message was moved but could not be removed from the unknown inbox'', w2)
               | (Inr _, w2) \<Rightarrow> (write_json 200 [(''success'', JsBool True)], w2))))"

text \<open>\<open>strconv.Atoi\<close> of a query parameter that has one of two values, or a default.\<close>

definition choose_number :: "string \<Rightarrow> int \<Rightarrow> int \<Rightarrow> int \<Rightarrow> int" where
  "choose_number s x y other =
    (case parse_int64 s of Some n \<Rightarrow> if n = x \<or> n = y then n else other | None \<Rightarrow> other)"

definition recent_cutoff :: "time \<Rightarrow> int \<Rightarrow> int" where
  "recent_cutoff now days = (now - days * (24 * hour)) div millisecond"

definition list_conversations :: "('t, 'h) app \<Rightarrow> request \<Rightarrow> string \<Rightarrow> ('t, 'h) world \<Rightarrow> response \<times> ('t, 'h) world" where
  "list_conversations a r loc w =
    (case ap_highlevel a of
       None \<Rightarrow> (no_response, w)
     | Some hl \<Rightarrow>
         (let limit = choose_number (rq_query r ''limit'') 50 100 20; days = choose_number (rq_query r ''days'') 1 7 2 in
          case call_highlevel (EvConversations loc limit) (hl_recent_conversations hl loc limit) w of
            (Inl _, w1) \<Rightarrow> (http_error 502 ''conversations unavailable'', w1)
          | (Inr cs, w1) \<Rightarrow>
              (\<lparr>rs_status = 200,
                rs_body = ConversationsBody (filter (\<lambda>c. cv_last_at c \<ge> recent_cutoff (w_clock w1) days) cs)\<rparr>, w1)))"

definition handle_conversations :: "('t, 'h) app \<Rightarrow> request \<Rightarrow> ('t, 'h) world \<Rightarrow> response \<times> ('t, 'h) world" where
  "handle_conversations a r w =
    (if rq_method r \<noteq> ''GET'' \<and> rq_method r \<noteq> ''POST'' then (http_error 405 ''method not allowed'', w)
     else if \<not> signal_desk_authorized a r then (http_error 401 ''unauthorized'', w)
     else if rq_method r = ''POST'' then
       (case decode_first False promote_fields (take 65536 (rq_body r)) zero_promote of
          None \<Rightarrow> (http_error 400 ''invalid request'', w)
        | Some p \<Rightarrow>
            if \<not> promote_valid p then (http_error 400 ''invalid request'', w)
            else (case allows_location a (pr_location_id p) w of
                (allowed, w1) \<Rightarrow>
                  if \<not> allowed then (http_error 403 ''unknown location'', w1) else promote_message a p w1))
     else (case allows_location a (trim_space (rq_query r ''location_id'')) w of
         (allowed, w1) \<Rightarrow>
           if \<not> allowed then (http_error 403 ''unknown location'', w1)
           else list_conversations a r (trim_space (rq_query r ''location_id'')) w1))"

section \<open>Readiness and administration\<close>

text \<open>\<open>Ping\<close> is a statement without effect.\<close>

definition q_ping :: "unit stmt" where
  "q_ping now d = (Inr (), d)"

definition handle_health :: "request \<Rightarrow> ('t, 'h) world \<Rightarrow> response \<times> ('t, 'h) world" where
  "handle_health r w = (write_json 200 [(''status'', JsStr ''ok'')], w)"

definition handle_ready :: "('t, 'h) app \<Rightarrow> request \<Rightarrow> ('t, 'h) world \<Rightarrow> response \<times> ('t, 'h) world" where
  "handle_ready a r w =
    (if \<not> ap_has_store a then (http_error 503 ''not ready'', w)
     else (case sql q_ping w of
         (Inl _, w1) \<Rightarrow> (http_error 503 ''not ready'', w1)
       | (Inr _, w1) \<Rightarrow> (write_json 200 [(''status'', JsStr ''ready'')], w1)))"

definition js_nat :: "nat \<Rightarrow> json" where
  "js_nat n = JsNum (show_int (int n))"

definition ready_to_send :: "('t, 'h) app \<Rightarrow> bool \<Rightarrow> bool" where
  "ready_to_send a paused \<longleftrightarrow>
    ap_enable_sending a \<and> \<not> paused \<and> ap_from a \<noteq> [] \<and> length (ap_webhook_key a) = public_key_size"

definition status_payload :: "('t, 'h) app \<Rightarrow> bool \<Rightarrow> queue_counts \<Rightarrow> payload" where
  "status_payload a paused c =
    [(''enable_sending'', JsBool (ap_enable_sending a)),
     (''sending_paused'', JsBool paused),
     (''from_number'', JsBool (ap_from a \<noteq> [])),
     (''location_configured'', JsBool (ap_location a \<noteq> [])),
     (''telnyx_webhook_key'', JsBool (length (ap_webhook_key a) = public_key_size)),
     (''highlevel_token'', JsBool (qc_token_present c)),
     (''oauth_expires_at'', JsStr (format_rfc3339_nano (qc_expires_at c))),
     (''queued_outbound'', js_nat (qc_queued_outbound c)),
     (''sending_outbound'', js_nat (qc_sending_outbound c)),
     (''failed_outbound'', js_nat (qc_failed_outbound c)),
     (''queued_crm'', js_nat (qc_queued_crm c)),
     (''failed_crm'', js_nat (qc_failed_crm c)),
     (''failed_inbound'', js_nat (qc_failed_inbound c)),
     (''failed_delivery'', js_nat (qc_failed_delivery c)),
     (''suppressions'', js_nat (qc_suppressions c)),
     (''active_enrollments'', js_nat (qc_active_enrollments c)),
     (''ready_to_send'', JsBool (ready_to_send a paused))]"

definition handle_admin_status :: "('t, 'h) app \<Rightarrow> request \<Rightarrow> ('t, 'h) world \<Rightarrow> response \<times> ('t, 'h) world" where
  "handle_admin_status a r w =
    (if \<not> require_admin a r then (http_error 401 ''unauthorized'', w)
     else let (paused, w1) = (if ap_has_store a
           then (case store_sending_paused w of (Inr b, w1) \<Rightarrow> (b, w1) | (Inl _, w1) \<Rightarrow> (True, w1)) else (True, w))
       in case store_queue_counts (ap_location a) w1 of
            (Inl _, w2) \<Rightarrow> (http_error 500 ''database error'', w2)
          | (Inr c, w2) \<Rightarrow> (write_json 200 (status_payload a paused c), w2))"

definition handle_admin_sending :: "('t, 'h) app \<Rightarrow> request \<Rightarrow> ('t, 'h) world \<Rightarrow> response \<times> ('t, 'h) world" where
  "handle_admin_sending a r w =
    (if \<not> require_admin a r then (http_error 401 ''unauthorized'', w)
     else if rq_method r \<noteq> ''POST'' then (http_error 405 ''method not allowed'', w)
     else (case decode_first False [(''paused'', bool_field (\<lambda>b _. b))] (take 4096 (rq_body r)) False of
         None \<Rightarrow> (http_error 400 ''invalid request'', w)
       | Some paused \<Rightarrow>
           (case store_set_paused paused w of
              (Inl _, w1) \<Rightarrow> (http_error 500 ''database error'', w1)
            | (Inr _, w1) \<Rightarrow>
                (write_json 200 [(''sending_paused'', JsBool paused), (''enable_sending'', JsBool (ap_enable_sending a))],
                 snd (store_record_admin ''set_sending_paused'' [(''paused'', JsBool paused)] w1)))))"

definition admin_page :: string where
  "admin_page = join [CHR 0x0A]
    [''<!doctype html><meta charset='' @ [quote] @ ''utf-8'' @ [quote] @ ''><title>Launch readiness</title>'',
     ''<p>Use <code>GET /admin/status</code> with <code>Authorization: Bearer $ADMIN_TOKEN</code>.</p>'',
     ''<p>Pause sending with <code>POST /admin/sending {'' @ [quote] @ ''paused'' @ [quote] @ '':true}</code>.</p>'',
     ''<p>Process-level ENABLE_SENDING remains the hard safety gate.</p>'']"

definition handle_admin_page :: "('t, 'h) app \<Rightarrow> request \<Rightarrow> ('t, 'h) world \<Rightarrow> response \<times> ('t, 'h) world" where
  "handle_admin_page a r w =
    (if \<not> require_admin a r then (http_error 401 ''unauthorized'', w)
     else (\<lparr>rs_status = 200, rs_body = TextBody admin_page\<rparr>, w))"

section \<open>OAuth\<close>

text \<open>\<open>rand\<close> is what \<open>rand.Read\<close> returned for the state.\<close>

definition handle_oauth_start ::
  "('t, 'h) app \<Rightarrow> string result \<Rightarrow> request \<Rightarrow> ('t, 'h) world \<Rightarrow> response \<times> ('t, 'h) world" where
  "handle_oauth_start a rand r w =
    (if \<not> require_admin a r then (http_error 401 ''unauthorized'', w)
     else case ap_oauth a of
       None \<Rightarrow> (http_error 503 ''oauth is not configured'', w)
     | Some c \<Rightarrow>
         if oc_client_id c = [] \<or> oc_redirect_uri c = [] then (http_error 503 ''oauth is not configured'', w)
         else (case store_create_state rand (10 * minute) w of
             (Inl _, w1) \<Rightarrow> (http_error 500 ''database error'', w1)
           | (Inr state, w1) \<Rightarrow>
               (\<lparr>rs_status = 302, rs_body = Redirect (''https://marketplace.gohighlevel.com/oauth/chooselocation?'' @
                  values_encode [(''response_type'', ''code''), (''client_id'', oc_client_id c),
                    (''redirect_uri'', oc_redirect_uri c), (''state'', state)])\<rparr>, w1)))"

definition callback_token :: "string \<Rightarrow> token_set \<Rightarrow> time \<Rightarrow> oauth_token" where
  "callback_token loc t now = \<lparr>oa_provider = ''highlevel'', oa_location = loc, oa_access = ts_access t,
     oa_refresh = ts_refresh t, oa_token_type = ts_token_type t, oa_user_type = ts_user_type t, oa_scope = ts_scope t,
     oa_expires = expires_at t now\<rparr>"

definition handle_oauth_callback :: "('t, 'h) app \<Rightarrow> request \<Rightarrow> ('t, 'h) world \<Rightarrow> response \<times> ('t, 'h) world" where
  "handle_oauth_callback a r w =
    (case ap_oauth a of
       None \<Rightarrow> (http_error 503 ''oauth is not configured'', w)
     | Some c \<Rightarrow>
         (let state = rq_query r ''state''; code = rq_query r ''code'' in
          if state = [] \<or> code = [] then (http_error 400 ''invalid oauth callback'', w)
          else case store_consume_state state w of
            (Inl _, w1) \<Rightarrow> (http_error 401 ''invalid oauth state'', w1)
          | (Inr _, w1) \<Rightarrow>
              (case call_highlevel EvToken (oauth_exchange (ap_oauth_http a) c code) w1 of
                 (Inl _, w2) \<Rightarrow> (http_error 502 ''oauth exchange failed'', w2)
               | (Inr t, w2) \<Rightarrow>
                   (let loc = (if ts_location t = [] then ap_location a else ts_location t) in
                    if loc = [] then (http_error 400 ''oauth response is missing location'', w2)
                    else (case store_save_token (callback_token loc t (w_clock w2)) w2 of
                        (Inl _, w3) \<Rightarrow> (http_error 500 ''database error'', w3)
                      | (Inr _, w3) \<Rightarrow>
                          (write_json 200 [(''status'', JsStr ''connected''), (''location_id'', JsStr loc),
                             (''expires_at'', JsStr (format_rfc3339_nano (expires_at t (w_clock w3))))], w3))))))"

section \<open>Routes\<close>

text \<open>What the random number generator returns for an OAuth state and for the SIP user.\<close>

record randomness =
  rd_state :: "string result"
  rd_sip :: "(string \<times> string) result"

text \<open>The paths have no trailing slash, so each matches exactly itself.\<close>

definition routes ::
  "('t, 'h) app \<Rightarrow> randomness \<Rightarrow> (string \<times> (request \<Rightarrow> ('t, 'h) world \<Rightarrow> response \<times> ('t, 'h) world)) list" where
  "routes a rnd =
    [(''/healthz'', handle_health),
     (''/readyz'', handle_ready a),
     (''/webhooks/highlevel/outbound'', handle_highlevel a),
     (''/webhooks/outbound'', handle_highlevel a),
     (''/webhooks/telnyx'', handle_telnyx a),
     (''/workflows/enroll'', handle_enroll a),
     (''/admin'', handle_admin_page a),
     (''/admin/status'', handle_admin_status a),
     (''/admin/sending'', handle_admin_sending a),
     (''/oauth/start'', handle_oauth_start a (rd_state rnd)),
     (''/oauth/callback'', handle_oauth_callback a),
     (''/oauth/highlevel/start'', handle_oauth_start a (rd_state rnd)),
     (''/oauth/highlevel/callback'', handle_oauth_callback a),
     (''/signal-desk/conversations'', handle_conversations a),
     (''/signal-desk/unknown'', handle_unknown a),
     (''/signal-desk/voice/token'', handle_voice_token a),
     (''/signal-desk/voice/status'', handle_voice_status a),
     (''/signal-desk/voice/provision'', handle_voice_provision a (rd_sip rnd))]"

definition serve ::
  "('t, 'h) app \<Rightarrow> randomness \<Rightarrow> string \<Rightarrow> request \<Rightarrow> ('t, 'h) world \<Rightarrow> response \<times> ('t, 'h) world" where
  "serve a rnd path r w =
    (case map_of (routes a rnd) path of
       None \<Rightarrow> (http_error 404 ''404 page not found'', w) | Some h \<Rightarrow> h r w)"

end
