(* ===== verification/EngineRun.thy ===== *)
theory EngineRun
  imports Engine
begin

text \<open>
  The life of one enrollment: any sequence of advances (at any instants) and replies, with the
  commands they return, and what holds over all of it: how many messages, how far apart, and
  none after a reply.
\<close>

datatype wf_event = Tick location time | ReplyText string

text \<open>An advance that returns an error gives no commands and leaves the enrollment as it is.\<close>

fun wf_step :: "runtime \<Rightarrow> defn \<Rightarrow> enrollment \<Rightarrow> wf_event \<Rightarrow> command list \<times> enrollment" where
  "wf_step rt d e (Tick here now) =
     (case advance rt d e here now of (Inr cmds, e') \<Rightarrow> (cmds, e') | (Inl _, e') \<Rightarrow> ([], e'))"
| "wf_step rt d e (ReplyText msg) = reply d e msg"

fun wf_run :: "runtime \<Rightarrow> defn \<Rightarrow> enrollment \<Rightarrow> wf_event list \<Rightarrow> command list \<times> enrollment" where
  "wf_run rt d e [] = ([], e)"
| "wf_run rt d e (ev # evs) =
     (let (cmds, e1) = wf_step rt d e ev; (rest, e2) = wf_run rt d e1 evs in (cmds @ rest, e2))"

text \<open>The instants at which a message was produced.\<close>

fun send_times :: "runtime \<Rightarrow> defn \<Rightarrow> enrollment \<Rightarrow> wf_event list \<Rightarrow> time list" where
  "send_times rt d e [] = []"
| "send_times rt d e (ev # evs) =
     (let (cmds, e1) = wf_step rt d e ev in
      (case ev of Tick _ now \<Rightarrow> (if list_ex is_sms cmds then [now] else []) | ReplyText _ \<Rightarrow> []) @
      send_times rt d e1 evs)"

definition sms_count :: "command list \<Rightarrow> nat" where
  "sms_count cmds = length (filter is_sms cmds)"

lemma sms_count_simps [simp]:
  "sms_count [] = 0" "sms_count (c # cs) = (if is_sms c then Suc (sms_count cs) else sms_count cs)"
  "sms_count (xs @ ys) = sms_count xs + sms_count ys"
  by (simp_all add: sms_count_def)

lemma is_sms_simple [simp]: "is_sms (simple_command t a) \<longleftrightarrow> t = CommandSendSMS"
  by (simp add: is_sms_def simple_command_def)

section \<open>One step\<close>

lemma reply_terminal: "terminal (snd (reply d e msg))"
  by (auto simp: reply_def Let_def terminal_def)

lemma reply_no_sms: "sms_count (fst (reply d e msg)) = 0"
  by (auto simp: reply_def Let_def)

lemma reply_sent_count [simp]: "e_sent_count (snd (reply d e msg)) = e_sent_count e"
  by (auto simp: reply_def Let_def)

lemma terminal_step:
  assumes "terminal e"
  shows "wf_step rt d e ev = ([], e)"
  using assms by (cases ev) (auto simp: advance_def reply_def terminal_def)

lemma terminal_run: "terminal e \<Longrightarrow> wf_run rt d e evs = ([], e)"
  by (induction evs) (simp_all add: terminal_step)

text \<open>Each message counts, and no message is produced at the maximum.\<close>

lemma step_count:
  assumes "wf_step rt d e ev = (cmds, e')"
  shows "e_sent_count e' = e_sent_count e + int (sms_count cmds)"
    and "sms_count cmds > 0 \<Longrightarrow> e_sent_count e < d_max_occurrences d \<and> sms_count cmds = 1"
proof -
  have "e_sent_count e' = e_sent_count e + int (sms_count cmds) \<and>
      (sms_count cmds > 0 \<longrightarrow> e_sent_count e < d_max_occurrences d \<and> sms_count cmds = 1)"
  proof (cases ev)
    case (ReplyText msg)
    with assms show ?thesis using reply_no_sms[of d e msg] reply_sent_count[of d e msg] by simp
  next
    case (Tick here now)
    show ?thesis
      using assms unfolding Tick
      by (cases rule: advance_cases[of rt d e here now]) (auto split: sum.splits)
  qed
  then show "e_sent_count e' = e_sent_count e + int (sms_count cmds)"
    and "sms_count cmds > 0 \<Longrightarrow> e_sent_count e < d_max_occurrences d \<and> sms_count cmds = 1" by auto
qed

lemma run_append:
  "wf_run rt d e (xs @ ys) =
    (let (c1, e1) = wf_run rt d e xs; (c2, e2) = wf_run rt d e1 ys in (c1 @ c2, e2))"
  by (induction xs arbitrary: e) (auto simp: Let_def split: prod.splits)

section \<open>Properties\<close>

text \<open>
  C7. However often and whenever an enrollment is advanced and replied to, it produces at most
  \<open>MaxOccurrences\<close> messages in its life; the stored \<open>sent_count\<close> is exactly the number produced.
\<close>

theorem sms_bounded:
  "let (cmds, e') = wf_run rt d e evs in
     e_sent_count e' = e_sent_count e + int (sms_count cmds) \<and>
     e_sent_count e' \<le> max (e_sent_count e) (d_max_occurrences d)"
proof (induction evs arbitrary: e)
  case Nil
  then show ?case by simp
next
  case (Cons ev evs)
  obtain c1 e1 where s: "wf_step rt d e ev = (c1, e1)" by fastforce
  obtain c2 e2 where r: "wf_run rt d e1 evs = (c2, e2)" by fastforce
  note cnt = step_count[OF s]
  have "e_sent_count e1 \<le> max (e_sent_count e) (d_max_occurrences d)"
    using cnt by (cases "sms_count c1 > 0") auto
  moreover from Cons[of e1] r have "e_sent_count e2 = e_sent_count e1 + int (sms_count c2)"
    and "e_sent_count e2 \<le> max (e_sent_count e1) (d_max_occurrences d)" by auto
  ultimately show ?case using s r cnt(1) by simp
qed

text \<open>
  C14. A reply ends the sequence, whatever it says: from then on the enrollment is completed or
  suppressed, and no later advance or reply produces any command or changes it again.
\<close>

theorem reply_ends_sequence:
  "let (cmds, e1) = wf_run rt d e (before @ [ReplyText msg]) in
     terminal e1 \<and> wf_run rt d e (before @ ReplyText msg # after) = (cmds, e1)"
proof -
  obtain c0 e0 where b: "wf_run rt d e before = (c0, e0)" by fastforce
  obtain c1 e1 where r: "reply d e0 msg = (c1, e1)" by fastforce
  have "terminal e1" using reply_terminal[of d e0 msg] r by simp
  then show ?thesis by (simp add: run_append b r terminal_run Let_def)
qed

section \<open>Spacing\<close>

fun tick_times :: "wf_event list \<Rightarrow> time list" where
  "tick_times [] = []"
| "tick_times (Tick _ now # evs) = now # tick_times evs"
| "tick_times (ReplyText _ # evs) = tick_times evs"

lemma send_times_ticks: "set (send_times rt d e evs) \<subseteq> set (tick_times evs)"
proof (induction evs arbitrary: e)
  case (Cons ev evs)
  then show ?case by (cases ev) (auto simp: Let_def split: prod.splits)
qed simp

lemma send_times_terminal: "terminal e \<Longrightarrow> send_times rt d e evs = []"
proof (induction evs)
  case (Cons ev evs)
  then show ?case by (cases ev) (simp_all add: terminal_step del: wf_step.simps)
qed simp

lemma send_times_zero: "is_zero (e_next_run e) \<Longrightarrow> send_times rt d e evs = []"
proof (induction evs)
  case (Cons ev evs)
  show ?case
  proof (cases ev)
    case (Tick here now)
    have "wf_step rt d e ev = ([], e)"
      using Cons.prems by (auto simp: Tick advance_def)
    with Cons Tick show ?thesis by (simp del: wf_step.simps)
  next
    case (ReplyText msg)
    obtain c e1 where r: "reply d e msg = (c, e1)" by fastforce
    then have "terminal e1" using reply_terminal[of d e msg] by simp
    then show ?thesis by (simp add: ReplyText r send_times_terminal)
  qed
qed simp

text \<open>No message comes before an instant \<open>l\<close> that the stored next run, or every later tick,
  has reached.\<close>

lemma send_times_ge:
  assumes "sorted (tick_times evs)"
    and "l \<le> e_next_run e \<or> (\<forall>t \<in> set (tick_times evs). l \<le> t)"
  shows "\<forall>t \<in> set (send_times rt d e evs). l \<le> t"
  using assms
proof (induction evs arbitrary: e)
  case Nil
  then show ?case by simp
next
  case (Cons ev evs)
  show ?case
  proof (cases ev)
    case (ReplyText msg)
    obtain c e1 where r: "reply d e msg = (c, e1)" by fastforce
    then have "terminal e1" using reply_terminal[of d e msg] by simp
    then show ?thesis by (simp add: ReplyText r send_times_terminal)
  next
    case (Tick here now)
    have later: "\<forall>t \<in> set (tick_times evs). now \<le> t" "sorted (tick_times evs)"
      using Cons.prems(1) Tick by auto
    have due: "l \<le> now" if "e_next_run e \<le> now"
      using Cons.prems(2)
    proof
      assume "l \<le> e_next_run e"
      with that show ?thesis by linarith
    qed (simp add: Tick)
    have due_later: "\<forall>t \<in> set (tick_times evs). l \<le> t" if "e_next_run e \<le> now"
      using due[OF that] later(1) by (meson order_trans)
    show ?thesis
    proof (cases rule: advance_cases[of rt d e here now])
      case (idle err)
      then have "wf_step rt d e (Tick here now) = ([], e)" by auto
      then have same: "send_times rt d e (ev # evs) = send_times rt d e evs"
        by (simp add: Tick del: wf_step.simps)
      have "l \<le> e_next_run e \<or> (\<forall>t \<in> set (tick_times evs). l \<le> t)"
        using Cons.prems(2) by (auto simp: Tick)
      then show ?thesis unfolding same by (rule Cons.IH[OF later(2)])
    next
      case (task t1 t2)
      then show ?thesis by (simp add: Tick send_times_terminal terminal_def)
    next
      case finish
      then show ?thesis by (simp add: Tick send_times_terminal terminal_def)
    next
      case (postpone loc)
      show ?thesis using Cons.IH[OF later(2) disjI2[OF due_later[OF postpone(6)]]] postpone(1) by (simp add: Tick)
    next
      case (send loc c body)
      show ?thesis
        using Cons.IH[OF later(2) disjI2[OF due_later[OF send(8)]]] due[OF send(8)] send(1,2) by (simp add: Tick)
    qed
  qed
qed

text \<open>
  C28. With a clock that does not go back, two messages of the same enrollment are at least
  \<open>RepeatEvery\<close> apart, and a workflow without repetition (the blasts) sends at most one message.
\<close>

theorem sms_spacing:
  assumes "sorted (tick_times evs)"
  shows "sorted_wrt (\<lambda>t u. t + d_repeat_every d \<le> u) (send_times rt d e evs) \<and>
    (d_repeat_every d > 0 \<or> length (send_times rt d e evs) \<le> 1)"
  using assms
proof (induction evs arbitrary: e)
  case Nil
  then show ?case by simp
next
  case (Cons ev evs)
  show ?case
  proof (cases ev)
    case (ReplyText msg)
    with Cons show ?thesis by (simp split: prod.splits)
  next
    case (Tick here now)
    then have rest: "sorted (tick_times evs)" using Cons.prems by simp
    note IH = Cons.IH[OF rest]
    show ?thesis
    proof (cases rule: advance_cases[of rt d e here now])
      case (send loc c body)
      let ?e1 = "e\<lparr>e_sent_count := e_sent_count e + 1, e_state := StateAwaitingReply,
           e_next_run := (if d_repeat_every d > 0 then now + d_repeat_every d else zero_time)\<rparr>"
      have all: "send_times rt d e (ev # evs) = now # send_times rt d ?e1 evs"
        using send(1,2) by (simp add: Tick)
      show ?thesis
      proof (cases "d_repeat_every d > 0")
        case True
        then have "\<forall>t \<in> set (send_times rt d ?e1 evs). now + d_repeat_every d \<le> t"
          by (intro send_times_ge[OF rest]) simp
        with True IH[of ?e1] show ?thesis unfolding all by simp
      next
        case False
        then have "send_times rt d ?e1 evs = []" by (intro send_times_zero) (simp add: is_zero_def)
        then show ?thesis unfolding all by simp
      qed
    qed (use IH in \<open>auto simp: Tick split: sum.splits\<close>)
  qed
qed

section \<open>When a message may be sent\<close>

text \<open>
  C19. Every message the engine produces satisfies all the sending conditions: the sequence is
  active and due, below its maximum, the recipient's own wall clock is inside the sending window
  (in any time zone, also around a daylight-saving change), no placeholder is left in the text, and
  the rate attached to it is positive.
\<close>

theorem advance_sms_safe:
  assumes "advance rt d e here now = (Inr cmds, e')" and "c \<in> set cmds" and "is_sms c"
  shows "\<not> terminal e \<and> \<not> is_zero (e_next_run e) \<and> e_next_run e \<le> now \<and>
    e_sent_count e < d_max_occurrences d \<and> e_sent_count e' = e_sent_count e + 1 \<and>
    (\<exists>loc. recipient_zone rt e here = Some loc \<and> in_window (d_window d) loc now) \<and>
    \<not> contains ''{{'' (cmd_body c) \<and> batch_size (cmd_rate c) > 0 \<and> rate_per (cmd_rate c) > 0 \<and> cmds = [c]"
  using assms
proof (cases rule: advance_cases[of rt d e here now])
  case (send loc c1 body)
  with assms have "cmds = [c1]" "c = c1" "e_sent_count e' = e_sent_count e + 1" by auto
  with send render_no_braces[OF send(14)] show ?thesis by auto
qed auto

definition sample_defn :: defn where
  "sample_defn = (recurring ''weekly-follow-up'' ''1x week follow up'' 7 ''weekly_reply'')\<lparr>d_enabled := True\<rparr>"

definition sample_contact :: contact where
  "sample_contact = \<lparr>c_id = ''c1'', c_phone = ''+13105551212'', c_timezone = [],
     c_consent_at = 0, c_consent_source = ''form'',
     c_variables = [(''location.name'', ''Acme''), (''contact.full_address'', ''1 Main St'')]\<rparr>"

definition sample_enrollment :: enrollment where
  "sample_enrollment = \<lparr>e_workflow_key = ''weekly-follow-up'', e_contact = sample_contact,
     e_state = StatePending, e_next_run = 0, e_variant = 0, e_sent_count = 0\<rparr>"

definition sample_runtime :: runtime where
  "sample_runtime = \<lparr>rt_load_location = (\<lambda>name. Some utc), rt_range_vars = (\<lambda>vs. vs)\<rparr>"

lemma sample_render:
  "render follow_up_text [(''location.name'', ''Acme''), (''contact.full_address'', ''1 Main St'')] =
   Inr ''Hi, this is Acme following up about 1 Main St. Has anything changed? Reply STOP to opt out.''"
  by code_simp

lemma sample_advance:
  "\<exists>c e'. advance sample_runtime sample_defn sample_enrollment utc (57600 * second) = (Inr [c], e') \<and> is_sms c \<and>
     cmd_body c = ''Hi, this is Acme following up about 1 Main St. Has anything changed? Reply STOP to opt out.''"
  by (simp add: advance_def sample_enrollment_def sample_defn_def sample_contact_def sample_runtime_def
      recurring_def zero_defn_def is_zero_def zero_time_def next_allowed_def hour_of_def minute_of_def
      local_sec_def unix_sec_def offset_at_def utc_def default_start_def default_end_def sample_render is_sms_def)

theorem advance_sms_safe_witness:
  "\<exists>c e'. advance sample_runtime sample_defn sample_enrollment utc (57600 * second) = (Inr [c], e') \<and>
     \<not> contains ''{{'' (cmd_body c) \<and> e_sent_count e' = 1"
proof -
  obtain c e' where a: "advance sample_runtime sample_defn sample_enrollment utc (57600 * second) = (Inr [c], e')"
    and "is_sms c" using sample_advance by blast
  then show ?thesis using advance_sms_safe[OF a, of c] by (auto simp: sample_enrollment_def)
qed

theorem sms_spacing_witness:
  "sorted (tick_times [Tick utc 0, ReplyText [], Tick utc 1]) \<and>
   length (send_times sample_runtime (sample_defn\<lparr>d_repeat_every := 0\<rparr>) sample_enrollment [Tick utc 0, ReplyText [], Tick utc 1]) \<le> 1"
  using sms_spacing[of "[Tick utc 0, ReplyText [], Tick utc 1]" "sample_defn\<lparr>d_repeat_every := 0\<rparr>" sample_runtime sample_enrollment]
  by simp

text \<open>
  A contact enters an SMS workflow only with an id, a phone number and documented consent: a
  time and a non-blank source. The new enrollment is pending, has sent nothing and is due at the
  end of the initial delay.
\<close>

lemma start_spec:
  "start d c now = Inr e \<longleftrightarrow>
     d_enabled d \<and> validate_defn d = None \<and> c_id c \<noteq> [] \<and>
     (d_messages d = [] \<or> c_phone c \<noteq> [] \<and> \<not> is_zero (c_consent_at c) \<and> trim_space (c_consent_source c) \<noteq> []) \<and>
     e = \<lparr>e_workflow_key = d_key d, e_contact = c, e_state = StatePending,
          e_next_run = now + max 0 (d_initial_delay d), e_variant = deterministic_variant d (c_id c), e_sent_count = 0\<rparr>"
  by (auto simp: start_def max_def split: option.splits if_splits)

text \<open>
  The variant a new enrollment is given is one of the workflow's messages, for every contact,
  so advancing it never fails for a variant out of range.
\<close>

lemma start_variant_in_range:
  assumes "start d c now = Inr e" and "d_messages d \<noteq> []" and "length (d_messages d) < 2 ^ 32"
  shows "0 \<le> e_variant e \<and> e_variant e < int (length (d_messages d))"
proof -
  let ?n = "length (d_messages d)"
  have v: "e_variant e = deterministic_variant d (c_id c)" using assms(1) by (auto simp: start_spec)
  have n: "uint (of_nat ?n :: 32 word) = int ?n"
    using assms(3) by (simp add: unsigned_of_nat take_bit_nat_eq_self)
  have "uint (w mod (of_nat ?n :: 32 word)) < int ?n" for w
    using assms(2) by (simp add: uint_mod n)
  with v show ?thesis using assms(2) by (auto simp: deterministic_variant_def)
qed

lemma sample_start:
  "\<exists>e. start sample_defn sample_contact 0 = Inr e"
  using recurring_valid[of "''weekly-follow-up''" "''1x week follow up''" 7 "''weekly_reply''"]
  unfolding start_spec
  by (simp add: sample_defn_def sample_contact_def is_zero_def zero_time_def validate_defn_def kind_error_def
      recurring_def zero_defn_def trim_space_def trim_left.simps space_len_def space_runes_def all_space_def)

theorem start_variant_witness:
  "\<exists>e. start sample_defn sample_contact 0 = Inr e \<and> 0 \<le> e_variant e \<and> e_variant e < 1"
proof -
  obtain e where e: "start sample_defn sample_contact 0 = Inr e" using sample_start by blast
  have m: "d_messages sample_defn = [follow_up_text]" by (simp add: sample_defn_def recurring_def)
  show ?thesis using start_variant_in_range[OF e] m e by simp
qed

section \<open>Quiet hours\<close>

lemma window_wall:
  assumes "steady loc off (unix_sec now)" and "d = day_of loc now \<or> d = day_of loc now + 1"
    and "0 \<le> m" and "m < 1440"
  shows "date_in loc d (m sdiv 60) (m smod 60) 0 0 = (d * 86400 + m * 60 - off) * second"
    and "local_sec loc ((d * 86400 + m * 60 - off) * second) = d * 86400 + m * 60"
proof -
  have off: "offset_at loc (unix_sec now) = off" using steadyD[OF assms(1)] by simp
  have L: "local_sec loc now = unix_sec now + off" by (simp add: local_sec_def off)
  have m60: "m sdiv 60 * 3600 + m smod 60 * 60 = m * 60"
    using sdiv_mult_smod_eq[of m 60] by linarith
  have D: "day_of loc now * 86400 \<le> local_sec loc now" "local_sec loc now < day_of loc now * 86400 + 86400"
    unfolding day_of_def using div_mult_mod_eq[of "local_sec loc now" 86400]
      pos_mod_bound[of 86400 "local_sec loc now"] pos_mod_sign[of 86400 "local_sec loc now"] by linarith+
  have near: "\<bar>d * 86400 + m * 60 - unix_sec now\<bar> \<le> 2 * 86400 + 86400"
    using assms(2-4) D L steady_bound[OF assms(1)] by auto
  have near2: "\<bar>d * 86400 + m * 60 - off - unix_sec now\<bar> \<le> 2 * 86400"
    using assms(2-4) D L by auto
  then have o2: "offset_at loc (d * 86400 + m * 60 - off) = off" using steadyD[OF assms(1)] by simp
  show "local_sec loc ((d * 86400 + m * 60 - off) * second) = d * 86400 + m * 60"
    using o2 unix_sec_add[of 0 "d * 86400 + m * 60 - off"] by (simp add: local_sec_def)
  have o1: "offset_at loc (d * 86400 + m * 60) = off" using steadyD[OF assms(1)] near by simp
  obtain o' st en where z: "zone_lookup loc (d * 86400 + m * 60) = (o', st, en)" by (cases "zone_lookup loc (d * 86400 + m * 60)") auto
  with o1 have "o' = off" by (simp add: offset_at_def)
  with z o2 show "date_in loc d (m sdiv 60) (m smod 60) 0 0 = (d * 86400 + m * 60 - off) * second"
    using m60 by (simp add: date_in_def Let_def add.assoc)
qed

lemma in_window_at_start:
  assumes "local_sec loc t = d * 86400 + m * 60" and "0 \<le> m" and "m < 1440"
    and "start_minute w = m" and "m < end_minute w"
  shows "in_window w loc t"
proof -
  have "(d * 86400 + m * 60) mod 86400 = m * 60" using assms(2,3) by simp
  then show ?thesis using assms unfolding in_window_def minute_of_day by simp
qed

lemma next_day_steady:
  assumes "steady loc off (unix_sec now)"
  shows "next_day loc now = now + 24 * hour" and "day_of loc (next_day loc now) = day_of loc now + 1"
proof -
  have off: "offset_at loc (unix_sec now) = off" using steadyD[OF assms(1)] by simp
  have L: "local_sec loc now = unix_sec now + off" by (simp add: local_sec_def off)
  have W: "(day_of loc now + 1) * 86400 + hour_of loc now * 3600 + minute_of loc now * 60 + second_of loc now =
      local_sec loc now + 86400"
    using wall_clock[of loc now] by (simp add: algebra_simps)
  have "next_day loc now = (local_sec loc now + 86400 - off) * second + nanosecond_of now"
    unfolding next_day_def
    using date_in_steady[OF assms(1), of "day_of loc now + 1" "hour_of loc now" "minute_of loc now" "second_of loc now"]
      W L steady_bound[OF assms(1)] by simp
  then have nd: "next_day loc now = (unix_sec now + 86400) * second + nanosecond_of now" using L by simp
  then show "next_day loc now = now + 24 * hour" using time_split[of now] by (simp add: distrib_right)
  have u: "unix_sec (next_day loc now) = unix_sec now + 86400"
    unfolding nd using nanosecond_of_bounds by (intro unix_sec_add) auto
  have "offset_at loc (unix_sec now + 86400) = off" using steadyD[OF assms(1), of "unix_sec now + 86400"] by simp
  then show "day_of loc (next_day loc now) = day_of loc now + 1"
    using L by (simp add: day_of_def local_sec_def[of loc "next_day loc now"] u)
qed

lemma seconds_between_aux:
  fixes now u n k :: int
  assumes "now = u * second + n" and "0 \<le> n" and "n < second" and "u + 1 \<le> k" and "k \<le> u + 86400"
  shows "now < k * second" and "k * second \<le> now + 24 * hour"
  using assms by linarith+

lemma seconds_between:
  assumes "unix_sec now + 1 \<le> k \<and> k \<le> unix_sec now + 86400"
  shows "now < k * second \<and> k * second \<le> now + 24 * hour"
  using seconds_between_aux[OF time_split nanosecond_of_bounds conjunct1[OF assms] conjunct2[OF assms]] by blast



end
