(* ===== verification/WorkerSafety.thy ===== *)
theory WorkerSafety
  imports AppInvariants EngineRun
begin

text \<open>
  What the workers guarantee: consent and the pause are respected under every interleaving and every
  failure, and, run alone, a pass over a job has exactly the documented outcome.
\<close>

section \<open>The other processes\<close>

text \<open>Between two calls of this process the others execute any number of the store's statements.\<close>

definition store_env :: "('t, 'h) world \<Rightarrow> bool" where
  "store_env w \<longleftrightarrow> (\<forall>tk \<in> set (w_script w). \<forall>d. \<exists>t u. db_steps t d u (tk_env tk d))"

lemma store_env_keeps:
  assumes "store_env w" and "\<And>u d d'. db_step u d d' \<Longrightarrow> P d \<Longrightarrow> P d'"
  shows "env_keeps P w"
  using assms db_steps_invariant[where P = P] unfolding store_env_def env_keeps_def by blast

lemma store_env_calm [simp]: "w_script w = [] \<Longrightarrow> store_env w"
  by (simp add: store_env_def)

section \<open>Consent\<close>

lemma is_suppressed_answer:
  assumes "holds_at (\<lambda>d. suppressed d n) w" and "fst (store_is_suppressed n w) = Inr b"
  shows b
  using assms
  by (cases rule: sql_cases[of w "q_is_suppressed n"])
     (auto simp: store_is_suppressed_def q_is_suppressed_def holds_at_def env_keeps_def)

lemma paused_answer:
  assumes "holds_at db_sending_paused w" and "fst (store_sending_paused w) = Inr b"
  shows b
  using assms
  by (cases rule: sql_cases[of w q_sending_paused])
     (auto simp: store_sending_paused_def q_sending_paused_def holds_at_def env_keeps_def)

lemma send_job_other: "\<not> p (job_request j fr) \<Longrightarrow> (\<And>f. p (job_request j f) = p (job_request j fr)) \<Longrightarrow>
  sends p (send_job a tx j w) = sends p w"
  by (auto simp: send_job_def case_prod_beta world_simps split: sum.split)

lemma worker_pass_suppressed:
  assumes "holds_at (\<lambda>d. suppressed d n) w"
  shows "sends (\<lambda>r. sr_to r = n) (worker_pass a tx w) = sends (\<lambda>r. sr_to r = n) w"
proof (cases "fst (store_claim w)")
  case (Inl e)
  then show ?thesis by (simp add: worker_pass_def case_prod_beta world_simps)
next
  case (Inr j)
  let ?w1 = "snd (store_claim w)" let ?w2 = "snd (store_sending_paused ?w1)"
  have h: "holds_at (\<lambda>d. suppressed d n) ?w2"
    using assms by (simp add: holds_at_store stable_suppressed)
  have send: "sends (\<lambda>r. sr_to r = n) (send_job a tx j v) = sends (\<lambda>r. sr_to r = n) v" if "o_to j \<noteq> n" for v
    using that by (intro send_job_other[where fr = "[]"]) (simp_all add: job_request_def)
  show ?thesis
    using Inr is_suppressed_answer[OF h] send
    by (cases "o_to j = n")
      (auto simp: worker_pass_def case_prod_beta world_simps split: sum.split)
qed

text \<open>
  No message is ever sent to a number that has revoked its consent: if the number is suppressed
  when the worker starts (or resumes), no number of passes hands Telnyx a message for it, whatever
  other workers and requests do in between and whichever database calls fail or are lost.
\<close>

lemma worker_respects_opt_out:
  assumes "store_env w" and "suppressed (w_db w) n"
  shows "sends (\<lambda>r. sr_to r = n) (run_worker a tx k w) = sends (\<lambda>r. sr_to r = n) w"
proof -
  let ?P = "\<lambda>d. suppressed d n"
  have "holds_at ?P w"
    using assms store_env_keeps[OF assms(1), of ?P] step_suppressed by (auto simp: holds_at_def)
  then have "holds_at ?P (iterate k (worker_pass a tx) w) \<and>
      sends (\<lambda>r. sr_to r = n) (iterate k (worker_pass a tx) w) = sends (\<lambda>r. sr_to r = n) w"
    by (intro iterate_invariant[where P = "\<lambda>v. holds_at ?P v \<and> sends (\<lambda>r. sr_to r = n) v = sends (\<lambda>r. sr_to r = n) w"])
      (auto simp: worker_pass_keeps[OF stable_suppressed] worker_pass_suppressed)
  then show ?thesis by (simp add: run_worker_def)
qed

lemma worker_pass_paused:
  assumes "holds_at db_sending_paused w"
  shows "sends p (worker_pass a tx w) = sends p w"
proof (cases "fst (store_claim w)")
  case (Inl e)
  then show ?thesis by (simp add: worker_pass_def case_prod_beta world_simps)
next
  case (Inr j)
  have "holds_at db_sending_paused (snd (store_claim w))" using assms by (simp add: holds_at_store stable_paused)
  from paused_answer[OF this] Inr show ?thesis
    by (auto simp: worker_pass_def case_prod_beta world_simps split: sum.split)
qed

text \<open>
  C17. While sending is paused, or the process was started without sending enabled, no message at all
  is sent: the pause holds as long as no other process lifts it, whatever else happens.
\<close>

theorem worker_respects_pause:
  assumes "(db_sending_paused (w_db w) \<and> env_keeps db_sending_paused w) \<or> \<not> ap_enable_sending a"
  shows "sends p (run_worker a tx k w) = sends p w"
proof (cases "ap_enable_sending a")
  case True
  then have "holds_at db_sending_paused w" using assms by (simp add: holds_at_def)
  then have "holds_at db_sending_paused (iterate k (worker_pass a tx) w) \<and>
      sends p (iterate k (worker_pass a tx) w) = sends p w"
    by (intro iterate_invariant[where P = "\<lambda>v. holds_at db_sending_paused v \<and> sends p v = sends p w"])
      (auto simp: worker_pass_keeps[OF stable_paused] worker_pass_paused)
  then show ?thesis by (simp add: run_worker_def)
next
  case False
  then show ?thesis by (simp add: run_worker_def)
qed

section \<open>The outcome of a pass\<close>

text \<open>The row of a job after each of the statements that finish it.\<close>

abbreviation job_row :: "int \<Rightarrow> db \<Rightarrow> outbound_row option" where
  "job_row i d \<equiv> row_of ob_id i (db_outbound d)"

lemma job_row_after:
  "job_row i (snd (q_retry i delay now d)) =
     map_option (\<lambda>r. r\<lparr>ob_status := Queued, ob_available := now + delay, ob_locked := None\<rparr>) (job_row i d)"
  "job_row i (snd (q_fail i now d)) = map_option (\<lambda>r. r\<lparr>ob_status := Failed, ob_locked := None\<rparr>) (job_row i d)"
  "job_row i (snd (q_complete i pid now d)) =
     map_option (\<lambda>r. r\<lparr>ob_status := Sent, ob_provider := Some pid, ob_locked := None\<rparr>) (job_row i d)"
  by (simp_all add: q_retry_def q_fail_def q_complete_def update_job_def row_of_update Let_def)

lemma job_row_suppress: "job_row i (snd (q_suppress_insert n s e now d)) = job_row i d"
  by (simp add: q_suppress_insert_def frame_simps)

lemma row_of_cancel: "job_row i (cancel_queued n d) = None \<longleftrightarrow> job_row i d = None"
proof -
  have "ob_id ` set (db_outbound (cancel_queued n d)) = ob_id ` set (db_outbound d)"
    unfolding list.set_map[symmetric] by (simp add: cancel_queued_def map_update_where)
  then show ?thesis by (simp add: row_of_None)
qed

lemma claimed_row:
  assumes "q_claim now d = (Inr j, d1)"
  shows "\<exists>r. job_row (j_id j) d1 = Some r" and "o_contact j = []"
    and "db_suppressions d1 = db_suppressions d" and "db_sending_paused d1 = db_sending_paused d"
proof -
  obtain r rows where c: "outbound_q.claim_q now (db_outbound d) = Some (r, rows)" "j = scan_job r" "d1 = d\<lparr>db_outbound := rows\<rparr>"
    using assms by (auto simp: q_claim_def split: option.splits)
  have "r \<in> set rows" by (rule outbound_q.claim_in[OF c(1)])
  then have "job_row (j_id j) d1 \<noteq> None" using c(2,3) by (auto simp: row_of_None scan_job_def)
  then show "\<exists>r. job_row (j_id j) d1 = Some r" by auto
  show "o_contact j = []" "db_suppressions d1 = db_suppressions d" "db_sending_paused d1 = db_sending_paused d"
    using c by (simp_all add: scan_job_def)
qed

lemma resolve_no_contact: "resolve_sending_number a loc [] fb w = (Inr fb, w)"
  by (simp add: resolve_sending_number_def split: option.split)

definition error_class :: "error \<Rightarrow> retry_class" where
  "error_class e = (case e of ErrProvider status code _ \<Rightarrow> classify_provider_error status code | _ \<Rightarrow> RetryTransient)"

lemma finish_send_error: "finish_send j (Inl e) w =
    (case error_class e of
       RetrySuppression \<Rightarrow>
         (case e of ErrProvider _ code _ \<Rightarrow> snd (store_fail (j_id j) (snd (store_suppress (o_to j) ''telnyx'' code w))) | _ \<Rightarrow> w)
     | RetryPermanent \<Rightarrow> snd (store_fail (j_id j) w)
     | RetryTransient \<Rightarrow> retry_or_fail j w)"
  by (simp add: finish_send_def error_class_def split: error.split retry_class.split)

lemma finish_send_outcome:
  assumes "w_script w = []" and "job_row (j_id j) (w_db w) = Some r"
  shows "w_log (finish_send j res w) = w_log w" "w_telnyx (finish_send j res w) = w_telnyx w"
    and "\<exists>r. job_row (j_id j) (w_db (finish_send j res w)) = Some r \<and>
      (case res of
         Inr pid \<Rightarrow> ob_status r = Sent \<and> ob_provider r = Some pid
       | Inl e \<Rightarrow>
           (if error_class e = RetryTransient \<and> j_attempts j < 5
            then ob_status r = Queued \<and> ob_available r = w_clock w + backoff (j_attempts j) * second
            else ob_status r = Failed)) \<and>
      (suppressed (w_db (finish_send j res w)) (o_to j) \<longleftrightarrow>
         suppressed (w_db w) (o_to j) \<or> (\<exists>e. res = Inl e \<and> error_class e = RetrySuppression))"
proof -
  have dist: "job_row i (cancel_queued n d) = Some r' \<or> job_row i (cancel_queued n d) \<noteq> None" if "job_row i d = Some r'" for i n d r'
    using that row_of_cancel by auto
  show "w_log (finish_send j res w) = w_log w" "w_telnyx (finish_send j res w) = w_telnyx w"
    using assms(1)
    by (auto simp: finish_send_def retry_or_fail_def store_suppress_def store_fail_def store_retry_def store_complete_def
        sql_calm split: sum.split error.split retry_class.split)
  show "\<exists>r. job_row (j_id j) (w_db (finish_send j res w)) = Some r \<and>
      (case res of
         Inr pid \<Rightarrow> ob_status r = Sent \<and> ob_provider r = Some pid
       | Inl e \<Rightarrow>
           (if error_class e = RetryTransient \<and> j_attempts j < 5
            then ob_status r = Queued \<and> ob_available r = w_clock w + backoff (j_attempts j) * second
            else ob_status r = Failed)) \<and>
      (suppressed (w_db (finish_send j res w)) (o_to j) \<longleftrightarrow>
         suppressed (w_db w) (o_to j) \<or> (\<exists>e. res = Inl e \<and> error_class e = RetrySuppression))"
  proof (cases res)
    case (Inr pid)
    then show ?thesis using assms
      by (simp add: finish_send_def store_complete_def sql_calm job_row_after suppressed_frame[OF outbound_suppressions(7)])
  next
    case (Inl e)
    show ?thesis
    proof (cases "error_class e")
      case RetryTransient
      with Inl assms show ?thesis
        by (simp add: finish_send_error retry_or_fail_def store_retry_def store_fail_def sql_calm job_row_after
            suppressed_frame[OF outbound_suppressions(8)] suppressed_frame[OF outbound_suppressions(9)])
    next
      case RetryPermanent
      with Inl assms show ?thesis
        by (simp add: finish_send_error store_fail_def sql_calm job_row_after suppressed_frame[OF outbound_suppressions(9)])
    next
      case RetrySuppression
      then obtain status code msg where e: "e = ErrProvider status code msg" by (cases e) (auto simp: error_class_def)
      let ?d1 = "snd (q_suppress_insert (o_to j) ''telnyx'' code (w_clock w) (w_db w))"
      let ?d2 = "cancel_queued (o_to j) ?d1"
      have db: "w_db (finish_send j res w) = snd (q_fail (j_id j) (w_clock w) ?d2)"
        using Inl RetrySuppression e assms(1)
        by (simp add: finish_send_error store_suppress_def store_fail_def sql_calm q_suppress_insert_def q_suppress_cancel_def)
      have "job_row (j_id j) ?d2 \<noteq> None" using assms(2) by (simp add: row_of_cancel job_row_suppress)
      then obtain r2 where r2: "job_row (j_id j) ?d2 = Some r2" by auto
      have "suppressed (snd (q_fail (j_id j) (w_clock w) ?d2)) (o_to j)"
        by (simp add: suppressed_frame[OF outbound_suppressions(9)] suppressed_frame[OF outbound_suppressions(3)] frame_simps)
      then show ?thesis using db r2 Inl RetrySuppression by (simp add: job_row_after)
    qed
  qed
qed

text \<open>A pass of a worker that runs alone and has claimed a job.\<close>

lemma worker_pass_calm:
  assumes "w_script w = []" and "q_claim (w_clock w) (w_db w) = (Inr j, d1)"
    and "tx_send tx (job_request j (o_from j)) (w_telnyx w) = (res, t)"
  shows "worker_pass a tx w =
     (if db_sending_paused (w_db w) then snd (store_retry (j_id j) second (w\<lparr>w_db := d1\<rparr>))
      else if suppressed (w_db w) (o_to j) then snd (store_fail (j_id j) (w\<lparr>w_db := d1\<rparr>))
      else finish_send j res
        (w\<lparr>w_db := d1, w_telnyx := t, w_log := w_log w @ [EvSend (job_request j (o_from j))]\<rparr>))"
proof -
  note cl = claimed_row[OF assms(2)]
  have claim: "store_claim w = (Inr j, w\<lparr>w_db := d1\<rparr>)" using assms by (simp add: store_claim_def sql_calm)
  have supp: "suppressed d1 n = suppressed (w_db w) n" for n by (rule suppressed_frame[OF cl(3)])
  show ?thesis
    using assms(1,3)
    by (simp add: worker_pass_def claim store_sending_paused_def store_is_suppressed_def sql_calm q_sending_paused_def
        q_is_suppressed_def cl(2,4) supp send_job_def resolve_no_contact call_telnyx_def)
qed


section \<open>The sending number\<close>

fun is_lookup :: "event \<Rightarrow> bool" where
  "is_lookup (EvSendingNumber loc cid) = True"
| "is_lookup EvOwnedNumbers = True"
| "is_lookup _ = False"

definition lookups :: "('t, 'h) world \<Rightarrow> event list" where
  "lookups w = filter is_lookup (w_log w)"

lemma store_claim_no_contact: "fst (store_claim w) = Inr j \<Longrightarrow> o_contact j = []"
  by (cases rule: sql_cases[of w q_claim])
     (auto simp: store_claim_def q_claim_def scan_job_def split: option.splits)

lemma lookups_log: "w_log w' = w_log w \<Longrightarrow> lookups w' = lookups w"
  by (simp add: lookups_def)

lemma lookups_finish_send: "lookups (finish_send j res w) = lookups w"
  by (rule lookups_log)
     (simp add: finish_send_def retry_or_fail_def world_simps split: sum.split error.split retry_class.split)

lemma worker_pass_lookups: "lookups (worker_pass a tx w) = lookups w"
proof (cases "fst (store_claim w)")
  case (Inl e)
  then show ?thesis by (simp add: worker_pass_def case_prod_beta lookups_def world_simps)
next
  case (Inr j)
  have "lookups (send_job a tx j v) = lookups v" for v
    using store_claim_no_contact[OF Inr]
    by (simp add: send_job_def resolve_no_contact case_prod_beta lookups_finish_send)
       (simp add: lookups_def world_simps)
  with Inr show ?thesis
    by (auto simp: worker_pass_def case_prod_beta world_simps lookups_def split: sum.split)
qed

text \<open>
  C40. The outbound worker never asks HighLevel for the contact's sending number and never checks the
  account's numbers, whatever the application's configuration: \<open>Claim\<close> does not return the job's
  contact, so every message is sent from the number stored when it was queued.
\<close>

theorem worker_never_looks_up: "lookups (run_worker a tx k w) = lookups w"
proof -
  have "lookups (iterate k (worker_pass a tx) w) = lookups w"
    by (rule iterate_invariant[where P = "\<lambda>v. lookups v = lookups w"]) (simp_all add: worker_pass_lookups)
  then show ?thesis by (simp add: run_worker_def)
qed

section \<open>Witnesses\<close>

definition sample_fake_telnyx :: fake_telnyx where
  "sample_fake_telnyx = \<lparr>ft_sent = [], ft_owned = [''+13135550100''], ft_err = None\<rparr>"

definition sample_fake_highlevel :: fake_highlevel where
  "sample_fake_highlevel = \<lparr>fh_inbound = [], fh_promoted = [], fh_dnd = [], fh_statuses = [], fh_crm = [],
     fh_contacts = [], fh_conversations = [], fh_from_numbers = [], fh_last_conversation_limit = 0, fh_err = None\<rparr>"

definition sample_app :: "(fake_telnyx, fake_highlevel) app" where
  "sample_app = \<lparr>ap_has_store = True, ap_telnyx = Some fake_telnyx_api, ap_highlevel = Some fake_highlevel_api,
     ap_telnyx_client = None,
     ap_telnyx_http = (\<lambda>_ t. (Inl ErrDB, t)), ap_oauth = None, ap_oauth_http = (\<lambda>_ h. (Inl ErrDB, h)), ap_voice_credential = [], ap_webhook_key = replicate 32 CHR ''k'', ap_highlevel_webhook_key = [], ap_hl_secret = ''s3cret'',
     ap_admin_token = ''admin'', ap_signal_desk_token = [], ap_signal_desk_url = [], ap_location = ''loc'',
     ap_allowed = [], ap_from = ''+13135550100'', ap_enable_sending = True, ap_workflows = [],
     ap_crypto = sample_crypto, ap_runtime = sample_runtime, ap_post = (\<lambda>_ _ _. Inr 200)\<rparr>"

definition sample_world :: "tick list \<Rightarrow> db \<Rightarrow> (fake_telnyx, fake_highlevel) world" where
  "sample_world script d = \<lparr>w_db = d, w_clock = 10, w_script = script, w_telnyx = sample_fake_telnyx,
     w_highlevel = sample_fake_highlevel, w_log = []\<rparr>"

definition sample_queue_db :: db where
  "sample_queue_db = (snd (q_enqueue sample_outbound 5 empty_db))\<lparr>db_sending_paused := False\<rparr>"

definition sample_opt_out_db :: db where
  "sample_opt_out_db = sample_queue_db\<lparr>db_suppressions := [\<lparr>su_number = ''+13135550101'', su_source = ''telnyx'', su_event = ''e''\<rparr>]\<rparr>"

lemma worker_respects_opt_out_sample:
  "sends (\<lambda>r. sr_to r = ''+13135550101'')
     (run_worker sample_app fake_telnyx_api 3
        (sample_world [\<lparr>tk_delay = 1, tk_env = (\<lambda>d. d), tk_fault = Unacknowledged\<rparr>] sample_opt_out_db)) = []"
proof -
  let ?w = "sample_world [\<lparr>tk_delay = 1, tk_env = (\<lambda>d. d), tk_fault = Unacknowledged\<rparr>] sample_opt_out_db"
  have "store_env ?w" using db_steps.start by (auto simp: store_env_def sample_world_def)
  moreover have "suppressed (w_db ?w) ''+13135550101''"
    by (simp add: sample_world_def sample_opt_out_db_def suppressed_def)
  ultimately show ?thesis
    using worker_respects_opt_out[of ?w "''+13135550101''" sample_app fake_telnyx_api 3]
    by (simp add: sends_def sample_world_def)
qed

theorem worker_respects_pause_witness:
  "sends (\<lambda>_. True) (run_worker sample_app fake_telnyx_api 3 (sample_world [] empty_db)) = []"
  using worker_respects_pause[of "sample_world [] empty_db" sample_app "\<lambda>_. True" fake_telnyx_api 3]
  by (simp add: sample_world_def sends_def empty_db_def)

lemma sample_queue_claim:
  "\<exists>j d1. q_claim 10 sample_queue_db = (Inr j, d1) \<and> o_to j = ''+13135550101'' \<and> j_id j = 1"
  by (simp add: q_claim_def claim_where_def select_first_def sample_queue_db_def q_enqueue_def insert_outbound_def
      empty_db_def outbound_ready_def sample_outbound_def outbound_lock_def scan_job_def)


end
