(* ===== verification/HandlerSafety.thy ===== *)
theory HandlerSafety
  imports AdminHandlers WorkerSafety
begin

text \<open>
  What the HTTP handlers guarantee, and the system as a whole: requests, workers and other processes in
  any order.
\<close>

section \<open>Invariants of the handlers\<close>

text \<open>Invariants that do not look at the pause are kept by every request, the operator's included.\<close>

definition pause_free :: "(db \<Rightarrow> bool) \<Rightarrow> bool" where
  "pause_free P \<longleftrightarrow> (\<forall>d b. P d \<longrightarrow> P (d\<lparr>db_sending_paused := b\<rparr>))"

lemma pause_free_suppressed: "pause_free (\<lambda>d. suppressed d n)"
  by (simp add: pause_free_def suppressed_def)

lemma pause_free_db_ok: "pause_free db_ok"
  by (simp add: pause_free_def db_ok_def)

lemma holds_at_set_paused: "pause_free P \<Longrightarrow> holds_at P w \<Longrightarrow> holds_at P (snd (store_set_paused b w))"
  by (auto simp: store_set_paused_def pause_free_def q_set_paused_def intro!: holds_at_sql)

lemma log_other_store [world_simps]:
  "w_log (snd (store_set_paused b w)) = w_log w"
  "w_log (snd (store_create_state rand ttl w)) = w_log w"
  "w_log (snd (store_save_token t w)) = w_log w"
  "w_log (snd (store_queue_counts loc w)) = w_log w"
  by (simp_all add: store_set_paused_def store_create_state_def store_save_token_def store_queue_counts_def
      world_simps case_prod_beta split: sum.split error.split)

lemma sends_other_store [world_simps]:
  "sends p (snd (store_set_paused b w)) = sends p w" "sends p (snd (store_create_state rand ttl w)) = sends p w"
  "sends p (snd (store_save_token t w)) = sends p w" "sends p (snd (store_queue_counts loc w)) = sends p w"
  by (simp_all add: sends_def world_simps)

lemma holds_at_queue_counts:
  assumes "holds_at P w"
  shows "holds_at P (snd (store_queue_counts loc w))"
proof -
  have "holds_at P (snd (sql q_counts w))" by (rule holds_at_sql[OF assms]) (simp add: q_counts_def)
  moreover from this have "holds_at P (snd (sql (q_expires loc) (snd (sql q_counts w))))"
    by (rule holds_at_sql) (simp add: q_expires_def split: option.split)
  ultimately show ?thesis
    by (simp add: store_queue_counts_def case_prod_beta split: sum.split error.split)
qed

lemma allows_sends [world_simps]: "sends p (snd (allows_location a loc w)) = sends p w"
  by (rule allows_location_keeps)

lemma accepts_sends [world_simps]: "sends p (snd (accepts_inbound a to w)) = sends p w"
  by (rule accepts_inbound_keeps)

lemmas keeps_intros = holds_at_store holds_at_store_suppress holds_at_set_paused holds_at_queue_counts holds_at_save_token
  holds_at_create_state allows_location_keeps(1) accepts_inbound_keeps(1) process_inbound_keeps sync_delivery_event_keeps

lemma handle_highlevel_keeps:
  "stable P \<Longrightarrow> holds_at P w \<Longrightarrow> holds_at P (snd (handle_highlevel a r w))"
  "sends p (snd (handle_highlevel a r w)) = sends p w"
  by (simp_all add: handle_highlevel_def case_prod_beta Let_def keeps_intros world_simps split: sum.split option.split)

lemma telnyx_record_keeps:
  "stable P \<Longrightarrow> holds_at P w \<Longrightarrow> holds_at P (snd (telnyx_record a e w))"
  "sends p (snd (telnyx_record a e w)) = sends p w"
  by (simp_all add: telnyx_record_def case_prod_beta Let_def keeps_intros world_simps split: sum.split)

lemma telnyx_follow_up_keeps:
  "stable P \<Longrightarrow> holds_at P w \<Longrightarrow> holds_at P (telnyx_follow_up a e news w)"
  "sends p (telnyx_follow_up a e news w) = sends p w"
  by (simp_all add: telnyx_follow_up_def Let_def keeps_intros world_simps)

lemma handle_telnyx_keeps:
  "stable P \<Longrightarrow> holds_at P w \<Longrightarrow> holds_at P (snd (handle_telnyx a r w))"
  "sends p (snd (handle_telnyx a r w)) = sends p w"
  by (simp_all add: handle_telnyx_def case_prod_beta Let_def telnyx_record_keeps telnyx_follow_up_keeps
      split: sum.split option.split)

lemma handle_enroll_keeps:
  "stable P \<Longrightarrow> holds_at P w \<Longrightarrow> holds_at P (snd (handle_enroll a r w))"
  "sends p (snd (handle_enroll a r w)) = sends p w"
  by (simp_all add: handle_enroll_def case_prod_beta keeps_intros world_simps split: sum.split option.split)

lemma signal_desk_keeps:
  "stable P \<Longrightarrow> holds_at P w \<Longrightarrow> holds_at P (snd (handle_unknown a r w))"
  "sends p (snd (handle_unknown a r w)) = sends p w"
  "stable P \<Longrightarrow> holds_at P w \<Longrightarrow> holds_at P (snd (handle_conversations a r w))"
  "sends p (snd (handle_conversations a r w)) = sends p w"
  by (simp_all add: handle_unknown_def handle_conversations_def promote_message_def list_conversations_def Let_def
      case_prod_beta keeps_intros world_simps split: sum.split option.split)

lemma sends_sql: "sends p (snd (sql st w)) = sends p w"
  by (simp add: sends_def world_simps)

lemma ready_keeps:
  "holds_at P w \<Longrightarrow> holds_at P (snd (handle_ready a r w))" "sends p (snd (handle_ready a r w)) = sends p w"
  by (simp_all add: handle_ready_def case_prod_beta holds_at_sql q_ping_def sends_sql split: sum.split)

lemma admin_status_keeps:
  "stable P \<Longrightarrow> holds_at P w \<Longrightarrow> holds_at P (snd (handle_admin_status a r w))"
  "sends p (snd (handle_admin_status a r w)) = sends p w"
  by (simp_all add: handle_admin_status_def Let_def case_prod_beta keeps_intros world_simps split: sum.split)

lemma admin_sending_keeps:
  "stable P \<Longrightarrow> pause_free P \<Longrightarrow> holds_at P w \<Longrightarrow> holds_at P (snd (handle_admin_sending a r w))"
  "sends p (snd (handle_admin_sending a r w)) = sends p w"
  by (simp_all add: handle_admin_sending_def case_prod_beta keeps_intros world_simps split: sum.split option.split)

lemma page_keeps [simp]: "snd (handle_admin_page a r w) = w" "snd (handle_health r w) = w"
  by (simp_all add: handle_admin_page_def handle_health_def)

lemma oauth_keeps:
  "stable P \<Longrightarrow> holds_at P w \<Longrightarrow> holds_at P (snd (handle_oauth_start a rand r w))"
  "sends p (snd (handle_oauth_start a rand r w)) = sends p w"
  "stable P \<Longrightarrow> holds_at P w \<Longrightarrow> holds_at P (snd (handle_oauth_callback a r w))"
  "sends p (snd (handle_oauth_callback a r w)) = sends p w"
  by (simp_all add: handle_oauth_start_def handle_oauth_callback_def Let_def case_prod_beta keeps_intros world_simps
      split: sum.split option.split)

lemma serve_keeps:
  assumes "stable P" and "pause_free P" and "holds_at P w"
  shows "holds_at P (snd (serve a rnd path r w))"
proof (cases "map_of (routes a rnd) path")
  case None
  with assms(3) show ?thesis by (simp add: serve_def)
next
  case (Some h)
  have "\<forall>(p, g) \<in> set (routes a rnd). holds_at P (snd (g r w))"
    using assms
    by (simp add: routes_def handle_highlevel_keeps handle_telnyx_keeps handle_enroll_keeps signal_desk_keeps ready_keeps
        admin_status_keeps admin_sending_keeps oauth_keeps world_simps)
  with map_of_SomeD[OF Some] show ?thesis by (auto simp: serve_def Some)
qed

lemma serve_sends [world_simps]: "sends p (snd (serve a rnd path r w)) = sends p w"
proof (cases "map_of (routes a rnd) path")
  case None
  then show ?thesis by (simp add: serve_def)
next
  case (Some h)
  have "\<forall>(q, g) \<in> set (routes a rnd). sends p (snd (g r w)) = sends p w"
    by (simp add: routes_def handle_highlevel_keeps handle_telnyx_keeps handle_enroll_keeps signal_desk_keeps ready_keeps
        admin_status_keeps admin_sending_keeps oauth_keeps world_simps)
  with map_of_SomeD[OF Some] show ?thesis by (auto simp: serve_def Some)
qed

section \<open>The system\<close>

text \<open>
  One step of the running system: a request to the API, a pass of one of the workers, or anything the
  other processes do to the database while time passes. The configuration may differ from step to step,
  as it does between the API and the worker process.
\<close>

inductive system_step :: "('t, 'h) world \<Rightarrow> ('t, 'h) world \<Rightarrow> bool" where
  request: "system_step w (snd (serve a rnd path r w))"
| outbound: "system_step w (run_worker a tx k w)"
| crm: "system_step w (run_crm_worker a k w)"
| inbound: "system_step w (run_inbound_worker a k w)"
| workflow: "system_step w (run_workflow_worker a k w)"
| others: "db_steps t (w_db w) u d \<Longrightarrow> w_clock w \<le> u \<Longrightarrow> system_step w (w\<lparr>w_db := d, w_clock := u\<rparr>)"

inductive system_run :: "('t, 'h) world \<Rightarrow> ('t, 'h) world \<Rightarrow> bool" where
  start: "system_run w w"
| step: "system_run w w' \<Longrightarrow> system_step w' w'' \<Longrightarrow> system_run w w''"

lemma run_workers_keep:
  assumes "stable P" and "holds_at P w"
  shows "holds_at P (run_worker a tx k w)" "holds_at P (run_crm_worker a k w)" "holds_at P (run_inbound_worker a k w)"
    "holds_at P (run_workflow_worker a k w)"
  using assms
  by (auto simp: run_worker_def run_crm_worker_def run_inbound_worker_def run_workflow_worker_def worker_pass_keeps
      crm_pass_keeps inbound_pass_keeps workflow_pass_keeps intro: iterate_invariant[where P = "holds_at P"] split: option.split)

lemma iterate_sends: "(\<And>v. sends p (f v) = sends p v) \<Longrightarrow> sends p (iterate k f w) = sends p w"
  by (rule iterate_invariant[where P = "\<lambda>v. sends p v = sends p w"]) simp_all

lemma run_workers_sends [world_simps]:
  "sends p (run_crm_worker a k w) = sends p w" "sends p (run_inbound_worker a k w) = sends p w"
  "sends p (run_workflow_worker a k w) = sends p w"
  by (simp_all add: run_crm_worker_def run_inbound_worker_def run_workflow_worker_def iterate_sends world_simps
      split: option.split)

lemma system_step_keeps:
  assumes "system_step w w'" and "stable P" and "pause_free P" and "holds_at P w"
    and "\<And>u d d'. db_step u d d' \<Longrightarrow> P d \<Longrightarrow> P d'"
  shows "holds_at P w'"
  using assms(1,4)
proof cases
  case (others t u d)
  then have "P d" using db_steps_invariant[where P = P] assms(5) \<open>holds_at P w\<close> unfolding holds_at_def by blast
  then show ?thesis using others \<open>holds_at P w\<close> by (simp add: holds_at_def env_keeps_def)
qed (simp_all add: serve_keeps[OF assms(2,3)] run_workers_keep[OF assms(2)])

lemma system_step_suppressed:
  assumes "system_step w w'" and "holds_at (\<lambda>d. suppressed d n) w"
  shows "holds_at (\<lambda>d. suppressed d n) w' \<and> sends (\<lambda>q. sr_to q = n) w' = sends (\<lambda>q. sr_to q = n) w"
proof
  show "holds_at (\<lambda>d. suppressed d n) w'"
    using assms by (rule system_step_keeps[OF _ stable_suppressed pause_free_suppressed]) (rule step_suppressed)
  from assms show "sends (\<lambda>q. sr_to q = n) w' = sends (\<lambda>q. sr_to q = n) w"
  proof cases
    case (outbound a tx k)
    let ?I = "\<lambda>v. holds_at (\<lambda>d. suppressed d n) v \<and> sends (\<lambda>q. sr_to q = n) v = sends (\<lambda>q. sr_to q = n) w"
    have "?I (iterate k (worker_pass a tx) w)"
      by (rule iterate_invariant[where P = ?I])
        (use assms(2) in \<open>auto simp: worker_pass_keeps[OF stable_suppressed] worker_pass_suppressed\<close>)
    with outbound show ?thesis by (simp add: run_worker_def)
  next
    case (others t u d)
    then show ?thesis by (simp add: sends_def)
  qed (simp_all add: world_simps)
qed

lemma system_run_suppressed:
  "system_run w w' \<Longrightarrow> holds_at (\<lambda>d. suppressed d n) w \<Longrightarrow>
   holds_at (\<lambda>d. suppressed d n) w' \<and> sends (\<lambda>q. sr_to q = n) w' = sends (\<lambda>q. sr_to q = n) w"
  by (induction rule: system_run.induct) (simp, metis system_step_suppressed)

section \<open>Opting out\<close>

lemma suppress_holds:
  assumes "env_keeps (\<lambda>d. suppressed d n) w" and "fst (store_suppress n source event w) = Inr ()"
  shows "holds_at (\<lambda>d. suppressed d n) (snd (store_suppress n source event w))"
proof -
  let ?P = "\<lambda>d. suppressed d n" let ?w1 = "snd (sql (q_suppress_insert n source event) w)"
  have ok: "is_ok (fst (sql (q_suppress_insert n source event) w))"
    using assms(2) by (simp add: store_suppress_def case_prod_beta split: sum.splits)
  have ins: "suppressed (snd (q_suppress_insert n source event now d)) n" for now d
    by (simp add: frame_simps)
  from ok have "?P (w_db ?w1)"
    by (cases rule: sql_cases[of w "q_suppress_insert n source event"]) (simp_all add: ins)
  then have "holds_at ?P ?w1" using assms(1) by (simp add: holds_at_def env_keeps_sql)
  then have "holds_at ?P (snd (sql (q_suppress_cancel n) ?w1))"
    by (rule holds_at_sql) (simp add: stable_statements[OF stable_suppressed])
  then show ?thesis
    using ok by (auto simp: store_suppress_def case_prod_beta split: sum.split)
qed

lemma env_keeps_of_store: "store_env w \<Longrightarrow> env_keeps (\<lambda>d. suppressed d n) w"
  by (rule store_env_keeps) (auto intro: step_suppressed)

lemma holds_at_true: "holds_at (\<lambda>d. True) w"
  by (simp add: holds_at_def env_keeps_def)

lemma env_keeps_accepts: "env_keeps P w \<Longrightarrow> env_keeps P (snd (accepts_inbound a to w))"
  by (auto simp: accepts_inbound_def case_prod_beta world_simps split: option.split sum.split)

lemma telnyx_record_stop:
  assumes "env_keeps (\<lambda>d. suppressed d (te_from e)) w" and "telnyx_record a e w = (Inr news, w1)"
    and "is_received e" and "asks_to_stop e"
  shows "holds_at (\<lambda>d. suppressed d (te_from e)) w1"
proof -
  let ?P = "\<lambda>d. suppressed d (te_from e)"
  have nd: "\<not> is_delivery e" using assms(3) by (auto simp: is_received_def is_delivery_def)
  obtain acc w2 where acc: "accepts_inbound a (received_on e) w = (acc, w2)" by fastforce
  then have env2: "env_keeps ?P w2" using env_keeps_accepts[OF assms(1)] by (metis snd_conv)
  obtain r3 w3 where rec: "store_record_inbound (te_id e) (te_from e) (received_on e) (te_text e) w2 = (r3, w3)" by fastforce
  then have env3: "env_keeps ?P w3" using env_keeps_sql[OF env2] by (metis snd_conv store_record_inbound_def)
  obtain r4 w4 where sup: "store_suppress (te_from e) ''telnyx'' (te_id e) w3 = (r4, w4)" by fastforce
  from assms(2) have "w1 = w4" "r4 = Inr ()"
    by (auto simp: telnyx_record_def nd assms(3,4) acc rec sup split: if_splits sum.splits)
  then show ?thesis using suppress_holds[OF env3, of "''telnyx''" "te_id e"] sup by simp
qed


section \<open>Authentication\<close>

text \<open>
  Who may do what: the credential each path asks for, and what it means for a request to carry it. The
  health checks ask for none and do nothing.
\<close>

datatype credential = HighLevelCredential | TelnyxSignature | HighLevelSecret | AdminSecret | OAuthState | SignalDeskSecret

definition path_credentials :: "(string \<times> credential) list" where
  "path_credentials =
    [(''/webhooks/highlevel/outbound'', HighLevelCredential), (''/webhooks/outbound'', HighLevelCredential),
     (''/webhooks/telnyx'', TelnyxSignature), (''/workflows/enroll'', HighLevelSecret),
     (''/admin'', AdminSecret), (''/admin/status'', AdminSecret), (''/admin/sending'', AdminSecret),
     (''/oauth/start'', AdminSecret), (''/oauth/callback'', OAuthState),
     (''/oauth/highlevel/start'', AdminSecret), (''/oauth/highlevel/callback'', OAuthState),
     (''/signal-desk/conversations'', SignalDeskSecret), (''/signal-desk/unknown'', SignalDeskSecret),
     (''/signal-desk/voice/token'', SignalDeskSecret), (''/signal-desk/voice/status'', SignalDeskSecret),
     (''/signal-desk/voice/provision'', SignalDeskSecret)]"

fun carries :: "('t, 'h) app \<Rightarrow> credential \<Rightarrow> request \<Rightarrow> ('t, 'h) world \<Rightarrow> bool" where
  "carries a HighLevelCredential r w \<longleftrightarrow>
     verify_highlevel (ap_crypto a) r (fst (read_body 1048576 r)) (ap_highlevel_webhook_key a) = None \<or>
     ap_hl_secret a \<noteq> [] \<and> rq_header r ''Authorization'' = ''Bearer '' @ ap_hl_secret a"
| "carries a TelnyxSignature r w \<longleftrightarrow>
     verify_telnyx (ap_crypto a) r (fst (read_body 1048576 r)) (ap_webhook_key a) (w_clock w) (5 * minute) = None"
| "carries a HighLevelSecret r w \<longleftrightarrow> ap_hl_secret a \<noteq> [] \<and> rq_header r ''Authorization'' = ''Bearer '' @ ap_hl_secret a"
| "carries a AdminSecret r w \<longleftrightarrow> ap_admin_token a \<noteq> [] \<and>
     (rq_header r ''Authorization'' = ''Bearer '' @ ap_admin_token a \<or> rq_header r ''X-Admin-Token'' = ap_admin_token a)"
| "carries a OAuthState r w \<longleftrightarrow>
     (\<exists>s \<in> set (db_oauth_states (w_db w)). os_state s = rq_query r ''state'' \<and> w_clock w < os_expires s)"
| "carries a SignalDeskSecret r w \<longleftrightarrow> signal_desk_secret a \<noteq> [] \<and> rq_header r ''Authorization'' = ''Bearer '' @ signal_desk_secret a"

definition authorized :: "('t, 'h) app \<Rightarrow> string \<Rightarrow> request \<Rightarrow> ('t, 'h) world \<Rightarrow> bool" where
  "authorized a path r w \<longleftrightarrow> (case map_of path_credentials path of None \<Rightarrow> False | Some c \<Rightarrow> carries a c r w)"

definition health_paths :: "string set" where
  "health_paths = {''/healthz'', ''/readyz''}"

lemma consume_unknown_state:
  assumes "\<not> (\<exists>s \<in> set (db_oauth_states d). os_state s = state \<and> now < os_expires s)"
  shows "\<exists>e. q_consume_state state now d = (Inl e, d)"
proof -
  have "filter (\<lambda>r. os_state r = state \<and> now < os_expires r) (db_oauth_states d) = []"
    using assms by (auto simp: filter_empty_conv)
  moreover have "filter (\<lambda>r. \<not> (os_state r = state \<and> now < os_expires r)) (db_oauth_states d) = db_oauth_states d"
    using assms by (auto simp: filter_id_conv)
  ultimately show ?thesis by (simp add: q_consume_state_def Let_def count_where_def)
qed

lemma secret_checks:
  "require_admin a r \<longleftrightarrow> ap_admin_token a \<noteq> [] \<and>
     (rq_header r ''Authorization'' = ''Bearer '' @ ap_admin_token a \<or> rq_header r ''X-Admin-Token'' = ap_admin_token a)"
  "signal_desk_authorized a r \<longleftrightarrow> signal_desk_secret a \<noteq> [] \<and> rq_header r ''Authorization'' = ''Bearer '' @ signal_desk_secret a"
  by (auto simp: require_admin_def signal_desk_authorized_def bearer_secret_ok_iff Let_def)

lemma credential_values:
  "map_of path_credentials ''/webhooks/highlevel/outbound'' = Some HighLevelCredential"
  "map_of path_credentials ''/webhooks/outbound'' = Some HighLevelCredential"
  "map_of path_credentials ''/webhooks/telnyx'' = Some TelnyxSignature"
  "map_of path_credentials ''/workflows/enroll'' = Some HighLevelSecret"
  "map_of path_credentials ''/admin'' = Some AdminSecret"
  "map_of path_credentials ''/admin/status'' = Some AdminSecret"
  "map_of path_credentials ''/admin/sending'' = Some AdminSecret"
  "map_of path_credentials ''/oauth/start'' = Some AdminSecret"
  "map_of path_credentials ''/oauth/callback'' = Some OAuthState"
  "map_of path_credentials ''/oauth/highlevel/start'' = Some AdminSecret"
  "map_of path_credentials ''/oauth/highlevel/callback'' = Some OAuthState"
  "map_of path_credentials ''/signal-desk/conversations'' = Some SignalDeskSecret"
  "map_of path_credentials ''/signal-desk/unknown'' = Some SignalDeskSecret"
  "map_of path_credentials ''/signal-desk/voice/token'' = Some SignalDeskSecret"
  "map_of path_credentials ''/signal-desk/voice/status'' = Some SignalDeskSecret"
  "map_of path_credentials ''/signal-desk/voice/provision'' = Some SignalDeskSecret"
  by code_simp+

lemma carries_secret:
  "carries a AdminSecret r w = require_admin a r" "carries a SignalDeskSecret r w = signal_desk_authorized a r"
  unfolding carries.simps secret_checks by (rule refl)+

text \<open>Which credentials each route asks for.\<close>

definition rejects :: "(request \<Rightarrow> ('t, 'h) world \<Rightarrow> response \<times> ('t, 'h) world) \<Rightarrow> request \<Rightarrow> ('t, 'h) world \<Rightarrow> bool" where
  "rejects h r w \<longleftrightarrow> snd (h r w) = w \<and> rs_status (fst (h r w)) \<ge> 400"

lemma callback_rejected:
  assumes "w_script w = []" and "\<not> carries a OAuthState r w"
  shows "rejects (handle_oauth_callback a) r w"
proof -
  obtain e where e: "q_consume_state (rq_query r ''state'') (w_clock w) (w_db w) = (Inl e, w_db w)"
    using consume_unknown_state[OF assms(2)[unfolded carries.simps]] by blast
  then have "store_consume_state (rq_query r ''state'') w = (Inl e, w)"
    using assms(1) by (simp add: store_consume_state_def sql_calm)
  then show ?thesis by (simp add: rejects_def handle_oauth_callback_def Let_def http_error_def split: option.split)
qed

lemma rejects_unauthorized:
  "\<not> require_admin a r \<Longrightarrow> rejects (handle_admin_page a) r w"
  "\<not> require_admin a r \<Longrightarrow> rejects (handle_admin_status a) r w"
  "\<not> require_admin a r \<Longrightarrow> rejects (handle_admin_sending a) r w"
  "\<not> require_admin a r \<Longrightarrow> rejects (handle_oauth_start a rand) r w"
  "\<not> signal_desk_authorized a r \<Longrightarrow> rejects (handle_conversations a) r w"
  "\<not> signal_desk_authorized a r \<Longrightarrow> rejects (handle_unknown a) r w"
  "\<not> signal_desk_authorized a r \<Longrightarrow> rejects (handle_voice_token a) r w"
  "\<not> signal_desk_authorized a r \<Longrightarrow> rejects (handle_voice_status a) r w"
  "\<not> signal_desk_authorized a r \<Longrightarrow> rejects (handle_voice_provision a sip) r w"
  by (simp_all add: rejects_def http_error_def handle_admin_page_def handle_admin_status_def handle_admin_sending_def
      handle_oauth_start_def handle_conversations_def handle_unknown_def handle_voice_token_def handle_voice_status_def
      handle_voice_provision_def)

lemma rejects_webhooks:
  "\<not> carries a HighLevelCredential r w \<Longrightarrow> rejects (handle_highlevel a) r w"
  "\<not> carries a TelnyxSignature r w \<Longrightarrow> rejects (handle_telnyx a) r w"
  "\<not> carries a HighLevelSecret r w \<Longrightarrow> rejects (handle_enroll a) r w"
proof -
  assume "\<not> carries a HighLevelCredential r w"
  then have "\<not> highlevel_authenticated a r (fst (read_body 1048576 r))"
    unfolding carries.simps highlevel_authenticated_def bearer_secret_ok_iff by blast
  then show "rejects (handle_highlevel a) r w"
    by (simp add: rejects_def handle_highlevel_def Let_def case_prod_beta http_error_def)
next
  assume "\<not> carries a TelnyxSignature r w"
  then show "rejects (handle_telnyx a) r w"
    by (simp add: rejects_def handle_telnyx_def Let_def http_error_def)
next
  assume "\<not> carries a HighLevelSecret r w"
  then have "ap_hl_secret a = [] \<or> \<not> bearer_secret_ok (rq_header r ''Authorization'') (ap_hl_secret a)"
    unfolding carries.simps bearer_secret_ok_iff by blast
  then show "rejects (handle_enroll a) r w" by (simp add: rejects_def handle_enroll_def http_error_def)
qed


section \<open>Witnesses\<close>

definition sample_stop_body :: string where
  "sample_stop_body = json_encode (JsObj [(''data'', JsObj
     [(''id'', JsStr ''e1''), (''event_type'', JsStr ''message.received''),
      (''payload'', JsObj [(''from'', JsObj [(''phone_number'', JsStr ''+13135550101'')]),
         (''to'', JsArr [JsObj [(''phone_number'', JsStr ''+13135550100'')]]), (''text'', JsStr ''stop'')])])])"

definition sample_stop_event :: telnyx_event where
  "sample_stop_event = \<lparr>te_id = ''e1'', te_event_type = ''message.received'', te_payload_id = [], te_from = ''+13135550101'',
     te_to = [(''+13135550100'', [])], te_text = ''stop'', te_autoresponse = []\<rparr>"

lemma sample_stop_decoded:
  "unmarshal telnyx_fields sample_stop_body zero_telnyx_event = Some sample_stop_event"
  "is_opt_out ''stop''"
  by code_simp+

lemma sample_stop_length: "length sample_stop_body = 156"
  by code_simp

lemma sample_stop_read: "fst (read_body 1048576 (sample_request ''0'' sample_stop_body)) = sample_stop_body"
  by (simp add: read_body_def sample_request_def sample_stop_length)

lemma sample_stop_record:
  "\<exists>v. telnyx_record sample_app sample_stop_event (sample_world [] empty_db) = (Inr (False, True), v)"
  by (simp add: telnyx_record_def is_delivery_def is_received_def asks_to_stop_def sample_stop_event_def received_on_def
      accepts_inbound_def sample_app_def sample_world_def store_record_inbound_def store_suppress_def sql_calm
      q_record_inbound_def q_suppress_insert_def q_suppress_cancel_def empty_db_def sample_stop_decoded(2)[simplified])



end
