(* ===== verification/HandlerSpec.thy ===== *)
theory HandlerSpec
  imports HandlerSafety
begin

text \<open>
  What the webhooks achieve when nothing fails: the outbound webhook and the enrolment endpoint.
\<close>

section \<open>The outbound webhook\<close>

definition queued_for :: "ghl_request \<Rightarrow> outbound_row \<Rightarrow> bool" where
  "queued_for p r \<longleftrightarrow> ob_location r = gr_location_id p \<and> ob_message r = gr_message_id p"

lemma allows_calm:
  assumes "w_script w = []"
  shows "snd (allows_location a loc w) = w"
    and "fst (allows_location a loc (w\<lparr>w_db := w_db w\<lparr>db_outbound := rows, db_outbound_seq := n\<rparr>\<rparr>)) = fst (allows_location a loc w)"
  using assms
  by (simp_all add: allows_location_def store_load_token_def sql_calm q_load_token_def split: option.split)

lemma enqueue_calm:
  assumes "w_script w = []"
  shows "store_enqueue o0 w =
    (let d' = w_db w\<lparr>db_outbound_seq := db_outbound_seq (w_db w) + 1\<rparr> in
     if list_ex (\<lambda>r. ob_location r = o_location o0 \<and> ob_message r = o_message o0) (db_outbound (w_db w))
     then (Inr False, w\<lparr>w_db := d'\<rparr>)
     else (Inr True, w\<lparr>w_db := d'\<lparr>db_outbound := db_outbound (w_db w) @
       [\<lparr>ob_id = db_outbound_seq (w_db w), ob_location = o_location o0, ob_message = o_message o0, ob_to = o_to o0,
         ob_from = o_from o0, ob_body = o_text o0, ob_payload = marshal_outbound o0, ob_status = Queued, ob_attempts = 0,
         ob_available = w_clock w, ob_provider = None, ob_created = w_clock w, ob_enrollment = None, ob_locked = None\<rparr>]\<rparr>\<rparr>))"
  using assms by (simp add: store_enqueue_def sql_calm q_enqueue_def insert_outbound_def Let_def)

text \<open>An accepted webhook was authenticated, complete and for a location we serve; it is answered 200.\<close>

lemma handle_highlevel_ok:
  assumes "w_script w = []" and "rs_status (fst (handle_highlevel a r w)) = 200"
  obtains p where "carries a HighLevelCredential r w"
    "unmarshal ghl_fields (fst (read_body 1048576 r)) zero_ghl = Some p" "ghl_valid a p"
    "fst (allows_location a (gr_location_id p) w)"
    "snd (handle_highlevel a r w) = snd (store_enqueue (ghl_outbound a p) w)"
    "\<And>v. w_script v = [] \<Longrightarrow> fst (allows_location a (gr_location_id p) v) \<Longrightarrow>
       rs_status (fst (handle_highlevel a r v)) = 200 \<and> snd (handle_highlevel a r v) = snd (store_enqueue (ghl_outbound a p) v)"
proof -
  have auth: "carries a HighLevelCredential r w"
    using assms(2) rejects_webhooks(1)[of a r w] by (auto simp: rejects_def simp del: carries.simps)
  obtain p where p: "unmarshal ghl_fields (fst (read_body 1048576 r)) zero_ghl = Some p"
    using assms(2) by (auto simp: handle_highlevel_def Let_def case_prod_beta http_error_def split: option.splits if_splits)
  have h: "rq_method r = ''POST''" "\<not> snd (read_body 1048576 r)"
    "highlevel_authenticated a r (fst (read_body 1048576 r))" "ghl_valid a p"
    using assms(2) p by (auto simp: handle_highlevel_def Let_def case_prod_beta http_error_def split: if_splits)
  have ok: "is_ok (fst (store_enqueue (ghl_outbound a p) v))" if "w_script v = []" for v :: "('a, 'b) world"
    by (simp add: enqueue_calm[OF that] Let_def)
  have step: "handle_highlevel a r v = (if fst (allows_location a (gr_location_id p) v)
      then (case store_enqueue (ghl_outbound a p) v of (Inl e, w2) \<Rightarrow> (http_error 500 ''database error'', w2)
               | (Inr created, w2) \<Rightarrow>
                   (write_json 200 [(''success'', JsBool True), (''status'', JsStr ''success''), (''type'', JsStr ''SMS''),
                      (''messageId'', JsStr (gr_message_id p)), (''conversationId'', JsStr (gr_conversation_id p)),
                      (''duplicate'', JsBool (\<not> created))], w2))
      else (http_error 403 ''unknown location'', v))" if "w_script v = []" for v :: "('a, 'b) world"
    using h p allows_calm(1)[OF that, of a "gr_location_id p"]
    by (simp add: handle_highlevel_def Let_def case_prod_beta)
  have al: "fst (allows_location a (gr_location_id p) w)"
    using assms(2) step[OF assms(1)] by (auto simp: http_error_def split: if_splits)
  have res: "rs_status (fst (handle_highlevel a r v)) = 200 \<and> snd (handle_highlevel a r v) = snd (store_enqueue (ghl_outbound a p) v)"
    if "w_script v = []" "fst (allows_location a (gr_location_id p) v)" for v :: "('a, 'b) world"
    using step[OF that(1)] that(2) ok[OF that(1)] by (auto simp: write_json_def case_prod_beta split: sum.splits)
  show thesis by (rule that[OF auth p h(4) al]) (use res assms(1) al in blast)+
qed


section \<open>Enrolling\<close>

lemma create_enrollment_calm:
  assumes "w_script w = []"
  shows "store_create_enrollment external loc from e w =
    (let d' = w_db w\<lparr>db_enrollment_seq := db_enrollment_seq (w_db w) + 1\<rparr> in
     if list_ex (\<lambda>r. en_location r = loc \<and> en_external r = external) (db_enrollments (w_db w))
     then (Inr (0, False), w\<lparr>w_db := d'\<rparr>)
     else (Inr (db_enrollment_seq (w_db w), True), w\<lparr>w_db := d'\<lparr>db_enrollments := db_enrollments (w_db w) @
       [enrollment_row_of (db_enrollment_seq (w_db w)) external loc from e]\<rparr>\<rparr>))"
  using assms by (simp add: store_create_enrollment_def sql_calm q_create_enrollment_def Let_def)

text \<open>
  C13. Only a request with the secret, for a published workflow of this process, enrolls a contact, and
  into a workflow that sends messages only with a valid phone number and consent documented by a time and
  a source. It then adds one pending enrollment with the data of the request, and is answered with 202;
  with any other answer the enrollments stay as they are, also when the enrollment existed already.
\<close>

theorem enroll_requires_consent:
  assumes "w_script w = []"
  shows "let (resp, w') = handle_enroll a r w in
    if rs_status resp = 202 then
      \<exists>q d row. carries a HighLevelSecret r w \<and>
        decode_first True enroll_fields (fst (read_body 1048576 r)) zero_enroll = Some q \<and>
        map_of (ap_workflows a) (er_workflow_key q) = Some d \<and> d_enabled d \<and> validate_defn d = None \<and>
        (d_messages d \<noteq> [] \<longrightarrow> validate_e164 (er_to q) = None \<and> \<not> is_zero (er_consent_at q) \<and> trim_space (er_consent_source q) \<noteq> []) \<and>
        db_enrollments (w_db w') = db_enrollments (w_db w) @ [row] \<and> en_state row = StatePending \<and>
        en_location row = er_location_id q \<and> en_external row = er_external_id q \<and> en_to row = er_to q \<and>
        en_consent_at row = nullable_time (er_consent_at q) \<and> en_consent_source row = er_consent_source q
    else db_enrollments (w_db w') = db_enrollments (w_db w)"
proof (cases "carries a HighLevelSecret r w \<and> rq_method r = ''POST''")
  case False
  then have "snd (handle_enroll a r w) = w \<and> rs_status (fst (handle_enroll a r w)) \<noteq> 202"
    using rejects_webhooks(3)[of a r w] by (auto simp: rejects_def handle_enroll_def http_error_def simp del: carries.simps)
  then show ?thesis by (simp add: case_prod_beta)
next
  case True
  then have sec: "carries a HighLevelSecret r w" "rq_method r = ''POST''" "ap_hl_secret a \<noteq> []"
    "bearer_secret_ok (rq_header r ''Authorization'') (ap_hl_secret a)" by (auto simp: bearer_secret_ok_iff)
  show ?thesis
  proof (cases "\<exists>q d e. decode_first True enroll_fields (fst (read_body 1048576 r)) zero_enroll = Some q \<and>
      map_of (ap_workflows a) (er_workflow_key q) = Some d \<and> start d (enroll_contact q) (w_clock w) = Inr e \<and>
      (er_to q \<noteq> [] \<longrightarrow> validate_e164 (er_to q) = None) \<and>
      handle_enroll a r w = (case store_create_enrollment (er_external_id q) (er_location_id q) (er_from q) e w of
          (Inl e, w1) \<Rightarrow> (http_error 500 ''database error'', w1)
        | (Inr (i, created), w1) \<Rightarrow>
            (write_json (if created then 202 else 200)
               [(''created'', JsBool created), (''enrollment_id'', JsNum (show_int i))], w1))")
    case False
    then have "snd (handle_enroll a r w) = w \<and> rs_status (fst (handle_enroll a r w)) \<noteq> 202"
      using sec(2-4) by (auto simp: handle_enroll_def http_error_def split: option.split sum.split)
    then show ?thesis by (simp add: case_prod_beta)
  next
    case True
    then obtain q d e where q: "decode_first True enroll_fields (fst (read_body 1048576 r)) zero_enroll = Some q"
      "map_of (ap_workflows a) (er_workflow_key q) = Some d" "start d (enroll_contact q) (w_clock w) = Inr e"
      "er_to q \<noteq> [] \<longrightarrow> validate_e164 (er_to q) = None"
      and h: "handle_enroll a r w = (case store_create_enrollment (er_external_id q) (er_location_id q) (er_from q) e w of
          (Inl e, w1) \<Rightarrow> (http_error 500 ''database error'', w1)
        | (Inr (i, created), w1) \<Rightarrow>
            (write_json (if created then 202 else 200)
               [(''created'', JsBool created), (''enrollment_id'', JsNum (show_int i))], w1))" by blast
    from q(3) have st: "d_enabled d" "validate_defn d = None" "e_state e = StatePending" "e_contact e = enroll_contact q"
      "d_messages d \<noteq> [] \<longrightarrow> er_to q \<noteq> [] \<and> \<not> is_zero (er_consent_at q) \<and> trim_space (er_consent_source q) \<noteq> []"
      by (auto simp: start_def enroll_contact_def split: option.splits if_splits)
    show ?thesis
    proof (cases "list_ex (\<lambda>x. en_location x = er_location_id q \<and> en_external x = er_external_id q) (db_enrollments (w_db w))")
      case True
      then show ?thesis by (simp add: h create_enrollment_calm[OF assms] Let_def write_json_def)
    next
      case False
      let ?row = "enrollment_row_of (db_enrollment_seq (w_db w)) (er_external_id q) (er_location_id q) (er_from q) e"
      from False have res: "rs_status (fst (handle_enroll a r w)) = 202"
        "db_enrollments (w_db (snd (handle_enroll a r w))) = db_enrollments (w_db w) @ [?row]"
        by (simp_all add: h create_enrollment_calm[OF assms] Let_def write_json_def)
      have row: "en_state ?row = StatePending" "en_location ?row = er_location_id q" "en_external ?row = er_external_id q"
        "en_to ?row = er_to q" "en_consent_at ?row = nullable_time (er_consent_at q)" "en_consent_source ?row = er_consent_source q"
        using st(3,4) by (simp_all add: enrollment_row_of_def enroll_contact_def)
      have msg: "d_messages d \<noteq> [] \<longrightarrow> validate_e164 (er_to q) = None \<and> \<not> is_zero (er_consent_at q) \<and> trim_space (er_consent_source q) \<noteq> []"
        using st(5) q(4) by blast
      show ?thesis unfolding case_prod_beta res(1) Let_def if_P[OF refl]
        by (rule exI[of _ q], rule exI[of _ d], rule exI[of _ ?row], intro conjI) (fact sec q st msg res row)+
    qed
  qed
qed

section \<open>Witnesses\<close>

definition sample_webhook_body :: string where
  "sample_webhook_body = json_encode (JsObj
     [(''type'', JsStr ''SMS''), (''contactId'', JsStr ''c1''), (''locationId'', JsStr ''loc''), (''messageId'', JsStr ''m1''),
      (''message'', JsStr ''Hello''), (''phone'', JsStr ''+13135550101'')])"

lemma sample_webhook_decoded:
  "unmarshal ghl_fields sample_webhook_body zero_ghl = Some (zero_ghl\<lparr>gr_type := ''SMS'', gr_contact_id := ''c1'',
     gr_location_id := ''loc'', gr_message_id := ''m1'', gr_message := ''Hello'', gr_phone := ''+13135550101''\<rparr>)"
  by code_simp

lemma sample_webhook_length: "length sample_webhook_body = 108"
  by code_simp

lemma sample_webhook_read:
  "read_body 1048576 (sample_request [] sample_webhook_body) = (sample_webhook_body, False)"
  by (simp add: read_body_def sample_request_def sample_webhook_length)

lemma sample_numbers: "validate_e164 ''+13135550101'' = None" "validate_e164 ''+13135550100'' = None"
  by code_simp+

definition sample_ghl :: ghl_request where
  "sample_ghl = zero_ghl\<lparr>gr_type := ''SMS'', gr_contact_id := ''c1'', gr_location_id := ''loc'', gr_message_id := ''m1'',
     gr_message := ''Hello'', gr_phone := ''+13135550101''\<rparr>"

lemma sample_webhook_accepted:
  fixes w :: "(fake_telnyx, fake_highlevel) world"
  assumes "w_script w = []"
  shows "rs_status (fst (handle_highlevel sample_app (sample_request [] sample_webhook_body) w)) = 200"
proof -
  let ?r = "sample_request [] sample_webhook_body"
  have dec: "unmarshal ghl_fields sample_webhook_body zero_ghl = Some sample_ghl"
    by (simp only: sample_webhook_decoded sample_ghl_def)
  have auth: "highlevel_authenticated sample_app ?r sample_webhook_body"
    by (simp add: highlevel_authenticated_def bearer_secret_ok_iff sample_app_def sample_request_def)
  have sender: "ap_from sample_app = ''+13135550100''" by (simp add: sample_app_def)
  have valid: "ghl_valid sample_app sample_ghl"
    unfolding ghl_valid_def sender by (simp add: sample_ghl_def zero_ghl_def sample_numbers[simplified])
  have allowed: "allows_location sample_app (gr_location_id sample_ghl) w = (True, w)"
    by (simp add: allows_location_def sample_app_def sample_ghl_def zero_ghl_def)
  have "rq_method ?r = ''POST''" by (simp add: sample_request_def)
  then show ?thesis
    using auth valid
    by (simp add: handle_highlevel_def sample_webhook_read dec allowed enqueue_calm[OF assms] Let_def write_json_def)
qed


definition sample_workflow_app :: "(fake_telnyx, fake_highlevel) app" where
  "sample_workflow_app = sample_app\<lparr>ap_workflows := [(''weekly-follow-up'', sample_defn)]\<rparr>"

definition sample_enroll_body :: string where
  "sample_enroll_body = json_encode (JsObj
     [(''external_id'', JsStr ''x1''), (''location_id'', JsStr ''loc''), (''workflow_key'', JsStr ''weekly-follow-up''),
      (''contact_id'', JsStr ''c1''), (''to'', JsStr ''+13135550101''), (''from'', JsStr ''+13135550100''),
      (''consent_at'', JsStr ''2026-01-02T03:04:05Z''), (''consent_source'', JsStr ''form'')])"

lemma sample_enroll_decoded:
  "decode_first True enroll_fields sample_enroll_body zero_enroll = Some (zero_enroll\<lparr>er_external_id := ''x1'',
     er_location_id := ''loc'', er_workflow_key := ''weekly-follow-up'', er_contact_id := ''c1'', er_to := ''+13135550101'',
     er_from := ''+13135550100'', er_consent_at := 1767323045000000000, er_consent_source := ''form''\<rparr>)"
  by code_simp

lemma sample_enroll_length: "length sample_enroll_body = 194"
  by code_simp

lemma sample_enroll_read:
  "fst (read_body 1048576 (sample_request [] sample_enroll_body)) = sample_enroll_body"
  by (simp add: read_body_def sample_request_def sample_enroll_length)

theorem enroll_requires_consent_witness:
  "\<exists>row. db_enrollments (w_db (snd (handle_enroll sample_workflow_app (sample_request [] sample_enroll_body) (sample_world [] empty_db)))) = [row] \<and>
     en_consent_source row = ''form''"
proof -
  let ?w = "sample_world [] empty_db" let ?r = "sample_request [] sample_enroll_body"
  define q where "q = zero_enroll\<lparr>er_external_id := ''x1'', er_location_id := ''loc'', er_workflow_key := ''weekly-follow-up'',
     er_contact_id := ''c1'', er_to := ''+13135550101'', er_from := ''+13135550100'', er_consent_at := 1767323045000000000,
     er_consent_source := ''form''\<rparr>"
  have dec: "decode_first True enroll_fields (fst (read_body 1048576 ?r)) zero_enroll = Some q"
    by (simp only: sample_enroll_decoded sample_enroll_read q_def)
  have s: "w_script ?w = []" "db_enrollments (w_db ?w) = []" by (simp_all add: sample_world_def empty_db_def)
  have "\<exists>e. start sample_defn (enroll_contact q) (w_clock ?w) = Inr e"
    using recurring_valid[of "''weekly-follow-up''" "''1x week follow up''" 7 "''weekly_reply''"]
    unfolding start_spec
    by (simp add: enroll_contact_def q_def zero_enroll_def sample_defn_def is_zero_def zero_time_def validate_defn_def
        kind_error_def recurring_def zero_defn_def trim_space_def trim_left.simps space_len_def space_runes_def all_space_def)
  then obtain e where start: "start sample_defn (enroll_contact q) (w_clock ?w) = Inr e" by blast
  have sender: "er_from q = ''+13135550100''" "er_to q = ''+13135550101''" by (simp_all add: q_def)
  have numbers: "validate_e164 (er_from q) = None" "validate_e164 (er_to q) = None"
    using sample_numbers by (simp_all only: sender)
  have req: "er_external_id q \<noteq> []" "er_location_id q = ''loc''" "er_from q \<noteq> []" "er_workflow_key q = ''weekly-follow-up''"
    "er_consent_source q = ''form''" by (simp_all add: q_def)
  have a: "ap_hl_secret sample_workflow_app = ''s3cret''" "ap_workflows sample_workflow_app = [(''weekly-follow-up'', sample_defn)]"
    "ap_location sample_workflow_app = ''loc''" "rq_method ?r = ''POST''" "rq_header ?r ''Authorization'' = ''Bearer s3cret''"
    by (simp_all add: sample_workflow_app_def sample_app_def sample_request_def)
  have "rs_status (fst (handle_enroll sample_workflow_app ?r ?w)) = 202"
    unfolding handle_enroll_def dec a
    by (simp add: req numbers start bearer_secret_ok_iff create_enrollment_calm s Let_def write_json_def)
  with enroll_requires_consent[OF s(1), of sample_workflow_app ?r] dec s(2) req show ?thesis
    by (auto simp: case_prod_beta Let_def)
qed

end
