(* ===== verification/JsonRoundTrip.thy ===== *)
theory JsonRoundTrip
  imports Http
begin

text \<open>
  What the program writes, the other side reads: the parser of \<open>Json\<close> undoes the encoder of \<open>Http\<close>. The
  strings of the value come back as they were when they are valid UTF-8; in others each invalid byte
  comes back as U+FFFD, as \<open>encoding/json\<close> documents.
\<close>

section \<open>Valid text\<close>

text \<open>\<open>utf8.ValidString\<close> and \<open>strings.ToValidUTF8\<close> with U+FFFD per byte; the counter passes over the rest of a rune.\<close>

fun valid_chars :: "nat \<Rightarrow> string \<Rightarrow> bool" where
  "valid_chars k [] = True"
| "valid_chars (Suc k) (c # s) = valid_chars k s"
| "valid_chars 0 (c # s) = (rune_len (c # s) \<noteq> 0 \<and> valid_chars (rune_len (c # s) - 1) s)"

fun clean_chars :: "nat \<Rightarrow> string \<Rightarrow> string" where
  "clean_chars k [] = []"
| "clean_chars (Suc k) (c # s) = clean_chars k s"
| "clean_chars 0 (c # s) =
    (let l = rune_len (c # s) in
     if l = 0 then replacement @ clean_chars 0 s else take l (c # s) @ clean_chars (l - 1) s)"

definition valid_utf8 :: "string \<Rightarrow> bool" where
  "valid_utf8 s = valid_chars 0 s"

definition clean :: "string \<Rightarrow> string" where
  "clean s = clean_chars 0 s"

lemma encode_chars_drop: "encode_chars k s = encode_chars 0 (drop k s)"
proof (induction s arbitrary: k)
  case (Cons c s)
  show ?case
  proof (cases k)
    case (Suc j)
    show ?thesis unfolding Suc encode_chars.simps drop_Suc_Cons by (rule Cons.IH)
  qed (simp only: drop_0)
qed simp

lemma clean_chars_drop: "clean_chars k s = clean_chars 0 (drop k s)"
proof (induction s arbitrary: k)
  case (Cons c s)
  show ?case
  proof (cases k)
    case (Suc j)
    show ?thesis unfolding Suc clean_chars.simps drop_Suc_Cons by (rule Cons.IH)
  qed (simp only: drop_0)
qed simp

lemma valid_chars_drop: "valid_chars k s = valid_chars 0 (drop k s)"
proof (induction s arbitrary: k)
  case (Cons c s)
  show ?case
  proof (cases k)
    case (Suc j)
    show ?thesis unfolding Suc valid_chars.simps drop_Suc_Cons by (rule Cons.IH)
  qed (simp only: drop_0)
qed simp

lemma rune_len_ascii: "byte c < 128 \<Longrightarrow> rune_len (c # s) = 1"
  by (simp add: rune_len_def)

text \<open>The first rune, by its length.\<close>

definition rune2 :: "char \<Rightarrow> char \<Rightarrow> bool" where
  "rune2 a b \<longleftrightarrow> between 194 223 a \<and> is_cont b"

definition rune3 :: "char \<Rightarrow> char \<Rightarrow> char \<Rightarrow> bool" where
  "rune3 a b c \<longleftrightarrow> is_cont c \<and>
     (byte a = 224 \<and> between 160 191 b \<or> byte a = 237 \<and> between 128 159 b \<or>
      between 225 239 a \<and> byte a \<noteq> 237 \<and> is_cont b)"

definition rune4 :: "char \<Rightarrow> char \<Rightarrow> char \<Rightarrow> char \<Rightarrow> bool" where
  "rune4 a b c d \<longleftrightarrow> is_cont c \<and> is_cont d \<and>
     (byte a = 240 \<and> between 144 191 b \<or> between 241 243 a \<and> is_cont b \<or> byte a = 244 \<and> between 128 143 b)"

lemma rune_len_cases:
  "rune_len [] = 0"
  "rune_len [a] = (if byte a < 128 then 1 else 0)"
  "rune_len [a, b] = (if byte a < 128 then 1 else if rune2 a b then 2 else 0)"
  "rune_len [a, b, c] = (if byte a < 128 then 1 else if rune2 a b then 2 else if rune3 a b c then 3 else 0)"
  "rune_len (a # b # c # d # t) =
    (if byte a < 128 then 1 else if rune2 a b then 2 else if rune3 a b c then 3 else if rune4 a b c d then 4 else 0)"
  by (simp_all only: rune_len_def list.case rune2_def rune3_def rune4_def)

lemma short_list_cases:
  obtains "s = []" | a where "s = [a]" | a b where "s = [a, b]" | a b c where "s = [a, b, c]"
    | a b c d t where "s = a # b # c # d # t"
proof (cases s)
  case (Cons a s1)
  then show thesis using that by (cases s1; cases "tl s1"; cases "tl (tl s1)") auto
qed (use that in auto)

lemma rune_len_bound: "rune_len s \<le> length s"
  by (cases rule: short_list_cases[of s]) (simp_all add: rune_len_cases)

lemma rune_len_more:
  "rune_len s \<noteq> 0 \<Longrightarrow> rune_len (s @ r) = rune_len s"
  by (cases rule: short_list_cases[of s]; cases rule: short_list_cases[of r]) (simp_all add: rune_len_cases split: if_splits)

lemma rune_len_trim: "rune_len s \<noteq> 0 \<Longrightarrow> rune_len (take (rune_len s) s) = rune_len s"
  by (cases rule: short_list_cases[of s]) (simp_all add: rune_len_cases)

lemma rune_len_take: "rune_len s \<noteq> 0 \<Longrightarrow> rune_len (take (rune_len s) s @ r) = rune_len s"
  using rune_len_more[of "take (rune_len s) s" r] by (simp add: rune_len_trim)

lemma clean_step:
  "rune_len s = Suc l \<Longrightarrow> clean_chars 0 s = take (Suc l) s @ clean_chars 0 (drop (Suc l) s)"
  using clean_chars_drop[of l "tl s"] by (cases s) (simp_all add: rune_len_cases(1) Let_def)

lemma valid_step:
  assumes "valid_chars 0 s" and "s \<noteq> []"
  obtains l where "rune_len s = Suc l" and "valid_chars 0 (drop (Suc l) s)"
proof -
  obtain c t where s: "s = c # t" using assms(2) by (cases s) auto
  with assms(1) obtain l where l: "rune_len s = Suc l" "valid_chars l t" by (auto simp: gr0_conv_Suc)
  with valid_chars_drop[of l t] have "valid_chars 0 (drop l t)" by blast
  with l(1) s show thesis using that by simp
qed

lemma clean_valid: "valid_utf8 s \<Longrightarrow> clean s = s"
  unfolding valid_utf8_def clean_def
proof (induction s rule: length_induct)
  case (1 s)
  show ?case
  proof (cases "s = []")
    case False
    obtain l where l: "rune_len s = Suc l" "valid_chars 0 (drop (Suc l) s)" by (rule valid_step[OF 1(2) False])
    have "length (drop (Suc l) s) < length s" using False by simp
    with l(2) have "clean_chars 0 (drop (Suc l) s) = drop (Suc l) s" using 1(1) by blast
    then show ?thesis unfolding clean_step[OF l(1)] by simp
  qed simp
qed

section \<open>Strings\<close>

lemma hex_val_digits: "\<forall>k \<in> set [0..<16]. hex_val (lower_hex_digit k) = Some k"
  by code_simp

lemma hex_val_digit: "k < 16 \<Longrightarrow> hex_val (lower_hex_digit k) = Some k"
  using hex_val_digits by simp

lemma parse_string_close: "parse_string (Suc n) (quote # r) = Some ([], r)"
  by (simp add: quote_def)

text \<open>One escape, and one rune.\<close>

lemma parse_string_escape:
  "e \<noteq> CHR ''u'' \<Longrightarrow> escape_char e = Some x \<Longrightarrow>
   parse_string (Suc n) (backslash # e # t) = map_option (\<lambda>(v, r). (x # v, r)) (parse_string n t)"
  by (simp add: backslash_def split: option.split prod.split)

lemma parse_string_unicode:
  assumes "hex4 [a, b, c, d] = Some u" and "\<not> (55296 \<le> u \<and> u \<le> 57343)"
  shows "parse_string (Suc n) (backslash # CHR ''u'' # a # b # c # d # t) =
    map_option (\<lambda>(v, r). (utf8_encode u @ v, r)) (parse_string n t)"
proof -
  have "hex4 (a # b # c # d # t) = Some u" using assms(1) by simp
  moreover have "unicode_escape u t = (utf8_encode u, t)" using assms(2) by (simp only: unicode_escape_def if_False)
  ultimately show ?thesis
    unfolding backslash_def
    by (simp del: hex4.simps parse_string.simps add: parse_string.simps(3)[of n "CHR 0x5C"] split: option.split)
qed

lemma parse_string_rune:
  assumes "c \<noteq> quote" and "c \<noteq> backslash" and "32 \<le> byte c" and "rune_len (c # s) = Suc l"
  shows "parse_string (Suc n) (take (Suc l) (c # s) @ t) =
    map_option (\<lambda>(v, r). (take (Suc l) (c # s) @ v, r)) (parse_string n t)"
proof -
  have len: "length (take l s) = l" using rune_len_bound[of "c # s"] assms(4) by simp
  have "rune_len (c # take l s @ t) = Suc l" using rune_len_take[of "c # s" t] assms(4) by simp
  then show ?thesis
    using assms(1-3) len unfolding quote_def backslash_def
    by (simp del: parse_string.simps add: parse_string.simps(3)[of n c] Let_def split: option.split)
qed

declare parse_string.simps [simp del]

text \<open>The escapes of the encoder.\<close>

lemma utf8_encode_ascii: "byte c < 128 \<Longrightarrow> utf8_encode (byte c) = [c]"
  by (simp add: utf8_encode_def)

lemma hex4_byte:
  assumes "byte c < 128"
  shows "hex4 [CHR ''0'', CHR ''0'', lower_hex_digit (byte c div 16), lower_hex_digit (byte c)] = Some (byte c)"
proof -
  have "lower_hex_digit (byte c) = lower_hex_digit (byte c mod 16)" by (simp add: lower_hex_digit_def)
  moreover have "hex_val (CHR ''0'') = Some 0" by code_simp
  ultimately show ?thesis using assms by (simp add: hex_val_digit)
qed

lemma escape_chars:
  "escape_char quote = Some quote" "escape_char backslash = Some backslash"
  "escape_char (CHR ''b'') = Some (char_of (8 :: nat))" "escape_char (CHR ''f'') = Some (char_of (12 :: nat))"
  "escape_char (CHR ''n'') = Some (char_of (10 :: nat))" "escape_char (CHR ''r'') = Some (char_of (13 :: nat))"
  "escape_char (CHR ''t'') = Some (char_of (9 :: nat))" "quote \<noteq> CHR ''u''" "backslash \<noteq> CHR ''u''"
  by code_simp+

lemma unicode_chars:
  "hex4 ''fffd'' = Some 65533" "hex4 ''2028'' = Some 8232" "hex4 ''2029'' = Some 8233"
  "utf8_encode 65533 = replacement" "utf8_encode 8232 = [CHR 0xE2, CHR 0x80, CHR 0xA8]"
  "utf8_encode 8233 = [CHR 0xE2, CHR 0x80, CHR 0xA9]"
  by (simp_all add: hex_val_def between_def utf8_encode_def replacement_def char_of_def bit_0)

lemma byte_eq: "byte c = n \<Longrightarrow> c = char_of n"
  by (metis char_of_char)

lemma parse_string_ascii:
  assumes "byte c < 128"
  shows "parse_string (Suc n) (encode_ascii c @ t) = map_option (\<lambda>(v, r). (c # v, r)) (parse_string n t)"
proof -
  show ?thesis
  proof (cases "c = quote \<or> c = backslash")
    case True
    then show ?thesis by (auto simp: encode_ascii_def escape_chars parse_string_escape)
  next
    case plain: False
    show ?thesis
    proof (cases "byte c \<in> {8, 12, 10, 13, 9}")
      case True
      then show ?thesis using plain
        by (auto simp: encode_ascii_def escape_chars parse_string_escape dest: byte_eq)
    next
      case False
      note enc = encode_ascii_def[of c]
      show ?thesis
      proof (cases "byte c < 32 \<or> c = CHR ''<'' \<or> c = CHR ''>'' \<or> c = CHR ''&''")
        case True
        then have "encode_ascii c =
            [backslash, CHR ''u'', CHR ''0'', CHR ''0'', lower_hex_digit (byte c div 16), lower_hex_digit (byte c)]"
          using plain False by (simp add: enc)
        then show ?thesis using parse_string_unicode[OF hex4_byte[OF assms]] assms by (simp add: utf8_encode_ascii)
      next
        case other: False
        then have "encode_ascii c = [c]" using plain False by (simp add: enc)
        then show ?thesis
          using parse_string_rune[of c "[]" 0 n t] plain other rune_len_ascii[OF assms] by simp
      qed
    qed
  qed
qed

text \<open>The encoder at a rune, and the parser at what it wrote.\<close>

definition encode_rune :: "string \<Rightarrow> string" where
  "encode_rune rune =
    (if byte (hd rune) < 128 then encode_ascii (hd rune)
     else if rune = [CHR 0xE2, CHR 0x80, CHR 0xA8] then backslash # ''u2028''
     else if rune = [CHR 0xE2, CHR 0x80, CHR 0xA9] then backslash # ''u2029''
     else rune)"

lemma encode_step:
  assumes "rune_len s = Suc l"
  shows "encode_chars 0 s = encode_rune (take (Suc l) s) @ encode_chars 0 (drop (Suc l) s)"
proof (cases s)
  case (Cons c t)
  have hd: "hd (take (Suc l) (c # t)) = c" by simp
  show ?thesis
    using assms rune_len_ascii[of c t] encode_chars_drop[of l t]
    by (auto simp: encode_rune_def Cons hd Let_def simp del: take_Suc_Cons)
qed (use assms in \<open>simp add: rune_len_cases\<close>)

lemma encode_rune_nonempty: "rune \<noteq> [] \<Longrightarrow> encode_rune rune \<noteq> []"
  by (auto simp: encode_rune_def encode_ascii_def)

lemma parse_string_step:
  assumes "rune_len s = Suc l"
  shows "parse_string (Suc n) (encode_rune (take (Suc l) s) @ t) =
    map_option (\<lambda>(v, r). (take (Suc l) s @ v, r)) (parse_string n t)"
proof (cases s)
  case (Cons c u)
  have hd: "hd (take (Suc l) (c # u)) = c" by simp
  show ?thesis
  proof (cases "byte c < 128")
    case True
    then have "l = 0" using assms rune_len_ascii[of c u] Cons by simp
    then show ?thesis using True by (simp add: encode_rune_def Cons parse_string_ascii)
  next
    case False
    then have "c \<noteq> quote" "c \<noteq> backslash" by (auto simp: quote_def backslash_def)
    note rune = parse_string_rune[OF this _ assms[unfolded Cons], of n t]
    show ?thesis
      using False rune parse_string_unicode[OF unicode_chars(2), of n t] parse_string_unicode[OF unicode_chars(3), of n t]
      by (simp add: encode_rune_def Cons hd unicode_chars del: take_Suc_Cons)
  qed
qed (use assms in \<open>simp add: rune_len_cases\<close>)

lemma parse_string_encoded:
  "length (encode_chars 0 s) < n \<Longrightarrow> parse_string n (encode_chars 0 s @ quote # r) = Some (clean_chars 0 s, r)"
proof (induction s arbitrary: n rule: length_induct)
  case (1 s)
  then obtain m where n: "n = Suc m" by (cases n) auto
  show ?case
  proof (cases s)
    case Nil
    then show ?thesis by (simp add: n parse_string_close)
  next
    case (Cons c t)
    show ?thesis
    proof (cases "rune_len s")
      case 0
      then have nascii: "\<not> byte c < 128" using rune_len_ascii[of c t] by (auto simp: Cons)
      then have enc: "encode_chars 0 s = backslash # ''ufffd'' @ encode_chars 0 t" and
        cl: "clean_chars 0 s = replacement @ clean_chars 0 t"
        using 0 by (simp_all add: Cons Let_def)
      have "length (encode_chars 0 t) < m" using 1(2) unfolding enc n by simp
      moreover have "length t < length s" by (simp add: Cons)
      ultimately have "parse_string m (encode_chars 0 t @ quote # r) = Some (clean_chars 0 t, r)" using 1(1) by blast
      then show ?thesis unfolding enc cl n
        using parse_string_unicode[OF unicode_chars(1), of m "encode_chars 0 t @ quote # r"] by (simp add: unicode_chars)
    next
      case (Suc l)
      let ?d = "drop (Suc l) s"
      note enc = encode_step[OF Suc]
      have "length ?d < length s" by (simp add: Cons)
      moreover have "length (encode_chars 0 ?d) < m"
        using 1(2) n encode_rune_nonempty[of "take (Suc l) s"] Cons unfolding enc
        by (cases "encode_rune (take (Suc l) s)") auto
      ultimately have "parse_string m (encode_chars 0 ?d @ quote # r) = Some (clean_chars 0 ?d, r)" using 1(1) by blast
      then show ?thesis
        unfolding enc n clean_step[OF Suc] append_assoc parse_string_step[OF Suc] by simp
    qed
  qed
qed

lemma parse_string_literal:
  "parse_string (Suc (length (encode_chars 0 s @ quote # r))) (encode_chars 0 s @ quote # r) = Some (clean s, r)"
  unfolding clean_def by (rule parse_string_encoded) simp

section \<open>Numbers\<close>

text \<open>What may follow a number without becoming part of it.\<close>

definition ends_number :: "string \<Rightarrow> bool" where
  "ends_number r \<longleftrightarrow> (case r of [] \<Rightarrow> True
     | c # _ \<Rightarrow> \<not> is_digit c \<and> c \<noteq> CHR ''.'' \<and> c \<noteq> CHR ''e'' \<and> c \<noteq> CHR ''E'')"

lemma digits1_append: "digits1 s = Some (d, t) \<Longrightarrow> ends_number r \<Longrightarrow> digits1 (s @ r) = Some (d, t @ r)"
proof -
  assume d: "digits1 s = Some (d, t)" "ends_number r"
  have "takeWhile is_digit (s @ r) = takeWhile is_digit s \<and> dropWhile is_digit (s @ r) = dropWhile is_digit s @ r"
    using d(2) by (induction s) (auto simp: ends_number_def split: list.splits)
  with d(1) show ?thesis by (simp add: digits1_def Let_def split: if_splits)
qed

lemma parse_number_append:
  assumes "parse_number s = Some (n, t)" and "ends_number r"
  shows "parse_number (s @ r) = Some (n, t @ r)"
proof -
  obtain sign u where su: "(case s of c # u \<Rightarrow> if c = CHR ''-'' then ([c], u) else ([], s) | [] \<Rightarrow> ([], s)) = (sign, u)"
    by fastforce
  from assms(1) su obtain i r1 f r2 e where p: "parse_int_part u = Some (i, r1)" "parse_frac r1 = Some (f, r2)"
      "parse_exp r2 = Some (e, t)" "n = sign @ i @ f @ e"
    by (auto simp: parse_number_def split: option.splits)
  have "s \<noteq> []" using su p(1) by (auto simp: parse_int_part_def)
  then have su': "(case s @ r of c # u \<Rightarrow> if c = CHR ''-'' then ([c], u) else ([], s @ r) | [] \<Rightarrow> ([], s @ r)) = (sign, u @ r)"
    using su by (auto split: list.splits if_splits)
  have "parse_int_part (u @ r) = Some (i, r1 @ r)"
    using p(1) digits1_append[OF _ assms(2), of u] by (auto simp: parse_int_part_def split: list.splits if_splits)
  moreover have "parse_frac (r1 @ r) = Some (f, r2 @ r)"
    using p(2) digits1_append[OF _ assms(2), of "tl r1"] assms(2)
    by (cases r1) (auto simp: parse_frac_def ends_number_def split: list.splits if_splits)
  moreover have "parse_exp (r2 @ r) = Some (e, t @ r)"
  proof (cases r2)
    case Nil
    then show ?thesis using p(3) assms(2) by (auto simp: parse_exp_def ends_number_def split: list.splits)
  next
    case (Cons c v)
    then show ?thesis
      using p(3) digits1_append[OF _ assms(2), of v] digits1_append[OF _ assms(2), of "tl v"]
      by (cases v) (auto simp: parse_exp_def split: if_splits)
  qed
  ultimately show ?thesis unfolding parse_number_def su' p(4) by simp
qed

section \<open>Values\<close>

text \<open>Literals are numbers, and arrays and objects are nested at most 10000 deep.\<close>

definition number_ok :: "string \<Rightarrow> bool" where
  "number_ok n \<longleftrightarrow> parse_number n = Some (n, [])"

fun numbers_ok :: "json \<Rightarrow> bool" where
  "numbers_ok (JsNum n) = number_ok n"
| "numbers_ok (JsArr vs) = list_all numbers_ok vs"
| "numbers_ok (JsObj ms) = list_all (\<lambda>(k, v). numbers_ok v) ms"
| "numbers_ok _ = True"

fun nesting :: "json \<Rightarrow> nat" where
  "nesting (JsArr vs) = Suc (foldr max (map nesting vs) 0)"
| "nesting (JsObj ms) = Suc (foldr max (map (\<lambda>(k, v). nesting v) ms) 0)"
| "nesting _ = 0"

fun json_clean :: "json \<Rightarrow> json" where
  "json_clean (JsStr s) = JsStr (clean s)"
| "json_clean (JsArr vs) = JsArr (map json_clean vs)"
| "json_clean (JsObj ms) = JsObj (map (\<lambda>(k, v). (clean k, json_clean v)) ms)"
| "json_clean v = v"

fun json_valid :: "json \<Rightarrow> bool" where
  "json_valid (JsStr s) = valid_utf8 s"
| "json_valid (JsArr vs) = list_all json_valid vs"
| "json_valid (JsObj ms) = list_all (\<lambda>(k, v). valid_utf8 k \<and> json_valid v) ms"
| "json_valid _ = True"

lemma json_clean_valid: "json_valid v \<Longrightarrow> json_clean v = v"
  by (induction v rule: json_clean.induct) (force simp: clean_valid list_all_iff intro!: map_idI)+

lemma nesting_bound: "x \<in> set xs \<Longrightarrow> f x \<le> foldr max (map f xs) (0 :: nat)"
  by (induction xs) auto

lemma number_start:
  assumes "number_ok n"
  obtains c t where "n = c # t" and "is_digit c \<or> c = CHR ''-''"
proof -
  obtain c t where n: "n = c # t" using assms by (cases n) (auto simp: number_ok_def parse_number_def parse_int_part_def)
  moreover have "is_digit c \<or> c = CHR ''-''"
  proof (rule ccontr)
    assume no: "\<not> (is_digit c \<or> c = CHR ''-'')"
    then have "c \<noteq> CHR ''0''" by (auto simp: is_digit_def)
    with no have "parse_number (c # t) = None" by (simp add: parse_number_def parse_int_part_def digits1_def)
    then show False using assms n by (simp add: number_ok_def)
  qed
  ultimately show thesis by (rule that)
qed

lemma digit_no_space: "is_digit c \<or> c = CHR ''-'' \<Longrightarrow> \<not> json_space c"
  by (auto simp: is_digit_def json_space_def)

lemma encode_start:
  assumes "numbers_ok v"
  obtains c t where "json_encode v = c # t" and "\<not> json_space c" and "c \<noteq> CHR 0x5D" and "c \<noteq> CHR 0x7D"
proof (cases v)
  case (JsNum n)
  with assms obtain c t where n: "n = c # t" "is_digit c \<or> c = CHR ''-''" by (auto elim: number_start)
  have "c \<noteq> CHR 0x5D" "c \<noteq> CHR 0x7D" using n(2) by (auto simp: is_digit_def)
  with n digit_no_space[OF n(2)] JsNum that show thesis by simp
next
  case (JsBool b)
  then show thesis using that by (cases b) (auto simp: json_space_def)
qed (use that in \<open>auto simp: encode_string_def json_space_def quote_def\<close>)

lemma skip_space_stop: "\<not> json_space c \<Longrightarrow> skip_space (c # s) = c # s"
  by (simp add: skip_space_def)

lemma skip_space_marks:
  "skip_space (CHR 0x22 # s) = CHR 0x22 # s" "skip_space (CHR 0x7B # s) = CHR 0x7B # s"
  "skip_space (CHR 0x7D # s) = CHR 0x7D # s" "skip_space (CHR 0x5B # s) = CHR 0x5B # s"
  "skip_space (CHR 0x5D # s) = CHR 0x5D # s" "skip_space (CHR 0x2C # s) = CHR 0x2C # s"
  "skip_space (CHR 0x3A # s) = CHR 0x3A # s" "skip_space (CHR ''t'' # s) = CHR ''t'' # s"
  "skip_space (CHR ''f'' # s) = CHR ''f'' # s" "skip_space (CHR ''n'' # s) = CHR ''n'' # s"
  by (simp_all add: skip_space_def json_space_def)

lemma ends_number_marks:
  "ends_number []" "ends_number (CHR 0x7D # s)" "ends_number (CHR 0x5D # s)" "ends_number (CHR 0x2C # s)"
  by (simp_all add: ends_number_def is_digit_def)

text \<open>The parser at what the encoder wrote, whatever follows.\<close>

definition read_back :: "nat \<Rightarrow> json \<Rightarrow> bool" where
  "read_back depth v \<longleftrightarrow> (\<forall>n r. 2 * length (json_encode v) \<le> n \<longrightarrow> ends_number r \<longrightarrow>
     parse_value n depth (json_encode v @ r) = Some (json_clean v, r))"

lemma parse_string_encode: "parse_value (Suc n) depth (encode_string s @ r) = Some (JsStr (clean s), r)"
  using parse_string_literal[of s r] by (simp add: encode_string_def quote_def skip_space_marks)

lemma parse_value_number:
  assumes "number_ok m" and "ends_number r"
  shows "parse_value (Suc n) depth (m @ r) = Some (JsNum m, r)"
proof -
  obtain c t where m: "m = c # t" "is_digit c \<or> c = CHR ''-''" using number_start[OF assms(1)] by blast
  have "parse_number (m @ r) = Some (m, r)" using parse_number_append[of m m "[]" r] assms by (simp add: number_ok_def)
  moreover have "c \<noteq> CHR 0x22 \<and> c \<noteq> CHR 0x7B \<and> c \<noteq> CHR 0x5B \<and> CHR ''t'' \<noteq> c \<and> CHR ''f'' \<noteq> c \<and> CHR ''n'' \<noteq> c"
    using m(2) by (auto simp: is_digit_def)
  ultimately show ?thesis
    by (simp add: m(1) skip_space_stop[OF digit_no_space[OF m(2)]])
qed

lemma parse_elements_encoded:
  assumes "vs \<noteq> []" and "\<forall>v \<in> set vs. numbers_ok v" and "\<forall>v \<in> set vs. read_back depth v"
    and "2 * length (join '','' (map json_encode vs)) < n"
  shows "parse_elements n depth (join '','' (map json_encode vs) @ CHR 0x5D # r) = Some (map json_clean vs, r)"
  using assms
proof (induction vs arbitrary: n)
  case (Cons v vs)
  obtain m where n: "n = Suc m" using Cons.prems(4) by (cases n) auto
  have v: "parse_value m depth (json_encode v @ s) = Some (json_clean v, s)"
    if "2 * length (json_encode v) \<le> m" "ends_number s" for s
    using Cons.prems(3) that by (simp add: read_back_def)
  show ?case
  proof (cases vs)
    case Nil
    then show ?thesis using Cons.prems(4) v[of "CHR 0x5D # r"] by (simp add: n skip_space_marks ends_number_marks)
  next
    case (Cons u us)
    let ?s = "join '','' (map json_encode vs) @ CHR 0x5D # r"
    have j: "join '','' (map json_encode (v # vs)) = json_encode v @ CHR 0x2C # join '','' (map json_encode vs)"
      by (simp add: Cons)
    have "parse_elements m depth ?s = Some (map json_clean vs, r)"
      using Cons.IH Cons.prems j by (simp add: n Cons)
    moreover have "parse_value m depth (json_encode v @ CHR 0x2C # ?s) = Some (json_clean v, CHR 0x2C # ?s)"
      using Cons.prems(4) j by (intro v) (simp_all add: n ends_number_marks)
    ultimately show ?thesis unfolding j n by (simp add: skip_space_marks)
  qed
qed simp

definition encode_member :: "string \<times> json \<Rightarrow> string" where
  "encode_member = (\<lambda>(k, v). encode_string k @ CHR '':'' # json_encode v)"

lemma parse_member:
  assumes "read_back depth v" and "2 * length (encode_member (k, v)) \<le> Suc n" and "ends_number s"
  shows "parse_members (Suc n) depth (encode_member (k, v) @ s) =
    (case skip_space s of
       d # x \<Rightarrow>
         if d = CHR 0x7D then Some ([(clean k, json_clean v)], x)
         else if d = CHR 0x2C then map_option (\<lambda>(ms, r2). ((clean k, json_clean v) # ms, r2)) (parse_members n depth x)
         else None
     | [] \<Rightarrow> None)"
proof -
  let ?t = "encode_chars 0 k @ quote # CHR 0x3A # json_encode v @ s"
  have "parse_value n depth (json_encode v @ s) = Some (json_clean v, s)"
    using assms by (simp add: read_back_def encode_member_def encode_string_def)
  moreover have "encode_member (k, v) @ s = CHR 0x22 # ?t" by (simp add: encode_member_def encode_string_def quote_def)
  moreover have "parse_string (Suc (length ?t)) ?t = Some (clean k, CHR 0x3A # json_encode v @ s)"
    by (rule parse_string_literal)
  ultimately show ?thesis by (simp add: skip_space_marks)
qed

lemma parse_members_encoded:
  assumes "ms \<noteq> []" and "\<forall>(k, v) \<in> set ms. read_back depth v"
    and "2 * length (join '','' (map encode_member ms)) < n"
  shows "parse_members n depth (join '','' (map encode_member ms) @ CHR 0x7D # r) =
    Some (map (\<lambda>(k, v). (clean k, json_clean v)) ms, r)"
  using assms
proof (induction ms arbitrary: n)
  case (Cons m ms)
  obtain k v where m: "m = (k, v)" by fastforce
  obtain i where n: "n = Suc i" using Cons.prems(3) by (cases n) auto
  have v: "read_back depth v" using Cons.prems(2) m by simp
  show ?case
  proof (cases ms)
    case Nil
    then show ?thesis
      using parse_member[OF v, of k i "CHR 0x7D # r"] Cons.prems(3)
      by (simp add: n m skip_space_marks ends_number_marks del: parse_members.simps)
  next
    case (Cons u us)
    let ?s = "join '','' (map encode_member ms) @ CHR 0x7D # r"
    have j: "join '','' (map encode_member (m # ms)) = encode_member (k, v) @ CHR 0x2C # join '','' (map encode_member ms)"
      by (simp add: Cons m)
    have "parse_members i depth ?s = Some (map (\<lambda>(k, v). (clean k, json_clean v)) ms, r)"
      using Cons.IH Cons.prems j by (simp add: n Cons)
    then show ?thesis
      using parse_member[OF v, of k i "CHR 0x2C # ?s"] Cons.prems(3)[unfolded j]
      unfolding j n by (simp add: m skip_space_marks ends_number_marks del: parse_members.simps)
  qed
qed simp

lemma read_backI:
  assumes "numbers_ok v"
    and "\<And>n r. 2 * length (json_encode v) \<le> Suc n \<Longrightarrow> ends_number r \<Longrightarrow>
      parse_value (Suc n) depth (json_encode v @ r) = Some (json_clean v, r)"
  shows "read_back depth v"
  unfolding read_back_def
proof (intro allI impI)
  fix n r
  assume n: "2 * length (json_encode v) \<le> n" and r: "ends_number r"
  obtain c t where "json_encode v = c # t" by (rule encode_start[OF assms(1)])
  then obtain m where "n = Suc m" using n by (cases n) auto
  then show "parse_value n depth (json_encode v @ r) = Some (json_clean v, r)" using assms(2) n r by simp
qed

lemma read_back_array:
  assumes "numbers_ok (JsArr vs)" and "depth < 10000" and "\<forall>v \<in> set vs. read_back (Suc depth) v"
  shows "read_back depth (JsArr vs)"
proof (rule read_backI[OF assms(1)])
  fix n r
  assume n: "2 * length (json_encode (JsArr vs)) \<le> Suc n"
  show "parse_value (Suc n) depth (json_encode (JsArr vs) @ r) = Some (json_clean (JsArr vs), r)"
  proof (cases vs)
    case Nil
    then show ?thesis using assms(2) by (simp add: skip_space_marks)
  next
    case (Cons v us)
    let ?b = "join '','' (map json_encode vs)"
    obtain c t where c: "json_encode v = c # t" "\<not> json_space c" "c \<noteq> CHR 0x5D"
      using assms(1) by (auto simp: Cons elim: encode_start)
    then obtain u where b: "?b = c # u" using Cons by (cases us) auto
    have "parse_elements n (Suc depth) (?b @ CHR 0x5D # r) = Some (map json_clean vs, r)"
      by (rule parse_elements_encoded) (use Cons assms n in \<open>auto simp: list_all_iff\<close>)
    then show ?thesis using assms(2) by (simp add: skip_space_marks skip_space_stop[OF c(2)] b c(3))
  qed
qed

lemma read_back_object:
  assumes "numbers_ok (JsObj ms)" and "depth < 10000" and "\<forall>(k, v) \<in> set ms. read_back (Suc depth) v"
  shows "read_back depth (JsObj ms)"
proof (rule read_backI[OF assms(1)])
  fix n r
  assume n: "2 * length (json_encode (JsObj ms)) \<le> Suc n"
  have enc: "json_encode (JsObj ms) = CHR 0x7B # join '','' (map encode_member ms) @ [CHR 0x7D]"
    by (simp add: encode_member_def)
  show "parse_value (Suc n) depth (json_encode (JsObj ms) @ r) = Some (json_clean (JsObj ms), r)"
  proof (cases ms)
    case Nil
    then show ?thesis using assms(2) by (simp add: skip_space_marks)
  next
    case (Cons m us)
    let ?b = "join '','' (map encode_member ms)"
    obtain u where b: "?b = CHR 0x22 # u"
      by (cases m; cases us) (auto simp: Cons encode_member_def encode_string_def quote_def)
    have "parse_members n (Suc depth) (?b @ CHR 0x7D # r) = Some (map (\<lambda>(k, v). (clean k, json_clean v)) ms, r)"
      by (rule parse_members_encoded) (use Cons assms(3) n[unfolded enc] in auto)
    then show ?thesis unfolding enc using assms(2) by (simp add: skip_space_marks b)
  qed
qed

lemma parse_encoded: "numbers_ok v \<Longrightarrow> depth + nesting v \<le> 10000 \<Longrightarrow> read_back depth v"
proof (induction v arbitrary: depth rule: json_encode.induct)
  case (2 b)
  show ?case by (rule read_backI) (simp_all add: skip_space_marks)
next
  case (3 m)
  then show ?case by (intro read_backI) (simp_all add: parse_value_number del: parse_value.simps)
next
  case (4 s)
  show ?case by (rule read_backI) (simp_all add: parse_string_encode del: parse_value.simps)
next
  case (5 vs)
  have "read_back (Suc depth) v" if "v \<in> set vs" for v
    using 5 that nesting_bound[OF that, of nesting] by (auto simp: list_all_iff)
  with 5 show ?case by (intro read_back_array) auto
next
  case (6 ms)
  have "read_back (Suc depth) v" if "(k, v) \<in> set ms" for k v
    using 6 that nesting_bound[OF that, of "\<lambda>(k, v). nesting v"] by (auto simp: list_all_iff)
  with 6 show ?case by (intro read_back_object) auto
qed (rule read_backI; simp add: skip_space_marks)

text \<open>The whole document.\<close>

lemma parse_json_encode:
  assumes "numbers_ok v" and "nesting v \<le> 10000"
  shows "parse_json (json_encode v) = Some (json_clean v)" and "parse_first (json_encode v) = Some (json_clean v, [])"
proof -
  have "parse_value (2 * length (json_encode v) + 2) 0 (json_encode v @ []) = Some (json_clean v, [])"
    using parse_encoded[of v 0] assms unfolding read_back_def
    by (auto simp: ends_number_marks simp del: append_Nil2 parse_value.simps)
  then show "parse_first (json_encode v) = Some (json_clean v, [])" by (simp add: parse_first_def del: parse_value.simps)
  then show "parse_json (json_encode v) = Some (json_clean v)" by (simp add: parse_json_def skip_space_def)
qed

end
