(* ===== verification/TelnyxSpec.thy ===== *)
theory TelnyxSpec
  imports JsonRoundTrip Telnyx
begin

text \<open>
  What reaches Telnyx: the request of a message, read back by the receiver, is the message.
\<close>

lemma telnyx_message_members:
  "telnyx_message c r =
    JsObj [(''from'', JsStr (sr_from r)), (''messaging_profile_id'', JsStr (tc_profile c)),
           (''text'', JsStr (sr_text r)), (''to'', JsStr (sr_to r))]"
  by (simp add: telnyx_message_def js_map_def sort_key_def insort_key_def less_list_code)

lemma telnyx_message_read:
  assumes "valid_utf8 (sr_from r)" and "valid_utf8 (sr_to r)" and "valid_utf8 (sr_text r)" and "valid_utf8 (tc_profile c)"
  shows "parse_json (json_encode (telnyx_message c r)) = Some (telnyx_message c r)"
proof -
  have "valid_utf8 ''from''" "valid_utf8 ''messaging_profile_id''" "valid_utf8 ''text''" "valid_utf8 ''to''"
    by code_simp+
  then show ?thesis
    using parse_json_encode(1)[of "telnyx_message c r"] assms by (simp add: telnyx_message_members clean_valid)
qed

text \<open>The one request a message makes, and what becomes of its answer.\<close>

definition message_request :: "telnyx_client \<Rightarrow> send_request \<Rightarrow> http_request" where
  "message_request c r = \<lparr>hq_method = ''POST'', hq_url = tc_base_url c @ ''/v2/messages'',
     hq_headers = [(''Authorization'', ''Bearer '' @ tc_token c), (''Content-Type'', ''application/json''),
       (''Idempotency-Key'', sr_idempotency_key r)], hq_body = Some (json_encode (telnyx_message c r))\<rparr>"

definition send_result :: "http_response result \<Rightarrow> string result" where
  "send_result answer =
    (case answer of
       Inl e \<Rightarrow> Inl e
     | Inr resp \<Rightarrow>
         if \<not> success_status (hp_status resp) then Inl (telnyx_error resp)
         else case decode_first False message_id_fields (hp_body resp) [] of
           None \<Rightarrow> Inl (ErrMsg ''decode'' [])
         | Some i \<Rightarrow> if i = [] then Inl (ErrMsg ''Telnyx response is missing message id'' []) else Inr i)"

lemma telnyx_send_exchange:
  "telnyx_send http c r s = (send_result (fst (http (message_request c r) s)), snd (http (message_request c r) s))"
  unfolding telnyx_send_def message_request_def[symmetric]
  by (cases "http (message_request c r) s") (simp add: send_result_def split: sum.split option.split)

lemma message_request_read:
  assumes "valid_utf8 (sr_from r)" and "valid_utf8 (sr_to r)" and "valid_utf8 (sr_text r)" and "valid_utf8 (tc_profile c)"
  shows "\<exists>body. hq_body (message_request c r) = Some body \<and>
    parse_json body = Some (JsObj [(''from'', JsStr (sr_from r)), (''messaging_profile_id'', JsStr (tc_profile c)),
      (''text'', JsStr (sr_text r)), (''to'', JsStr (sr_to r))])"
  using telnyx_message_read[OF assms] unfolding telnyx_message_members[symmetric] by (simp add: message_request_def)

lemma send_result_Inr:
  "send_result (Inr resp) = Inr i \<longleftrightarrow>
    success_status (hp_status resp) \<and> i \<noteq> [] \<and> decode_first False message_id_fields (hp_body resp) [] = Some i"
  by (auto simp: send_result_def split: option.split)

lemma send_result_rejected:
  "\<not> success_status (hp_status resp) \<Longrightarrow> \<exists>code msg. send_result (Inr resp) = Inl (ErrProvider (hp_status resp) code msg)"
  by (auto simp: send_result_def telnyx_error_def Let_def split: option.split list.split)


text \<open>A text with a quotation mark, a line break, an ampersand and a character outside ASCII.\<close>

definition sample_text :: string where
  "sample_text = ''say '' @ [CHR 0x22, CHR 0x0A, CHR 0x26, CHR 0xC3, CHR 0xA9]"

definition sample_client :: telnyx_client where
  "sample_client = \<lparr>tc_base_url = ''https://api.telnyx.com'', tc_token = ''KEY'', tc_profile = ''profile''\<rparr>"

definition sample_send :: send_request where
  "sample_send = \<lparr>sr_to = ''+13135550101'', sr_from = ''+13135550100'', sr_text = sample_text, sr_idempotency_key = ''loc:m1''\<rparr>"

definition sample_answer :: http_response where
  "sample_answer = \<lparr>hp_status = 200, hp_body = json_encode (JsObj [(''data'', JsObj [(''id'', JsStr ''p1'')])])\<rparr>"

definition sample_accepting :: "'s http" where
  "sample_accepting q s = (Inr sample_answer, s)"

lemma sample_answer_ok:
  "success_status (hp_status sample_answer) \<and> ''p1'' \<noteq> [] \<and>
   decode_first False message_id_fields (hp_body sample_answer) [] = Some ''p1''"
proof -
  have "valid_utf8 ''data''" "valid_utf8 ''id''" "valid_utf8 ''p1''" by code_simp+
  then have read: "parse_first (hp_body sample_answer) = Some (JsObj [(''data'', JsObj [(''id'', JsStr ''p1'')])], [])"
    using parse_json_encode(2)[of "JsObj [(''data'', JsObj [(''id'', JsStr ''p1'')])]"]
    by (simp add: clean_valid sample_answer_def)
  have "struct_field False message_id_fields (JsObj [(''data'', JsObj [(''id'', JsStr ''p1'')])]) [] = (''p1'', True)"
    by code_simp
  then show ?thesis unfolding decode_first_def read by (simp add: sample_answer_def success_status_def)
qed


end
