(* ===== verification/JsonValid.thy ===== *)
theory JsonValid
  imports JsonRoundTrip
begin

text \<open>
  Text that comes in as JSON is valid UTF-8: the parser replaces whatever is not, so that the strings of
  the decoded structs are valid, and go out again as they are.
\<close>

section \<open>Valid text\<close>

lemma valid_append: "valid_utf8 s \<Longrightarrow> valid_utf8 t \<Longrightarrow> valid_utf8 (s @ t)"
  unfolding valid_utf8_def
proof (induction s rule: length_induct)
  case (1 s)
  show ?case
  proof (cases "s = []")
    case False
    obtain l where l: "rune_len s = Suc l" "valid_chars 0 (drop (Suc l) s)" by (rule valid_step[OF 1(2) False])
    have "length (drop (Suc l) s) < length s" using False by simp
    with 1(1,3) l(2) have "valid_chars 0 (drop (Suc l) s @ t)" by blast
    moreover have "rune_len (s @ t) = Suc l" "Suc l \<le> length s" using rune_len_more[of s t] rune_len_bound[of s] l(1) by simp_all
    ultimately show ?thesis
      using valid_chars_drop[of l "tl s @ t"] by (cases s) simp_all
  qed (use 1 in simp)
qed

lemma valid_rune:
  assumes "rune_len s = Suc l"
  shows "valid_utf8 (take (Suc l) s)"
proof (cases s)
  case (Cons c t)
  have "rune_len (take (Suc l) s) = Suc l" using rune_len_trim[of s] assms by simp
  moreover have "valid_chars l (take l t)" using valid_chars_drop[of l "take l t"] by simp
  ultimately show ?thesis by (simp add: valid_utf8_def Cons)
qed (use assms in \<open>simp add: rune_len_cases\<close>)

lemma valid_first: "0 < rune_len s \<Longrightarrow> valid_utf8 (take (rune_len s) s)"
  using valid_rune[of s "rune_len s - 1"] by simp

lemma valid_all: "rune_len s = length s \<Longrightarrow> valid_utf8 s"
  using valid_rune[of s "length s - 1"] by (cases s) (auto simp: valid_utf8_def)

lemma valid_replacement: "valid_utf8 replacement"
  by code_simp

lemma valid_ascii: "byte c < 128 \<Longrightarrow> valid_utf8 [c]"
  by (rule valid_all) (simp add: rune_len_ascii)

lemma valid_nil [simp]: "valid_utf8 []"
  by (simp add: valid_utf8_def)

lemma valid_cons: "byte c < 128 \<Longrightarrow> valid_utf8 s \<Longrightarrow> valid_utf8 (c # s)"
  using valid_append[OF valid_ascii] by (metis append_Cons append_Nil)

lemma valid_ascii_all: "\<forall>c \<in> set s. byte c < 128 \<Longrightarrow> valid_utf8 s"
  by (induction s) (simp_all add: valid_cons)

lemma valid_utf8_encode:
  assumes "n < 1114112" and "\<not> (55296 \<le> n \<and> n \<le> 57343)"
  shows "valid_utf8 (utf8_encode n)"
proof -
  consider "n < 128" | "128 \<le> n" "n < 2048" | "2048 \<le> n" "n < 65536" | "65536 \<le> n" by linarith
  then show ?thesis
  proof cases
    case 1
    then show ?thesis by (intro valid_all) (simp add: utf8_encode_def rune_len_cases)
  next
    case 2
    then show ?thesis
      by (intro valid_all) (simp add: utf8_encode_def rune_len_cases rune2_def between_def is_cont_def, arith?)
  next
    case 3
    define m where "m = n div 64"
    have m: "32 \<le> m" "m < 1024" "m < 864 \<or> 896 \<le> m" using 3 assms(2) by (auto simp: m_def)
    have d: "n div 4096 = m div 64" by (simp add: m_def div_mult2_eq[symmetric])
    have "m div 64 = 0 \<longrightarrow> 32 \<le> m mod 64" "m div 64 = 13 \<longrightarrow> m mod 64 < 32" "m div 64 < 16"
      using m mult_div_mod_eq[of 64 m] mod_less_divisor[of 64 m] by linarith+
    then show ?thesis using 3
      by (intro valid_all)
        (auto simp: utf8_encode_def d m_def[symmetric] rune_len_cases rune2_def rune3_def between_def is_cont_def)
  next
    case 4
    define m where "m = n div 4096"
    have m: "16 \<le> m" "m < 272" using 4 assms(1) by (auto simp: m_def)
    have d: "n div 262144 = m div 64" by (simp add: m_def div_mult2_eq[symmetric])
    have "16 \<le> m mod 64 \<or> Suc 0 \<le> m div 64" "m div 64 = 4 \<longrightarrow> m mod 64 < 16" "m div 64 \<le> 4"
      using m mult_div_mod_eq[of 64 m] mod_less_divisor[of 64 m] by linarith+
    then show ?thesis using 4
      by (intro valid_all)
        (auto simp: utf8_encode_def d m_def[symmetric] rune_len_cases rune2_def rune3_def rune4_def between_def is_cont_def)
  qed
qed

section \<open>What the parser returns\<close>

lemma hex_val_bound: "hex_val c = Some k \<Longrightarrow> k < 16"
  by (auto simp: hex_val_def between_def split: if_splits)

lemma hex4_bound: "hex4 s = Some u \<Longrightarrow> u < 65536"
  by (induction s rule: hex4.induct) (auto dest!: hex_val_bound split: option.splits)

lemma valid_unicode_escape:
  assumes "u < 65536"
  shows "valid_utf8 (fst (unicode_escape u rest))"
proof (cases "55296 \<le> u \<and> u \<le> 57343")
  case False
  then have "fst (unicode_escape u rest) = utf8_encode u" by (simp only: unicode_escape_def if_False fst_conv)
  then show ?thesis using valid_utf8_encode[of u] assms False by simp
next
  case True
  have "valid_utf8 (utf8_encode ((u - 55296) * 1024 + (v - 56320) + 65536))"
    if "u \<le> 56319" "56320 \<le> v" "v \<le> 57343" for v
    using that True by (intro valid_utf8_encode) auto
  then show ?thesis using True valid_replacement
    by (auto simp: unicode_escape_def split: list.split option.split)
qed

lemma valid_escape_text: "hex4 t = Some u \<Longrightarrow> unicode_escape u rest = (text, rest') \<Longrightarrow> valid_utf8 text"
  using valid_unicode_escape[of u rest] hex4_bound[of t u] by simp

lemma escape_char_ascii: "escape_char e = Some x \<Longrightarrow> byte x < 128"
  by (auto simp: escape_char_def split: if_splits)

lemma parse_string_valid: "parse_string n s = Some (v, r) \<Longrightarrow> valid_utf8 v"
proof (induction n s arbitrary: v r rule: parse_string.induct)
  case (3 n c s)
  show ?case
  proof (cases "c = CHR 0x22 \<or> byte c < 32")
    case True
    then show ?thesis using 3(5) by (auto simp: parse_string.simps split: if_splits)
  next
    case plain: False
    show ?thesis
    proof (cases "c = CHR 0x5C")
      case True
      then show ?thesis using 3 plain
        by (auto simp: parse_string.simps split: list.splits if_splits option.splits prod.splits
            intro!: valid_append valid_cons escape_char_ascii intro: valid_escape_text)
    next
      case False
      then show ?thesis using 3 plain
        by (auto simp: parse_string.simps Let_def split: if_splits option.splits
            intro!: valid_append valid_replacement valid_first simp del: take_Suc_Cons)
    qed
  qed
qed (simp_all add: parse_string.simps)

lemma parse_valid:
  "parse_value n depth s = Some (v, r) \<Longrightarrow> json_valid v"
  "parse_elements n depth s = Some (vs, r) \<Longrightarrow> list_all json_valid vs"
  "parse_members n depth s = Some (ms, r) \<Longrightarrow> list_all (\<lambda>(k, v). valid_utf8 k \<and> json_valid v) ms"
proof (induction n depth s and n depth s and n depth s arbitrary: v r and vs r and ms r
    rule: parse_value_parse_elements_parse_members.induct)
  case (2 n depth s)
  then show ?case
    by (auto split: list.splits if_splits option.splits dest: parse_string_valid)
next
  case (4 n depth s)
  then show ?case by (auto split: list.splits if_splits option.splits)
next
  case (6 n depth s)
  then show ?case
    by (auto split: list.splits if_splits option.splits) (erule parse_string_valid)+
qed simp_all

text \<open>Every string of a decoded struct is valid, if every field keeps its strings so.\<close>

lemma parse_first_valid: "parse_first s = Some (v, r) \<Longrightarrow> json_valid v"
  unfolding parse_first_def by (rule parse_valid(1))

lemma parse_json_valid: "parse_json s = Some v \<Longrightarrow> json_valid v"
  by (auto simp: parse_json_def dest: parse_first_valid split: option.splits if_splits)

definition field_keeps :: "('s \<Rightarrow> bool) \<Rightarrow> 's field \<Rightarrow> bool" where
  "field_keeps Q h \<longleftrightarrow> (\<forall>v s. json_valid v \<longrightarrow> Q s \<longrightarrow> Q (fst (h v s)))"

lemma decode_members_keeps:
  "\<forall>(n, h) \<in> set fs. field_keeps Q h \<Longrightarrow> list_all (\<lambda>(k, v). json_valid v) ms \<Longrightarrow> Q s \<Longrightarrow>
    Q (fst (decode_members strict fs ms s))"
proof (induction strict fs ms s rule: decode_members.induct)
  case (2 strict fs k v ms s)
  show ?case
  proof (cases "find (\<lambda>(n, h). key_matches k n) fs")
    case None
    then show ?thesis using 2 by (simp add: case_prod_beta Let_def)
  next
    case (Some p)
    obtain n h where p: "p = (n, h)" by fastforce
    from Some have "p \<in> set fs" unfolding find_Some_iff by (metis nth_mem)
    then have "field_keeps Q h" using 2(3) p by auto
    moreover obtain s1 ok1 where h: "h v s = (s1, ok1)" by fastforce
    ultimately have "Q s1" using 2(4,5) by (auto simp: field_keeps_def dest!: spec[of _ v] spec[of _ s])
    then show ?thesis using 2 Some p h by (simp add: case_prod_beta Let_def)
  qed
qed simp

lemma struct_keeps:
  assumes "\<forall>(n, h) \<in> set fs. field_keeps Q h"
  shows "field_keeps Q (struct_field strict fs)"
proof -
  have "list_all (\<lambda>(k, v). json_valid v) ms" if "list_all (\<lambda>(k, v). valid_utf8 k \<and> json_valid v) ms" for ms
    using that by (auto simp: list_all_iff)
  then show ?thesis
    using decode_members_keeps[OF assms] by (auto simp: field_keeps_def struct_field_def split: json.split)
qed

lemma str_keeps: "(\<And>x s. valid_utf8 x \<Longrightarrow> Q s \<Longrightarrow> Q (upd x s)) \<Longrightarrow> field_keeps Q (str_field upd)"
  by (auto simp: field_keeps_def str_field_def split: json.split)

lemma list_keeps: "(\<And>xs s. Q s \<Longrightarrow> Q (upd xs s)) \<Longrightarrow> field_keeps Q (list_field zero h upd)"
  by (auto simp: field_keeps_def list_field_def split: json.split)

lemma unmarshal_keeps:
  assumes "unmarshal fs body zero = Some p" and "\<forall>(n, h) \<in> set fs. field_keeps Q h" and "Q zero"
  shows "Q p"
proof -
  obtain v where v: "parse_json body = Some v" "p = fst (struct_field False fs v zero)"
    using assms(1) by (auto simp: unmarshal_def split: option.splits prod.splits if_splits)
  then show ?thesis
    using struct_keeps[OF assms(2)] parse_json_valid[OF v(1)] assms(3) by (simp add: field_keeps_def)
qed

end
