(* ===== verification/Delivery.thy ===== *)
theory Delivery
  imports HandlerSpec TelnyxSpec JsonValid
begin

text \<open>
  From end to end: what HighLevel asks the API to send is what the worker makes Telnyx send.
\<close>

section \<open>Text of the request\<close>

lemma ghl_fields_keep: "\<forall>(n, h) \<in> set ghl_fields. field_keeps (\<lambda>p. valid_utf8 (gr_message p)) h"
  unfolding ghl_fields_def by (auto intro!: str_keeps list_keeps)

lemma ghl_message_valid: "unmarshal ghl_fields body zero_ghl = Some p \<Longrightarrow> valid_utf8 (gr_message p)"
  using unmarshal_keeps[where Q = "\<lambda>p. valid_utf8 (gr_message p)", OF _ ghl_fields_keep, of body zero_ghl p]
  by (simp add: zero_ghl_def)

lemma digit_ascii: "is_digit c \<Longrightarrow> byte c < 128"
  by (auto simp: is_digit_def)

lemma e164_valid_utf8: "validate_e164 n = None \<Longrightarrow> valid_utf8 n"
  by (intro valid_ascii_all) (auto simp: validate_e164_def e164_match_iff digit_ascii split: if_splits)

section \<open>The worker's next job\<close>

text \<open>A job that is the only one due is the one the worker claims.\<close>

lemma claim_only:
  assumes "r \<in> set (db_outbound d)" and "outbound_ready now r"
    and "\<forall>s \<in> set (db_outbound d). outbound_ready now s \<longrightarrow> s = r"
  shows "\<exists>d1. q_claim now d = (Inr (scan_job (outbound_lock now r)), d1) \<and> outbound_lock now r \<in> set (db_outbound d1)"
proof (cases "outbound_q.claim_q now (db_outbound d)")
  case None
  then show ?thesis using outbound_q.claim_None[of now "db_outbound d"] assms(1,2) by blast
next
  case (Some p)
  obtain r' rows where p: "p = (r', rows)" by fastforce
  from Some p obtain s where "s \<in> set (db_outbound d)" "outbound_ready now s" "r' = outbound_lock now s"
    by (metis outbound_q.claim_SomeD)
  with assms(3) Some p outbound_q.claim_in[of now "db_outbound d" r' rows] show ?thesis by (auto simp: q_claim_def)
qed

text \<open>The row an accepted webhook adds, and the request it stands for.\<close>

definition new_row :: "('t, 'h) app \<Rightarrow> ghl_request \<Rightarrow> int \<Rightarrow> time \<Rightarrow> outbound_row" where
  "new_row a p i now = \<lparr>ob_id = i, ob_location = gr_location_id p, ob_message = gr_message_id p, ob_to = gr_phone p,
     ob_from = ap_from a, ob_body = gr_message p, ob_payload = marshal_outbound (ghl_outbound a p), ob_status = Queued,
     ob_attempts = 0, ob_available = now, ob_provider = None, ob_created = now, ob_enrollment = None, ob_locked = None\<rparr>"

definition ghl_send :: "('t, 'h) app \<Rightarrow> ghl_request \<Rightarrow> send_request" where
  "ghl_send a p = \<lparr>sr_to = gr_phone p, sr_from = ap_from a, sr_text = gr_message p,
     sr_idempotency_key = gr_location_id p @ '':'' @ gr_message_id p\<rparr>"

lemma webhook_adds_row:
  assumes "w_script w = []" and "rs_status (fst (handle_highlevel a r w)) = 200"
    and "unmarshal ghl_fields (fst (read_body 1048576 r)) zero_ghl = Some p"
    and "\<not> (\<exists>row \<in> set (db_outbound (w_db w)). queued_for p row)"
  shows "ghl_valid a p" and "snd (handle_highlevel a r w) = w\<lparr>w_db := w_db w\<lparr>db_outbound_seq := db_outbound_seq (w_db w) + 1,
    db_outbound := db_outbound (w_db w) @ [new_row a p (db_outbound_seq (w_db w)) (w_clock w)]\<rparr>\<rparr>"
proof -
  obtain p' where p': "unmarshal ghl_fields (fst (read_body 1048576 r)) zero_ghl = Some p'" "ghl_valid a p'"
    and w1: "snd (handle_highlevel a r w) = snd (store_enqueue (ghl_outbound a p') w)"
    using handle_highlevel_ok[OF assms(1,2)] by metis
  have p: "p' = p" using p'(1) assms(3) by simp
  with p'(2) show "ghl_valid a p" by simp
  have "\<not> list_ex (\<lambda>x. ob_location x = gr_location_id p \<and> ob_message x = gr_message_id p) (db_outbound (w_db w))"
    using assms(4) by (simp add: list_ex_iff queued_for_def)
  then show "snd (handle_highlevel a r w) = w\<lparr>w_db := w_db w\<lparr>db_outbound_seq := db_outbound_seq (w_db w) + 1,
      db_outbound := db_outbound (w_db w) @ [new_row a p (db_outbound_seq (w_db w)) (w_clock w)]\<rparr>\<rparr>"
    unfolding w1 p by (simp add: enqueue_calm[OF assms(1)] Let_def new_row_def ghl_outbound_def)
qed

text \<open>
  C4. A message HighLevel hands over reaches Telnyx unchanged. When the outbound webhook has accepted a
  new message, sending is neither paused nor revoked by the recipient, and nothing else is due, the
  next pass of the worker makes exactly one request to Telnyx: a POST of the message's key, whose body,
  read as JSON, has the text of the webhook, the recipient it named and the configured sender. If Telnyx
  accepts it, the job is marked sent with the id Telnyx gave.
\<close>

theorem message_delivered:
  fixes w :: "('t, 'h) world" and http :: "'t http"
  assumes "w_script w = []"
    and "handle_highlevel a r w = (resp, w1)" and "rs_status resp = 200"
    and "unmarshal ghl_fields (fst (read_body 1048576 r)) zero_ghl = Some p"
    and "\<not> (\<exists>row \<in> set (db_outbound (w_db w)). queued_for p row)"
    and "\<forall>row \<in> set (db_outbound (w_db w)). \<not> outbound_ready (w_clock w) row"
    and "\<not> db_sending_paused (w_db w)" and "\<not> suppressed (w_db w) (gr_phone p)"
    and "ap_enable_sending b" and "valid_utf8 (tc_profile c)"
  shows "\<exists>q body. let w2 = run_worker b (telnyx_client_api http c) 1 w1 in
    hq_method q = ''POST'' \<and> hq_url q = tc_base_url c @ ''/v2/messages'' \<and>
    map_of (hq_headers q) ''Idempotency-Key'' = Some (gr_location_id p @ '':'' @ gr_message_id p) \<and>
    hq_body q = Some body \<and>
    parse_json body = Some (JsObj [(''from'', JsStr (ap_from a)), (''messaging_profile_id'', JsStr (tc_profile c)),
      (''text'', JsStr (gr_message p)), (''to'', JsStr (gr_phone p))]) \<and>
    w_telnyx w2 = snd (http q (w_telnyx w)) \<and>
    (\<forall>answer i. fst (http q (w_telnyx w)) = Inr answer \<and> success_status (hp_status answer) \<and> i \<noteq> [] \<and>
       decode_first False message_id_fields (hp_body answer) [] = Some i \<longrightarrow>
       (\<exists>row \<in> set (db_outbound (w_db w2)). queued_for p row \<and> ob_status row = Sent \<and> ob_provider row = Some i))"
proof -
  let ?r = "new_row a p (db_outbound_seq (w_db w)) (w_clock w)" let ?q = "message_request c (ghl_send a p)"
  have status: "rs_status (fst (handle_highlevel a r w)) = 200" using assms(2,3) by simp
  note added = webhook_adds_row[OF assms(1) status assms(4,5)]
  from added(2) assms(2) have w1: "w1 = w\<lparr>w_db := w_db w\<lparr>db_outbound_seq := db_outbound_seq (w_db w) + 1,
      db_outbound := db_outbound (w_db w) @ [?r]\<rparr>\<rparr>" by simp
  have ready: "?r \<in> set (db_outbound (w_db w1))" "outbound_ready (w_clock w1) ?r"
    "\<forall>s \<in> set (db_outbound (w_db w1)). outbound_ready (w_clock w1) s \<longrightarrow> s = ?r"
    using assms(6) by (auto simp: w1 outbound_ready_def new_row_def)
  define j where "j = scan_job (outbound_lock (w_clock w1) ?r)"
  obtain d1 where claim: "q_claim (w_clock w1) (w_db w1) = (Inr j, d1)"
      and locked: "outbound_lock (w_clock w1) ?r \<in> set (db_outbound d1)"
    using claim_only[OF ready] unfolding j_def by blast
  have req: "job_request j (o_from j) = ghl_send a p"
    by (simp add: j_def job_request_def scan_job_def outbound_lock_def new_row_def ghl_send_def)
  have j: "j_id j = db_outbound_seq (w_db w)" "o_to j = gr_phone p"
    by (simp_all add: j_def scan_job_def outbound_lock_def new_row_def)
  let ?res = "send_result (fst (http ?q (w_telnyx w)))" let ?t = "snd (http ?q (w_telnyx w))"
  let ?v = "w1\<lparr>w_db := d1, w_telnyx := ?t, w_log := w_log w1 @ [EvSend (ghl_send a p)]\<rparr>"
  have script: "w_script w1 = []" using assms(1) by (simp add: w1)
  have "tx_send (telnyx_client_api http c) (job_request j (o_from j)) (w_telnyx w1) = (?res, ?t)"
    by (simp add: telnyx_client_api_def telnyx_send_exchange req w1)
  then have "worker_pass b (telnyx_client_api http c) w1 = finish_send j ?res ?v"
    using worker_pass_calm[OF script claim, of "telnyx_client_api http c" ?res ?t b] assms(7,8)
    by (simp add: req j w1 suppressed_def)
  then have w2: "run_worker b (telnyx_client_api http c) 1 w1 = finish_send j ?res ?v" using assms(9) by (simp add: run_worker_def)
  obtain x where "job_row (j_id j) d1 = Some x" using claimed_row(1)[OF claim] by blast
  then have telnyx: "w_telnyx (finish_send j ?res ?v) = ?t"
    using finish_send_outcome(2)[of ?v j x ?res] script by simp
  have sent: "\<exists>row \<in> set (db_outbound (w_db (finish_send j ?res ?v))). queued_for p row \<and> ob_status row = Sent \<and> ob_provider row = Some i"
    if "?res = Inr i" for i
  proof -
    let ?f = "\<lambda>r. r\<lparr>ob_status := Sent, ob_provider := Some i, ob_locked := None\<rparr>"
    have "db_outbound (w_db (finish_send j ?res ?v)) = update_where (\<lambda>r. ob_id r = j_id j) ?f (db_outbound d1)"
      using script that by (simp add: finish_send_def store_complete_def sql_calm q_complete_def update_job_def Let_def)
    moreover have "?f (outbound_lock (w_clock w1) ?r) \<in> set (update_where (\<lambda>r. ob_id r = j_id j) ?f (db_outbound d1))"
      by (rule update_where_hit[OF locked]) (simp add: j outbound_lock_def new_row_def)
    ultimately show ?thesis by (intro bexI) (auto simp: queued_for_def outbound_lock_def new_row_def)
  qed
  have valid: "valid_utf8 (sr_from (ghl_send a p))" "valid_utf8 (sr_to (ghl_send a p))" "valid_utf8 (sr_text (ghl_send a p))"
    using added(1) ghl_message_valid[OF assms(4)] e164_valid_utf8 by (simp_all add: ghl_send_def ghl_valid_def)
  obtain body where body: "hq_body ?q = Some body" "parse_json body =
      Some (JsObj [(''from'', JsStr (ap_from a)), (''messaging_profile_id'', JsStr (tc_profile c)),
        (''text'', JsStr (gr_message p)), (''to'', JsStr (gr_phone p))])"
    using message_request_read[OF valid assms(10)] by (auto simp: ghl_send_def)
  have key: "map_of (hq_headers ?q) ''Idempotency-Key'' = Some (gr_location_id p @ '':'' @ gr_message_id p)"
    "hq_method ?q = ''POST''" "hq_url ?q = tc_base_url c @ ''/v2/messages''"
    by (simp_all add: message_request_def ghl_send_def)
  have "\<exists>row \<in> set (db_outbound (w_db (finish_send j ?res ?v))). queued_for p row \<and> ob_status row = Sent \<and> ob_provider row = Some i"
    if "fst (http ?q (w_telnyx w)) = Inr answer \<and> success_status (hp_status answer) \<and> i \<noteq> [] \<and>
       decode_first False message_id_fields (hp_body answer) [] = Some i" for answer i
    using that by (intro sent) (simp add: send_result_Inr)
  with key body telnyx show ?thesis unfolding Let_def w2
    by - (rule exI[of _ ?q], rule exI[of _ body], intro conjI allI impI, assumption+)
qed

definition sample_idle :: "(fake_telnyx, fake_highlevel) world" where
  "sample_idle = sample_world [] (empty_db\<lparr>db_sending_paused := False\<rparr>)"

theorem message_delivered_witness:
  "\<exists>row. row \<in> set (db_outbound (w_db (run_worker sample_app (telnyx_client_api sample_accepting sample_client) 1
       (snd (handle_highlevel sample_app (sample_request [] sample_webhook_body) sample_idle))))) \<and>
     ob_message row = ''m1'' \<and> ob_status row = Sent \<and> ob_provider row = Some ''p1''"
proof -
  let ?r = "sample_request [] sample_webhook_body"
  obtain resp w1 where h: "handle_highlevel sample_app ?r sample_idle = (resp, w1)" by fastforce
  have calm: "w_script sample_idle = []" by (simp add: sample_idle_def sample_world_def)
  have status: "rs_status resp = 200" using sample_webhook_accepted[OF calm] h by simp
  have dec: "unmarshal ghl_fields (fst (read_body 1048576 ?r)) zero_ghl = Some sample_ghl"
    by (simp only: sample_webhook_read fst_conv sample_webhook_decoded sample_ghl_def)
  have "db_outbound (w_db sample_idle) = []" by (simp add: sample_idle_def sample_world_def empty_db_def)
  then have empty: "\<not> (\<exists>row \<in> set (db_outbound (w_db sample_idle)). queued_for sample_ghl row)"
    "\<forall>row \<in> set (db_outbound (w_db sample_idle)). \<not> outbound_ready (w_clock sample_idle) row" by simp_all
  have free: "\<not> db_sending_paused (w_db sample_idle)" "\<not> suppressed (w_db sample_idle) (gr_phone sample_ghl)"
    "ap_enable_sending sample_app"
    by (simp_all add: sample_idle_def sample_world_def suppressed_def empty_db_def sample_app_def)
  have valid: "valid_utf8 (tc_profile sample_client)" by code_simp
  from message_delivered[OF calm h status dec empty free valid, of sample_accepting] sample_answer_ok
  show ?thesis
    by (auto simp: Let_def sample_accepting_def queued_for_def sample_ghl_def h)
qed

end
