(* ===== verification/Idempotency.thy ===== *)
theory Idempotency
  imports HandlerSafety
begin

text \<open>
  One message, one request: what the system hands to Telnyx over its whole life. The worker retries a
  message whenever an answer is lost, so the same message may be handed over more than once; what keeps
  the recipient from getting it twice is that the repeated requests are the same, idempotency key
  included, and that no other message has that key.
\<close>

section \<open>The requests the jobs stand for\<close>

text \<open>The request the worker makes of a row, whenever it claims it: \<open>Claim\<close> returns no contact id, so the
  sending number is the stored one.\<close>

definition row_request :: "outbound_row \<Rightarrow> send_request" where
  "row_request r = job_request (scan_job r) (ob_from r)"

definition row_requests :: "db \<Rightarrow> send_request list" where
  "row_requests d = map row_request (db_outbound d)"

abbreviation known :: "send_request \<Rightarrow> db \<Rightarrow> bool" where
  "known q d \<equiv> q \<in> set (row_requests d)"

abbreviation all_sends :: "('t, 'h) world \<Rightarrow> send_request list" where
  "all_sends \<equiv> sends (\<lambda>_. True)"

lemma row_request_update: "(\<And>r. row_request (f r) = row_request r) \<Longrightarrow>
  map row_request (update_where p f rows) = map row_request rows"
  by (rule map_update_where)

lemma row_requests_update:
  "row_requests (update_job i (\<lambda>r. r\<lparr>ob_status := s, ob_available := t, ob_locked := l\<rparr>) d) = row_requests d"
  "row_requests (update_job i (\<lambda>r. r\<lparr>ob_status := s, ob_provider := p, ob_locked := l\<rparr>) d) = row_requests d"
  "row_requests (update_job i (\<lambda>r. r\<lparr>ob_status := s, ob_locked := l\<rparr>) d) = row_requests d"
  "row_requests (cancel_queued n d) = row_requests d"
  by (simp_all add: row_requests_def update_job_def cancel_queued_def row_request_update row_request_def job_request_def
      scan_job_def)

lemma row_request_lock: "row_request (outbound_lock now r) = row_request r"
  by (simp add: row_request_def job_request_def scan_job_def outbound_lock_def)

lemma row_requests_claim: "row_requests (snd (q_claim now d)) = row_requests d"
  by (simp add: row_requests_def snd_q_claim claim_where_def row_request_update[OF row_request_lock] split: option.split)

lemma row_requests_complete: "row_requests (snd (q_complete i pid now d)) = row_requests d"
proof -
  have "row_requests (d1\<lparr>db_delivery := rows\<rparr>) = row_requests d1" for d1 rows by (simp add: row_requests_def)
  then show ?thesis by (simp add: q_complete_def Let_def row_requests_update)
qed

lemma known_insert: "known q d \<Longrightarrow> known q (snd (insert_outbound loc msg to from body p enr av now d))"
  by (auto simp: insert_outbound_def Let_def row_requests_def)

lemma row_requests_other:
  "row_requests (snd (reserve_workflow_rate key r now d)) = row_requests d"
  "row_requests (upsert_suppression n upd fresh d) = row_requests d"
  "row_requests (apply_crm w c rep now d) = row_requests d"
  "row_requests (d\<lparr>db_enrollments := es\<rparr>) = row_requests d"
  by (simp_all add: row_requests_def frame_simps apply_crm_def Let_def)

lemma known_apply_command: "known q d \<Longrightarrow> known q (apply_command w rep now c d)"
  by (simp add: apply_command_def apply_send_def apply_suppress_def Let_def case_prod_beta known_insert
      row_requests_update row_requests_other split: command_type.split)

lemma known_q_apply: "known q d \<Longrightarrow> known q (snd (q_apply_commands w cmds rep now d))"
  by (auto simp: q_apply_commands_def Let_def row_requests_other known_apply_command
      intro!: fold_invariant[where P = "known q"])

text \<open>Rows are never deleted, and what a request is made of never changes.\<close>

lemma step_known: "db_step now d d' \<Longrightarrow> known q d \<Longrightarrow> known q d'"
proof (induction rule: db_step.induct)
  case enqueue
  then show ?case by (simp add: snd_q_enqueue known_insert)
next
  case cancel
  then show ?case by (simp add: q_suppress_cancel_def row_requests_update)
next
  case claim
  then show ?case by (simp add: row_requests_claim)
next
  case complete
  then show ?case by (simp add: row_requests_complete)
next
  case retry
  then show ?case by (simp add: q_retry_def row_requests_update)
next
  case fail
  then show ?case by (simp add: q_fail_def row_requests_update)
next
  case apply_commands
  then show ?case by (rule known_q_apply)
qed (simp_all add: row_requests_def frame_simps)

lemma stable_known: "stable (known q)"
  using step_known by (auto simp: stable_def)

lemma pause_free_known: "pause_free (known q)"
  by (simp add: pause_free_def row_requests_def)

section \<open>Every request is one of these\<close>

text \<open>\<open>accounted w\<close>: the other processes only execute statements of the store, and everything handed to
  Telnyx so far is the request of a job in the table.\<close>

definition env_accounts :: "('t, 'h) world \<Rightarrow> bool" where
  "env_accounts w \<longleftrightarrow> (\<forall>q. env_keeps (known q) w)"

definition accounted :: "('t, 'h) world \<Rightarrow> bool" where
  "accounted w \<longleftrightarrow> (\<forall>q \<in> set (all_sends w). known q (w_db w))"

lemma env_accounts_store: "store_env w \<Longrightarrow> env_accounts w"
  by (simp add: env_accounts_def) (blast intro: store_env_keeps step_known)

lemma env_accounts_sql: "env_accounts w \<Longrightarrow> env_accounts (snd (sql st w))"
  by (simp add: env_accounts_def env_keeps_sql)

lemma env_accounts_ops:
  assumes "env_accounts w"
  shows "env_accounts (snd (store_claim w))" "env_accounts (snd (store_sending_paused w))"
    "env_accounts (snd (store_is_suppressed n w))" "env_accounts (snd (store_retry i delay w))"
    "env_accounts (snd (store_fail i w))" "env_accounts (snd (store_complete i pid w))"
    "env_accounts (snd (store_suppress n source ev w))" "env_accounts (sleep t w)"
    "env_accounts (snd (call_telnyx e f w))"
  using assms
  by (simp_all add: store_defs store_suppress_def case_prod_beta env_accounts_sql split: sum.split)
     (simp_all add: env_accounts_def world_simps)

lemma env_accounts_finish: "env_accounts w \<Longrightarrow> env_accounts (finish_send j res w)"
  by (simp add: finish_send_def retry_or_fail_def env_accounts_ops split: sum.split error.split retry_class.split)

lemma send_job_claimed:
  assumes "o_contact j = []"
  shows "send_job a tx j w =
    (case call_telnyx (EvSend (job_request j (o_from j))) (tx_send tx (job_request j (o_from j))) w of
       (res, w2) \<Rightarrow> finish_send j res w2)"
  by (simp add: send_job_def assms resolve_no_contact)

lemma env_accounts_pass: "env_accounts w \<Longrightarrow> env_accounts (worker_pass a tx w)"
proof (cases "fst (store_claim w)")
  case (Inr j)
  moreover assume "env_accounts w"
  ultimately show ?thesis
    by (simp add: worker_pass_def case_prod_beta send_job_claimed[OF store_claim_no_contact[OF Inr]] env_accounts_ops
        env_accounts_finish split: sum.split)
qed (simp add: worker_pass_def case_prod_beta env_accounts_ops)

text \<open>A claimed job is a row of the table.\<close>

lemma claimed_known:
  assumes "fst (store_claim w) = Inr j"
  shows "known (job_request j (o_from j)) (w_db (snd (store_claim w)))"
proof (cases rule: sql_cases[of w q_claim])
  case (ran now d)
  then obtain r rows where c: "outbound_q.claim_q now (db_outbound d) = Some (r, rows)" "j = scan_job r"
      "w_db (snd (store_claim w)) = d\<lparr>db_outbound := rows\<rparr>"
    using assms by (auto simp: store_claim_def q_claim_def split: option.splits)
  have "r \<in> set rows" by (rule outbound_q.claim_in[OF c(1)])
  then show ?thesis by (auto simp: c(2,3) row_requests_def row_request_def scan_job_def)
next
  case failed
  then show ?thesis using assms by (simp add: store_claim_def)
qed

lemma pass_sends:
  "all_sends (worker_pass a tx w) = all_sends w \<or>
   (\<exists>j. fst (store_claim w) = Inr j \<and> all_sends (worker_pass a tx w) = all_sends w @ [job_request j (o_from j)])"
proof (cases "fst (store_claim w)")
  case (Inr j)
  then show ?thesis
    by (simp add: worker_pass_def case_prod_beta send_job_claimed[OF store_claim_no_contact[OF Inr]] world_simps
        split: sum.split)
qed (simp add: worker_pass_def case_prod_beta world_simps)

lemma pass_keeps_claimed:
  assumes "stable P" and "fst (store_claim w) = Inr j" and "holds_at P (snd (store_claim w))"
  shows "holds_at P (worker_pass a tx w)"
  using assms
  by (simp add: worker_pass_def case_prod_beta holds_at_store send_job_keeps split: sum.split)

lemma pass_accounted:
  assumes "env_accounts w" and "accounted w"
  shows "accounted (worker_pass a tx w)"
proof -
  have old: "known q (w_db (worker_pass a tx w))" if "known q (w_db w)" for q
    using worker_pass_keeps[OF stable_known, of q w a tx] assms(1) that by (simp add: holds_at_def env_accounts_def)
  have new: "known (job_request j (o_from j)) (w_db (worker_pass a tx w))" if "fst (store_claim w) = Inr j" for j
  proof -
    have "holds_at (known (job_request j (o_from j))) (snd (store_claim w))"
      using claimed_known[OF that] env_accounts_ops(1)[OF assms(1)] by (simp add: holds_at_def env_accounts_def)
    from pass_keeps_claimed[OF stable_known that this] show ?thesis by (simp add: holds_at_def)
  qed
  show ?thesis
    using pass_sends[of a tx w] assms(2) old new by (auto simp: accounted_def)
qed

lemma run_worker_accounted:
  assumes "env_accounts w" and "accounted w"
  shows "accounted (run_worker a tx k w)"
proof -
  have "env_accounts (iterate k (worker_pass a tx) w) \<and> accounted (iterate k (worker_pass a tx) w)"
    by (rule iterate_invariant[where P = "\<lambda>v. env_accounts v \<and> accounted v"])
      (use assms in \<open>auto intro: env_accounts_pass pass_accounted\<close>)
  with assms(2) show ?thesis by (simp add: run_worker_def)
qed

lemma system_step_accounted:
  assumes "system_step w w'" and "env_accounts w" and "accounted w"
  shows "accounted w'"
proof -
  have keeps: "known q (w_db w')" if "known q (w_db w)" for q
  proof -
    have "holds_at (known q) w" using that assms(2) by (simp add: holds_at_def env_accounts_def)
    from system_step_keeps[OF assms(1) stable_known pause_free_known this step_known] show ?thesis
      by (simp add: holds_at_def)
  qed
  have other: "accounted w'" if "all_sends w' = all_sends w"
    using assms(3) keeps that by (simp add: accounted_def)
  from assms(1) show ?thesis
  proof cases
    case (outbound a tx k)
    then show ?thesis using run_worker_accounted[OF assms(2,3)] by simp
  next
    case (others t u d)
    then show ?thesis by (intro other) (simp add: sends_def)
  qed (rule other, simp add: world_simps)+
qed

section \<open>The life of the system\<close>

text \<open>
  Any number of requests and worker passes, in any order and by any number of processes: each has its own
  script of delays, of statements the others execute during its calls, and of failures.
\<close>

inductive history :: "('t, 'h) world \<Rightarrow> ('t, 'h) world \<Rightarrow> bool" where
  start: "history w w"
| step: "history w v \<Longrightarrow> store_env (v\<lparr>w_script := script\<rparr>) \<Longrightarrow> system_step (v\<lparr>w_script := script\<rparr>) v' \<Longrightarrow> history w v'"

lemma history_db:
  assumes "history w w'" and "stable P" and "pause_free P" and "P (w_db w)"
    and steps: "\<And>u d d'. db_step u d d' \<Longrightarrow> P d \<Longrightarrow> P d'"
  shows "P (w_db w')"
  using assms(1,4)
proof (induction rule: history.induct)
  case (step w v script v')
  have "holds_at P (v\<lparr>w_script := script\<rparr>)"
    using step store_env_keeps[OF step.hyps(2) steps] by (simp add: holds_at_def)
  from system_step_keeps[OF step.hyps(3) assms(2,3) this steps] show ?case by (simp add: holds_at_def)
qed

lemma history_accounted: "history w w' \<Longrightarrow> accounted w \<Longrightarrow> accounted w'"
proof (induction rule: history.induct)
  case (step w v script v')
  have "accounted (v\<lparr>w_script := script\<rparr>)" using step by (simp add: accounted_def sends_def)
  with step.hyps(2,3) show ?case using system_step_accounted env_accounts_store by blast
qed

lemma split_at_first: "xs @ c # ys = xs' @ c # ys' \<Longrightarrow> c \<notin> set xs \<Longrightarrow> c \<notin> set xs' \<Longrightarrow> xs = xs' \<and> ys = ys'"
  by (induction xs arbitrary: xs') (auto simp: Cons_eq_append_conv)

lemma same_key_same_job:
  assumes "db_ok d" and "r \<in> set (db_outbound d)" and "s \<in> set (db_outbound d)"
    and "\<forall>r \<in> set (db_outbound d). CHR '':'' \<notin> set (ob_location r)"
    and "sr_idempotency_key (row_request r) = sr_idempotency_key (row_request s)"
  shows "r = s"
proof -
  have "ob_location r = ob_location s \<and> ob_message r = ob_message s"
    using assms(2-5) split_at_first[of "ob_location r" "CHR '':''"] by (simp add: row_request_def job_request_def scan_job_def)
  then show ?thesis
    using distinct_key_eq[of "\<lambda>r. (ob_location r, ob_message r)" "db_outbound d" r s] assms(1-3) by (simp add: db_ok_def)
qed

text \<open>
  C3. Two messages never share an idempotency key, and one message never has two: over the whole life of
  the system, everything handed to Telnyx is exactly the request of a job in the queue (its recipient,
  stored number, text and key), and any two requests with the same key are the same request, the
  second being a retry after a lost answer. So a provider that honours the key delivers each message
  once, whichever workers retry it and whatever fails. Location ids contain no colon.
\<close>

theorem idempotent_requests:
  assumes "history w w'" and "db_ok (w_db w)" and "sends (\<lambda>_. True) w = []"
    and "\<forall>r \<in> set (db_outbound (w_db w')). CHR '':'' \<notin> set (ob_location r)"
  shows "(\<forall>q \<in> set (sends (\<lambda>_. True) w'). \<exists>r \<in> set (db_outbound (w_db w')). q = job_request (scan_job r) (ob_from r)) \<and>
    (\<forall>q \<in> set (sends (\<lambda>_. True) w'). \<forall>q' \<in> set (sends (\<lambda>_. True) w').
       sr_idempotency_key q = sr_idempotency_key q' \<longrightarrow> q = q')"
proof -
  have "accounted w" using assms(3) by (simp add: accounted_def)
  from history_accounted[OF assms(1) this]
  have known: "\<exists>r \<in> set (db_outbound (w_db w')). q = row_request r" if "q \<in> set (all_sends w')" for q
    using that by (auto simp: accounted_def row_requests_def)
  have ok: "db_ok (w_db w')" by (rule history_db[OF assms(1) stable_db_ok pause_free_db_ok assms(2) step_ok])
  have "q = q'" if "q \<in> set (all_sends w')" "q' \<in> set (all_sends w')" "sr_idempotency_key q = sr_idempotency_key q'" for q q'
    using known[OF that(1)] known[OF that(2)] same_key_same_job[OF ok _ _ assms(4)] that(3) by auto
  with known show ?thesis by (simp add: row_request_def)
qed

text \<open>The answer to the first completion is lost; the lease runs out, and the message is sent again.\<close>

definition sample_lost_answer :: "tick list" where
  "sample_lost_answer =
    [\<lparr>tk_delay = 1, tk_env = (\<lambda>d. d), tk_fault = Fine\<rparr>, \<lparr>tk_delay = 1, tk_env = (\<lambda>d. d), tk_fault = Fine\<rparr>,
     \<lparr>tk_delay = 1, tk_env = (\<lambda>d. d), tk_fault = Fine\<rparr>, \<lparr>tk_delay = 1, tk_env = (\<lambda>d. d), tk_fault = Lost\<rparr>,
     \<lparr>tk_delay = 180000000000, tk_env = (\<lambda>d. d), tk_fault = Fine\<rparr>]"

definition sample_resent_world :: "(fake_telnyx, fake_highlevel) world" where
  "sample_resent_world =
    run_worker sample_app fake_telnyx_api 2 ((sample_world [] sample_queue_db)\<lparr>w_script := sample_lost_answer\<rparr>)"

lemma sample_resent:
  "map sr_idempotency_key (sends (\<lambda>_. True) sample_resent_world) = [''loc:m1'', ''loc:m1'']"
  "map ob_location (db_outbound (w_db sample_resent_world)) = [''loc'']"
  by (simp_all add: sample_resent_world_def numeral_2_eq_2 run_worker_def sample_app_def worker_pass_def store_defs sql_def
      sample_lost_answer_def sample_world_def sample_queue_db_def q_enqueue_def insert_outbound_def empty_db_def Let_def
      sample_outbound_def q_claim_def claim_where_def select_first_def outbound_ready_def outbound_lock_def scan_job_def
      q_sending_paused_def q_is_suppressed_def suppressed_def send_job_claimed call_telnyx_def job_request_def
      fake_telnyx_api_def fake_send_def sample_fake_telnyx_def finish_send_def sends_def update_where_def q_complete_def
      update_job_def)

lemma sample_history: "history (sample_world [] sample_queue_db) sample_resent_world"
proof -
  let ?v = "(sample_world [] sample_queue_db)\<lparr>w_script := sample_lost_answer\<rparr>"
  have "store_env ?v" using db_steps.start by (auto simp: store_env_def sample_lost_answer_def)
  then show ?thesis
    unfolding sample_resent_world_def by (rule history.step[OF history.start _ system_step.outbound])
qed

theorem idempotent_requests_witness: "\<exists>q. sends (\<lambda>_. True) sample_resent_world = [q, q]"
proof -
  obtain q q' where qs: "sends (\<lambda>_. True) sample_resent_world = [q, q']" "sr_idempotency_key q = sr_idempotency_key q'"
    using sample_resent(1) by (auto simp: map_eq_Cons_conv)
  have empty: "sends (\<lambda>_. True) (sample_world [] sample_queue_db) = []" by (simp add: sends_def sample_world_def)
  have ok: "db_ok (w_db (sample_world [] sample_queue_db))"
    using pause_free_db_ok outbound_ok(1)[OF empty_db_ok] by (simp add: pause_free_def sample_world_def sample_queue_db_def)
  have colon: "\<forall>r \<in> set (db_outbound (w_db sample_resent_world)). CHR '':'' \<notin> set (ob_location r)"
    using sample_resent(2) by (auto simp: map_eq_Cons_conv)
  have "q \<in> set (sends (\<lambda>_. True) sample_resent_world)" "q' \<in> set (sends (\<lambda>_. True) sample_resent_world)"
    by (simp_all add: qs(1))
  then have "q = q'" using idempotent_requests[OF sample_history ok empty colon] qs(2) by blast
  with qs(1) show ?thesis by simp
qed

end
