(* ===== verification/Config.thy ===== *)
theory Config
  imports Auth Domain
begin

text \<open>
  \<^verbatim>\<open>internal/config/config.go\<close>: the configuration read from the environment. The environment is a
  function from names to values, empty for a variable that is not set. The three VAPID values, which
  are only passed on, and the shutdown time, which nothing reads, are left out.
\<close>

record config =
  cfg_database_url :: string
  cfg_telnyx_base_url :: string
  cfg_telnyx_token :: string
  cfg_telnyx_profile :: string
  cfg_voice_credential :: string
  cfg_from :: string
  cfg_hl_token :: string
  cfg_hl_base_url :: string
  cfg_hl_location :: string
  cfg_hl_provider_id :: string
  cfg_hl_secret :: string
  cfg_admin_token :: string
  cfg_signal_desk_token :: string
  cfg_signal_desk_url :: string
  cfg_client_id :: string
  cfg_client_secret :: string
  cfg_redirect_uri :: string
  cfg_user_type :: string
  cfg_workflow_keys :: "string list"
  cfg_allowed :: "string list"
  cfg_webhook_key :: string
  cfg_enable_sending :: bool

definition value_or_default :: "(string \<Rightarrow> string) \<Rightarrow> string \<Rightarrow> string \<Rightarrow> string" where
  "value_or_default env key fallback = (if env key \<noteq> [] then env key else fallback)"

fun unique_ids_go :: "string list \<Rightarrow> string list \<Rightarrow> string list" where
  "unique_ids_go seen [] = []"
| "unique_ids_go seen (v # vs) =
    (let value = trim_space v in
     if value = [] \<or> value \<in> set seen then unique_ids_go seen vs else value # unique_ids_go (value # seen) vs)"

definition unique_ids :: "string list \<Rightarrow> string list" where
  "unique_ids = unique_ids_go []"

text \<open>\<open>strconv.ParseBool\<close>, whose error is ignored.\<close>

definition parse_bool :: "string \<Rightarrow> bool" where
  "parse_bool s \<longleftrightarrow> s \<in> set [''1'', ''t'', ''T'', ''true'', ''TRUE'', ''True'']"

definition webhook_key :: "string \<Rightarrow> string result" where
  "webhook_key s =
    (if s = [] then Inr []
     else case base64_decode s of
       None \<Rightarrow> Inl (ErrMsg ''TELNYX_PUBLIC_KEY must be base64 Ed25519 key'' [])
     | Some b \<Rightarrow>
         if length b \<noteq> public_key_size then Inl (ErrMsg ''TELNYX_PUBLIC_KEY must be base64 Ed25519 key'' []) else Inr b)"

definition read_config :: "(string \<Rightarrow> string) \<Rightarrow> string \<Rightarrow> config" where
  "read_config env key = \<lparr>
     cfg_database_url = env ''DATABASE_URL'',
     cfg_telnyx_base_url = value_or_default env ''TELNYX_BASE_URL'' ''https://api.telnyx.com'',
     cfg_telnyx_token = env ''TELNYX_API_KEY'',
     cfg_telnyx_profile = env ''TELNYX_MESSAGING_PROFILE_ID'',
     cfg_voice_credential = env ''TELNYX_VOICE_CREDENTIAL_ID'',
     cfg_from = env ''TELNYX_FROM_NUMBER'',
     cfg_hl_token = env ''HIGHLEVEL_TOKEN'',
     cfg_hl_base_url = value_or_default env ''HIGHLEVEL_BASE_URL'' ''https://services.leadconnectorhq.com'',
     cfg_hl_location = env ''HIGHLEVEL_LOCATION_ID'',
     cfg_hl_provider_id = env ''HIGHLEVEL_CONVERSATION_PROVIDER_ID'',
     cfg_hl_secret = env ''HIGHLEVEL_WEBHOOK_SECRET'',
     cfg_admin_token = env ''ADMIN_TOKEN'',
     cfg_signal_desk_token = env ''SIGNAL_DESK_TOKEN'',
     cfg_signal_desk_url = env ''SIGNAL_DESK_WEBHOOK_URL'',
     cfg_client_id = env ''HIGHLEVEL_CLIENT_ID'',
     cfg_client_secret = env ''HIGHLEVEL_CLIENT_SECRET'',
     cfg_redirect_uri = env ''HIGHLEVEL_REDIRECT_URI'',
     cfg_user_type = value_or_default env ''HIGHLEVEL_USER_TYPE'' ''Location'',
     cfg_workflow_keys = filter (\<lambda>k. k \<noteq> []) (map trim_space (split_on CHR '','' (env ''ENABLED_WORKFLOWS''))),
     cfg_allowed = unique_ids (env ''HIGHLEVEL_LOCATION_ID'' # split_on CHR '','' (env ''HIGHLEVEL_ALLOWED_LOCATION_IDS'')),
     cfg_webhook_key = key,
     cfg_enable_sending = parse_bool (env ''ENABLE_SENDING'')\<rparr>"

text \<open>What is missing for sending, in the order the code asks for it.\<close>

definition sending_error :: "config \<Rightarrow> error option" where
  "sending_error c =
    (if length (cfg_webhook_key c) \<noteq> public_key_size
       then Some (ErrMsg ''TELNYX_PUBLIC_KEY is required when ENABLE_SENDING is true'' [])
     else if cfg_telnyx_token c = [] then Some (ErrMsg ''TELNYX_API_KEY is required when ENABLE_SENDING is true'' [])
     else if cfg_telnyx_profile c = []
       then Some (ErrMsg ''TELNYX_MESSAGING_PROFILE_ID is required when ENABLE_SENDING is true'' [])
     else if validate_e164 (cfg_from c) \<noteq> None
       then Some (ErrMsg ''valid TELNYX_FROM_NUMBER is required when ENABLE_SENDING is true'' [])
     else if cfg_client_id c = [] then Some (ErrMsg ''HIGHLEVEL_CLIENT_ID is required when ENABLE_SENDING is true'' [])
     else if cfg_client_secret c = []
       then Some (ErrMsg ''HIGHLEVEL_CLIENT_SECRET is required when ENABLE_SENDING is true'' [])
     else if cfg_redirect_uri c = []
       then Some (ErrMsg ''HIGHLEVEL_REDIRECT_URI is required when ENABLE_SENDING is true'' [])
     else if cfg_hl_location c = []
       then Some (ErrMsg ''HIGHLEVEL_LOCATION_ID is required when ENABLE_SENDING is true'' [])
     else if cfg_hl_provider_id c = []
       then Some (ErrMsg ''HIGHLEVEL_CONVERSATION_PROVIDER_ID is required when ENABLE_SENDING is true'' [])
     else None)"

definition load :: "(string \<Rightarrow> string) \<Rightarrow> config result" where
  "load env =
    (if env ''DATABASE_URL'' = [] then Inl (ErrMsg ''DATABASE_URL is required'' [])
     else case webhook_key (env ''TELNYX_PUBLIC_KEY'') of
       Inl e \<Rightarrow> Inl e
     | Inr key \<Rightarrow>
         (let c = read_config env key in
          if cfg_enable_sending c then (case sending_error c of Some e \<Rightarrow> Inl e | None \<Rightarrow> Inr c) else Inr c))"

section \<open>Lemmas\<close>

lemma webhook_key_size: "webhook_key s = Inr k \<Longrightarrow> k = [] \<or> length k = public_key_size"
  by (auto simp: webhook_key_def split: option.splits if_splits)

lemma unique_ids_go_props:
  "set (unique_ids_go seen vs) = trim_space ` set vs - {[]} - set seen" "distinct (unique_ids_go seen vs)"
  by (induction vs arbitrary: seen) (auto simp: Let_def)

lemma unique_ids_props:
  "set (unique_ids vs) = trim_space ` set vs - {[]}" "distinct (unique_ids vs)"
  by (simp_all add: unique_ids_def unique_ids_go_props)

text \<open>Nothing is missing exactly when every value is there.\<close>

lemma sending_error_None:
  "sending_error c = None \<longleftrightarrow>
     length (cfg_webhook_key c) = public_key_size \<and> cfg_telnyx_token c \<noteq> [] \<and> cfg_telnyx_profile c \<noteq> [] \<and>
     validate_e164 (cfg_from c) = None \<and> cfg_client_id c \<noteq> [] \<and> cfg_client_secret c \<noteq> [] \<and>
     cfg_redirect_uri c \<noteq> [] \<and> cfg_hl_location c \<noteq> [] \<and> cfg_hl_provider_id c \<noteq> []"
  unfolding sending_error_def by (simp only: split: if_split) blast

lemma load_Inr:
  "load env = Inr c \<longleftrightarrow>
     env ''DATABASE_URL'' \<noteq> [] \<and>
     (\<exists>key. webhook_key (env ''TELNYX_PUBLIC_KEY'') = Inr key \<and> c = read_config env key \<and>
        (cfg_enable_sending c \<longrightarrow> sending_error c = None))"
  by (auto simp: load_def Let_def split: sum.splits option.splits)

end
