(* ===== verification/Migrations.thy ===== *)
theory Migrations
  imports World
begin

text \<open>
  \<^verbatim>\<open>migrations/migrate.go\<close>: applying the SQL files to the database when a process starts. What a file does to the
  schema is the parameter \<open>exec\<close>. The advisory lock keeps two processes apart, so a run has the
  database for itself; each of its calls may fail, and that of a commit may take effect all the same.
\<close>

section \<open>The program\<close>

record 's migration_db =
  md_applied :: "string list"
  md_schema :: 's

record 's migrator =
  mg_db :: "'s migration_db"
  mg_script :: "fault list"

definition migration_files :: "string list" where
  "migration_files = sort
    [''001_init.sql'', ''002_workflows.sql'', ''003_reliability.sql'', ''004_admin_oauth_crm.sql'', ''005_delivery_sync.sql'',
     ''006_inbound_delivery_dead_letter.sql'', ''007_signal_desk_routing.sql'']"

text \<open>The fate of the next call; without a script every call succeeds.\<close>

definition next_fault :: "'s migrator \<Rightarrow> fault \<times> 's migrator" where
  "next_fault m = (case mg_script m of [] \<Rightarrow> (Fine, m) | f # fs \<Rightarrow> (f, m\<lparr>mg_script := fs\<rparr>))"

text \<open>A call outside of a transaction or before its commit has no effect when it fails.\<close>

definition call :: "string \<Rightarrow> string list \<Rightarrow> 's migrator \<Rightarrow> unit result \<times> 's migrator" where
  "call msg args m = (case next_fault m of (f, m') \<Rightarrow> (if f = Fine then Inr () else Inl (ErrMsg msg args), m'))"

definition commit_migration :: "string \<Rightarrow> 's \<Rightarrow> 's migrator \<Rightarrow> unit result \<times> 's migrator" where
  "commit_migration name schema m =
    (case next_fault m of (f, m') \<Rightarrow>
       (if f = Fine then Inr () else Inl (ErrMsg ''commit migration %s: %w'' [name]),
        if f = Lost then m'
        else m'\<lparr>mg_db := (mg_db m')\<lparr>md_applied := md_applied (mg_db m') @ [name], md_schema := schema\<rparr>\<rparr>))"

definition apply_migration :: "(string \<Rightarrow> 's \<Rightarrow> 's result) \<Rightarrow> string \<Rightarrow> 's migrator \<Rightarrow> unit result \<times> 's migrator" where
  "apply_migration exec name m =
    (case call ''check migration %s: %w'' [name] m of
       (Inl e, m1) \<Rightarrow> (Inl e, m1)
     | (Inr _, m1) \<Rightarrow>
         if name \<in> set (md_applied (mg_db m1)) then (Inr (), m1)
         else (case call ''begin migration %s: %w'' [name] m1 of
             (Inl e, m2) \<Rightarrow> (Inl e, m2)
           | (Inr _, m2) \<Rightarrow>
               (case call ''apply migration %s: %w'' [name] m2 of
                  (Inl e, m3) \<Rightarrow> (Inl e, m3)
                | (Inr _, m3) \<Rightarrow>
                    (case exec name (md_schema (mg_db m3)) of
                       Inl _ \<Rightarrow> (Inl (ErrMsg ''apply migration %s: %w'' [name]), m3)
                     | Inr schema \<Rightarrow>
                         (case call ''record migration %s: %w'' [name] m3 of
                            (Inl e, m4) \<Rightarrow> (Inl e, m4)
                          | (Inr _, m4) \<Rightarrow> commit_migration name schema m4)))))"

fun apply_migrations :: "(string \<Rightarrow> 's \<Rightarrow> 's result) \<Rightarrow> string list \<Rightarrow> 's migrator \<Rightarrow> unit result \<times> 's migrator" where
  "apply_migrations exec [] m = (Inr (), m)"
| "apply_migrations exec (name # names) m =
    (case apply_migration exec name m of
       (Inl e, m1) \<Rightarrow> (Inl e, m1) | (Inr _, m1) \<Rightarrow> apply_migrations exec names m1)"

text \<open>\<open>Apply\<close>; the error of the final unlock is ignored.\<close>

definition migrate :: "(string \<Rightarrow> 's \<Rightarrow> 's result) \<Rightarrow> 's migrator \<Rightarrow> unit result \<times> 's migrator" where
  "migrate exec m =
    (case call ''acquire migration connection: %w'' [] m of
       (Inl e, m1) \<Rightarrow> (Inl e, m1)
     | (Inr _, m1) \<Rightarrow>
         (case call ''lock migrations: %w'' [] m1 of
            (Inl e, m2) \<Rightarrow> (Inl e, m2)
          | (Inr _, m2) \<Rightarrow>
              (case call ''create schema_migrations: %w'' [] m2 of
                 (Inl e, m3) \<Rightarrow> (Inl e, m3)
               | (Inr _, m3) \<Rightarrow> apply_migrations exec migration_files m3)))"

section \<open>The files applied so far\<close>

fun run_files :: "(string \<Rightarrow> 's \<Rightarrow> 's result) \<Rightarrow> string list \<Rightarrow> 's \<Rightarrow> 's result" where
  "run_files exec [] s = Inr s"
| "run_files exec (n # ns) s = (case exec n s of Inl e \<Rightarrow> Inl e | Inr s' \<Rightarrow> run_files exec ns s')"

lemma run_files_snoc:
  "run_files exec ns s = Inr s' \<Longrightarrow> exec n s' = Inr s'' \<Longrightarrow> run_files exec (ns @ [n]) s = Inr s''"
  by (induction ns arbitrary: s) (auto split: sum.splits)

text \<open>The database is that after the first \<open>n\<close> files, each run once.\<close>

definition after_files :: "(string \<Rightarrow> 's \<Rightarrow> 's result) \<Rightarrow> 's \<Rightarrow> nat \<Rightarrow> 's migration_db \<Rightarrow> bool" where
  "after_files exec s n d \<longleftrightarrow>
    n \<le> length migration_files \<and> md_applied d = take n migration_files \<and>
    run_files exec (take n migration_files) s = Inr (md_schema d)"

lemma migration_files_distinct: "distinct migration_files" "length migration_files = 7"
  by (simp_all add: migration_files_def)

lemma call_db: "mg_db (snd (call msg args m)) = mg_db m"
  by (simp add: call_def next_fault_def split: list.split)

lemma call_calm: "mg_script m = [] \<Longrightarrow> call msg args m = (Inr (), m)"
  by (simp add: call_def next_fault_def)

lemma commit_db:
  obtains "mg_db (snd (commit_migration name schema m)) = mg_db m" "fst (commit_migration name schema m) \<noteq> Inr ()"
  | "mg_db (snd (commit_migration name schema m)) =
      (mg_db m)\<lparr>md_applied := md_applied (mg_db m) @ [name], md_schema := schema\<rparr>"
  by (cases "fst (next_fault m)") (auto simp: commit_migration_def next_fault_def split: list.splits prod.splits)

lemma apply_migration_step:
  assumes "after_files exec s n (mg_db m)" and "i \<le> n" and "i < length migration_files"
  shows "\<exists>n' \<ge> n. after_files exec s n' (mg_db (snd (apply_migration exec (migration_files ! i) m))) \<and>
    (is_ok (fst (apply_migration exec (migration_files ! i) m)) \<longrightarrow> i < n')"
proof -
  let ?f = "migration_files ! i"
  obtain r1 m1 where 1: "call ''check migration %s: %w'' [?f] m = (r1, m1)" by fastforce
  obtain r2 m2 where 2: "call ''begin migration %s: %w'' [?f] m1 = (r2, m2)" by fastforce
  obtain r3 m3 where 3: "call ''apply migration %s: %w'' [?f] m2 = (r3, m3)" by fastforce
  obtain r4 m4 where 4: "call ''record migration %s: %w'' [?f] m3 = (r4, m4)" by fastforce
  have db: "mg_db m1 = mg_db m" "mg_db m2 = mg_db m" "mg_db m3 = mg_db m" "mg_db m4 = mg_db m"
    using call_db 1 2 3 4 by (metis snd_conv)+
  have app: "md_applied (mg_db m) = take n migration_files" "n \<le> length migration_files"
    "run_files exec (take n migration_files) s = Inr (md_schema (mg_db m))" using assms(1) by (simp_all add: after_files_def)
  show ?thesis
  proof (cases "i < n")
    case True
    then have "?f \<in> set (md_applied (mg_db m))"
      using assms(3) app by (metis in_set_conv_nth length_take min.absorb2 nth_take)
    then have "mg_db (snd (apply_migration exec ?f m)) = mg_db m"
      by (cases r1) (simp_all add: apply_migration_def 1 db)
    then show ?thesis using assms(1) True by (intro exI[of _ n]) simp
  next
    case False
    then have i: "i = n" using assms(2) by simp
    have new: "?f \<notin> set (md_applied (mg_db m))"
      using migration_files_distinct(1) assms(3) unfolding app i
      by (metis distinct_append distinct.simps(2) take_Suc_conv_app_nth distinct_take list.simps(15) not_distinct_conv_prefix)
    show ?thesis
    proof (cases "\<exists>schema. is_ok r1 \<and> is_ok r2 \<and> is_ok r3 \<and> is_ok r4 \<and> exec ?f (md_schema (mg_db m)) = Inr schema")
      case False
      then have "mg_db (snd (apply_migration exec ?f m)) = mg_db m" "\<not> is_ok (fst (apply_migration exec ?f m))"
        using new
        by (cases r1; cases r2; cases r3; cases r4; cases "exec ?f (md_schema (mg_db m))";
            simp add: apply_migration_def 1 2 3 4 db is_ok_def)+
      then show ?thesis using assms(1) by (intro exI[of _ n]) simp
    next
      case True
      then obtain schema where sc: "exec ?f (md_schema (mg_db m)) = Inr schema"
        and ok: "is_ok r1" "is_ok r2" "is_ok r3" "is_ok r4" by blast
      have p: "apply_migration exec ?f m = commit_migration ?f schema m4"
        using ok sc new by (auto simp: apply_migration_def 1 2 3 4 db is_ok_def split: sum.splits)
      show ?thesis
      proof (rule commit_db[of ?f schema m4])
        assume "mg_db (snd (commit_migration ?f schema m4)) = mg_db m4" "fst (commit_migration ?f schema m4) \<noteq> Inr ()"
        then show ?thesis using assms(1) by (intro exI[of _ n]) (auto simp: p db is_ok_def split: sum.splits)
      next
        assume "mg_db (snd (commit_migration ?f schema m4)) =
          (mg_db m4)\<lparr>md_applied := md_applied (mg_db m4) @ [?f], md_schema := schema\<rparr>"
        then have "after_files exec s (Suc n) (mg_db (snd (apply_migration exec ?f m)))"
          using assms(3) app run_files_snoc[OF app(3), of "migration_files ! n"] sc
          unfolding i by (simp add: p[unfolded i] db after_files_def take_Suc_conv_app_nth)
        then show ?thesis using i by (intro exI[of _ "Suc n"]) simp
      qed
    qed
  qed
qed

lemma apply_migrations_from:
  assumes "after_files exec s n (mg_db m)" and "i \<le> n" and "i \<le> length migration_files"
  shows "\<exists>n' \<ge> n. after_files exec s n' (mg_db (snd (apply_migrations exec (drop i migration_files) m))) \<and>
    (is_ok (fst (apply_migrations exec (drop i migration_files) m)) \<longrightarrow> n' = length migration_files)"
  using assms
proof (induction "length migration_files - i" arbitrary: i n m)
  case 0
  then have "i = length migration_files" "n = length migration_files" by (auto simp: after_files_def)
  then show ?case using 0 by auto
next
  case (Suc k)
  then have i: "i < length migration_files" by linarith
  let ?f = "migration_files ! i"
  have d: "drop i migration_files = ?f # drop (Suc i) migration_files" using i by (rule Cons_nth_drop_Suc[symmetric])
  obtain n1 where n1: "n \<le> n1" "after_files exec s n1 (mg_db (snd (apply_migration exec ?f m)))"
    "is_ok (fst (apply_migration exec ?f m)) \<longrightarrow> i < n1"
    using apply_migration_step[OF Suc.prems(1,2) i] by blast
  obtain r m1 where r: "apply_migration exec ?f m = (r, m1)" by fastforce
  show ?case
  proof (cases r)
    case (Inl e)
    then show ?thesis using n1 r by (auto simp: d is_ok_def)
  next
    case (Inr u)
    have "\<exists>n' \<ge> n1. after_files exec s n' (mg_db (snd (apply_migrations exec (drop (Suc i) migration_files) m1))) \<and>
       (is_ok (fst (apply_migrations exec (drop (Suc i) migration_files) m1)) \<longrightarrow> n' = length migration_files)"
      using n1 r Inr i Suc.hyps(2) by (intro Suc.hyps(1)) (auto simp: is_ok_def)
    then show ?thesis using n1(1) r Inr by (auto simp: d intro: order_trans)
  qed
qed

lemma migrate_files:
  assumes "after_files exec s n (mg_db m)"
  shows "\<exists>n' \<ge> n. after_files exec s n' (mg_db (snd (migrate exec m))) \<and>
    (is_ok (fst (migrate exec m)) \<longrightarrow> n' = length migration_files)"
proof -
  obtain r1 m1 where 1: "call ''acquire migration connection: %w'' [] m = (r1, m1)" by fastforce
  obtain r2 m2 where 2: "call ''lock migrations: %w'' [] m1 = (r2, m2)" by fastforce
  obtain r3 m3 where 3: "call ''create schema_migrations: %w'' [] m2 = (r3, m3)" by fastforce
  have db: "mg_db m1 = mg_db m" "mg_db m2 = mg_db m" "mg_db m3 = mg_db m" using call_db 1 2 3 by (metis snd_conv)+
  have "\<exists>n' \<ge> n. after_files exec s n' (mg_db (snd (apply_migrations exec migration_files m3))) \<and>
    (is_ok (fst (apply_migrations exec migration_files m3)) \<longrightarrow> n' = length migration_files)"
    using apply_migrations_from[of exec s n m3 0] assms db by simp
  then show ?thesis
    using assms by (cases r1; cases r2; cases r3; auto simp: migrate_def 1 2 3 db is_ok_def)
qed

lemma run_files_append:
  "run_files exec (xs @ ys) s = (case run_files exec xs s of Inl e \<Rightarrow> Inl e | Inr s' \<Rightarrow> run_files exec ys s')"
  by (induction xs arbitrary: s) (auto split: sum.split)

lemma apply_migration_calm:
  assumes "mg_script m = []" and "after_files exec s n (mg_db m)" and "i \<le> n" and "i < length migration_files"
    and "run_files exec migration_files s = Inr s'"
  shows "fst (apply_migration exec (migration_files ! i) m) = Inr () \<and> mg_script (snd (apply_migration exec (migration_files ! i) m)) = []"
proof (cases "migration_files ! i \<in> set (md_applied (mg_db m))")
  case True
  then show ?thesis using assms(1) by (simp add: apply_migration_def call_calm)
next
  case False
  have app: "md_applied (mg_db m) = take n migration_files" "n \<le> length migration_files"
    "run_files exec (take n migration_files) s = Inr (md_schema (mg_db m))" using assms(2) by (simp_all add: after_files_def)
  have "i = n"
  proof (rule ccontr)
    assume "i \<noteq> n"
    then have "migration_files ! i \<in> set (take n migration_files)"
      using assms(3) app(2) by (auto simp: in_set_conv_nth intro!: exI[of _ i])
    then show False using False app(1) by simp
  qed
  then have "migration_files = take n migration_files @ migration_files ! i # drop (Suc n) migration_files"
    using assms(4) id_take_nth_drop by blast
  then have "run_files exec (migration_files ! i # drop (Suc n) migration_files) (md_schema (mg_db m)) = Inr s'"
    using assms(5) app(3) run_files_append by (metis sum.case(2))
  then obtain schema where "exec (migration_files ! i) (md_schema (mg_db m)) = Inr schema" by (auto split: sum.splits)
  then show ?thesis
    using assms(1) False by (simp add: apply_migration_def call_calm commit_migration_def next_fault_def)
qed

lemma apply_migrations_calm:
  assumes "mg_script m = []" and "after_files exec s n (mg_db m)" and "i \<le> n" and "i \<le> length migration_files"
    and "run_files exec migration_files s = Inr s'"
  shows "fst (apply_migrations exec (drop i migration_files) m) = Inr ()"
  using assms
proof (induction "length migration_files - i" arbitrary: i n m)
  case (Suc k)
  then have i: "i < length migration_files" by linarith
  let ?f = "migration_files ! i"
  have d: "drop i migration_files = ?f # drop (Suc i) migration_files" using i by (rule Cons_nth_drop_Suc[symmetric])
  obtain m1 where m1: "apply_migration exec ?f m = (Inr (), m1)" "mg_script m1 = []"
    using apply_migration_calm[OF Suc.prems(1,2,3) i Suc.prems(5)] by (metis prod.collapse)
  obtain n1 where "after_files exec s n1 (mg_db m1)" "i < n1"
    using apply_migration_step[OF Suc.prems(2,3) i] m1(1) by auto
  then have "fst (apply_migrations exec (drop (Suc i) migration_files) m1) = Inr ()"
    using m1(2) Suc.hyps(2) i Suc.prems(5) by (intro Suc.hyps(1)) auto
  then show ?case by (simp add: d m1(1))
qed simp

section \<open>Restarting\<close>

text \<open>The processes that start one after the other, each with its own pattern of failures.\<close>

fun restarts :: "(string \<Rightarrow> 's \<Rightarrow> 's result) \<Rightarrow> fault list list \<Rightarrow> 's migration_db \<Rightarrow> 's migration_db" where
  "restarts exec [] d = d"
| "restarts exec (script # rest) d = restarts exec rest (mg_db (snd (migrate exec \<lparr>mg_db = d, mg_script = script\<rparr>)))"

text \<open>
  C22. Starting any number of processes on a new database, with any of their database calls failing or
  losing its answer, runs the migrations in the order of their names, each at most once, and records
  exactly those that have run. A start reports success only when all have run; and if the files can be
  run at all, one start without failures completes them, whatever happened before.
\<close>

theorem migrations_exactly_once:
  assumes "md_applied d = []"
  shows "\<exists>n. md_applied (restarts exec scripts d) = take n migration_files \<and>
    run_files exec (take n migration_files) (md_schema d) = Inr (md_schema (restarts exec scripts d)) \<and>
    (\<forall>script. fst (migrate exec \<lparr>mg_db = restarts exec scripts d, mg_script = script\<rparr>) = Inr () \<longrightarrow>
       md_applied (restarts exec (scripts @ [script]) d) = migration_files) \<and>
    (\<forall>s'. run_files exec migration_files (md_schema d) = Inr s' \<longrightarrow>
       restarts exec (scripts @ [[]]) d = \<lparr>md_applied = migration_files, md_schema = s'\<rparr>)"
proof -
  let ?s = "md_schema d" let ?d = "restarts exec scripts d"
  have start: "after_files exec ?s 0 d" using assms by (simp add: after_files_def)
  have many: "\<exists>n. after_files exec ?s n (restarts exec scripts e)" if "\<exists>n. after_files exec ?s n e" for scripts e
    using that
  proof (induction scripts arbitrary: e)
    case (Cons script scripts)
    from Cons.prems obtain n where n: "after_files exec ?s n (mg_db \<lparr>mg_db = e, mg_script = script\<rparr>)" by auto
    then obtain n' where "after_files exec ?s n' (mg_db (snd (migrate exec \<lparr>mg_db = e, mg_script = script\<rparr>)))"
      using migrate_files[OF n] by blast
    then show ?case unfolding restarts.simps using Cons.IH by blast
  qed simp
  from many start obtain n where n: "after_files exec ?s n ?d" by blast
  have last: "restarts exec (scripts @ [script]) e = mg_db (snd (migrate exec \<lparr>mg_db = restarts exec scripts e, mg_script = script\<rparr>))"
    for script scripts e by (induction scripts arbitrary: e) simp_all
  have complete: "after_files exec ?s (length migration_files) (restarts exec (scripts @ [script]) d)"
    if "fst (migrate exec \<lparr>mg_db = ?d, mg_script = script\<rparr>) = Inr ()" for script
    using migrate_files[of exec ?s n "\<lparr>mg_db = ?d, mg_script = script\<rparr>"] n that by (auto simp: last)
  have calm: "fst (migrate exec \<lparr>mg_db = ?d, mg_script = []\<rparr>) = Inr ()"
    if "run_files exec migration_files ?s = Inr s'" for s'
    using apply_migrations_calm[of "\<lparr>mg_db = ?d, mg_script = []\<rparr>" exec ?s n 0] n that by (simp add: migrate_def call_calm)
  have "restarts exec (scripts @ [[]]) d = \<lparr>md_applied = migration_files, md_schema = s'\<rparr>"
    if "run_files exec migration_files ?s = Inr s'" for s'
    using complete[OF calm[OF that]] that by (cases "restarts exec (scripts @ [[]]) d") (simp add: after_files_def)
  moreover have "md_applied (restarts exec (scripts @ [script]) d) = migration_files"
    if "fst (migrate exec \<lparr>mg_db = ?d, mg_script = script\<rparr>) = Inr ()" for script
    using complete[OF that] unfolding after_files_def by (simp only: take_all order_refl)
  ultimately show ?thesis using n unfolding after_files_def by blast
qed

text \<open>The second file fails, the commit of the third is not acknowledged, and the next start goes on.\<close>

theorem migrations_witness:
  "md_applied (restarts (\<lambda>n s. Inr (s @ [n])) ([replicate 11 Fine @ [Lost], replicate 16 Fine @ [Unacknowledged]] @ [[]])
     \<lparr>md_applied = [], md_schema = []\<rparr>) = migration_files"
proof -
  let ?x = "\<lambda>n s. Inr (s @ [n])" and ?d = "\<lparr>md_applied = [], md_schema = []\<rparr>"
  have new: "md_applied ?d = []" by simp
  have "run_files ?x migration_files (md_schema ?d) = Inr migration_files" by (simp add: migration_files_def)
  then have "restarts ?x ([replicate 11 Fine @ [Lost], replicate 16 Fine @ [Unacknowledged]] @ [[]]) ?d =
      \<lparr>md_applied = migration_files, md_schema = migration_files\<rparr>"
    using migrations_exactly_once[OF new, where scripts = "[replicate 11 Fine @ [Lost], replicate 16 Fine @ [Unacknowledged]]"]
    by blast
  then show ?thesis by (simp only: migration_db.simps)
qed

end
