(* ===== verification/GoFloat.thy ===== *)
theory GoFloat
  imports Complex_Main GoFormat Auth Json
begin

text \<open>
  What the program needs of Go's \<open>float64\<close> and of \<open>time.Parse\<close>: reading the number of a JSON text,
  multiplying it, making it an integer, and reading the timestamps of other services. A finite
  \<open>float64\<close> is the rational it stands for.
\<close>

section \<open>Rounding to 53 bits\<close>

function bit_length :: "int \<Rightarrow> nat" where
  "bit_length n = (if n \<le> 0 then 0 else Suc (bit_length (n div 2)))"
  by auto
termination by (relation "measure nat") auto

declare bit_length.simps [simp del]

definition round_half_even :: "rat \<Rightarrow> int" where
  "round_half_even x =
    (let f = \<lfloor>x\<rfloor>; r = x - of_int f in
     if r < 1 / 2 then f else if r > 1 / 2 then f + 1 else if even f then f else f + 1)"

text \<open>The exponent of the last of the 53 bits; below the normal numbers it stays the same.\<close>

definition last_bit :: "rat \<Rightarrow> int" where
  "last_bit x =
    (case quotient_of x of (p, q) \<Rightarrow>
       let e = int (bit_length p) - int (bit_length q) - 52 in
       max (- 1074) (if x < 2 powi (e + 52) then e - 1 else e))"

definition float_round :: "rat \<Rightarrow> rat" where
  "float_round x =
    (if x = 0 then 0
     else let a = \<bar>x\<bar>; e = last_bit a; m = of_int (round_half_even (a / 2 powi e)) * 2 powi e
       in if x < 0 then - m else m)"

definition overflows :: "rat \<Rightarrow> bool" where
  "overflows x \<longleftrightarrow> \<bar>x\<bar> \<ge> 2 ^ 1024"

section \<open>Reading and converting\<close>

text \<open>The digits of a literal, and those of its exponent.\<close>

definition exponent_value :: "string \<Rightarrow> int" where
  "exponent_value s =
    (case s of
       [] \<Rightarrow> 0
     | e # t \<Rightarrow>
         (case t of
            [] \<Rightarrow> 0
          | g # u \<Rightarrow> if g = CHR ''-'' then - digits_value u else if g = CHR ''+'' then digits_value u else digits_value t))"

definition literal_value :: "string \<Rightarrow> rat" where
  "literal_value s =
    (let (neg, t) = (case s of c # u \<Rightarrow> if c = CHR ''-'' then (True, u) else (False, s) | [] \<Rightarrow> (False, s));
         whole = takeWhile is_digit t; r = drop (length whole) t;
         frac = (case r of c # u \<Rightarrow> if c = CHR ''.'' then takeWhile is_digit u else [] | [] \<Rightarrow> []);
         r2 = (if frac = [] then r else drop (Suc (length frac)) r);
         x = of_int (digits_value (whole @ frac)) * 10 powi (exponent_value r2 - int (length frac))
     in if neg then - x else x)"

text \<open>\<open>strconv.ParseFloat\<close> on a JSON number: out of range is an error.\<close>

definition parse_float :: "string \<Rightarrow> rat option" where
  "parse_float s = (let x = float_round (literal_value s) in if overflows x then None else Some x)"

text \<open>Conversion to \<open>int64\<close> truncates; a value out of range gives the least integer, as on amd64.\<close>

definition int64_of_float :: "rat \<Rightarrow> int" where
  "int64_of_float x =
    (let n = (if x < 0 then \<lceil>x\<rceil> else \<lfloor>x\<rfloor>) in if n < - (2 ^ 63) \<or> 2 ^ 63 \<le> n then - (2 ^ 63) else n)"

section \<open>Time stamps\<close>

text \<open>
  \<open>time.Parse(time.RFC3339Nano, s)\<close> is more lenient than \<open>Time.UnmarshalJSON\<close>: the hour may have one
  digit, the fraction may follow a comma, and the offset may be as large as 24:60.
\<close>

definition lenient_zone :: "string \<Rightarrow> int option" where
  "lenient_zone s =
    (if s = ''Z'' then Some 0
     else case s of
       [sign, a, b, c, d, e] \<Rightarrow>
         (case (two_digits 0 24 [a, b], two_digits 0 60 [d, e]) of
            (Some hh, Some mm) \<Rightarrow>
              if c = CHR '':'' \<and> sign = CHR ''+'' then Some (hh * 3600 + mm * 60)
              else if c = CHR '':'' \<and> sign = CHR ''-'' then Some (- (hh * 3600 + mm * 60)) else None
          | _ \<Rightarrow> None)
     | _ \<Rightarrow> None)"

definition time_parse :: "string \<Rightarrow> time option" where
  "time_parse s0 =
    (let s = (if length s0 \<ge> 13 \<and> s0 ! 12 = CHR '':'' then take 11 s0 @ ''0'' @ drop 11 s0 else s0);
         rest = drop 19 s;
         frac = (case rest of c # t \<Rightarrow> if c = CHR ''.'' \<or> c = CHR '','' then takeWhile is_digit t else [] | [] \<Rightarrow> []);
         zone = (if frac = [] then rest else drop (Suc (length frac)) rest)
     in case (parse_clock (take 19 s), lenient_zone zone) of
          (Some t, Some z) \<Rightarrow> if length s < 20 then None else Some ((t - z) * second + fraction_nanos frac)
        | _ \<Rightarrow> None)"

text \<open>\<open>UnixMilli\<close>.\<close>

definition unix_milli :: "time \<Rightarrow> int" where
  "unix_milli t = t div 1000000"

section \<open>Lemmas\<close>

lemma bit_length_bounds: "0 < n \<Longrightarrow> 2 ^ (bit_length n - 1) \<le> n \<and> 0 < bit_length n"
proof (induction n rule: bit_length.induct)
  case (1 n)
  have step: "bit_length n = Suc (bit_length (n div 2))" using 1(2) by (subst bit_length.simps) simp
  show ?case
  proof (cases "n = 1")
    case True
    then show ?thesis by (simp add: bit_length.simps)
  next
    case False
    then have "0 < n div 2" using 1(2) by linarith
    then have h: "2 ^ (bit_length (n div 2) - 1) \<le> n div 2 \<and> 0 < bit_length (n div 2)" using 1(1) 1(2) by simp
    then have "2 ^ (bit_length n - 1) = 2 * (2 :: int) ^ (bit_length (n div 2) - 1)"
      unfolding step by (cases "bit_length (n div 2)") auto
    then show ?thesis using h step by linarith
  qed
qed

lemma round_half_even_int: "round_half_even (of_int n) = n"
  by (simp add: round_half_even_def)

text \<open>Integers up to \<open>2\<^sup>5\<^sup>3\<close> are exact.\<close>

lemma float_round_int:
  assumes "0 \<le> n" and "n < 2 ^ 53"
  shows "float_round (of_int n) = of_int n"
proof (cases "n = 0")
  case False
  then have pos: "0 < n" using assms(1) by simp
  let ?b = "bit_length n"
  have b: "2 ^ (?b - 1) \<le> n" "0 < ?b" using bit_length_bounds[of n] pos by simp_all
  then have "(2 :: int) ^ (?b - 1) < 2 ^ 53" using assms(2) by linarith
  then have "?b - 1 < 53" by (rule power_less_imp_less_exp[rotated]) simp
  then have b53: "?b \<le> 53" by linarith
  have one: "bit_length 1 = 1" by (simp add: bit_length.simps)
  have "last_bit (of_int n) \<le> 0" "- 1074 \<le> last_bit (of_int n)"
    using b53 one by (simp_all add: last_bit_def quotient_of_int Let_def)
  then have "last_bit (of_int n) = - int (nat (- last_bit (of_int n)))" by simp
  then obtain k where k: "last_bit (of_int n) = - int k" by blast
  have div: "(of_int n :: rat) / 2 powi (- int k) = of_int (n * 2 ^ k)" by (simp add: power_int_minus divide_inverse)
  have "of_int (round_half_even (of_int n / 2 powi last_bit (of_int n))) * (2 :: rat) powi last_bit (of_int n) = of_int n"
    unfolding k div round_half_even_int by (simp add: power_int_minus)
  then show ?thesis using pos by (simp add: float_round_def Let_def)
qed (simp add: float_round_def)

section \<open>Decimal numbers\<close>

lemma is_digit_of_nat: "n < 10 \<Longrightarrow> is_digit (char_of (48 + n :: nat)) \<and> of_char (char_of (48 + n :: nat) :: char) = int (48 + n)"
  using is_digit_char[of "int n"] of_digit_char[of "int n"] by (simp add: digit_char_def nat_mod_distrib)

lemma show_nat_digits: "list_all is_digit (show_nat n) \<and> show_nat n \<noteq> [] \<and> digits_value (show_nat n) = int n"
proof (induction n rule: show_nat.induct)
  case (1 n)
  show ?case
  proof (cases "n < 10")
    case True
    then show ?thesis using is_digit_of_nat[OF True] by (simp add: show_nat.simps[of n] digits_value_def)
  next
    case False
    have d: "n mod 10 < 10" by simp
    have "int n = int (n div 10 * 10 + n mod 10)" by (simp only: div_mult_mod_eq)
    then have "int n = int (n div 10) * 10 + int (n mod 10)" by (simp only: of_nat_add of_nat_mult of_nat_numeral)
    then show ?thesis
      using 1[OF False] is_digit_of_nat[OF d] False
      by (simp add: show_nat.simps[of n] digits_value_def)
  qed
qed

lemma show_int_nonneg: "0 \<le> n \<Longrightarrow> show_int n = show_nat (nat n)"
  by (simp add: show_int_def)

lemma digit_not_sign: "is_digit c \<Longrightarrow> c \<noteq> CHR ''-'' \<and> c \<noteq> CHR ''+''"
  by (auto simp: is_digit_def)

lemma show_nat_Cons: "\<exists>c u. show_nat n = c # u \<and> is_digit c"
  using show_nat_digits[of n] by (cases "show_nat n") auto

lemma parse_int64_show:
  assumes "0 \<le> n" and "n < 2 ^ 63"
  shows "parse_int64 (show_int n) = Some n"
proof -
  obtain c u where s: "show_nat (nat n) = c # u" "is_digit c" using show_nat_Cons by blast
  show ?thesis
    using assms show_nat_digits[of "nat n"] digit_not_sign[OF s(2)]
    unfolding parse_int64_def show_int_nonneg[OF assms(1)] s(1) by simp
qed

lemma literal_value_show:
  assumes "0 \<le> n"
  shows "literal_value (show_int n) = of_int n"
proof -
  let ?s = "show_nat (nat n)"
  obtain c u where s: "?s = c # u" "is_digit c" using show_nat_Cons by blast
  have sign: "(case ?s of c # u \<Rightarrow> if c = CHR ''-'' then (True, u) else (False, ?s) | [] \<Rightarrow> (False, ?s)) = (False, ?s)"
    using digit_not_sign[OF s(2)] unfolding s(1) by simp
  have tw: "takeWhile is_digit ?s = ?s"
    using show_nat_digits[of "nat n"] by (simp add: takeWhile_eq_all_conv list_all_iff)
  then show ?thesis
    using assms show_nat_digits[of "nat n"]
    unfolding literal_value_def show_int_nonneg[OF assms] Let_def sign prod.case tw
    by (simp add: exponent_value_def del: takeWhile_eq_all_conv)
qed

lemma parse_float_show:
  assumes "0 \<le> n" and "n < 2 ^ 53"
  shows "parse_float (show_int n) = Some (of_int n)"
proof -
  have "(of_int n :: rat) < of_int (2 ^ 53)" using assms(2) by (simp only: of_int_less_iff)
  also have "\<dots> \<le> 2 ^ 1024" unfolding of_int_power of_int_numeral by (rule power_increasing) simp_all
  finally have "\<not> overflows (of_int n)" using assms(1) by (simp add: overflows_def)
  then show ?thesis by (simp add: parse_float_def literal_value_show[OF assms(1)] float_round_int[OF assms])
qed

lemma int64_of_int: "0 \<le> n \<Longrightarrow> n < 2 ^ 63 \<Longrightarrow> int64_of_float (of_int n) = n"
  by (simp add: int64_of_float_def Let_def)

lemma time_parse_format:
  assumes "four_digit_year t"
  shows "time_parse (format_rfc3339_nano t) = Some t"
proof -
  let ?f = "trim_zeros (pad_digits 9 (nanosecond_of t))" let ?s = "format_rfc3339_nano t"
  have digits: "list_all is_digit ?f" by (intro digits_trim_zeros list_all_pad_digits)
  have t: "unix_sec t * second + nanosecond_of t = t" by (rule time_split[symmetric])
  have zone: "lenient_zone ''Z'' = Some 0" by (simp add: lenient_zone_def)
  have "?s ! 12 = format_clock t ! 12" by (simp add: format_rfc3339_nano_def Let_def nth_append)
  moreover have "is_digit (format_clock t ! 12)"
    by (simp add: format_clock_def Let_def pad2_def is_digit_char split: prod.split)
  ultimately have "is_digit (?s ! 12)" by simp
  then have hour: "?s ! 12 \<noteq> CHR '':''" by (auto simp: is_digit_def)
  show ?thesis
  proof (cases "?f = []")
    case True
    have z: "fraction_nanos [] = 0" by code_simp
    then have "nanosecond_of t = 0" using fraction_trimmed[of "nanosecond_of t"] nanosecond_of_bounds True by simp
    then show ?thesis
      using True parse_format_clock[OF assms] zone t z hour
      by (simp add: time_parse_def format_rfc3339_nano_def Let_def)
  next
    case False
    have "fraction_nanos ?f = nanosecond_of t" using nanosecond_of_bounds by (intro fraction_trimmed)
    then show ?thesis
      using False parse_format_clock[OF assms] zone t take_while_digits[OF digits] hour
      by (simp add: time_parse_def format_rfc3339_nano_def Let_def)
  qed
qed

end
