(* ===== verification/HighLevel.thy ===== *)
theory HighLevel
  imports GoFloat OAuth Telnyx
begin

text \<open>
  \<^verbatim>\<open>internal/provider/highlevel.go\<close>: the implementation of the HighLevel interface over HTTP. The
  server \<open>hc_http\<close>, the clock \<open>hc_now\<close> and the source of the access tokens work on a state of any type;
  with the state of \<^verbatim>\<open>TokenSource\<close> the tokens come from the database.
\<close>

section \<open>The client\<close>

text \<open>
  The dynamic types of \<open>Tokens\<close> the code distinguishes: a \<open>*HighLevelTokenSource\<close>, which is given for
  every location (token, forced refresh) and asked for one, and any other, which may have a
  \<open>ForceRefresh\<close>.
\<close>

datatype 's tokens =
    SourceTokens string "string \<Rightarrow> 's \<Rightarrow> string result \<times> 's" "string \<Rightarrow> 's \<Rightarrow> string result \<times> 's"
  | OtherTokens "'s \<Rightarrow> string result \<times> 's" "('s \<Rightarrow> string result \<times> 's) option"

record 's highlevel_client =
  hc_base_url :: string
  hc_token :: string
  hc_tokens :: "'s tokens option"
  hc_location :: string
  hc_provider_id :: string
  hc_default_from :: string
  hc_http :: "'s http"
  hc_now :: "'s \<Rightarrow> time"

definition for_location :: "'s highlevel_client \<Rightarrow> string \<Rightarrow> 's highlevel_client" where
  "for_location c loc =
    (if loc = [] \<or> loc = hc_location c then c
     else c\<lparr>hc_location := loc,
       hc_tokens := (case hc_tokens c of Some (SourceTokens l tk rf) \<Rightarrow> Some (SourceTokens loc tk rf) | ts \<Rightarrow> ts)\<rparr>)"

fun first_non_empty :: "string list \<Rightarrow> string" where
  "first_non_empty [] = []"
| "first_non_empty (v # vs) = (if trim_space v \<noteq> [] then v else first_non_empty vs)"

section \<open>Requests\<close>

fun tokens_token :: "'s tokens \<Rightarrow> 's \<Rightarrow> string result \<times> 's" where
  "tokens_token (SourceTokens l tk rf) = tk l"
| "tokens_token (OtherTokens tk rf) = tk"

fun tokens_refresh :: "'s tokens \<Rightarrow> ('s \<Rightarrow> string result \<times> 's) option" where
  "tokens_refresh (SourceTokens l tk rf) = Some (rf l)"
| "tokens_refresh (OtherTokens tk rf) = rf"

definition access_token :: "'s highlevel_client \<Rightarrow> bool \<Rightarrow> 's \<Rightarrow> string result \<times> 's" where
  "access_token c force s =
    (case hc_tokens c of
       Some ts \<Rightarrow>
         (case tokens_refresh ts of
            Some rf \<Rightarrow> if force then rf s else tokens_token ts s
          | None \<Rightarrow> tokens_token ts s)
     | None \<Rightarrow>
         (if hc_token c = [] then Inl (ErrMsg ''HighLevel access token is required'' []) else Inr (hc_token c), s))"

definition highlevel_base :: "'s highlevel_client \<Rightarrow> string" where
  "highlevel_base c = (let b = trim_slashes (hc_base_url c) in if b = [] then highlevel_url else b)"

definition json_request :: "'s highlevel_client \<Rightarrow> string \<Rightarrow> string \<Rightarrow> json option \<Rightarrow> string \<Rightarrow> http_request" where
  "json_request c method path body token =
    \<lparr>hq_method = method, hq_url = highlevel_base c @ path,
     hq_headers =
       [(''Authorization'', ''Bearer '' @ token), (''Accept'', ''application/json''), (''Version'', ''2021-07-28'')] @
       (if body \<noteq> None then [(''Content-Type'', ''application/json'')] else []),
     hq_body = map_option json_encode body\<rparr>"

definition status_error :: "http_response \<Rightarrow> error" where
  "status_error resp =
    ErrProvider (hp_status resp) (show_int (hp_status resp)) (trim_space (take error_limit (hp_body resp)))"

text \<open>What is done with the body of the answer: it is dropped, or decoded into a struct.\<close>

definition discard :: "string \<Rightarrow> unit result" where
  "discard body = Inr ()"

definition decoding :: "(string \<times> 'a field) list \<Rightarrow> 'a \<Rightarrow> string \<Rightarrow> 'a result" where
  "decoding fs zero body =
    (case decode_first False fs (take body_limit body) zero of
       None \<Rightarrow> Inl (ErrMsg ''decode HighLevel response: %w'' []) | Some x \<Rightarrow> Inr x)"

definition do_json_once ::
  "'s highlevel_client \<Rightarrow> string \<Rightarrow> string \<Rightarrow> json option \<Rightarrow> (string \<Rightarrow> 'a result) \<Rightarrow> bool \<Rightarrow> 's \<Rightarrow> 'a result \<times> 's" where
  "do_json_once c method path body reader force s =
    (case access_token c force s of
       (Inl e, s1) \<Rightarrow> (Inl e, s1)
     | (Inr token, s1) \<Rightarrow>
         (case hc_http c (json_request c method path body token) s1 of
            (Inl e, s2) \<Rightarrow> (Inl e, s2)
          | (Inr resp, s2) \<Rightarrow>
              (if \<not> success_status (hp_status resp) then Inl (status_error resp) else reader (hp_body resp), s2)))"

definition retries :: "'s highlevel_client \<Rightarrow> error \<Rightarrow> bool" where
  "retries c e \<longleftrightarrow> (case e of ErrProvider status _ _ \<Rightarrow> status = 401 \<and> hc_tokens c \<noteq> None | _ \<Rightarrow> False)"

definition do_json ::
  "'s highlevel_client \<Rightarrow> string \<Rightarrow> string \<Rightarrow> json option \<Rightarrow> (string \<Rightarrow> 'a result) \<Rightarrow> 's \<Rightarrow> 'a result \<times> 's" where
  "do_json c method path body reader s =
    (case do_json_once c method path body reader False s of
       (Inr x, s1) \<Rightarrow> (Inr x, s1)
     | (Inl e, s1) \<Rightarrow> if retries c e then do_json_once c method path body reader True s1 else (Inl e, s1))"

section \<open>Contacts and conversations\<close>

text \<open>An id alone, and the id of a created object, which is nested or at the top.\<close>

definition nested_id_fields :: "string \<Rightarrow> (string \<times> string field) list" where
  "nested_id_fields name = [(name, struct_field False [(''id'', str_field (\<lambda>x _. x))])]"

definition created_id_fields :: "string \<Rightarrow> (string \<times> (string \<times> string) field) list" where
  "created_id_fields name =
    [(name, struct_field False [(''id'', str_field (\<lambda>x (_, i). (x, i)))]), (''id'', str_field (\<lambda>x (n, _). (n, x)))]"

definition created_id :: "string \<Rightarrow> string \<times> string \<Rightarrow> string result" where
  "created_id what ids =
    (if fst ids \<noteq> [] then Inr (fst ids) else if snd ids \<noteq> [] then Inr (snd ids)
     else Inl (ErrMsg (''HighLevel create '' @ what @ '' response is missing id'') []))"

definition find_contact_id :: "'s highlevel_client \<Rightarrow> string \<Rightarrow> 's \<Rightarrow> string result \<times> 's" where
  "find_contact_id c phone s =
    (if hc_location c = [] then (Inl (ErrMsg ''HighLevel location id is required'' []), s)
     else case do_json c ''GET''
         (''/contacts/search/duplicate?'' @ values_encode [(''locationId'', hc_location c), (''number'', phone)])
         None (decoding (nested_id_fields ''contact'') []) s of
       (Inl e, s1) \<Rightarrow> (Inl e, s1)
     | (Inr i, s1) \<Rightarrow> (if i = [] then Inl (ErrMsg ''HighLevel contact not found for phone'' []) else Inr i, s1))"

definition is_provider_error :: "error \<Rightarrow> bool" where
  "is_provider_error e \<longleftrightarrow> (case e of ErrProvider _ _ _ \<Rightarrow> True | _ \<Rightarrow> False)"

definition find_or_create_contact :: "'s highlevel_client \<Rightarrow> string \<Rightarrow> 's \<Rightarrow> string result \<times> 's" where
  "find_or_create_contact c phone s =
    (case find_contact_id c phone s of
       (Inr i, s1) \<Rightarrow> (Inr i, s1)
     | (Inl e, s1) \<Rightarrow>
         if is_provider_error e then (Inl e, s1)
         else (case do_json c ''POST'' ''/contacts/''
             (Some (js_map [(''locationId'', JsStr (hc_location c)), (''phone'', JsStr phone)]))
             (decoding (created_id_fields ''contact'') ([], [])) s1 of
           (Inl e', s2) \<Rightarrow> (Inl e', s2)
         | (Inr ids, s2) \<Rightarrow> (created_id ''contact'' ids, s2)))"

definition conversation_ids :: "(string \<times> string list field) list" where
  "conversation_ids =
    [(''conversations'', list_field [] (struct_field False [(''id'', str_field (\<lambda>x _. x))]) (\<lambda>xs _. xs))]"

definition find_or_create_conversation :: "'s highlevel_client \<Rightarrow> string \<Rightarrow> 's \<Rightarrow> string result \<times> 's" where
  "find_or_create_conversation c contact_id s =
    (case do_json c ''GET''
        (''/conversations/search?'' @
         values_encode [(''locationId'', hc_location c), (''contactId'', contact_id), (''limit'', ''1'')])
        None (decoding conversation_ids []) s of
       (Inl e, s1) \<Rightarrow> (Inl e, s1)
     | (Inr found, s1) \<Rightarrow>
         (case found of
            (x # xs) # _ \<Rightarrow> (Inr (x # xs), s1)
          | _ \<Rightarrow>
              (case do_json c ''POST'' ''/conversations/''
                  (Some (js_map [(''locationId'', JsStr (hc_location c)), (''contactId'', JsStr contact_id)]))
                  (decoding (created_id_fields ''conversation'') ([], [])) s1 of
                 (Inl e, s2) \<Rightarrow> (Inl e, s2)
               | (Inr ids, s2) \<Rightarrow> (created_id ''conversation'' ids, s2))))"

section \<open>Messages\<close>

definition inbound_body :: "'s highlevel_client \<Rightarrow> inbound \<Rightarrow> string \<Rightarrow> string \<Rightarrow> time \<Rightarrow> json" where
  "inbound_body c i contact_id conversation_id now =
    js_map ([(''type'', JsStr ''SMS''), (''message'', JsStr (ib_text i)), (''conversationId'', JsStr conversation_id),
       (''contactId'', JsStr contact_id), (''direction'', JsStr ''inbound''),
       (''altId'', JsStr (ib_provider_event_id i)), (''date'', JsStr (format_rfc3339_nano now))] @
      (if hc_provider_id c \<noteq> [] then [(''conversationProviderId'', JsStr (hc_provider_id c))] else []))"

definition hc_forward_inbound :: "'s highlevel_client \<Rightarrow> inbound \<Rightarrow> 's \<Rightarrow> unit result \<times> 's" where
  "hc_forward_inbound c i s =
    (case (if ib_contact_id i = [] then find_contact_id c (ib_from i) s else (Inr (ib_contact_id i), s)) of
       (Inl e, s1) \<Rightarrow> (Inl e, s1)
     | (Inr contact_id, s1) \<Rightarrow>
         (case (if ib_conversation_id i = [] then find_or_create_conversation c contact_id s1
                else (Inr (ib_conversation_id i), s1)) of
            (Inl e, s2) \<Rightarrow> (Inl e, s2)
          | (Inr conversation_id, s2) \<Rightarrow>
              do_json c ''POST'' ''/conversations/messages/inbound''
                (Some (inbound_body c i contact_id conversation_id (hc_now c s2))) discard s2))"

definition hc_promote_inbound :: "'s highlevel_client \<Rightarrow> inbound \<Rightarrow> 's \<Rightarrow> unit result \<times> 's" where
  "hc_promote_inbound c i s =
    (let loc = trim_space (ib_location_id i) in
     if loc = [] then (Inl (ErrMsg ''HighLevel location id is required'' []), s)
     else case find_or_create_contact (for_location c loc) (ib_from i) s of
       (Inl e, s1) \<Rightarrow> (Inl e, s1)
     | (Inr contact_id, s1) \<Rightarrow>
         hc_forward_inbound (for_location c loc) (i\<lparr>ib_contact_id := contact_id, ib_location_id := loc\<rparr>) s1)"

definition hc_set_sms_dnd :: "'s highlevel_client \<Rightarrow> string \<Rightarrow> 's \<Rightarrow> unit result \<times> 's" where
  "hc_set_sms_dnd c phone s =
    (case find_contact_id c phone s of
       (Inl e, s1) \<Rightarrow> (Inl e, s1)
     | (Inr contact_id, s1) \<Rightarrow>
         do_json c ''PUT'' (''/contacts/'' @ path_escape contact_id)
           (Some (js_map [(''dndSettings'', js_map [(''sms'', js_map
              [(''status'', JsStr ''active''), (''message'', JsStr ''Opted out by SMS''), (''code'', JsStr ''OPTED_OUT'')])])]))
           discard s1)"

definition message_statuses :: "string list" where
  "message_statuses = [''pending'', ''delivered'', ''failed'', ''read'']"

definition hc_update_message_status :: "'s highlevel_client \<Rightarrow> string \<Rightarrow> string \<Rightarrow> 's \<Rightarrow> unit result \<times> 's" where
  "hc_update_message_status c message_id status s =
    (if status \<notin> set message_statuses then (Inl (ErrMsg ''unsupported HighLevel message status %q'' [status]), s)
     else do_json c ''PUT'' (''/conversations/messages/'' @ path_escape message_id @ ''/status'')
       (Some (js_map [(''status'', JsStr status)])) discard s)"

section \<open>Actions of the CRM\<close>

definition create_note :: "'s highlevel_client \<Rightarrow> string \<Rightarrow> string \<Rightarrow> 's \<Rightarrow> unit result \<times> 's" where
  "create_note c contact_id body =
    do_json c ''POST'' (''/contacts/'' @ path_escape contact_id @ ''/notes'') (Some (js_map [(''body'', JsStr body)])) discard"

definition crm_note :: "crm_job \<Rightarrow> string" where
  "crm_note j =
    ''Workflow CRM action: '' @ cj_action j @
    (if trim_space (cj_reply j) \<noteq> [] then CHR 0x0A # ''Reply: '' @ cj_reply j else []) @
    (if trim_space (cj_body j) \<noteq> [] then CHR 0x0A # cj_body j else [])"

definition task_body :: "crm_job \<Rightarrow> time \<Rightarrow> json" where
  "task_body j now =
    (let title = trim_space (cj_body j) in
     js_map [(''title'', JsStr (if title = [] then ''Follow up'' else title)), (''body'', JsStr (cj_body j)),
       (''dueDate'', JsStr (format_rfc3339 (now + 24 * hour))), (''completed'', JsBool False)])"

definition archive_conversation :: "'s highlevel_client \<Rightarrow> crm_job \<Rightarrow> string \<Rightarrow> 's \<Rightarrow> unit result \<times> 's" where
  "archive_conversation c j contact_id s =
    (case find_or_create_conversation c contact_id s of
       (Inl e, s1) \<Rightarrow> (Inl e, s1)
     | (Inr conversation_id, s1) \<Rightarrow>
         (case do_json c ''PUT'' (''/conversations/'' @ path_escape conversation_id)
             (Some (js_map [(''locationId'', JsStr (first_non_empty [cj_location_id j, hc_location c])),
                (''unreadCount'', JsNum ''0'')])) discard s1 of
            (Inl e, s2) \<Rightarrow> (Inl e, s2)
          | (Inr _, s2) \<Rightarrow> create_note c contact_id ''Conversation archived after negative reply.'' s2))"

definition hc_execute_crm :: "'s highlevel_client \<Rightarrow> crm_job \<Rightarrow> 's \<Rightarrow> unit result \<times> 's" where
  "hc_execute_crm c j s =
    (case (if cj_contact_id j = [] \<and> cj_phone j \<noteq> [] then find_contact_id c (cj_phone j) s
           else (Inr (cj_contact_id j), s)) of
       (Inl e, s1) \<Rightarrow> (Inl e, s1)
     | (Inr contact_id, s1) \<Rightarrow>
         if contact_id = [] then (Inl (ErrMsg ''HighLevel contact id is required for CRM action %q'' [cj_action j]), s1)
         else if cj_action j = ''create_task'' then
           do_json c ''POST'' (''/contacts/'' @ path_escape contact_id @ ''/tasks'') (Some (task_body j (hc_now c s1))) discard s1
         else if cj_action j = ''archive_conversation'' then archive_conversation c j contact_id s1
         else create_note c contact_id (crm_note j) s1)"

end
