(* ===== verification/HighLevelChats.thy ===== *)
theory HighLevelChats
  imports HighLevel
begin

text \<open>
  The second half of \<^verbatim>\<open>internal/provider/highlevel.go\<close>: searching contacts, the contact's sending
  number and the recent conversations, and the client as an implementation of the interface.
\<close>

section \<open>Searching contacts\<close>

record found_contact =
  fc_id :: string
  fc_phone :: string
  fc_first :: string
  fc_last :: string
  fc_name :: string

definition found_contact_fields :: "(string \<times> found_contact list field) list" where
  "found_contact_fields =
    [(''contacts'', list_field \<lparr>fc_id = [], fc_phone = [], fc_first = [], fc_last = [], fc_name = []\<rparr>
       (struct_field False
         [(''ID'', str_field (\<lambda>x p. p\<lparr>fc_id := x\<rparr>)), (''Phone'', str_field (\<lambda>x p. p\<lparr>fc_phone := x\<rparr>)),
          (''FirstName'', str_field (\<lambda>x p. p\<lparr>fc_first := x\<rparr>)), (''LastName'', str_field (\<lambda>x p. p\<lparr>fc_last := x\<rparr>)),
          (''Name'', str_field (\<lambda>x p. p\<lparr>fc_name := x\<rparr>))])
       (\<lambda>xs _. xs))]"

definition hit_of :: "found_contact \<Rightarrow> contact_hit" where
  "hit_of x =
    (let name = trim_space (fc_name x) in
     \<lparr>ch_id = fc_id x, ch_name = (if name = [] then trim_space (fc_first x @ '' '' @ fc_last x) else name),
      ch_phone = fc_phone x\<rparr>)"

definition hc_search_contacts :: "'s highlevel_client \<Rightarrow> string \<Rightarrow> 's \<Rightarrow> contact_hit list result \<times> 's" where
  "hc_search_contacts c query0 s =
    (let query = trim_space query0 in
     if query = [] \<or> hc_location c = [] then (Inr [], s)
     else case do_json c ''GET''
         (''/contacts/?'' @ values_encode [(''locationId'', hc_location c), (''query'', query), (''limit'', ''8'')])
         None (decoding found_contact_fields []) s of
       (Inl e, s1) \<Rightarrow> (Inl e, s1)
     | (Inr xs, s1) \<Rightarrow> (Inr (map hit_of xs), s1))"

section \<open>The contact's sending number\<close>

definition is_sending_number_field :: "string \<Rightarrow> string \<Rightarrow> bool" where
  "is_sending_number_field name0 key0 =
    (let name = to_lower (join '' '' (str_fields name0)); key = to_lower (trim_space key0) in
     name = ''sms from number'' \<or> key = ''contact.sms_from_number'' \<or> has_suffix ''.sms_from_number'' key)"

record custom_field =
  cf_id :: string
  cf_name :: string
  cf_key :: string

definition custom_fields :: "(string \<times> custom_field list field) list" where
  "custom_fields =
    [(''customFields'', list_field \<lparr>cf_id = [], cf_name = [], cf_key = []\<rparr>
       (struct_field False
         [(''id'', str_field (\<lambda>x p. p\<lparr>cf_id := x\<rparr>)), (''name'', str_field (\<lambda>x p. p\<lparr>cf_name := x\<rparr>)),
          (''fieldKey'', str_field (\<lambda>x p. p\<lparr>cf_key := x\<rparr>))])
       (\<lambda>xs _. xs))]"

definition contact_values :: "(string \<times> (string \<times> json option) list field) list" where
  "contact_values =
    [(''contact'', struct_field False
       [(''customFields'', list_field ([], None)
          (struct_field False
            [(''id'', str_field (\<lambda>x (_, v). (x, v))), (''value'', raw_field (\<lambda>x (i, _). (i, x)))])
          (\<lambda>xs _. xs))])]"

text \<open>The first value of the field that is a string; a missing value is not, and \<open>null\<close> is empty.\<close>

fun field_value :: "string \<Rightarrow> (string \<times> json option) list \<Rightarrow> string" where
  "field_value i [] = []"
| "field_value i ((j, v) # vs) =
    (if j \<noteq> i then field_value i vs
     else case v of
       Some (JsStr x) \<Rightarrow> trim_space x
     | Some JsNull \<Rightarrow> []
     | _ \<Rightarrow> field_value i vs)"

definition hc_sending_number_for :: "'s highlevel_client \<Rightarrow> string \<Rightarrow> string \<Rightarrow> 's \<Rightarrow> string result \<times> 's" where
  "hc_sending_number_for c0 loc0 contact0 s =
    (let contact_id = trim_space contact0; loc = trim_space loc0 in
     if contact_id = [] \<or> loc = [] then (Inr [], s)
     else let c = for_location c0 loc in
       case do_json c ''GET'' (''/locations/'' @ path_escape loc @ ''/customFields'') None (decoding custom_fields []) s of
         (Inl e, s1) \<Rightarrow> (Inl e, s1)
       | (Inr known, s1) \<Rightarrow>
           (let field_id = (case find (\<lambda>f. is_sending_number_field (cf_name f) (cf_key f)) known of
                None \<Rightarrow> [] | Some f \<Rightarrow> cf_id f) in
            if field_id = [] then (Inr [], s1)
            else case do_json c ''GET'' (''/contacts/'' @ path_escape contact_id) None (decoding contact_values []) s1 of
              (Inl e, s2) \<Rightarrow> (Inl e, s2)
            | (Inr vs, s2) \<Rightarrow> (Inr (field_value field_id vs), s2)))"

definition hc_sending_number :: "'s highlevel_client \<Rightarrow> string \<Rightarrow> 's \<Rightarrow> string result \<times> 's" where
  "hc_sending_number c contact_id = hc_sending_number_for c (hc_location c) contact_id"

section \<open>Recent conversations\<close>

definition is_e164 :: "string \<Rightarrow> bool" where
  "is_e164 v \<longleftrightarrow> 8 \<le> length v \<and> length v \<le> 16 \<and> hd v = CHR ''+'' \<and> list_all is_digit (tl v)"

text \<open>The time in milliseconds of a number, a string of digits, or a timestamp.\<close>

definition provider_time :: "json option \<Rightarrow> int" where
  "provider_time raw =
    (case raw of
       Some (JsNum n) \<Rightarrow>
         (case parse_float n of
            None \<Rightarrow> 0
          | Some x \<Rightarrow> int64_of_float (if x < 1000000000000 then float_round (x * 1000) else x))
     | Some (JsStr v) \<Rightarrow>
         (case parse_int64 v of
            Some n \<Rightarrow> if n < 1000000000000 then sint (word_of_int (n * 1000) :: 64 word) else n
          | None \<Rightarrow> (case time_parse v of None \<Rightarrow> 0 | Some t \<Rightarrow> unix_milli t))
     | _ \<Rightarrow> 0)"

record chat_summary =
  sm_id :: string
  sm_contact :: string
  sm_phone :: string
  sm_body :: string
  sm_direction :: string
  sm_date :: "json option"

definition summary_fields :: "(string \<times> chat_summary list field) list" where
  "summary_fields =
    [(''conversations'', list_field \<lparr>sm_id = [], sm_contact = [], sm_phone = [], sm_body = [], sm_direction = [], sm_date = None\<rparr>
       (struct_field False
         [(''ID'', str_field (\<lambda>x p. p\<lparr>sm_id := x\<rparr>)), (''ContactID'', str_field (\<lambda>x p. p\<lparr>sm_contact := x\<rparr>)),
          (''Phone'', str_field (\<lambda>x p. p\<lparr>sm_phone := x\<rparr>)), (''LastMessageBody'', str_field (\<lambda>x p. p\<lparr>sm_body := x\<rparr>)),
          (''LastMessageDirection'', str_field (\<lambda>x p. p\<lparr>sm_direction := x\<rparr>)),
          (''lastMessageDate'', raw_field (\<lambda>x p. p\<lparr>sm_date := x\<rparr>))])
       (\<lambda>xs _. xs))]"

text \<open>\<open>hm_attachments\<close> is \<open>None\<close> for a nil slice.\<close>

record chat_message =
  hm_id :: string
  hm_alt_id :: string
  hm_body :: string
  hm_direction :: string
  hm_from :: string
  hm_to :: string
  hm_date :: "json option"
  hm_attachments :: "string list option"

definition attachments_field :: "chat_message field" where
  "attachments_field v p =
    (case v of
       JsNull \<Rightarrow> (p\<lparr>hm_attachments := None\<rparr>, True)
     | _ \<Rightarrow> list_field [] (str_field (\<lambda>x _. x)) (\<lambda>xs p. p\<lparr>hm_attachments := Some xs\<rparr>) v p)"

definition chat_message_fields :: "(string \<times> chat_message field) list" where
  "chat_message_fields =
    [(''ID'', str_field (\<lambda>x p. p\<lparr>hm_id := x\<rparr>)), (''AltID'', str_field (\<lambda>x p. p\<lparr>hm_alt_id := x\<rparr>)),
     (''Body'', str_field (\<lambda>x p. p\<lparr>hm_body := x\<rparr>)), (''Direction'', str_field (\<lambda>x p. p\<lparr>hm_direction := x\<rparr>)),
     (''From'', str_field (\<lambda>x p. p\<lparr>hm_from := x\<rparr>)), (''To'', str_field (\<lambda>x p. p\<lparr>hm_to := x\<rparr>)),
     (''dateAdded'', raw_field (\<lambda>x p. p\<lparr>hm_date := x\<rparr>)), (''attachments'', attachments_field)]"

definition zero_chat_message :: chat_message where
  "zero_chat_message = \<lparr>hm_id = [], hm_alt_id = [], hm_body = [], hm_direction = [], hm_from = [], hm_to = [],
     hm_date = None, hm_attachments = None\<rparr>"

definition history_fields :: "(string \<times> chat_message list field) list" where
  "history_fields =
    [(''messages'', struct_field False
       [(''messages'', list_field zero_chat_message (struct_field False chat_message_fields) (\<lambda>xs _. xs))])]"

definition message_numbers :: "chat_message \<Rightarrow> string \<times> string" where
  "message_numbers m = (if to_lower (hm_direction m) = ''inbound'' then (hm_from m, hm_to m) else (hm_to m, hm_from m))"

definition media_json :: "chat_message \<Rightarrow> string" where
  "media_json m = json_encode (case hm_attachments m of None \<Rightarrow> JsNull | Some xs \<Rightarrow> JsArr (map JsStr xs))"

definition message_of :: "chat_message \<Rightarrow> conversation_message" where
  "message_of m = \<lparr>cm_id = hm_id m, cm_provider_message_id = first_non_empty [hm_alt_id m, hm_id m],
     cm_direction = to_lower (hm_direction m), cm_contact_number = fst (message_numbers m),
     cm_telnyx_number = snd (message_numbers m), cm_body = hm_body m, cm_media_json = media_json m,
     cm_occurred_at = provider_time (hm_date m)\<rparr>"

text \<open>One turn of the loop over the messages.\<close>

definition add_message :: "chat_message \<Rightarrow> conversation \<Rightarrow> conversation" where
  "add_message m v =
    (let (contact_number, telnyx_number) = message_numbers m in
     v\<lparr>cv_contact_number := (if cv_contact_number v = [] then contact_number else cv_contact_number v),
       cv_telnyx_number := (if cv_telnyx_number v = [] \<and> telnyx_number \<noteq> [] then telnyx_number else cv_telnyx_number v),
       cv_messages := cv_messages v @ [message_of m]\<rparr>)"

definition latest_first :: "conversation \<Rightarrow> conversation" where
  "latest_first v =
    (case cv_messages v of
       [] \<Rightarrow> v
     | m # _ \<Rightarrow> v\<lparr>cv_last_body := cm_body m, cv_last_direction := cm_direction m, cv_last_at := cm_occurred_at m\<rparr>)"

definition assemble :: "chat_summary \<Rightarrow> chat_message list \<Rightarrow> time \<Rightarrow> conversation" where
  "assemble x ms now =
    (let v0 = \<lparr>cv_contact_id = sm_contact x, cv_contact_number = sm_phone x, cv_telnyx_number = [], cv_last_body = sm_body x,
           cv_last_direction = to_lower (sm_direction x), cv_last_at = provider_time (sm_date x), cv_message_count = 0,
           cv_messages = []\<rparr>;
         v1 = fold add_message ms v0;
         v2 = latest_first (v1\<lparr>cv_message_count := int (length (cv_messages v1))\<rparr>);
         v3 = (if cv_last_at v2 = 0 then v2\<lparr>cv_last_at := unix_milli now\<rparr> else v2)
     in if cv_last_direction v3 \<noteq> ''outbound'' then v3\<lparr>cv_last_direction := ''inbound''\<rparr> else v3)"

definition resolve_number :: "'s highlevel_client \<Rightarrow> string \<Rightarrow> conversation \<Rightarrow> 's \<Rightarrow> conversation \<times> 's" where
  "resolve_number c loc v s =
    (if is_e164 (cv_telnyx_number v) then (v, s)
     else let (n, s1) = (if cv_contact_id v = [] then ([], s)
           else case hc_sending_number_for c loc (cv_contact_id v) s of
             (Inl _, s1) \<Rightarrow> ([], s1) | (Inr n, s1) \<Rightarrow> (if is_e164 n then n else [], s1))
       in (v\<lparr>cv_telnyx_number := (if n = [] \<and> is_e164 (hc_default_from c) then hc_default_from c else n)\<rparr>, s1))"

fun load_conversations :: "'s highlevel_client \<Rightarrow> string \<Rightarrow> chat_summary list \<Rightarrow> 's \<Rightarrow> conversation list result \<times> 's" where
  "load_conversations c loc [] s = (Inr [], s)"
| "load_conversations c loc (x # xs) s =
    (if sm_id x = [] then load_conversations c loc xs s
     else case do_json c ''GET'' (''/conversations/'' @ path_escape (sm_id x) @ ''/messages?'' @
           values_encode [(''limit'', ''30''), (''type'', ''TYPE_SMS'')]) None (decoding history_fields []) s of
       (Inl e, s1) \<Rightarrow> (Inl e, s1)
     | (Inr ms, s1) \<Rightarrow>
         (case resolve_number c loc (assemble x ms (hc_now c s1)) s1 of
            (v, s2) \<Rightarrow>
              (case load_conversations c loc xs s2 of
                 (Inl e, s3) \<Rightarrow> (Inl e, s3) | (Inr vs, s3) \<Rightarrow> (Inr (v # vs), s3))))"

definition hc_recent_conversations :: "'s highlevel_client \<Rightarrow> string \<Rightarrow> int \<Rightarrow> 's \<Rightarrow> conversation list result \<times> 's" where
  "hc_recent_conversations c0 loc0 limit0 s =
    (let loc = trim_space loc0; limit = (if limit0 \<le> 0 \<or> limit0 > 100 then 20 else limit0); c = for_location c0 loc in
     if loc = [] then (Inl (ErrMsg ''HighLevel location id is required'' []), s)
     else case do_json c ''GET'' (''/conversations/search?'' @
         values_encode [(''locationId'', loc), (''limit'', show_int limit), (''sort'', ''desc''),
           (''sortBy'', ''last_message_date''), (''status'', ''recents''), (''lastMessageType'', ''TYPE_SMS'')])
         None (decoding summary_fields []) s of
       (Inl e, s1) \<Rightarrow> (Inl e, s1)
     | (Inr xs, s1) \<Rightarrow> load_conversations c loc xs s1)"

section \<open>The interface\<close>

definition highlevel_client_api :: "'s highlevel_client \<Rightarrow> 's highlevel_api" where
  "highlevel_client_api c = \<lparr>
     hl_forward_inbound = hc_forward_inbound c, hl_promote_inbound = hc_promote_inbound c,
     hl_set_sms_dnd = hc_set_sms_dnd c, hl_update_message_status = hc_update_message_status c,
     hl_execute_crm = hc_execute_crm c, hl_search_contacts = hc_search_contacts c,
     hl_recent_conversations = hc_recent_conversations c, hl_sending_number = hc_sending_number c,
     hl_sending_number_for = Some (hc_sending_number_for c)\<rparr>"

end
