(* ===== verification/HighLevelSpec.thy ===== *)
theory HighLevelSpec
  imports HighLevelChats
begin

text \<open>
  What the HighLevel client guarantees: when a contact is created, that times are read alike from every
  representation, and the shape of the conversations it returns.
\<close>

section \<open>Creating contacts\<close>

text \<open>A server that also keeps the list of the requests it was sent.\<close>

definition recording :: "'s http \<Rightarrow> ('s \<times> http_request list) http" where
  "recording h q s = (case h q (fst s) of (r, s') \<Rightarrow> (r, (s', snd s @ [q])))"

definition contact_search :: "'s highlevel_client \<Rightarrow> string \<Rightarrow> http_request" where
  "contact_search c phone =
    json_request c ''GET''
      (''/contacts/search/duplicate?'' @ values_encode [(''locationId'', hc_location c), (''number'', phone)])
      None (hc_token c)"

definition contact_creation :: "'s highlevel_client \<Rightarrow> string \<Rightarrow> http_request" where
  "contact_creation c phone =
    json_request c ''POST'' ''/contacts/''
      (Some (js_map [(''locationId'', JsStr (hc_location c)), (''phone'', JsStr phone)])) (hc_token c)"

text \<open>With a fixed token a request is sent once.\<close>

lemma do_json_static:
  assumes "hc_tokens c = None" and "hc_token c \<noteq> []" and "hc_http c = recording h"
  shows "do_json c method path body reader s =
    (case h (json_request c method path body (hc_token c)) (fst s) of
       (reply, s1) \<Rightarrow>
         (case reply of Inl e \<Rightarrow> Inl e
          | Inr resp \<Rightarrow> if success_status (hp_status resp) then reader (hp_body resp) else Inl (status_error resp),
          (s1, snd s @ [json_request c method path body (hc_token c)])))"
  using assms
  by (simp add: do_json_def do_json_once_def access_token_def retries_def recording_def split: prod.split sum.split error.split)

lemma decoding_no_provider_error: "decoding fs zero body = Inl e \<Longrightarrow> \<not> is_provider_error e"
  by (auto simp: decoding_def is_provider_error_def split: option.splits)

lemma status_is_provider_error: "is_provider_error (status_error resp)"
  by (simp add: status_error_def is_provider_error_def)


section \<open>Times\<close>

lemma parse_int64_timestamp: "four_digit_year t \<Longrightarrow> parse_int64 (format_rfc3339_nano t) = None"
proof -
  obtain a b c d e f g h i j k l m n where s: "format_clock t =
    [a, b, c, d, CHR ''-'', e, f, CHR ''-'', g, h, CHR ''T'', i, j, CHR '':'', k, l, CHR '':'', m, n]"
    using format_clock_shape[of t] by blast
  have "\<not> is_digit CHR ''T''" by (simp add: is_digit_def)
  then show ?thesis by (simp add: parse_int64_def Let_def format_rfc3339_nano_def s)
qed

text \<open>
  C37. HighLevel's times mean the same in every form it sends them: from September 2001 on a number of
  milliseconds, the same number as a string, and the timestamp of that instant are all read as that
  number of milliseconds, and a number of seconds, as a number or a string, as a thousand times as many.
\<close>

theorem provider_time_forms:
  assumes "0 \<le> n" and "n < 2 ^ 53"
  shows "(n \<ge> 1000000000000 \<longrightarrow>
      provider_time (Some (JsNum (show_int n))) = n \<and> provider_time (Some (JsStr (show_int n))) = n) \<and>
    (n < 1000000000000 \<longrightarrow>
      provider_time (Some (JsNum (show_int n))) = n * 1000 \<and> provider_time (Some (JsStr (show_int n))) = n * 1000) \<and>
    (four_digit_year (n * 1000000) \<longrightarrow> provider_time (Some (JsStr (format_rfc3339_nano (n * 1000000)))) = n)"
proof -
  have n63: "n < 2 ^ 63" using assms(2) by simp
  have small: "float_round (of_int n * 1000) = of_int (n * 1000)" if "n < 1000000000000"
  proof -
    have "float_round (of_int (n * 1000)) = of_int (n * 1000)" using assms(1) that by (intro float_round_int) simp_all
    then show ?thesis by simp
  qed
  have wrap: "sint (word_of_int (n * 1000) :: 64 word) = n * 1000" if "n < 1000000000000"
    using assms(1) that by (intro sint_exact64) simp_all
  have num: "provider_time (Some (JsNum (show_int n))) = (if n < 1000000000000 then n * 1000 else n)"
  proof (cases "n < 1000000000000")
    case True
    then have "(of_int n :: rat) < 1000000000000" by (metis of_int_less_iff of_int_numeral)
    then show ?thesis
      using True small int64_of_int[of "n * 1000"] assms(1) by (simp add: provider_time_def parse_float_show[OF assms])
  next
    case False
    then have "\<not> (of_int n :: rat) < 1000000000000" by (metis of_int_less_iff of_int_numeral)
    then show ?thesis
      using False int64_of_int[OF assms(1) n63] by (simp add: provider_time_def parse_float_show[OF assms])
  qed
  have str: "provider_time (Some (JsStr (show_int n))) = (if n < 1000000000000 then n * 1000 else n)"
    using wrap by (simp add: provider_time_def parse_int64_show[OF assms(1) n63])
  have stamp: "provider_time (Some (JsStr (format_rfc3339_nano (n * 1000000)))) = n" if "four_digit_year (n * 1000000)"
    using that by (simp add: provider_time_def parse_int64_timestamp time_parse_format unix_milli_def)
  show ?thesis using num str stamp by simp
qed

section \<open>Conversations\<close>

definition well_formed_chat :: "conversation \<Rightarrow> bool" where
  "well_formed_chat v \<longleftrightarrow>
    (cv_telnyx_number v = [] \<or> is_e164 (cv_telnyx_number v)) \<and>
    (cv_last_direction v = ''inbound'' \<or> cv_last_direction v = ''outbound'') \<and>
    cv_message_count v = int (length (cv_messages v)) \<and>
    (case cv_messages v of [] \<Rightarrow> True | m # _ \<Rightarrow> cv_last_body v = cm_body m)"

lemma add_messages: "cv_messages (fold add_message ms v) = cv_messages v @ map message_of ms"
  by (induction ms arbitrary: v) (auto simp: add_message_def split: prod.split)

lemma assemble_props:
  "cv_messages (assemble x ms now) = map message_of ms"
  "cv_message_count (assemble x ms now) = int (length ms)"
  "cv_last_direction (assemble x ms now) \<in> {''inbound'', ''outbound''}"
  "ms \<noteq> [] \<Longrightarrow> cv_last_body (assemble x ms now) = hm_body (hd ms)"
  by (auto simp: assemble_def Let_def latest_first_def add_messages message_of_def split: list.splits)

lemma resolve_number_props:
  assumes "resolve_number c loc v s = (v', s')"
  shows "cv_telnyx_number v' = [] \<or> is_e164 (cv_telnyx_number v')"
    and "cv_messages v' = cv_messages v" "cv_message_count v' = cv_message_count v"
    and "cv_last_direction v' = cv_last_direction v" "cv_last_body v' = cv_last_body v"
  using assms by (auto simp: resolve_number_def Let_def split: if_splits prod.splits sum.splits)

lemma load_conversations_wf:
  "pred_sum (\<lambda>_. True) (list_all well_formed_chat) (fst (load_conversations c loc xs s))"
proof (induction c loc xs s rule: load_conversations.induct)
  case (2 c loc x xs s)
  show ?case
  proof (cases "sm_id x = []")
    case True
    then show ?thesis using 2(1) by simp
  next
    case False
    let ?get = "do_json c ''GET'' (''/conversations/'' @ path_escape (sm_id x) @ ''/messages?'' @
           values_encode [(''limit'', ''30''), (''type'', ''TYPE_SMS'')]) None (decoding history_fields []) s"
    obtain r s1 where g: "?get = (r, s1)" by fastforce
    show ?thesis
    proof (cases r)
      case (Inl e)
      then show ?thesis using False g by simp
    next
      case (Inr ms)
      obtain v s2 where v: "resolve_number c loc (assemble x ms (hc_now c s1)) s1 = (v, s2)" by fastforce
      obtain r' s3 where l: "load_conversations c loc xs s2 = (r', s3)" by fastforce
      have "well_formed_chat v"
        using resolve_number_props[OF v] assemble_props[where x = x and ms = ms and now = "hc_now c s1"]
        by (cases ms) (auto simp: well_formed_chat_def message_of_def)
      moreover have "pred_sum (\<lambda>_. True) (list_all well_formed_chat) r'"
        using 2(2)[OF False g[symmetric] Inr v[symmetric]] l by simp
      ultimately show ?thesis using False g Inr v l by (cases r') simp_all
    qed
  qed
qed simp

text \<open>
  C31. The conversations shown in Signal Desk are well formed whatever HighLevel answers: the number of
  ours is a valid one or absent, the last direction is one of the two, the message count is that of the
  listed messages, and the last text is that of the newest one.
\<close>

theorem recent_conversations_well_formed:
  "pred_sum (\<lambda>_. True) (list_all well_formed_chat) (fst (hc_recent_conversations c loc limit s))"
  using load_conversations_wf by (auto simp: hc_recent_conversations_def Let_def split: prod.split sum.split)

section \<open>Witnesses\<close>

definition silent :: "unit http" where
  "silent q s = (Inl ErrDB, s)"

definition sample_client :: "'s http \<Rightarrow> 's highlevel_client" where
  "sample_client h = \<lparr>hc_base_url = [], hc_token = ''pit'', hc_tokens = None, hc_location = ''loc'', hc_provider_id = [],
     hc_default_from = ''+13135550100'', hc_http = h, hc_now = (\<lambda>_. 0)\<rparr>"


theorem provider_time_witness:
  "provider_time (Some (JsStr (format_rfc3339_nano (1700000000000 * 1000000)))) = 1700000000000 \<and>
   provider_time (Some (JsNum (show_int 1700000000))) = 1700000000000"
proof -
  have "four_digit_year (1700000000000 * 1000000)" by code_simp
  then show ?thesis using provider_time_forms[of 1700000000000] provider_time_forms[of 1700000000] by simp
qed

end
