(* ===== verification/Startup.thy ===== *)
theory Startup
  imports Config Migrations HighLevelSpec AdminHandlers
begin

text \<open>
  \<^verbatim>\<open>cmd/api/main.go\<close> and \<^verbatim>\<open>cmd/worker/main.go\<close>: the application the two processes build from the
  configuration. The remote services, the clock and the cryptography are those of \<open>services\<close>; the token
  source of \<^verbatim>\<open>TokenSource\<close> is seen from HighLevel's state through \<open>sv_token\<close> and \<open>sv_refresh\<close>.
  The processes themselves are in \<open>Processes\<close>.
\<close>

record ('t, 'h) services =
  sv_telnyx_http :: "'t http"
  sv_highlevel_http :: "'h http"
  sv_token :: "string \<Rightarrow> 'h \<Rightarrow> string result \<times> 'h"
  sv_refresh :: "string \<Rightarrow> 'h \<Rightarrow> string result \<times> 'h"
  sv_now :: "'h \<Rightarrow> time"
  sv_crypto :: crypto
  sv_runtime :: runtime
  sv_post :: "string \<Rightarrow> (string \<times> string) list \<Rightarrow> string \<Rightarrow> int result"
  sv_range_keys :: "string list \<Rightarrow> string list"

section \<open>Building the clients\<close>

definition oauth_of :: "config \<Rightarrow> oauth_client" where
  "oauth_of c = \<lparr>oc_base_url = cfg_hl_base_url c, oc_client_id = cfg_client_id c, oc_client_secret = cfg_client_secret c,
     oc_redirect_uri = cfg_redirect_uri c, oc_user_type = cfg_user_type c\<rparr>"

definition telnyx_of :: "config \<Rightarrow> telnyx_client" where
  "telnyx_of c = \<lparr>tc_base_url = cfg_telnyx_base_url c, tc_token = cfg_telnyx_token c, tc_profile = cfg_telnyx_profile c\<rparr>"

definition highlevel_of :: "('t, 'h) services \<Rightarrow> config \<Rightarrow> 'h highlevel_client" where
  "highlevel_of sv c = \<lparr>hc_base_url = cfg_hl_base_url c, hc_token = cfg_hl_token c,
     hc_tokens = Some (SourceTokens (cfg_hl_location c) (sv_token sv) (sv_refresh sv)),
     hc_location = cfg_hl_location c, hc_provider_id = cfg_hl_provider_id c, hc_default_from = cfg_from c,
     hc_http = sv_highlevel_http sv, hc_now = sv_now sv\<rparr>"

text \<open>The published catalogue as the association list of the application.\<close>

definition workflow_list :: "(string \<rightharpoonup> defn) \<Rightarrow> (string \<times> defn) list" where
  "workflow_list m = concat (map (\<lambda>d. case m (d_key d) of None \<Rightarrow> [] | Some e \<Rightarrow> [(d_key d, e)]) legacy_catalog)"

section \<open>The two processes\<close>

definition api_app :: "('t, 'h) services \<Rightarrow> config \<Rightarrow> ('t, 'h) app result" where
  "api_app sv c =
    (case enabled_catalog (sv_range_keys sv) (cfg_workflow_keys c) of
       Inl e \<Rightarrow> Inl e
     | Inr workflows \<Rightarrow>
         (case official_highlevel_public_key of
            Inl e \<Rightarrow> Inl e
          | Inr key \<Rightarrow> Inr \<lparr>
              ap_has_store = True,
              ap_telnyx = Some (telnyx_client_api (sv_telnyx_http sv) (telnyx_of c)),
              ap_highlevel = Some (highlevel_client_api (highlevel_of sv c)),
              ap_telnyx_client = Some (telnyx_of c), ap_telnyx_http = sv_telnyx_http sv,
              ap_oauth = Some (oauth_of c), ap_oauth_http = sv_highlevel_http sv,
              ap_voice_credential = cfg_voice_credential c,
              ap_webhook_key = cfg_webhook_key c, ap_highlevel_webhook_key = key,
              ap_hl_secret = cfg_hl_secret c, ap_admin_token = cfg_admin_token c,
              ap_signal_desk_token = cfg_signal_desk_token c, ap_signal_desk_url = cfg_signal_desk_url c,
              ap_location = cfg_hl_location c, ap_allowed = cfg_allowed c, ap_from = cfg_from c,
              ap_enable_sending = cfg_enable_sending c, ap_workflows = workflow_list workflows,
              ap_crypto = sv_crypto sv, ap_runtime = sv_runtime sv, ap_post = sv_post sv\<rparr>))"

text \<open>The worker leaves the fields that only handlers read at their zero values.\<close>

definition worker_app :: "('t, 'h) services \<Rightarrow> config \<Rightarrow> ('t, 'h) app result" where
  "worker_app sv c =
    (case enabled_catalog (sv_range_keys sv) (cfg_workflow_keys c) of
       Inl e \<Rightarrow> Inl e
     | Inr workflows \<Rightarrow> Inr \<lparr>
         ap_has_store = True,
         ap_telnyx = Some (telnyx_client_api (sv_telnyx_http sv) (telnyx_of c)),
         ap_highlevel = Some (highlevel_client_api ((highlevel_of sv c)\<lparr>hc_default_from := []\<rparr>)),
         ap_telnyx_client = Some (telnyx_of c), ap_telnyx_http = sv_telnyx_http sv,
         ap_oauth = None, ap_oauth_http = sv_highlevel_http sv, ap_voice_credential = [],
         ap_webhook_key = [], ap_highlevel_webhook_key = [], ap_hl_secret = [], ap_admin_token = [],
         ap_signal_desk_token = [], ap_signal_desk_url = [], ap_location = [], ap_allowed = [], ap_from = [],
         ap_enable_sending = cfg_enable_sending c, ap_workflows = workflow_list workflows,
         ap_crypto = sv_crypto sv, ap_runtime = sv_runtime sv, ap_post = sv_post sv\<rparr>)"

section \<open>Properties\<close>

text \<open>
  A process that starts is configured completely. With sending enabled it has a Telnyx key of 32
  bytes for the webhooks, a token, a messaging profile and a valid number to send from, and everything
  the connection to HighLevel needs, so that it is ready as soon as the operator does not pause it;
  without, it starts with whatever there is, but never with a malformed webhook key. The locations
  accepted in requests are distinct, not blank, and include the configured one.
\<close>

lemma startup_complete:
  assumes "load env = Inr c" and "api_app sv c = Inr a"
  shows "(ap_enable_sending a \<longrightarrow>
      ready_to_send a False \<and> length (ap_webhook_key a) = public_key_size \<and> validate_e164 (ap_from a) = None \<and>
      (\<exists>tc. ap_telnyx_client a = Some tc \<and> tc_token tc \<noteq> [] \<and> tc_profile tc \<noteq> []) \<and>
      (\<exists>oc. ap_oauth a = Some oc \<and> oc_client_id oc \<noteq> [] \<and> oc_client_secret oc \<noteq> [] \<and> oc_redirect_uri oc \<noteq> []) \<and>
      fst (allows_location a (ap_location a) w)) \<and>
    (ap_webhook_key a = [] \<or> length (ap_webhook_key a) = public_key_size) \<and>
    distinct (ap_allowed a) \<and> [] \<notin> set (ap_allowed a) \<and>
    (trim_space (ap_location a) \<noteq> [] \<longrightarrow> trim_space (ap_location a) \<in> set (ap_allowed a)) \<and>
    ap_enable_sending a = parse_bool (env ''ENABLE_SENDING'')"
proof -
  obtain key where key: "webhook_key (env ''TELNYX_PUBLIC_KEY'') = Inr key" and c: "c = read_config env key"
    and ok: "cfg_enable_sending c \<longrightarrow> sending_error c = None" using assms(1) by (auto simp: load_Inr)
  have a: "ap_webhook_key a = cfg_webhook_key c" "ap_from a = cfg_from c" "ap_telnyx_client a = Some (telnyx_of c)"
    "ap_oauth a = Some (oauth_of c)" "ap_location a = cfg_hl_location c" "ap_allowed a = cfg_allowed c"
    "ap_enable_sending a = cfg_enable_sending c"
    using assms(2) by (auto simp: api_app_def split: sum.splits)
  have k: "cfg_webhook_key c = key" "cfg_enable_sending c = parse_bool (env ''ENABLE_SENDING'')"
    "cfg_hl_location c = env ''HIGHLEVEL_LOCATION_ID''"
    "cfg_allowed c = unique_ids (env ''HIGHLEVEL_LOCATION_ID'' # split_on CHR '','' (env ''HIGHLEVEL_ALLOWED_LOCATION_IDS''))"
    by (simp_all add: c read_config_def)
  have "cfg_from c \<noteq> []" if "validate_e164 (cfg_from c) = None"
    using that by (auto simp: validate_e164_def split: if_splits)
  then show ?thesis
    unfolding a using ok webhook_key_size[OF key] k(2)
    by (auto simp: ready_to_send_def a k(1) k(3) k(4)[folded k(3)] sending_error_None telnyx_of_def oauth_of_def
        allows_location_def unique_ids_props)
qed

definition sample_env :: "string \<Rightarrow> string" where
  "sample_env k = (case map_of
     [(''DATABASE_URL'', ''postgres://db''), (''ENABLE_SENDING'', ''true''),
      (''TELNYX_PUBLIC_KEY'', ''AAAAAAAAAAAAAAAAAAAAAAAAAAAAAAAAAAAAAAAAAAA=''),
      (''TELNYX_API_KEY'', ''key''), (''TELNYX_MESSAGING_PROFILE_ID'', ''profile''), (''TELNYX_FROM_NUMBER'', ''+13135550100''),
      (''HIGHLEVEL_CLIENT_ID'', ''id''), (''HIGHLEVEL_CLIENT_SECRET'', ''secret''),
      (''HIGHLEVEL_REDIRECT_URI'', ''https://app/callback''), (''HIGHLEVEL_LOCATION_ID'', ''loc''),
      (''HIGHLEVEL_CONVERSATION_PROVIDER_ID'', ''prov''), (''HIGHLEVEL_ALLOWED_LOCATION_IDS'', ''loc2, loc,'')] k of
     None \<Rightarrow> [] | Some v \<Rightarrow> v)"

definition sample_services :: "(unit, unit) services" where
  "sample_services = \<lparr>sv_telnyx_http = silent, sv_highlevel_http = silent, sv_token = (\<lambda>_ s. (Inl ErrDB, s)),
     sv_refresh = (\<lambda>_ s. (Inl ErrDB, s)), sv_now = (\<lambda>_. 0),
     sv_crypto = \<lparr>cr_ed25519_verify = (\<lambda>_ _ _. False), cr_hmac_sha256 = (\<lambda>_ m. m)\<rparr>,
     sv_runtime = \<lparr>rt_load_location = (\<lambda>_. None), rt_range_vars = (\<lambda>vs. vs)\<rparr>, sv_post = (\<lambda>_ _ _. Inr 200),
     sv_range_keys = (\<lambda>ks. ks)\<rparr>"

lemma sample_config:
  "webhook_key (sample_env ''TELNYX_PUBLIC_KEY'') = Inr (replicate 32 CHR 0x00)"
  "sending_error (read_config sample_env (replicate 32 CHR 0x00)) = None"
  "cfg_enable_sending (read_config sample_env (replicate 32 CHR 0x00))"
  "cfg_workflow_keys (read_config sample_env (replicate 32 CHR 0x00)) = []"
  "sample_env ''DATABASE_URL'' \<noteq> []"
  by code_simp+

lemma sample_configured:
  "\<exists>c a. load sample_env = Inr c \<and> api_app sample_services c = Inr a \<and> ap_enable_sending a"
proof -
  let ?c = "read_config sample_env (replicate 32 CHR 0x00)"
  have l: "load sample_env = Inr ?c" using sample_config by (simp add: load_def Let_def)
  obtain k where k: "official_highlevel_public_key = Inr k" using official_key_ok by blast
  have "enable_all [] legacy_catalog Map.empty = Inr ([], Map.empty ++ map_of (map (mark_enabled []) legacy_catalog))"
    using enable_all_Inr[of legacy_catalog "[]" Map.empty] legacy_catalog_keys by simp
  then have "\<exists>m. enabled_catalog (sv_range_keys sample_services) (cfg_workflow_keys ?c) = Inr m"
    by (simp add: sample_config(4) sample_services_def enabled_catalog_def)
  then obtain a where a: "api_app sample_services ?c = Inr a" by (auto simp: api_app_def k)
  then have "ap_enable_sending a" using sample_config(3) by (auto simp: api_app_def split: sum.splits)
  then show ?thesis using l a by blast
qed

end
