(* ===== verification/Processes.thy ===== *)
theory Processes
  imports Startup HandlerSafety
begin

text \<open>
  \<open>main\<close> of \<^verbatim>\<open>cmd/api/main.go\<close> and \<^verbatim>\<open>cmd/worker/main.go\<close>: what a process does before it serves, and the four
  loops the worker then runs. \<open>connect\<close> says whether \<open>pgxpool.New\<close> accepts the database's URL; \<open>None\<close> is
  \<open>os.Exit(1)\<close>. What \<open>http.Server\<close> and the signals do is not modelled: the server answers each request by
  \<open>serve\<close>, and a signal ends the loops between two passes.
\<close>

section \<open>Starting\<close>

definition env_default :: "(string \<Rightarrow> string) \<Rightarrow> string \<Rightarrow> string \<Rightarrow> string" where
  "env_default env k d = (if env k \<noteq> [] then env k else d)"

record ('t, 'h) api_server =
  srv_addr :: string
  srv_app :: "('t, 'h) app"

text \<open>The part both processes have in common: configuration, database, migrations.\<close>

definition prepare ::
  "(string \<Rightarrow> bool) \<Rightarrow> (string \<Rightarrow> 's \<Rightarrow> 's result) \<Rightarrow> (string \<Rightarrow> string) \<Rightarrow> 's migrator \<Rightarrow> config option \<times> 's migrator" where
  "prepare connect exec env m =
    (case load env of
       Inl _ \<Rightarrow> (None, m)
     | Inr c \<Rightarrow>
         if \<not> connect (cfg_database_url c) then (None, m)
         else (case migrate exec m of
             (Inl _, m1) \<Rightarrow> (None, m1)
           | (Inr _, m1) \<Rightarrow> (Some c, m1)))"

definition start_api ::
  "('t, 'h) services \<Rightarrow> (string \<Rightarrow> bool) \<Rightarrow> (string \<Rightarrow> 's \<Rightarrow> 's result) \<Rightarrow> (string \<Rightarrow> string) \<Rightarrow> 's migrator \<Rightarrow>
    ('t, 'h) api_server option \<times> 's migrator" where
  "start_api sv connect exec env m =
    (case prepare connect exec env m of
       (None, m1) \<Rightarrow> (None, m1)
     | (Some c, m1) \<Rightarrow>
         (case api_app sv c of
            Inl _ \<Rightarrow> None
          | Inr a \<Rightarrow> Some \<lparr>srv_addr = env_default env ''HTTP_ADDR'' '':8080'', srv_app = a\<rparr>, m1))"

definition start_worker ::
  "('t, 'h) services \<Rightarrow> (string \<Rightarrow> bool) \<Rightarrow> (string \<Rightarrow> 's \<Rightarrow> 's result) \<Rightarrow> (string \<Rightarrow> string) \<Rightarrow> 's migrator \<Rightarrow>
    ('t, 'h) app option \<times> 's migrator" where
  "start_worker sv connect exec env m =
    (case prepare connect exec env m of
       (None, m1) \<Rightarrow> (None, m1)
     | (Some c, m1) \<Rightarrow> (case worker_app sv c of Inl _ \<Rightarrow> None | Inr a \<Rightarrow> Some a, m1))"

section \<open>The worker's loops\<close>

text \<open>The four goroutines of the worker, and a schedule of their passes. What one of them does during a
  pass of another is part of the script of that pass, like the statements of other processes.\<close>

datatype worker_loop = WorkflowLoop | CRMLoop | InboundLoop | OutboundLoop

definition loop_pass :: "('t, 'h) app \<Rightarrow> worker_loop \<Rightarrow> ('t, 'h) world \<Rightarrow> ('t, 'h) world" where
  "loop_pass a l w =
    (case l of
       WorkflowLoop \<Rightarrow> run_workflow_worker a 1 w
     | CRMLoop \<Rightarrow> run_crm_worker a 1 w
     | InboundLoop \<Rightarrow> run_inbound_worker a 1 w
     | OutboundLoop \<Rightarrow> (case ap_telnyx a of None \<Rightarrow> w | Some tx \<Rightarrow> run_worker a tx 1 w))"

definition worker_process :: "('t, 'h) app \<Rightarrow> worker_loop list \<Rightarrow> ('t, 'h) world \<Rightarrow> ('t, 'h) world" where
  "worker_process a schedule w = fold (loop_pass a) schedule w"

lemma loop_pass_run: "system_run w v \<Longrightarrow> system_run w (loop_pass a l v)"
  by (cases l) (auto simp: loop_pass_def intro: system_run.step system_step.intros split: option.split)

lemma worker_process_run: "system_run w v \<Longrightarrow> system_run w (worker_process a schedule v)"
  unfolding worker_process_def by (rule fold_invariant[where P = "system_run w"]) (auto intro: loop_pass_run)

section \<open>What a process that serves has behind it\<close>

lemma prepare_files:
  assumes "after_files exec s n (mg_db m)"
  shows "\<exists>n' \<ge> n. after_files exec s n' (mg_db (snd (prepare connect exec env m))) \<and>
    (\<forall>c. fst (prepare connect exec env m) = Some c \<longrightarrow> load env = Inr c \<and> n' = length migration_files)"
proof (cases "\<exists>c. load env = Inr c \<and> connect (cfg_database_url c)")
  case False
  then have "prepare connect exec env m = (None, m)" by (auto simp: prepare_def split: sum.split)
  then show ?thesis using assms by auto
next
  case True
  then obtain c where c: "load env = Inr c" "connect (cfg_database_url c)" by blast
  obtain n' where "n \<le> n'" "after_files exec s n' (mg_db (snd (migrate exec m)))"
      "is_ok (fst (migrate exec m)) \<longrightarrow> n' = length migration_files"
    using migrate_files[OF assms] by blast
  then show ?thesis using c
    by (intro exI[of _ n']) (auto simp: prepare_def is_ok_def split: sum.splits prod.splits)
qed

lemma start_files:
  "snd (start_api sv connect exec env m) = snd (prepare connect exec env m)"
  "snd (start_worker sv connect exec env m) = snd (prepare connect exec env m)"
  by (simp_all add: start_api_def start_worker_def case_prod_beta split: option.split)

lemma start_Some:
  "fst (start_api sv connect exec env m) = Some srv \<longleftrightarrow>
    (\<exists>c a. fst (prepare connect exec env m) = Some c \<and> api_app sv c = Inr a \<and>
       srv = \<lparr>srv_addr = env_default env ''HTTP_ADDR'' '':8080'', srv_app = a\<rparr>)"
  "fst (start_worker sv connect exec env m) = Some b \<longleftrightarrow>
    (\<exists>c. fst (prepare connect exec env m) = Some c \<and> worker_app sv c = Inr b)"
  by (auto simp: start_api_def start_worker_def case_prod_beta split: option.split sum.split)

text \<open>What a serving process may rely on: the configuration is that of the environment, and with sending
  enabled nothing is missing.\<close>

definition api_configured :: "(string \<Rightarrow> string) \<Rightarrow> ('t, 'h) app \<Rightarrow> bool" where
  "api_configured env a \<longleftrightarrow>
    ap_enable_sending a = parse_bool (env ''ENABLE_SENDING'') \<and>
    (ap_webhook_key a = [] \<or> length (ap_webhook_key a) = public_key_size) \<and>
    distinct (ap_allowed a) \<and> [] \<notin> set (ap_allowed a) \<and>
    (trim_space (ap_location a) \<noteq> [] \<longrightarrow> trim_space (ap_location a) \<in> set (ap_allowed a)) \<and>
    (ap_enable_sending a \<longrightarrow>
      ready_to_send a False \<and> length (ap_webhook_key a) = public_key_size \<and> validate_e164 (ap_from a) = None \<and>
      (\<exists>tc. ap_telnyx_client a = Some tc \<and> tc_token tc \<noteq> [] \<and> tc_profile tc \<noteq> []) \<and>
      (\<exists>oc. ap_oauth a = Some oc \<and> oc_client_id oc \<noteq> [] \<and> oc_client_secret oc \<noteq> [] \<and> oc_redirect_uri oc \<noteq> []))"

definition worker_configured :: "(string \<Rightarrow> string) \<Rightarrow> ('t, 'h) app \<Rightarrow> bool" where
  "worker_configured env b \<longleftrightarrow>
    ap_enable_sending b = parse_bool (env ''ENABLE_SENDING'') \<and> ap_telnyx b \<noteq> None \<and> ap_highlevel b \<noteq> None \<and>
    (ap_enable_sending b \<longrightarrow> (\<exists>tc. ap_telnyx_client b = Some tc \<and> tc_token tc \<noteq> [] \<and> tc_profile tc \<noteq> []))"

lemma worker_complete: "load env = Inr c \<Longrightarrow> worker_app sv c = Inr b \<Longrightarrow> worker_configured env b"
  by (auto simp: worker_configured_def worker_app_def load_Inr read_config_def sending_error_None telnyx_of_def
      split: sum.splits)

lemma api_complete: "load env = Inr c \<Longrightarrow> api_app sv c = Inr a \<Longrightarrow> api_configured env a"
  using startup_complete unfolding api_configured_def by blast

lemma prepare_calm:
  assumes "after_files exec s n (mg_db m)" and "mg_script m = []" and "run_files exec migration_files s = Inr s'"
    and "load env = Inr c" and "connect (cfg_database_url c)"
  shows "fst (prepare connect exec env m) = Some c"
proof -
  have "fst (migrate exec m) = Inr ()"
    using apply_migrations_calm[OF assms(2,1), of 0] assms(2,3) by (simp add: migrate_def call_calm)
  then show ?thesis using assms(4,5) by (simp add: prepare_def case_prod_beta)
qed

text \<open>
  C15. A process serves only when everything it needs is in place. Whatever fails while it starts, the
  migrations that have run are the first ones, at least those that had run before; when the API listens
  or the worker runs, all of them have run and the configuration is complete: with sending enabled there
  are a webhook key of 32 bytes, a valid number to send from, a token, a messaging profile and the OAuth
  credentials. A start without failures, on a database the migrations apply to and with a
  configuration that can be read, does succeed, on the address asked for or else on port 8080.
\<close>

theorem process_start:
  assumes "after_files exec s n (mg_db m)"
  shows "(\<exists>n' \<ge> n. after_files exec s n' (mg_db (snd (start_api sv connect exec env m))) \<and>
      (\<forall>srv. fst (start_api sv connect exec env m) = Some srv \<longrightarrow>
         n' = length migration_files \<and> api_configured env (srv_app srv) \<and>
         srv_addr srv = (if env ''HTTP_ADDR'' = [] then '':8080'' else env ''HTTP_ADDR''))) \<and>
    (\<exists>n' \<ge> n. after_files exec s n' (mg_db (snd (start_worker sv connect exec env m))) \<and>
      (\<forall>b. fst (start_worker sv connect exec env m) = Some b \<longrightarrow>
         n' = length migration_files \<and> worker_configured env b)) \<and>
    (\<forall>c a. mg_script m = [] \<and> is_ok (run_files exec migration_files s) \<and> load env = Inr c \<and>
       connect (cfg_database_url c) \<and> api_app sv c = Inr a \<longrightarrow>
       (\<exists>srv. fst (start_api sv connect exec env m) = Some srv \<and> srv_app srv = a))"
proof -
  obtain n' where n': "n \<le> n'" "after_files exec s n' (mg_db (snd (prepare connect exec env m)))"
      "\<And>c. fst (prepare connect exec env m) = Some c \<Longrightarrow> load env = Inr c \<and> n' = length migration_files"
    using prepare_files[OF assms, of connect env] by blast
  have api: "n' = length migration_files \<and> api_configured env (srv_app srv) \<and>
      srv_addr srv = (if env ''HTTP_ADDR'' = [] then '':8080'' else env ''HTTP_ADDR'')"
    if "fst (start_api sv connect exec env m) = Some srv" for srv
    using that n'(3) api_complete by (auto simp: start_Some env_default_def)
  have worker: "n' = length migration_files \<and> worker_configured env b"
    if "fst (start_worker sv connect exec env m) = Some b" for b
    using that n'(3) worker_complete by (auto simp: start_Some)
  have "\<exists>srv. fst (start_api sv connect exec env m) = Some srv \<and> srv_app srv = a"
    if "mg_script m = []" "is_ok (run_files exec migration_files s)" "load env = Inr c"
      "connect (cfg_database_url c)" "api_app sv c = Inr a" for c a
  proof -
    from that(2) obtain s' where "run_files exec migration_files s = Inr s'" by (auto simp: is_ok_def split: sum.splits)
    then have "fst (prepare connect exec env m) = Some c" by (rule prepare_calm[OF assms that(1) _ that(3), of _ connect]) (rule that(4))
    with that(5) show ?thesis by (simp add: start_Some)
  qed
  with n'(1,2) api worker show ?thesis unfolding start_files by blast
qed

definition sample_new_db :: "string list migrator" where
  "sample_new_db = \<lparr>mg_db = \<lparr>md_applied = [], md_schema = []\<rparr>, mg_script = []\<rparr>"

theorem process_start_witness:
  "\<exists>srv. fst (start_api sample_services (\<lambda>_. True) (\<lambda>n s. Inr (s @ [n])) sample_env sample_new_db) = Some srv \<and>
     srv_addr srv = '':8080'' \<and> ready_to_send (srv_app srv) False \<and>
     md_applied (mg_db (snd (start_api sample_services (\<lambda>_. True) (\<lambda>n s. Inr (s @ [n])) sample_env sample_new_db))) = migration_files"
proof -
  let ?x = "\<lambda>n s. Inr (s @ [n])"
  have start: "after_files ?x [] 0 (mg_db sample_new_db)" by (simp add: after_files_def sample_new_db_def)
  have run: "is_ok (run_files ?x migration_files [])" by (simp add: migration_files_def is_ok_def)
  obtain c a where ca: "load sample_env = Inr c" "api_app sample_services c = Inr a" "ap_enable_sending a"
    using sample_configured by blast
  note p = process_start[OF start, of sample_services "\<lambda>_. True" sample_env]
  have "mg_script sample_new_db = []" by (simp add: sample_new_db_def)
  with p run ca(1,2) obtain srv where srv:
      "fst (start_api sample_services (\<lambda>_. True) ?x sample_env sample_new_db) = Some srv" "srv_app srv = a" by blast
  with p have "api_configured sample_env (srv_app srv)"
      "srv_addr srv = (if sample_env ''HTTP_ADDR'' = [] then '':8080'' else sample_env ''HTTP_ADDR'')"
      "after_files ?x [] (length migration_files) (mg_db (snd (start_api sample_services (\<lambda>_. True) ?x sample_env sample_new_db)))"
    by blast+
  moreover have "sample_env ''HTTP_ADDR'' = []" by code_simp
  ultimately show ?thesis using srv ca(3) by (auto simp: api_configured_def after_files_def)
qed

end
