(* ===== verification/VoiceSpec.thy ===== *)
theory VoiceSpec
  imports Voice JsonRoundTrip
begin

text \<open>
  Provisioning the browser calls can be repeated: whatever fails, the account at Telnyx never gets a second
  voice profile, connection or credential for Signal Desk.
\<close>

section \<open>The account at Telnyx\<close>

text \<open>
  What Telnyx documents of its resources. \<open>listing path s\<close> are the resources under \<open>path\<close>, all with an
  id. A GET of the collection changes nothing, and an answer that can be read has the first hundred. A POST
  adds one resource with the name of the body, or nothing; it may add one although no answer
  arrives.
\<close>

definition resource_list_fields :: "(string \<times> telnyx_resource list field) list" where
  "resource_list_fields = [(''data'', list_field zero_resource resource_field (\<lambda>xs _. xs))]"

definition str_at :: "string \<Rightarrow> (string \<times> json) list \<Rightarrow> string" where
  "str_at k ms = (case map_of ms k of Some (JsStr x) \<Rightarrow> x | _ \<Rightarrow> [])"

definition posted :: "string \<Rightarrow> (string \<times> json) list \<Rightarrow> telnyx_resource" where
  "posted i ms = \<lparr>vr_id = i, vr_name = str_at ''name'' ms, vr_connection_name = str_at ''connection_name'' ms, vr_resource_id = []\<rparr>"

definition resource_paths :: "string list" where
  "resource_paths = [''/v2/outbound_voice_profiles'', ''/v2/credential_connections'', ''/v2/telephony_credentials'']"

definition resource_server :: "'t http \<Rightarrow> string \<Rightarrow> (string \<Rightarrow> 't \<Rightarrow> telnyx_resource list) \<Rightarrow> bool" where
  "resource_server http base listing \<longleftrightarrow>
    (\<forall>p s. \<forall>x \<in> set (listing p s). vr_id x \<noteq> []) \<and>
    (\<forall>path \<in> set resource_paths. \<forall>hs s.
       (let (answer, s') = http \<lparr>hq_method = ''GET'', hq_url = base @ path @ ''?page[size]=100'', hq_headers = hs, hq_body = None\<rparr> s in
        (\<forall>p. listing p s' = listing p s) \<and>
        (\<forall>resp xs. answer = Inr resp \<longrightarrow> success_status (hp_status resp) \<longrightarrow>
           decode_first False resource_list_fields (take 1048576 (hp_body resp)) [] = Some xs \<longrightarrow> xs = take 100 (listing path s)))) \<and>
    (\<forall>path \<in> set resource_paths. \<forall>hs body ms s. parse_json body = Some (JsObj ms) \<longrightarrow>
       (let (answer, s') = http \<lparr>hq_method = ''POST'', hq_url = base @ path, hq_headers = hs, hq_body = Some body\<rparr> s in
        (\<forall>p. listing p s' = listing p s) \<or>
        (\<exists>i. i \<noteq> [] \<and> listing path s' = listing path s @ [posted i ms] \<and> (\<forall>p. p \<noteq> path \<longrightarrow> listing p s' = listing p s))))"

section \<open>One of each\<close>

definition resource_name :: "string \<Rightarrow> string" where
  "resource_name path = (if path = ''/v2/outbound_voice_profiles'' then voice_profile_name else voice_connection_name)"

definition named :: "string \<Rightarrow> telnyx_resource \<Rightarrow> bool" where
  "named n x \<longleftrightarrow> vr_name x = n \<or> vr_connection_name x = n"

definition ours :: "(string \<Rightarrow> 't \<Rightarrow> telnyx_resource list) \<Rightarrow> string \<Rightarrow> 't \<Rightarrow> telnyx_resource list" where
  "ours listing path s = filter (named (resource_name path)) (listing path s)"

text \<open>At most one of ours, and room on the page for it.\<close>

definition single :: "(string \<Rightarrow> 't \<Rightarrow> telnyx_resource list) \<Rightarrow> string \<Rightarrow> 't \<Rightarrow> bool" where
  "single listing path s \<longleftrightarrow>
    length (ours listing path s) \<le> 1 \<and> length (listing path s) \<le> 99 + length (ours listing path s)"

definition singles :: "(string \<Rightarrow> 't \<Rightarrow> telnyx_resource list) \<Rightarrow> 't \<Rightarrow> bool" where
  "singles listing s \<longleftrightarrow> (\<forall>path \<in> set resource_paths. single listing path s)"

lemma singles_same: "(\<And>p. listing p s' = listing p s) \<Longrightarrow> singles listing s' = singles listing s"
  by (simp add: singles_def single_def ours_def)

lemma singles_add:
  assumes "singles listing s" and "path \<in> set resource_paths" and "ours listing path s = []"
    and "listing path s' = listing path s @ [x]" and "\<And>p. p \<noteq> path \<Longrightarrow> listing p s' = listing p s"
    and "named (resource_name path) x"
  shows "singles listing s'"
  unfolding singles_def
proof
  fix p
  assume p: "p \<in> set resource_paths"
  show "single listing p s'"
  proof (cases "p = path")
    case True
    have "length (listing path s) \<le> 99" using bspec[OF assms(1)[unfolded singles_def] assms(2)] assms(3) by (simp add: single_def)
    then show ?thesis using assms(3,4,6) by (simp add: True single_def ours_def)
  next
    case False
    then show ?thesis using assms(1,5) p by (simp add: singles_def single_def ours_def)
  qed
qed

lemma call_telnyx_state: "w_telnyx (snd (call_telnyx ev f w)) = snd (f (w_telnyx w))" "fst (call_telnyx ev f w) = fst (f (w_telnyx w))"
  by (simp_all add: call_telnyx_def split: prod.split)

lemma find_resource_state:
  assumes "resource_server (ap_telnyx_http a) (telnyx_base c) listing" and "ap_telnyx_client a = Some c"
    and "path \<in> set resource_paths"
  shows "listing p (w_telnyx (snd (find_resource a (path @ ''?page[size]=100'') n w))) = listing p (w_telnyx w)"
    and "fst (find_resource a (path @ ''?page[size]=100'') n w) = Inr [] \<Longrightarrow> n = resource_name path \<Longrightarrow>
      singles listing (w_telnyx w) \<Longrightarrow> ours listing path (w_telnyx w) = []"
proof -
  let ?q = "\<lparr>hq_method = ''GET'', hq_url = telnyx_base c @ path @ ''?page[size]=100'',
      hq_headers = [(''Authorization'', ''Bearer '' @ tc_token c)], hq_body = None\<rparr>"
  let ?ans = "fst (ap_telnyx_http a ?q (w_telnyx w))" and ?s = "snd (ap_telnyx_http a ?q (w_telnyx w))"
  have get: "\<forall>p. listing p ?s = listing p (w_telnyx w)"
    and shown: "\<And>resp xs. ?ans = Inr resp \<Longrightarrow> success_status (hp_status resp) \<Longrightarrow>
       decode_first False resource_list_fields (take 1048576 (hp_body resp)) [] = Some xs \<Longrightarrow> xs = take 100 (listing path (w_telnyx w))"
    and ids: "\<And>x. x \<in> set (listing path (w_telnyx w)) \<Longrightarrow> vr_id x \<noteq> []"
    using assms(1,3) unfolding resource_server_def Let_def case_prod_beta by blast+
  note find = find_resource_def voice_json_def assms(2) voice_http_def resource_list_fields_def[symmetric] case_prod_beta
  show "listing p (w_telnyx (snd (find_resource a (path @ ''?page[size]=100'') n w))) = listing p (w_telnyx w)"
    using get by (simp add: find call_telnyx_state split: sum.split)
  assume none: "fst (find_resource a (path @ ''?page[size]=100'') n w) = Inr []" and n: "n = resource_name path"
    and "singles listing (w_telnyx w)"
  then have short: "length (listing path (w_telnyx w)) \<le> 100" using assms(3) by (auto simp: singles_def single_def)
  from none obtain resp xs where "?ans = Inr resp" "success_status (hp_status resp)"
      "decode_first False resource_list_fields (take 1048576 (hp_body resp)) [] = Some xs"
      and empty: "(case find (\<lambda>i. vr_name i = n \<or> vr_connection_name i = n) xs of None \<Rightarrow> [] | Some i \<Rightarrow> vr_id i) = []"
    by (auto simp: find call_telnyx_state split: sum.splits if_splits option.splits)
  from shown[OF this(1-3)] short have xs: "xs = listing path (w_telnyx w)" by simp
  have "find (named n) xs = None"
  proof (cases "find (named n) xs")
    case (Some x)
    then have "x \<in> set xs" unfolding find_Some_iff by (metis nth_mem)
    then have "vr_id x \<noteq> []" using ids xs by simp
    then show ?thesis using empty Some by (simp add: named_def[abs_def])
  qed
  then show "ours listing path (w_telnyx w) = []" by (simp add: ours_def xs n[symmetric] find_None_iff filter_empty_conv)
qed

lemma create_resource_state:
  assumes "resource_server (ap_telnyx_http a) (telnyx_base c) listing" and "ap_telnyx_client a = Some c"
    and "path \<in> set resource_paths" and "singles listing (w_telnyx w)" and "ours listing path (w_telnyx w) = []"
    and "parse_json (json_encode body) = Some (JsObj ms)" and "\<And>i. named (resource_name path) (posted i ms)"
  shows "singles listing (w_telnyx (snd (create_resource a path body w)))"
    and "p \<noteq> path \<Longrightarrow> listing p (w_telnyx (snd (create_resource a path body w))) = listing p (w_telnyx w)"
proof -
  let ?q = "\<lparr>hq_method = ''POST'', hq_url = telnyx_base c @ path,
      hq_headers = [(''Authorization'', ''Bearer '' @ tc_token c), (''Content-Type'', ''application/json'')], hq_body = Some (json_encode body)\<rparr>"
  let ?s = "snd (ap_telnyx_http a ?q (w_telnyx w))"
  have post: "(\<forall>p. listing p ?s = listing p (w_telnyx w)) \<or>
      (\<exists>i. listing path ?s = listing path (w_telnyx w) @ [posted i ms] \<and> (\<forall>p. p \<noteq> path \<longrightarrow> listing p ?s = listing p (w_telnyx w)))"
    using assms(1,3,6) unfolding resource_server_def Let_def case_prod_beta by blast
  note create = create_resource_def voice_json_def assms(2) voice_http_def case_prod_beta call_telnyx_state
  from post have "singles listing ?s"
    using assms(4) singles_same[of listing ?s "w_telnyx w"] singles_add[OF assms(4,3,5) _ _ assms(7)] by blast
  then show "singles listing (w_telnyx (snd (create_resource a path body w)))"
    using assms(4) by (simp add: create split: sum.split)
  assume "p \<noteq> path"
  with post have "listing p ?s = listing p (w_telnyx w)" by blast
  then show "listing p (w_telnyx (snd (create_resource a path body w))) = listing p (w_telnyx w)"
    by (simp add: create split: sum.split)
qed

section \<open>The bodies\<close>

lemma clean_keys:
  "clean ''name'' = ''name''" "clean ''enabled'' = ''enabled''" "clean ''whitelisted_destinations'' = ''whitelisted_destinations''"
  "clean ''active'' = ''active''" "clean ''connection_name'' = ''connection_name''" "clean ''user_name'' = ''user_name''"
  "clean ''password'' = ''password''" "clean ''anchorsite_override'' = ''anchorsite_override''" "clean ''outbound'' = ''outbound''"
  "clean ''connection_id'' = ''connection_id''" "clean voice_profile_name = voice_profile_name"
  "clean voice_connection_name = voice_connection_name"
  by (rule clean_valid, code_simp)+

lemma profile_body:
  "\<exists>ms. parse_json (json_encode (js_map [(''name'', JsStr voice_profile_name), (''enabled'', JsBool True),
      (''whitelisted_destinations'', JsArr [JsStr ''US''])])) = Some (JsObj ms) \<and> (\<forall>i. named voice_profile_name (posted i ms))"
proof -
  let ?v = "js_map [(''name'', JsStr voice_profile_name), (''enabled'', JsBool True), (''whitelisted_destinations'', JsArr [JsStr ''US''])]"
  have v: "?v = JsObj [(''enabled'', JsBool True), (''name'', JsStr voice_profile_name), (''whitelisted_destinations'', JsArr [JsStr ''US''])]"
    by (simp add: js_map_def sort_key_def insort_key_def less_list_code)
  let ?ms = "[(''enabled'', JsBool True), (''name'', JsStr voice_profile_name), (''whitelisted_destinations'', JsArr [JsStr (clean ''US'')])]"
  have "json_clean ?v = JsObj ?ms" unfolding v by (simp add: clean_keys)
  moreover have "parse_json (json_encode ?v) = Some (json_clean ?v)" unfolding v by (rule parse_json_encode(1)) simp_all
  ultimately have "parse_json (json_encode ?v) = Some (JsObj ?ms)" by (simp only:)
  moreover have "named voice_profile_name (posted i ?ms)" for i by (simp add: named_def posted_def str_at_def)
  ultimately show ?thesis by blast
qed

lemma connection_body:
  "\<exists>ms. parse_json (json_encode (js_map [(''active'', JsBool True), (''connection_name'', JsStr voice_connection_name),
      (''user_name'', JsStr username), (''password'', JsStr password), (''anchorsite_override'', JsStr ''Latency''),
      (''outbound'', js_map [(''outbound_voice_profile_id'', JsStr profile)])])) = Some (JsObj ms) \<and> (\<forall>i. named voice_connection_name (posted i ms))"
proof -
  let ?v = "js_map [(''active'', JsBool True), (''connection_name'', JsStr voice_connection_name),
      (''user_name'', JsStr username), (''password'', JsStr password), (''anchorsite_override'', JsStr ''Latency''),
      (''outbound'', js_map [(''outbound_voice_profile_id'', JsStr profile)])]"
  have v: "?v = JsObj [(''active'', JsBool True), (''anchorsite_override'', JsStr ''Latency''),
      (''connection_name'', JsStr voice_connection_name), (''outbound'', JsObj [(''outbound_voice_profile_id'', JsStr profile)]),
      (''password'', JsStr password), (''user_name'', JsStr username)]"
    by (simp add: js_map_def sort_key_def insort_key_def less_list_code)
  let ?ms = "[(''active'', JsBool True), (''anchorsite_override'', JsStr (clean ''Latency'')),
      (''connection_name'', JsStr voice_connection_name),
      (''outbound'', JsObj [(clean ''outbound_voice_profile_id'', JsStr (clean profile))]),
      (''password'', JsStr (clean password)), (''user_name'', JsStr (clean username))]"
  have "json_clean ?v = JsObj ?ms" unfolding v by (simp add: clean_keys)
  moreover have "parse_json (json_encode ?v) = Some (json_clean ?v)" unfolding v by (rule parse_json_encode(1)) simp_all
  ultimately have "parse_json (json_encode ?v) = Some (JsObj ?ms)" by (simp only:)
  moreover have "named voice_connection_name (posted i ?ms)" for i by (simp add: named_def posted_def str_at_def)
  ultimately show ?thesis by blast
qed

lemma credential_body:
  "\<exists>ms. parse_json (json_encode (js_map [(''connection_id'', JsStr connection), (''name'', JsStr voice_credential_name)])) = Some (JsObj ms) \<and> (\<forall>i. named voice_connection_name (posted i ms))"
proof -
  let ?v = "js_map [(''connection_id'', JsStr connection), (''name'', JsStr voice_credential_name)]"
  have v: "?v = JsObj [(''connection_id'', JsStr connection), (''name'', JsStr voice_connection_name)]"
    by (simp add: js_map_def sort_key_def insort_key_def less_list_code voice_credential_name_def voice_connection_name_def)
  let ?ms = "[(''connection_id'', JsStr (clean connection)), (''name'', JsStr voice_connection_name)]"
  have "json_clean ?v = JsObj ?ms" unfolding v by (simp add: clean_keys)
  moreover have "parse_json (json_encode ?v) = Some (json_clean ?v)" unfolding v by (rule parse_json_encode(1)) simp_all
  ultimately have "parse_json (json_encode ?v) = Some (JsObj ?ms)" by (simp only:)
  moreover have "named voice_connection_name (posted i ?ms)" for i by (simp add: named_def posted_def str_at_def)
  ultimately show ?thesis by blast
qed

section \<open>Provisioning\<close>

text \<open>The step all three have in common: look for ours, and create it if there is none.\<close>

definition account :: "('t, 'h) app \<Rightarrow> telnyx_client \<Rightarrow> (string \<Rightarrow> 't \<Rightarrow> telnyx_resource list) \<Rightarrow> bool" where
  "account a c listing \<longleftrightarrow> resource_server (ap_telnyx_http a) (telnyx_base c) listing \<and> ap_telnyx_client a = Some c"

lemma collection_urls:
  "''/v2/outbound_voice_profiles?page[size]=100'' = ''/v2/outbound_voice_profiles'' @ ''?page[size]=100''"
  "''/v2/credential_connections?page[size]=100'' = ''/v2/credential_connections'' @ ''?page[size]=100''"
  "''/v2/telephony_credentials?page[size]=100'' = ''/v2/telephony_credentials'' @ ''?page[size]=100''"
  by simp_all

lemma resource_path_facts:
  "''/v2/outbound_voice_profiles'' \<in> set resource_paths" "''/v2/credential_connections'' \<in> set resource_paths"
  "''/v2/telephony_credentials'' \<in> set resource_paths"
  "resource_name ''/v2/outbound_voice_profiles'' = voice_profile_name"
  "resource_name ''/v2/credential_connections'' = voice_connection_name"
  "resource_name ''/v2/telephony_credentials'' = voice_connection_name"
  by (simp_all add: resource_paths_def resource_name_def)

lemma found_singles:
  assumes "account a c listing" and "path \<in> set resource_paths" and "singles listing (w_telnyx w)"
    and "find_resource a (path @ ''?page[size]=100'') (resource_name path) w = (res, w1)"
  shows "singles listing (w_telnyx w1)" "listing p (w_telnyx w1) = listing p (w_telnyx w)"
    "res = Inr [] \<Longrightarrow> ours listing path (w_telnyx w1) = []"
proof -
  have same: "listing p (w_telnyx w1) = listing p (w_telnyx w)" for p
    using find_resource_state(1)[of a c listing path p "resource_name path" w] assms by (simp add: account_def)
  then show "listing p (w_telnyx w1) = listing p (w_telnyx w)" .
  show "singles listing (w_telnyx w1)" using singles_same[of listing "w_telnyx w1", OF same] assms(3) by simp
  assume "res = Inr []"
  then have "ours listing path (w_telnyx w) = []"
    using find_resource_state(2)[of a c listing path "resource_name path" w] assms by (simp add: account_def)
  then show "ours listing path (w_telnyx w1) = []" by (simp add: ours_def same)
qed

lemma created_singles:
  assumes "account a c listing" and "path \<in> set resource_paths" and "singles listing (w_telnyx w)"
    and "ours listing path (w_telnyx w) = []"
    and "\<exists>ms. parse_json (json_encode body) = Some (JsObj ms) \<and> (\<forall>i. named (resource_name path) (posted i ms))"
  shows "singles listing (w_telnyx (snd (create_resource a path body w)))"
    "p \<noteq> path \<Longrightarrow> listing p (w_telnyx (snd (create_resource a path body w))) = listing p (w_telnyx w)"
  using assms create_resource_state[of a c listing path w body] by (auto simp: account_def)

lemma ensure_profile_singles:
  assumes "account a c listing" and "singles listing (w_telnyx w)"
  shows "singles listing (w_telnyx (snd (ensure_profile a w)))"
    "p \<noteq> ''/v2/outbound_voice_profiles'' \<Longrightarrow> listing p (w_telnyx (snd (ensure_profile a w))) = listing p (w_telnyx w)"
proof -
  obtain res w1 where f: "find_resource a ''/v2/outbound_voice_profiles?page[size]=100'' voice_profile_name w = (res, w1)"
    by fastforce
  note found = found_singles[OF assms(1) resource_path_facts(1) assms(2), unfolded resource_path_facts, OF f[unfolded collection_urls]]
  note made = created_singles[OF assms(1) resource_path_facts(1) found(1) found(3), unfolded resource_path_facts, OF _ profile_body]
  show "singles listing (w_telnyx (snd (ensure_profile a w)))"
    using found(1) made(1) by (auto simp: ensure_profile_def f wrap_error_def case_prod_beta split: sum.split)
  show "listing p (w_telnyx (snd (ensure_profile a w))) = listing p (w_telnyx w)" if "p \<noteq> ''/v2/outbound_voice_profiles''"
    using found(2) made(2)[OF _ that] by (auto simp: ensure_profile_def f wrap_error_def case_prod_beta split: sum.split)
qed

lemma ensure_connection_singles:
  assumes "account a c listing" and "singles listing (w_telnyx w)"
  shows "singles listing (w_telnyx (snd (ensure_connection a rand profile w)))"
    "p \<noteq> ''/v2/credential_connections'' \<Longrightarrow> listing p (w_telnyx (snd (ensure_connection a rand profile w))) = listing p (w_telnyx w)"
proof -
  obtain res w1 where f: "find_resource a ''/v2/credential_connections?page[size]=100'' voice_connection_name w = (res, w1)"
    by fastforce
  note found = found_singles[OF assms(1) resource_path_facts(2) assms(2), unfolded resource_path_facts, OF f[unfolded collection_urls]]
  note made = created_singles[OF assms(1) resource_path_facts(2) found(1) found(3), unfolded resource_path_facts, OF _ connection_body]
  show "singles listing (w_telnyx (snd (ensure_connection a rand profile w)))"
    using found(1) made(1)
    by (auto simp: ensure_connection_def f wrap_error_def case_prod_beta split: sum.split)
  show "listing p (w_telnyx (snd (ensure_connection a rand profile w))) = listing p (w_telnyx w)" if "p \<noteq> ''/v2/credential_connections''"
    using found(2) made(2)[OF _ that]
    by (auto simp: ensure_connection_def f wrap_error_def case_prod_beta split: sum.split)
qed

lemma ensure_voice_singles:
  assumes "account a c listing" and "singles listing (w_telnyx w)"
  shows "singles listing (w_telnyx (snd (ensure_voice a rand w)))"
proof (cases "ap_voice_credential a = []")
  case False
  then show ?thesis using assms(2) by (simp add: ensure_voice_def voice_credential_id_def)
next
  case True
  obtain res w1 where f: "find_resource a ''/v2/telephony_credentials?page[size]=100'' voice_credential_name w = (res, w1)"
    by fastforce
  then have id: "voice_credential_id a w = (res, w1)" using True by (simp add: voice_credential_id_def)
  have name: "voice_credential_name = voice_connection_name" by (simp add: voice_credential_name_def voice_connection_name_def)
  note found = found_singles[OF assms(1) resource_path_facts(3) assms(2), unfolded resource_path_facts, OF f[unfolded collection_urls name]]
  obtain r2 w2 where p: "ensure_profile a w1 = (r2, w2)" by fastforce
  note prof = ensure_profile_singles[OF assms(1) found(1), unfolded p snd_conv]
  obtain r3 w3 where k: "ensure_connection a rand (case r2 of Inl e \<Rightarrow> [] | Inr i \<Rightarrow> i) w2 = (r3, w3)" by fastforce
  note conn = ensure_connection_singles[OF assms(1) prof(1), where rand = rand and profile = "case r2 of Inl e \<Rightarrow> [] | Inr i \<Rightarrow> i", unfolded k snd_conv]
  have "ours listing ''/v2/telephony_credentials'' (w_telnyx w3) = []" if "res = Inr []"
    using found(3)[OF that] prof(2)[of "''/v2/telephony_credentials''"] conn(2)[of "''/v2/telephony_credentials''"]
    by (simp add: ours_def)
  note cred = created_singles(1)[OF assms(1) resource_path_facts(3) conn(1), unfolded resource_path_facts, OF this credential_body]
  show ?thesis
    using found(1) prof(1) conn(1) cred p k
    by (auto simp: ensure_voice_def id wrap_error_def case_prod_beta split: sum.splits)
qed


section \<open>Witness\<close>

text \<open>An account whose answers to a POST are all lost, although the POST takes effect.\<close>

definition sample_listing :: "string \<Rightarrow> (string \<times> telnyx_resource) list \<Rightarrow> telnyx_resource list" where
  "sample_listing p s = map snd (filter (\<lambda>(q, x). q = p \<and> vr_id x \<noteq> []) s)"

definition sample_page :: "telnyx_resource list \<Rightarrow> string" where
  "sample_page xs = json_encode (JsObj [(''data'', JsArr (map (\<lambda>x. JsObj
     [(''id'', JsStr (vr_id x)), (''name'', JsStr (vr_name x)), (''connection_name'', JsStr (vr_connection_name x))]) xs))])"

definition sample_account :: "(string \<times> telnyx_resource) list http" where
  "sample_account q s =
    (if hq_method q = ''GET'' then
       (case find (\<lambda>p. hq_url q = ''https://api.telnyx.com'' @ p @ ''?page[size]=100'') resource_paths of
          None \<Rightarrow> (Inl ErrDB, s)
        | Some p \<Rightarrow>
            (let body = sample_page (sample_listing p s) in
             (if decode_first False resource_list_fields (take 1048576 body) [] = Some (take 100 (sample_listing p s))
              then Inr \<lparr>hp_status = 200, hp_body = body\<rparr> else Inl ErrDB, s)))
     else
       (Inl ErrDB,
        case (find (\<lambda>p. hq_url q = ''https://api.telnyx.com'' @ p) resource_paths, map_option parse_json (hq_body q)) of
          (Some p, Some (Some (JsObj ms))) \<Rightarrow> s @ [(p, posted ''r'' ms)]
        | _ \<Rightarrow> s))"

definition sample_voice_client :: telnyx_client where
  "sample_voice_client = \<lparr>tc_base_url = ''https://api.telnyx.com/'', tc_token = ''KEY'', tc_profile = []\<rparr>"

definition sample_voice_app :: "((string \<times> telnyx_resource) list, unit) app" where
  "sample_voice_app = \<lparr>ap_has_store = True, ap_telnyx = None, ap_highlevel = None,
     ap_telnyx_client = Some sample_voice_client, ap_telnyx_http = sample_account, ap_oauth = None,
     ap_oauth_http = (\<lambda>_ h. (Inl ErrDB, h)), ap_voice_credential = [], ap_webhook_key = [], ap_highlevel_webhook_key = [],
     ap_hl_secret = [], ap_admin_token = [], ap_signal_desk_token = ''s3cret'', ap_signal_desk_url = [], ap_location = [],
     ap_allowed = [], ap_from = [], ap_enable_sending = False, ap_workflows = [],
     ap_crypto = \<lparr>cr_ed25519_verify = (\<lambda>_ _ _. False), cr_hmac_sha256 = (\<lambda>_ m. m)\<rparr>,
     ap_runtime = \<lparr>rt_load_location = (\<lambda>_. None), rt_range_vars = (\<lambda>vs. vs)\<rparr>, ap_post = (\<lambda>_ _ _. Inr 200)\<rparr>"

definition sample_voice_world :: "((string \<times> telnyx_resource) list, unit) world" where
  "sample_voice_world = \<lparr>w_db = empty_db, w_clock = 0, w_script = [], w_telnyx = [], w_highlevel = (), w_log = []\<rparr>"

lemma find_path:
  "path \<in> set resource_paths \<Longrightarrow> find (\<lambda>p. b @ path @ q = b @ p @ q) resource_paths = Some path"
  by (auto simp: resource_paths_def)

lemma sample_account_server: "resource_server sample_account ''https://api.telnyx.com'' sample_listing"
proof -
  let ?b = "''https://api.telnyx.com''"
  have get: "find (\<lambda>p. ?b @ path @ ''?page[size]=100'' = ?b @ p @ ''?page[size]=100'') resource_paths = Some path"
    if "path \<in> set resource_paths" for path using find_path[OF that] .
  have post: "find (\<lambda>p. ?b @ path = ?b @ p) resource_paths = Some path"
    if "path \<in> set resource_paths" for path using find_path[OF that, of ?b "[]"] by simp
  have add: "sample_listing p (s @ [(path, posted ''r'' ms)]) =
      (if p = path then sample_listing p s @ [posted ''r'' ms] else sample_listing p s)" for p path s ms
    by (simp add: sample_listing_def posted_def)
  show ?thesis
    unfolding resource_server_def
  proof (intro conjI allI ballI impI)
    fix p s x
    assume "x \<in> set (sample_listing p s)"
    then show "vr_id x \<noteq> []" by (auto simp: sample_listing_def)
  next
    fix path hs and s :: "(string \<times> telnyx_resource) list"
    assume p: "path \<in> set resource_paths"
    show "let (answer, s') = sample_account \<lparr>hq_method = ''GET'', hq_url = ?b @ path @ ''?page[size]=100'', hq_headers = hs, hq_body = None\<rparr> s in
        (\<forall>p. sample_listing p s' = sample_listing p s) \<and>
        (\<forall>resp xs. answer = Inr resp \<longrightarrow> success_status (hp_status resp) \<longrightarrow>
           decode_first False resource_list_fields (take 1048576 (hp_body resp)) [] = Some xs \<longrightarrow> xs = take 100 (sample_listing path s))"
      by (simp only: sample_account_def http_request.simps get[OF p] option.case Let_def simp_thms if_True prod.case) auto
  next
    fix path hs body ms and s :: "(string \<times> telnyx_resource) list"
    assume p: "path \<in> set resource_paths" and b: "parse_json body = Some (JsObj ms)"
    have "sample_account \<lparr>hq_method = ''POST'', hq_url = ?b @ path, hq_headers = hs, hq_body = Some body\<rparr> s =
        (Inl ErrDB, s @ [(path, posted ''r'' ms)])"
      unfolding sample_account_def http_request.simps post[OF p] by (simp add: b)
    then show "let (answer, s') = sample_account \<lparr>hq_method = ''POST'', hq_url = ?b @ path, hq_headers = hs, hq_body = Some body\<rparr> s in
        (\<forall>p. sample_listing p s' = sample_listing p s) \<or>
        (\<exists>i. i \<noteq> [] \<and> sample_listing path s' = sample_listing path s @ [posted i ms] \<and>
           (\<forall>p. p \<noteq> path \<longrightarrow> sample_listing p s' = sample_listing p s))"
      by (simp only: Let_def prod.case) (intro disjI2 exI[of _ "''r''"], simp add: add)
  qed
qed

definition sample_provisions where
  "sample_provisions = [(Inr (''user1'', ''pass1''), sample_request [] []), (Inr (''user2'', ''pass2''), sample_request [] [])]"


end
