(* ===== verification/WorkerProgress.thy ===== *)
theory WorkerProgress
  imports WorkerSafety
begin

text \<open>
  The workers get through their queues: every pass settles at least one job that is due, and never makes
  one due. The argument is made once, for the rows of any queue and for any loop, and applied to the
  outbound worker and to the CRM worker.
\<close>

section \<open>Settling the rows of a queue\<close>

text \<open>Row by row, none becomes ready, and none whose key is in \<open>P\<close> stays so.\<close>

definition settles :: "('r \<Rightarrow> 'k) \<Rightarrow> ('r \<Rightarrow> bool) \<Rightarrow> ('k \<Rightarrow> bool) \<Rightarrow> 'r list \<Rightarrow> 'r list \<Rightarrow> bool" where
  "settles key rdy P rows rows' \<longleftrightarrow>
    (\<exists>f. rows' = map f rows \<and> (\<forall>r. key (f r) = key r \<and> (rdy (f r) \<longrightarrow> rdy r \<and> \<not> P (key r))))"

lemma settles_refl: "settles key rdy (\<lambda>_. False) rows rows"
  unfolding settles_def by (intro exI[of _ "\<lambda>r. r"]) simp

lemma settles_weaken: "settles key rdy P rows rows' \<Longrightarrow> (\<And>i. Q i \<Longrightarrow> P i) \<Longrightarrow> settles key rdy Q rows rows'"
  unfolding settles_def by blast

lemma settles_trans:
  assumes "settles key rdy P rows rows1" and "settles key rdy Q rows1 rows2"
  shows "settles key rdy (\<lambda>i. P i \<or> Q i) rows rows2"
proof -
  obtain f where f: "rows1 = map f rows" "\<And>r. key (f r) = key r \<and> (rdy (f r) \<longrightarrow> rdy r \<and> \<not> P (key r))"
    using assms(1) by (auto simp: settles_def)
  obtain g where g: "rows2 = map g rows1" "\<And>r. key (g r) = key r \<and> (rdy (g r) \<longrightarrow> rdy r \<and> \<not> Q (key r))"
    using assms(2) by (auto simp: settles_def)
  have "key (g (f r)) = key r \<and> (rdy (g (f r)) \<longrightarrow> rdy r \<and> \<not> (P (key r) \<or> Q (key r)))" for r
    using f(2)[of r] g(2)[of "f r"] by auto
  then show ?thesis unfolding settles_def using f(1) g(1) by (intro exI[of _ "g \<circ> f"]) simp
qed

lemma settles_then: "settles key rdy P rows rows1 \<Longrightarrow> settles key rdy Q rows1 rows2 \<Longrightarrow> settles key rdy P rows rows2"
  by (rule settles_weaken[OF settles_trans]) auto

lemma settles_update:
  assumes "\<And>r. p r \<Longrightarrow> key (f r) = key r" and "\<And>r. p r \<Longrightarrow> \<not> rdy (f r)" and "\<And>r. P (key r) \<Longrightarrow> p r"
  shows "settles key rdy P rows (update_where p f rows)"
  unfolding settles_def update_where_def
  using assms by (intro exI[of _ "\<lambda>r. if p r then f r else r"]) auto

text \<open>Settling a row that is ready makes the queue shorter.\<close>

lemma settles_shorter:
  assumes "settles key rdy P rows rows'" and "r \<in> set rows" and "P (key r)" and "rdy r"
  shows "length (filter rdy rows') < length (filter rdy rows)"
proof -
  obtain f where f: "rows' = map f rows" "\<And>r. rdy (f r) \<Longrightarrow> rdy r \<and> \<not> P (key r)"
    using assms(1) by (auto simp: settles_def)
  have "length (filter rdy rows') = length (filter (rdy \<circ> f) rows)"
    by (simp add: f(1) filter_map)
  also have "\<dots> \<le> length (filter (\<lambda>r. rdy r \<and> \<not> P (key r)) rows)"
  proof -
    have "filter (rdy \<circ> f) rows = filter (rdy \<circ> f) (filter (\<lambda>r. rdy r \<and> \<not> P (key r)) rows)"
      using f(2) by (auto simp: filter_filter intro: filter_cong)
    then show ?thesis by (metis length_filter_le)
  qed
  also have "\<dots> < length (filter rdy rows)"
  proof -
    have "filter (\<lambda>r. rdy r \<and> \<not> P (key r)) rows = filter (\<lambda>r. \<not> P (key r)) (filter rdy rows)"
      by (simp add: filter_filter conj_commute)
    moreover have "r \<in> set (filter rdy rows)" using assms(2,4) by simp
    ultimately show ?thesis using assms(3) by (metis (mono_tags, lifting) length_filter_less)
  qed
  finally show ?thesis .
qed

lemma settles_le:
  assumes "settles key rdy P rows rows'"
  shows "length (filter rdy rows') \<le> length (filter rdy rows)"
proof -
  obtain f where f: "rows' = map f rows" "\<And>r. rdy (f r) \<Longrightarrow> rdy r" using assms by (auto simp: settles_def)
  have "filter (rdy \<circ> f) rows = filter (rdy \<circ> f) (filter rdy rows)"
    using f(2) by (auto simp: filter_filter intro: filter_cong)
  then show ?thesis unfolding f(1) filter_map by (metis length_map length_filter_le)
qed

context lease_queue
begin

text \<open>A claim settles the row it takes, whose lease has only begun.\<close>

lemma claim_settles:
  assumes "claim_q now rows = Some (r', rows')" and "\<And>r. \<not> ready now (lock now r)"
  shows "settles key (ready now) (\<lambda>k. k = key r') rows rows'" and "\<exists>r \<in> set rows. key r = key r' \<and> ready now r"
proof -
  obtain s where s: "s \<in> set rows" "ready now s" "r' = lock now s" "rows' = update_where (\<lambda>x. key x = key s) (lock now) rows"
    using assms(1) by (rule claim_SomeD)
  then show "settles key (ready now) (\<lambda>k. k = key r') rows rows'" "\<exists>r \<in> set rows. key r = key r' \<and> ready now r"
    using key_lock assms(2) by (auto intro: settles_update)
qed

end

section \<open>A loop over a queue\<close>

text \<open>
  \<open>due\<close> counts the jobs that are due; a pass that finds one brings the number down, one that finds none
  sleeps. Time passes between the calls of the database only, so not at all in a calm world.
\<close>

locale worker_loop =
  fixes pass :: "('t, 'h) world \<Rightarrow> ('t, 'h) world"
    and due :: "('t, 'h) world \<Rightarrow> nat"
    and nap :: duration
  assumes progress: "w_script w = [] \<Longrightarrow> 0 < due w \<Longrightarrow>
      due (pass w) < due w \<and> w_clock (pass w) = w_clock w \<and> w_script (pass w) = []"
    and idle: "w_script w = [] \<Longrightarrow> due w = 0 \<Longrightarrow> pass w = sleep nap w"
begin

lemma works_off:
  assumes "w_script w = []"
  shows "\<exists>k \<le> due w. due (iterate k pass w) = 0 \<and> w_clock (iterate k pass w) = w_clock w \<and>
    iterate (Suc k) pass w = sleep nap (iterate k pass w)"
proof -
  have later: "iterate (Suc k) f v = f (iterate k f v)" for k f and v :: "('t, 'h) world" by (induction k arbitrary: v) simp_all
  have "\<exists>k \<le> due w. let v = iterate k pass w in due v = 0 \<and> w_clock v = w_clock w \<and> w_script v = []"
    using assms
  proof (induction "due w" arbitrary: w rule: less_induct)
    case less
    show ?case
    proof (cases "due w = 0")
      case True
      then show ?thesis using less.prems by (intro exI[of _ 0]) simp
    next
      case False
      then have p: "due (pass w) < due w" "w_clock (pass w) = w_clock w" "w_script (pass w) = []"
        using progress[OF less.prems] by auto
      from less.hyps[OF p(1,3)] obtain k where "k \<le> due (pass w)"
        "let v = iterate k pass (pass w) in due v = 0 \<and> w_clock v = w_clock (pass w) \<and> w_script v = []" by blast
      then show ?thesis using p by (intro exI[of _ "Suc k"]) (auto simp: Let_def)
    qed
  qed
  then obtain k where "k \<le> due w" "due (iterate k pass w) = 0" "w_clock (iterate k pass w) = w_clock w"
    "w_script (iterate k pass w) = []" by (auto simp: Let_def)
  then show ?thesis using idle[of "iterate k pass w"] unfolding later by blast
qed

end

section \<open>Outbound jobs\<close>

definition due_jobs :: "('t, 'h) world \<Rightarrow> nat" where
  "due_jobs w = length (filter (outbound_ready (w_clock w)) (db_outbound (w_db w)))"

abbreviation settles_jobs :: "time \<Rightarrow> (int \<Rightarrow> bool) \<Rightarrow> db \<Rightarrow> db \<Rightarrow> bool" where
  "settles_jobs now P d d' \<equiv> settles ob_id (outbound_ready now) P (db_outbound d) (db_outbound d')"

lemma settles_claim:
  assumes "q_claim now d = (Inr j, d1)"
  shows "settles_jobs now (\<lambda>k. k = j_id j) d d1" and "\<exists>r \<in> set (db_outbound d). ob_id r = j_id j \<and> outbound_ready now r"
proof -
  obtain r rows where c: "outbound_q.claim_q now (db_outbound d) = Some (r, rows)" "j = scan_job r" "d1 = d\<lparr>db_outbound := rows\<rparr>"
    using assms by (auto simp: q_claim_def split: option.splits)
  have "\<not> outbound_ready now (outbound_lock now r)" for r by (simp add: outbound_lock_def outbound_ready_def)
  from outbound_q.claim_settles[OF c(1) this] c(2,3)
  show "settles_jobs now (\<lambda>k. k = j_id j) d d1" "\<exists>r \<in> set (db_outbound d). ob_id r = j_id j \<and> outbound_ready now r"
    by (simp_all add: scan_job_def)
qed

lemma settles_stmts:
  "0 < delay \<Longrightarrow> settles_jobs now (\<lambda>k. k = i) d (snd (q_retry i delay now d))"
  "settles_jobs now (\<lambda>k. k = i) d (snd (q_fail i now d))"
  "settles_jobs now (\<lambda>k. k = i) d (snd (q_complete i pid now d))"
  "settles_jobs now (\<lambda>_. False) d (snd (q_suppress_insert n s e now d))"
  "settles_jobs now (\<lambda>_. False) d (cancel_queued n d)"
  by (auto simp: q_retry_def q_fail_def q_complete_def Let_def update_job_def cancel_queued_def q_suppress_insert_def
      frame_simps outbound_ready_def intro!: settles_update settles_refl)

section \<open>A pass of the outbound worker\<close>

lemma backoff_pos: "0 < backoff n * second"
  by (simp add: backoff_def)

lemma finish_send_settles:
  assumes "w_script w = []"
  shows "settles_jobs (w_clock w) (\<lambda>_. False) (w_db w) (w_db (finish_send j res w)) \<and>
    w_clock (finish_send j res w) = w_clock w \<and> w_script (finish_send j res w) = []"
proof -
  have cut: "settles_jobs now (\<lambda>_. False) d d'" if "settles_jobs now P d d'" for P now d d' using that by (rule settles_weaken) simp
  have retry: "settles_jobs (w_clock w) (\<lambda>_. False) (w_db w) (w_db (retry_or_fail j w)) \<and>
      w_clock (retry_or_fail j w) = w_clock w \<and> w_script (retry_or_fail j w) = []"
    using assms cut[OF settles_stmts(1)[OF backoff_pos]] cut[OF settles_stmts(2)]
    by (simp add: retry_or_fail_def store_retry_def store_fail_def sql_calm)
  have suppress: "settles_jobs (w_clock w) (\<lambda>_. False) (w_db w)
      (snd (q_fail (j_id j) (w_clock w) (cancel_queued n (snd (q_suppress_insert n ''telnyx'' code (w_clock w) (w_db w))))))" for n code
    by (rule settles_then[OF settles_then[OF settles_stmts(4) settles_stmts(5)] settles_stmts(2)])
  have inserted: "fst (q_suppress_insert n src e t d) = Inr ()" for n src e t d by (simp add: q_suppress_insert_def)
  show ?thesis
  proof (cases res)
    case (Inr pid)
    then show ?thesis using assms cut[OF settles_stmts(3)] by (simp add: finish_send_def store_complete_def sql_calm)
  next
    case (Inl e)
    then show ?thesis
      using assms retry cut[OF settles_stmts(2)] suppress
      by (cases e)
        (auto simp: finish_send_def store_fail_def store_suppress_def sql_calm q_suppress_cancel_def inserted Let_def
          split: retry_class.split)
  qed
qed

lemma worker_pass_progress:
  assumes "w_script w = []" and "due_jobs w > 0"
  shows "due_jobs (worker_pass a tx w) < due_jobs w \<and> w_clock (worker_pass a tx w) = w_clock w \<and>
    w_script (worker_pass a tx w) = []"
proof -
  let ?now = "w_clock w"
  have "\<exists>r \<in> set (db_outbound (w_db w)). outbound_ready ?now r"
    using assms(2) by (auto simp: due_jobs_def filter_empty_conv)
  then obtain j d1 where j: "q_claim ?now (w_db w) = (Inr j, d1)"
    using outbound_q.claim_None[of ?now "db_outbound (w_db w)"] by (auto simp: q_claim_def split: option.split)
  obtain res t where tx: "tx_send tx (job_request j (o_from j)) (w_telnyx w) = (res, t)" by fastforce
  note cl = settles_claim[OF j]
  let ?w2 = "w\<lparr>w_db := d1, w_telnyx := t, w_log := w_log w @ [EvSend (job_request j (o_from j))]\<rparr>"
  have fin: "settles_jobs ?now (\<lambda>k. k = j_id j) (w_db w) (w_db (finish_send j res ?w2)) \<and>
      w_clock (finish_send j res ?w2) = ?now \<and> w_script (finish_send j res ?w2) = []"
    using finish_send_settles[of ?w2 j res] settles_then[OF cl(1)] assms(1) by auto
  have stmt: "settles_jobs ?now (\<lambda>k. k = j_id j) (w_db w) (snd (q_retry (j_id j) second ?now d1))"
    "settles_jobs ?now (\<lambda>k. k = j_id j) (w_db w) (snd (q_fail (j_id j) ?now d1))"
    by (rule settles_then[OF cl(1) settles_stmts(1)], simp) (rule settles_then[OF cl(1) settles_stmts(2)])
  have "settles_jobs ?now (\<lambda>k. k = j_id j) (w_db w) (w_db (worker_pass a tx w)) \<and> w_clock (worker_pass a tx w) = ?now \<and>
      w_script (worker_pass a tx w) = []"
    using assms(1) fin stmt by (simp add: worker_pass_calm[OF assms(1) j tx] store_retry_def store_fail_def sql_calm)
  moreover obtain r where "r \<in> set (db_outbound (w_db w))" "ob_id r = j_id j" "outbound_ready ?now r" using cl(2) by blast
  ultimately show ?thesis using settles_shorter by (auto simp: due_jobs_def)
qed

lemma worker_pass_idle:
  assumes "w_script w = []" and "due_jobs w = 0"
  shows "worker_pass a tx w = sleep (250 * millisecond) w"
proof -
  have "\<forall>r \<in> set (db_outbound (w_db w)). \<not> outbound_ready (w_clock w) r"
    using assms(2) by (simp add: due_jobs_def filter_empty_conv)
  then have "outbound_q.claim_q (w_clock w) (db_outbound (w_db w)) = None"
    by (simp add: outbound_q.claim_None)
  then show ?thesis using assms(1) by (simp add: worker_pass_def store_claim_def sql_calm q_claim_def)
qed

interpretation outbound_loop: worker_loop "worker_pass a tx" due_jobs "250 * millisecond" for a tx
  by unfold_locales (rule worker_pass_progress worker_pass_idle; assumption)+

section \<open>A pass of the CRM worker\<close>

definition due_crm :: "('t, 'h) world \<Rightarrow> nat" where
  "due_crm w = length (filter (crm_ready (w_clock w)) (db_crm (w_db w)))"

abbreviation settles_crm :: "time \<Rightarrow> (int \<Rightarrow> bool) \<Rightarrow> db \<Rightarrow> db \<Rightarrow> bool" where
  "settles_crm now P d d' \<equiv> settles cr_id (crm_ready now) P (db_crm d) (db_crm d')"

lemma settles_crm_stmts:
  "0 < delay \<Longrightarrow> settles_crm now (\<lambda>_. False) d (snd (q_retry_crm i delay now d))"
  "settles_crm now (\<lambda>_. False) d (snd (q_fail_crm i now d))"
  "settles_crm now (\<lambda>_. False) d (snd (q_complete_crm i now d))"
  by (auto simp: q_retry_crm_def q_fail_crm_def q_complete_crm_def update_crm_def crm_ready_def intro!: settles_update)

lemma crm_pass_progress:
  assumes "w_script w = []" and "due_crm w > 0"
  shows "due_crm (crm_pass hl w) < due_crm w \<and> w_clock (crm_pass hl w) = w_clock w \<and> w_script (crm_pass hl w) = []"
proof -
  let ?now = "w_clock w"
  have "\<exists>r \<in> set (db_crm (w_db w)). crm_ready ?now r"
    using assms(2) by (auto simp: due_crm_def filter_empty_conv)
  then obtain r rows where c: "crm_q.claim_q ?now (db_crm (w_db w)) = Some (r, rows)"
    using crm_q.claim_None[of ?now "db_crm (w_db w)"] by fastforce
  have "\<not> crm_ready ?now (crm_lock ?now x)" for x by (simp add: crm_lock_def crm_ready_def)
  note cl = crm_q.claim_settles[OF c this]
  let ?d1 = "(w_db w)\<lparr>db_crm := rows\<rparr>"
  have claim: "store_claim_crm w = (Inr (scan_crm r), w\<lparr>w_db := ?d1\<rparr>)"
    using assms(1) c by (simp add: store_claim_crm_def sql_calm q_claim_crm_def)
  note settled = settles_then[OF cl(1), of "\<lambda>_. False"]
  obtain res h where h: "hl_execute_crm hl (crm_request (scan_crm r)) (w_highlevel w) = (res, h)" by fastforce
  let ?w2 = "w\<lparr>w_db := ?d1, w_highlevel := h, w_log := w_log w @ [EvCRM (crm_request (scan_crm r))]\<rparr>" let ?i = "ct_id (scan_crm r)"
  have "crm_pass hl w = (case res of
      Inl e \<Rightarrow> if ct_attempts (scan_crm r) < 5 then snd (store_retry_crm ?i (backoff (ct_attempts (scan_crm r)) * second) ?w2)
        else snd (store_fail_crm ?i ?w2)
    | Inr _ \<Rightarrow> snd (store_complete_crm ?i ?w2))"
    by (simp add: crm_pass_def claim call_highlevel_def h split: sum.split)
  moreover have "settles_crm ?now (\<lambda>k. k = cr_id r) (w_db w) (snd (q_retry_crm ?i (backoff n * second) ?now ?d1))"
    "settles_crm ?now (\<lambda>k. k = cr_id r) (w_db w) (snd (q_fail_crm ?i ?now ?d1))"
    "settles_crm ?now (\<lambda>k. k = cr_id r) (w_db w) (snd (q_complete_crm ?i ?now ?d1))" for n
    by (rule settled, use settles_crm_stmts(1)[OF backoff_pos, of ?now ?d1] in simp)
      (rule settled, use settles_crm_stmts(2-)[of ?now ?d1] in simp)+
  ultimately have "settles_crm ?now (\<lambda>k. k = cr_id r) (w_db w) (w_db (crm_pass hl w)) \<and> w_clock (crm_pass hl w) = ?now \<and>
      w_script (crm_pass hl w) = []"
    using assms(1) by (simp add: store_retry_crm_def store_fail_crm_def store_complete_crm_def sql_calm split: sum.split)
  moreover obtain x where "x \<in> set (db_crm (w_db w))" "cr_id x = cr_id r" "crm_ready ?now x" using cl(2) by blast
  ultimately show ?thesis using settles_shorter by (auto simp: due_crm_def)
qed

lemma crm_pass_idle:
  assumes "w_script w = []" and "due_crm w = 0"
  shows "crm_pass hl w = sleep (250 * millisecond) w"
proof -
  have "\<forall>r \<in> set (db_crm (w_db w)). \<not> crm_ready (w_clock w) r"
    using assms(2) by (simp add: due_crm_def filter_empty_conv)
  then have "crm_q.claim_q (w_clock w) (db_crm (w_db w)) = None" by (simp add: crm_q.claim_None)
  then show ?thesis using assms(1) by (simp add: crm_pass_def store_claim_crm_def sql_calm q_claim_crm_def)
qed

interpretation crm_loop: worker_loop "crm_pass hl" due_crm "250 * millisecond" for hl
  by unfold_locales (rule crm_pass_progress crm_pass_idle; assumption)+

section \<open>Properties\<close>

text \<open>
  C9. The worker gets through its queue. Running alone, it needs at most as many passes as there are jobs
  due to reach the point where none is: every pass finishes a job, fails it or puts it off to a later
  time, whatever Telnyx answers and whether or not sending is paused. It then goes to sleep for a quarter
  of a second.
\<close>

theorem worker_works_off_queue:
  assumes "w_script w = []" and "ap_enable_sending a"
  shows "\<exists>k \<le> due_jobs w. due_jobs (run_worker a tx k w) = 0 \<and> w_clock (run_worker a tx k w) = w_clock w \<and>
    run_worker a tx (Suc k) w = sleep (250 * millisecond) (run_worker a tx k w)"
  using outbound_loop.works_off[OF assms(1), of a tx] assms(2) by (simp add: run_worker_def)

theorem worker_works_off_queue_witness:
  "\<exists>k \<le> 1. due_jobs (run_worker sample_app fake_telnyx_api k (sample_world [] sample_queue_db)) = 0"
proof -
  have "due_jobs (sample_world [] sample_queue_db) = 1"
    by (simp add: due_jobs_def sample_world_def sample_queue_db_def q_enqueue_def insert_outbound_def empty_db_def outbound_ready_def)
  moreover have "w_script (sample_world [] sample_queue_db) = []" "ap_enable_sending sample_app"
    by (simp_all add: sample_world_def sample_app_def)
  ultimately show ?thesis using worker_works_off_queue[of "sample_world [] sample_queue_db" sample_app fake_telnyx_api] by auto
qed

text \<open>
  The CRM worker gets through its queue in the same way: whatever HighLevel answers, every pass
  finishes a job, puts it off with a growing delay or gives it up after the fifth attempt, so that at most
  as many passes as there are jobs due leave none due.
\<close>

lemma crm_worker_works_off_queue:
  assumes "w_script w = []" and "ap_highlevel a = Some hl"
  shows "\<exists>k \<le> due_crm w. due_crm (run_crm_worker a k w) = 0 \<and> w_clock (run_crm_worker a k w) = w_clock w \<and>
    run_crm_worker a (Suc k) w = sleep (250 * millisecond) (run_crm_worker a k w)"
  using crm_loop.works_off[OF assms(1), of hl] assms(2) by (simp add: run_crm_worker_def)

definition sample_crm_db :: db where
  "sample_crm_db = empty_db\<lparr>db_crm := [\<lparr>cr_id = 1, cr_enrollment = 1, cr_action = ''create_task'', cr_body = ''Call'',
     cr_payload = [], cr_status = CQueued, cr_attempts = 0, cr_available = 5, cr_locked = None\<rparr>]\<rparr>"

lemma crm_worker_works_off_queue_sample:
  "\<exists>k \<le> 1. due_crm (run_crm_worker sample_app k (sample_world [] sample_crm_db)) = 0"
proof -
  have "due_crm (sample_world [] sample_crm_db) = 1"
    by (simp add: due_crm_def sample_world_def sample_crm_db_def crm_ready_def)
  moreover have "w_script (sample_world [] sample_crm_db) = []" "ap_highlevel sample_app = Some fake_highlevel_api"
    by (simp_all add: sample_world_def sample_app_def)
  ultimately show ?thesis using crm_worker_works_off_queue[of "sample_world [] sample_crm_db" sample_app] by auto
qed

end
