(* ===== verification/InboundWorker.thy ===== *)
theory InboundWorker
  imports WorkerProgress
begin

text \<open>
  The worker that tries received messages and delivery reports again: what becomes of a message that
  cannot be processed, and that the worker gets through both queues.
\<close>

section \<open>Received messages that cannot be processed\<close>

text \<open>\<open>quiet w w'\<close>: the same received messages and delivery reports, the same time, and still nobody else.\<close>

definition quiet :: "('t, 'h) world \<Rightarrow> ('t, 'h) world \<Rightarrow> bool" where
  "quiet w w' \<longleftrightarrow> db_inbound (w_db w') = db_inbound (w_db w) \<and> db_delivery (w_db w') = db_delivery (w_db w) \<and>
    w_script w' = [] \<and> w_clock w' = w_clock w"

lemma quiet_refl: "w_script w = [] \<Longrightarrow> quiet w w"
  by (simp add: quiet_def)

lemma quiet_store:
  assumes "quiet v w"
  shows "quiet v (snd (store_is_suppressed n w))" "quiet v (snd (store_claim_reply phone from w))"
    "quiet v (snd (store_fail_workflow k w))" "quiet v (snd (store_apply_commands wr cmds rep w))"
  using assms
  by (auto simp: quiet_def store_is_suppressed_def store_claim_reply_def store_fail_workflow_def store_apply_commands_def
      sql_calm frame_simps q_is_suppressed_def)

lemma quiet_reply_records: "quiet v w \<Longrightarrow> quiet v (snd (reply_records a text rs w))"
  by (induction rs arbitrary: w) (auto simp: case_prod_beta Let_def quiet_store split: option.split sum.split)

lemma quiet_services: "quiet v (snd (set_dnd a n w)) = quiet v w" "quiet v (snd (forward_inbound a i w)) = quiet v w"
  by (simp_all add: set_dnd_def forward_inbound_def quiet_def world_simps split: option.split)

lemma process_inbound_result:
  assumes "w_script w = []"
  obtains (ok) v where "fst (process_inbound a event from to text w) = Inr ()" "quiet w v"
      "snd (process_inbound a event from to text w) = snd (store_mark_inbound event v)"
  | (failed) e where "fst (process_inbound a event from to text w) = Inl e" "quiet w (snd (process_inbound a event from to text w))"
proof -
  note q = quiet_refl[OF assms]
  obtain r1 w1 where 1: "store_is_suppressed from w = (r1, w1)" by fastforce
  have q1: "quiet w w1" using quiet_store(1)[OF q] 1 by (metis snd_conv)
  obtain r2 w2 where 2: "(if is_opt_out text \<or> projr r1 then set_dnd a from w1 else (Inr (), w1)) = (r2, w2)" by fastforce
  have q2: "quiet w w2" using quiet_services(1)[of w a "from" w1] 2 q1 by (auto split: if_splits)
  obtain r3 w3 where 3: "(if ap_workflows a \<noteq> [] then apply_workflow_reply a from to text w2 else (Inr (), w2)) = (r3, w3)" by fastforce
  have "quiet w (snd (apply_workflow_reply a from to text w2))"
    using q2 by (simp add: apply_workflow_reply_def case_prod_beta quiet_store quiet_reply_records split: sum.split)
  then have q3: "quiet w w3" using 3 q2 by (auto split: if_splits)
  obtain r4 w4 where 4: "forward_inbound a (forwarded event from to text) w3 = (r4, w4)" by fastforce
  have q4: "quiet w w4" using quiet_services(2)[of w a _ w3] 4 q3 by (metis snd_conv)
  have p: "process_inbound a event from to text w =
    (case r1 of Inl e \<Rightarrow> (Inl e, w1) | Inr _ \<Rightarrow> (case r2 of Inl e \<Rightarrow> (Inl e, w2) | Inr _ \<Rightarrow>
      (case r3 of Inl e \<Rightarrow> (Inl e, w3) | Inr _ \<Rightarrow> (case r4 of Inl e \<Rightarrow> (Inl e, w4) | Inr _ \<Rightarrow> store_mark_inbound event w4))))"
  proof (cases r1)
    case (Inl e)
    then show ?thesis by (simp add: process_inbound_def 1)
  next
    case (Inr b)
    then have b: "(if is_opt_out text \<or> b then set_dnd a from w1 else (Inr (), w1)) = (r2, w2)" using 2 by simp
    show ?thesis
      unfolding process_inbound_def 1 Inr prod.case sum.case b
      by (cases r2; cases r3; cases r4) (simp_all only: prod.case sum.case 3 4)
  qed
  have mark: "fst (store_mark_inbound event w4) = Inr ()"
    using q4 by (simp add: quiet_def store_mark_inbound_def sql_calm q_mark_inbound_def)
  show thesis
  proof (cases "is_ok r1 \<and> is_ok r2 \<and> is_ok r3 \<and> is_ok r4")
    case True
    then have "process_inbound a event from to text w = store_mark_inbound event w4" by (auto simp: p is_ok_iff)
    then show thesis by (intro ok[of w4]) (simp_all add: mark q4)
  next
    case False
    then show thesis
      by (cases r1; cases r2; cases r3; cases r4) (auto simp: p q1 q2 q3 q4 intro: failed)
  qed
qed

text \<open>
  C16. A received message is either processed or tried again. When all steps of its processing succeed the
  message is marked processed; when one fails it is leased for two minutes, then four, then eight, ...
  and after the fifth attempt it is marked failed, so that the operator sees it and it is not claimed
  again. Nothing else happens to it, and no other message is touched.
\<close>

theorem inbound_retry_policy:
  assumes "w_script w = []" and "row_of in_event (im_event m) (db_inbound (w_db w)) = Some row"
  shows "let res = fst (process_inbound a (im_event m) (im_from m) (im_to m) (im_body m) w); w' = inbound_step a m w;
      row_in = (\<lambda>v i. row_of in_event i (db_inbound (w_db v)))
    in row_in w' (im_event m) = Some
         (case res of
            Inr _ \<Rightarrow> row\<lparr>in_processed := Some (w_clock w), in_locked := None\<rparr>
          | Inl _ \<Rightarrow>
              if im_attempts m < 5 then row\<lparr>in_locked := Some (w_clock w + 2 ^ nat (im_attempts m) * minute)\<rparr>
              else row\<lparr>in_failed := Some (w_clock w), in_locked := None\<rparr>) \<and>
       (\<forall>i. i \<noteq> im_event m \<longrightarrow> row_in w' i = row_in w i)"
proof -
  let ?e = "im_event m"
  let ?p = "process_inbound a ?e (im_from m) (im_to m) (im_body m) w"
  consider (ok) v where "fst ?p = Inr ()" "quiet w v" "snd ?p = snd (store_mark_inbound ?e v)"
    | (failed) e where "fst ?p = Inl e" "quiet w (snd ?p)"
    by (rule process_inbound_result[OF assms(1), of a ?e "im_from m" "im_to m" "im_body m"])
  then show ?thesis
  proof cases
    case (ok v)
    then have "inbound_step a m w = snd (store_mark_inbound ?e v)" by (simp add: inbound_step_def case_prod_beta)
    then show ?thesis
      using ok assms(2) by (simp add: quiet_def store_mark_inbound_def sql_calm q_mark_inbound_def update_inbound_row_def row_of_update_any)
  next
    case (failed e)
    let ?v = "snd (process_inbound a ?e (im_from m) (im_to m) (im_body m) w)"
    have step: "inbound_step a m w = (if im_attempts m \<ge> 5 then snd (store_fail_inbound ?e ?v)
         else snd (store_retry_inbound ?e (highlevel_retry_delay (im_attempts m)) ?v))"
      using failed by (simp add: inbound_step_def case_prod_beta max_attempts_def)
    have delay: "im_attempts m < 5 \<Longrightarrow> highlevel_retry_delay (im_attempts m) = 2 ^ nat (im_attempts m) * minute"
      by (simp add: highlevel_retry_delay_def backoff_def)
    show ?thesis
      using failed assms(2) delay
      by (simp add: step quiet_def store_fail_inbound_def store_retry_inbound_def sql_calm q_fail_inbound_def
          q_retry_inbound_def update_inbound_row_def row_of_update_any)
  qed
qed

section \<open>The worker gets through both queues\<close>

definition due_inbound :: "('t, 'h) world \<Rightarrow> nat" where
  "due_inbound w =
    length (filter (inbound_ready (w_clock w)) (db_inbound (w_db w))) +
    length (filter (delivery_ready (w_clock w)) (db_delivery (w_db w)))"

text \<open>\<open>calmer P Q w w'\<close>: nothing has become due, and neither the messages in \<open>P\<close> nor the reports in \<open>Q\<close> are.\<close>

definition calmer :: "(string \<Rightarrow> bool) \<Rightarrow> (string \<Rightarrow> bool) \<Rightarrow> ('t, 'h) world \<Rightarrow> ('t, 'h) world \<Rightarrow> bool" where
  "calmer P Q w w' \<longleftrightarrow>
    settles in_event (inbound_ready (w_clock w)) P (db_inbound (w_db w)) (db_inbound (w_db w')) \<and>
    settles de_event (delivery_ready (w_clock w)) Q (db_delivery (w_db w)) (db_delivery (w_db w')) \<and>
    w_script w' = [] \<and> w_clock w' = w_clock w"

abbreviation nobody :: "string \<Rightarrow> bool" where
  "nobody \<equiv> \<lambda>_. False"

lemma calmer_trans: "calmer P Q w v \<Longrightarrow> calmer P' Q' v u \<Longrightarrow> calmer (\<lambda>i. P i \<or> P' i) (\<lambda>i. Q i \<or> Q' i) w u"
  by (auto simp: calmer_def intro: settles_trans)

lemma calmer_then: "calmer P Q w v \<Longrightarrow> calmer nobody nobody v u \<Longrightarrow> calmer P Q w u"
  using calmer_trans[of P Q w v nobody nobody u] by simp

lemma quiet_calmer: "quiet w v \<Longrightarrow> calmer nobody nobody w v"
  by (simp add: quiet_def calmer_def settles_refl)

lemma highlevel_delay_pos: "0 < highlevel_retry_delay n"
  by (simp add: highlevel_retry_delay_def backoff_def)

lemma calmer_marks:
  assumes "w_script w = []"
  shows "calmer nobody nobody w (snd (store_mark_inbound i w))"
    and "0 < delay \<Longrightarrow> calmer nobody nobody w (snd (store_retry_inbound i delay w))"
    and "calmer nobody nobody w (snd (store_fail_inbound i w))"
    and "calmer nobody nobody w (snd (store_mark_delivery i w))"
    and "0 < delay \<Longrightarrow> calmer nobody nobody w (snd (store_retry_delivery i delay w))"
    and "calmer nobody nobody w (snd (store_fail_delivery i w))"
  using assms
  by (auto simp: calmer_def store_mark_inbound_def store_retry_inbound_def store_fail_inbound_def store_mark_delivery_def
      store_retry_delivery_def store_fail_delivery_def sql_calm q_mark_inbound_def q_retry_inbound_def q_fail_inbound_def
      q_mark_delivery_def q_retry_delivery_def q_fail_delivery_def update_inbound_row_def update_delivery_row_def
      inbound_ready_def delivery_ready_def settles_refl intro!: settles_update)

lemma inbound_step_calmer:
  assumes "w_script w = []"
  shows "calmer nobody nobody w (inbound_step a m w)"
proof -
  let ?p = "process_inbound a (im_event m) (im_from m) (im_to m) (im_body m) w"
  consider (ok) v where "fst ?p = Inr ()" "quiet w v" "snd ?p = snd (store_mark_inbound (im_event m) v)"
    | (failed) e where "fst ?p = Inl e" "quiet w (snd ?p)"
    by (rule process_inbound_result[OF assms, of a "im_event m" "im_from m" "im_to m" "im_body m"])
  then show ?thesis
  proof cases
    case (ok v)
    then have "w_script v = []" by (simp add: quiet_def)
    with ok show ?thesis
      by (simp add: inbound_step_def case_prod_beta calmer_then[OF quiet_calmer calmer_marks(1)])
  next
    case (failed e)
    then have "w_script (snd ?p) = []" by (simp add: quiet_def)
    with failed show ?thesis
      by (simp add: inbound_step_def case_prod_beta calmer_then[OF quiet_calmer calmer_marks(2)]
          calmer_then[OF quiet_calmer calmer_marks(3)] highlevel_delay_pos)
  qed
qed

lemma sync_delivery_quiet: "w_script w = [] \<Longrightarrow> quiet w (snd (sync_delivery a p s w))"
  by (auto simp: sync_delivery_def quiet_def store_find_outbound_def sql_calm q_find_outbound_def case_prod_beta world_simps
      call_highlevel_def split: sum.split option.split)

lemma delivery_step_calmer:
  assumes "w_script w = []"
  shows "calmer nobody nobody w (delivery_step a e w)"
proof -
  let ?p = "sync_delivery a (dv_provider e) (dv_status e) w"
  have q: "quiet w (snd ?p)" "w_script (snd ?p) = []" using sync_delivery_quiet[OF assms] by (simp_all add: quiet_def)
  have mark: "fst (store_mark_delivery i (snd ?p)) = Inr ()" for i
    using q(2) by (simp add: store_mark_delivery_def sql_calm q_mark_delivery_def)
  show ?thesis
    by (cases "fst ?p")
      (simp_all add: delivery_step_def sync_delivery_event_def case_prod_beta mark highlevel_delay_pos
        calmer_then[OF quiet_calmer[OF q(1)] calmer_marks(4)[OF q(2)]]
        calmer_then[OF quiet_calmer[OF q(1)] calmer_marks(5)[OF q(2)]]
        calmer_then[OF quiet_calmer[OF q(1)] calmer_marks(6)[OF q(2)]])
qed

text \<open>What a claim finds, for either queue.\<close>

lemma claim_inbound_calm:
  assumes "w_script w = []"
  obtains (none) "store_claim_inbound w = (Inl ErrNoRows, w)" "\<forall>r \<in> set (db_inbound (w_db w)). \<not> inbound_ready (w_clock w) r"
  | (some) m w1 r where "store_claim_inbound w = (Inr m, w1)" "calmer (\<lambda>i. i = im_event m) nobody w w1"
      "r \<in> set (db_inbound (w_db w))" "in_event r = im_event m" "inbound_ready (w_clock w) r"
proof (cases "inbound_q.claim_q (w_clock w) (db_inbound (w_db w))")
  case None
  moreover have "\<forall>r \<in> set (db_inbound (w_db w)). \<not> inbound_ready (w_clock w) r" using None by (simp only: inbound_q.claim_None)
  ultimately show thesis by (intro none) (simp_all add: store_claim_inbound_def sql_calm q_claim_inbound_def assms)
next
  case (Some c)
  obtain r' rows where c: "c = (r', rows)" by fastforce
  have "\<not> inbound_ready (w_clock w) (inbound_lock (w_clock w) x)" for x by (simp add: inbound_lock_def inbound_ready_def)
  note cl = inbound_q.claim_settles[OF Some[unfolded c] this]
  then obtain r where "r \<in> set (db_inbound (w_db w))" "in_event r = in_event r'" "inbound_ready (w_clock w) r" by blast
  then show thesis
    using some[of "scan_inbound r'" "w\<lparr>w_db := (w_db w)\<lparr>db_inbound := rows\<rparr>\<rparr>" r] cl(1) Some c assms
    by (simp add: store_claim_inbound_def sql_calm q_claim_inbound_def scan_inbound_def calmer_def settles_refl)
qed

lemma claim_delivery_calm:
  assumes "w_script w = []"
  obtains (none) "store_claim_delivery w = (Inl ErrNoRows, w)" "\<forall>r \<in> set (db_delivery (w_db w)). \<not> delivery_ready (w_clock w) r"
  | (some) e w1 r where "store_claim_delivery w = (Inr e, w1)" "calmer nobody (\<lambda>i. i = dv_event e) w w1"
      "r \<in> set (db_delivery (w_db w))" "de_event r = dv_event e" "delivery_ready (w_clock w) r"
proof (cases "delivery_q.claim_q (w_clock w) (db_delivery (w_db w))")
  case None
  moreover have "\<forall>r \<in> set (db_delivery (w_db w)). \<not> delivery_ready (w_clock w) r" using None by (simp only: delivery_q.claim_None)
  ultimately show thesis by (intro none) (simp_all add: store_claim_delivery_def sql_calm q_claim_delivery_def assms)
next
  case (Some c)
  obtain r' rows where c: "c = (r', rows)" by fastforce
  have "\<not> delivery_ready (w_clock w) (delivery_lock (w_clock w) x)" for x by (simp add: delivery_lock_def delivery_ready_def)
  note cl = delivery_q.claim_settles[OF Some[unfolded c] this]
  then obtain r where "r \<in> set (db_delivery (w_db w))" "de_event r = de_event r'" "delivery_ready (w_clock w) r" by blast
  then show thesis
    using some[of "scan_delivery r'" "w\<lparr>w_db := (w_db w)\<lparr>db_delivery := rows\<rparr>\<rparr>" r] cl(1) Some c assms
    by (simp add: store_claim_delivery_def sql_calm q_claim_delivery_def scan_delivery_def calmer_def settles_refl)
qed

text \<open>Settling a message or a report that is due leaves less to do.\<close>

lemma calmer_due:
  assumes "calmer P Q w v"
    and "(\<exists>r \<in> set (db_inbound (w_db w)). P (in_event r) \<and> inbound_ready (w_clock w) r) \<or>
      (\<exists>r \<in> set (db_delivery (w_db w)). Q (de_event r) \<and> delivery_ready (w_clock w) r)"
  shows "due_inbound v < due_inbound w"
  using assms settles_shorter[of in_event "inbound_ready (w_clock w)" P "db_inbound (w_db w)" "db_inbound (w_db v)"]
    settles_shorter[of de_event "delivery_ready (w_clock w)" Q "db_delivery (w_db w)" "db_delivery (w_db v)"]
    settles_le[of in_event "inbound_ready (w_clock w)" P "db_inbound (w_db w)" "db_inbound (w_db v)"]
    settles_le[of de_event "delivery_ready (w_clock w)" Q "db_delivery (w_db w)" "db_delivery (w_db v)"]
  by (auto simp: calmer_def due_inbound_def intro: add_less_le_mono add_le_less_mono)

lemma delivery_half:
  assumes "w_script w = []"
  shows "case store_claim_delivery w of
      (Inl e, w1) \<Rightarrow> e = ErrNoRows \<and> w1 = w \<and> (\<forall>r \<in> set (db_delivery (w_db w)). \<not> delivery_ready (w_clock w) r)
    | (Inr e, w1) \<Rightarrow> calmer nobody (\<lambda>i. i = dv_event e) w (delivery_step a e w1) \<and>
        (\<exists>r \<in> set (db_delivery (w_db w)). de_event r = dv_event e \<and> delivery_ready (w_clock w) r)"
proof (cases rule: claim_delivery_calm[OF assms])
  case (2 e w1 r)
  then have "w_script w1 = []" by (simp add: calmer_def)
  then show ?thesis using 2 calmer_then[OF 2(2) delivery_step_calmer] by auto
qed simp

lemma inbound_pass_progress:
  assumes "w_script w = []" and "0 < due_inbound w"
  shows "due_inbound (inbound_pass a w) < due_inbound w \<and> w_clock (inbound_pass a w) = w_clock w \<and>
    w_script (inbound_pass a w) = []"
proof (cases rule: claim_inbound_calm[OF assms(1)])
  case 1
  then have "\<exists>r \<in> set (db_delivery (w_db w)). delivery_ready (w_clock w) r"
    using assms(2) by (auto simp: due_inbound_def filter_empty_conv)
  then obtain e w1 where c: "store_claim_delivery w = (Inr e, w1)"
    by (cases rule: claim_delivery_calm[OF assms(1)]) blast+
  then have "calmer nobody (\<lambda>i. i = dv_event e) w (delivery_step a e w1)"
    "\<exists>r \<in> set (db_delivery (w_db w)). de_event r = dv_event e \<and> delivery_ready (w_clock w) r"
    using delivery_half[OF assms(1), of a] by simp_all
  moreover have "inbound_pass a w = delivery_step a e w1" by (simp add: inbound_pass_def 1(1) c)
  ultimately show ?thesis using calmer_due[of nobody _ w "inbound_pass a w"] by (auto simp: calmer_def)
next
  case (2 m w1 r)
  let ?P = "\<lambda>i. i = im_event m"
  have "w_script w1 = []" using 2(2) by (simp add: calmer_def)
  note step = calmer_then[OF 2(2) inbound_step_calmer[OF this], of a m]
  then have s: "w_script (inbound_step a m w1) = []" by (simp add: calmer_def)
  have "\<exists>Q. calmer ?P Q w (inbound_pass a w)"
  proof (cases "store_claim_delivery (inbound_step a m w1)")
    case (Pair res w2)
    then have "calmer ?P nobody w (inbound_pass a w)" if "res = Inl e" for e
      using that step delivery_half[OF s, of a] by (simp add: inbound_pass_def 2(1))
    moreover have "calmer ?P (\<lambda>i. i = dv_event e) w (inbound_pass a w)" if "res = Inr e" for e
      using that Pair calmer_trans[OF step, of nobody "\<lambda>i. i = dv_event e"] delivery_half[OF s, of a]
      by (simp add: inbound_pass_def 2(1) Let_def)
    ultimately show ?thesis by (cases res) blast+
  qed
  then obtain Q where "calmer ?P Q w (inbound_pass a w)" by blast
  then show ?thesis using calmer_due[of ?P Q w "inbound_pass a w"] 2(3-5) by (auto simp: calmer_def)
qed

lemma inbound_pass_idle:
  assumes "w_script w = []" and "due_inbound w = 0"
  shows "inbound_pass a w = sleep (250 * millisecond) w"
proof (cases rule: claim_inbound_calm[OF assms(1)])
  case 1
  have "\<forall>r \<in> set (db_delivery (w_db w)). \<not> delivery_ready (w_clock w) r"
    using assms(2) by (auto simp: due_inbound_def filter_empty_conv)
  then have "store_claim_delivery w = (Inl ErrNoRows, w)"
    by (cases rule: claim_delivery_calm[OF assms(1)]) blast+
  then show ?thesis by (simp add: inbound_pass_def 1(1))
next
  case (2 m w1 r)
  then show ?thesis using assms(2) by (auto simp: due_inbound_def filter_empty_conv)
qed

interpretation inbound_loop: worker_loop "inbound_pass a" due_inbound "250 * millisecond" for a
  by unfold_locales (rule inbound_pass_progress inbound_pass_idle; assumption)+

text \<open>
  C10. The inbound worker gets through its two queues. Running alone, whatever HighLevel answers and however
  the workflows treat the replies, each of its passes settles a received message or a delivery report that
  is due, or both, and makes none due; so at most as many passes as there are of them leave none, and the
  next one sleeps.
\<close>

theorem inbound_worker_works_off_queues:
  assumes "w_script w = []"
  shows "\<exists>k \<le> due_inbound w. due_inbound (run_inbound_worker a k w) = 0 \<and> w_clock (run_inbound_worker a k w) = w_clock w \<and>
    run_inbound_worker a (Suc k) w = sleep (250 * millisecond) (run_inbound_worker a k w)"
  using inbound_loop.works_off[OF assms, of a] by (simp add: run_inbound_worker_def)

section \<open>Witnesses\<close>

definition sample_received :: inbound_message where
  "sample_received = \<lparr>im_event = ''e1'', im_from = ''+13135550101'', im_to = ''+13135550100'', im_body = ''Hi'', im_attempts = 2\<rparr>"

definition sample_inbound_db :: db where
  "sample_inbound_db = snd (q_record_inbound ''e1'' ''+13135550101'' ''+13135550100'' ''Hi'' 5 empty_db)"

theorem inbound_retry_policy_witness:
  "\<exists>row. row_of in_event ''e1'' (db_inbound (w_db (inbound_step (sample_app\<lparr>ap_highlevel := None\<rparr>) sample_received
      (sample_world [] sample_inbound_db)))) = Some row \<and> in_processed row = Some 10"
proof -
  let ?w = "sample_world [] sample_inbound_db"
  obtain row where row: "row_of in_event (im_event sample_received) (db_inbound (w_db ?w)) = Some row"
    by (simp add: sample_world_def sample_inbound_db_def q_record_inbound_def empty_db_def row_of_def sample_received_def)
  have s: "w_script ?w = []" by (simp add: sample_world_def)
  have e: "im_event sample_received = ''e1''" "w_clock ?w = 10" by (simp_all add: sample_received_def sample_world_def)
  have "fst (process_inbound (sample_app\<lparr>ap_highlevel := None\<rparr>) ''e1'' (im_from sample_received) (im_to sample_received)
      (im_body sample_received) ?w) = Inr ()"
    by (simp add: process_inbound_def store_is_suppressed_def store_mark_inbound_def sql_calm q_is_suppressed_def q_mark_inbound_def
        set_dnd_def forward_inbound_def sample_app_def sample_world_def)
  with inbound_retry_policy[OF s row, of "sample_app\<lparr>ap_highlevel := None\<rparr>"] show ?thesis unfolding Let_def e by simp
qed

theorem inbound_worker_works_off_queues_witness:
  "let w = (sample_world [] sample_inbound_db)\<lparr>w_clock := hour\<rparr> in
   due_inbound w = 1 \<and> (\<exists>k \<le> 1. due_inbound (run_inbound_worker sample_app k w) = 0)"
proof -
  let ?w = "(sample_world [] sample_inbound_db)\<lparr>w_clock := hour\<rparr>"
  have due: "due_inbound ?w = 1"
    by (simp add: due_inbound_def sample_world_def sample_inbound_db_def q_record_inbound_def empty_db_def inbound_ready_def)
  have "w_script ?w = []" by (simp add: sample_world_def)
  from inbound_worker_works_off_queues[OF this, of sample_app] due show ?thesis unfolding Let_def due by blast
qed

end
