(* ===== verification/WorkflowRefinement.thy ===== *)
theory WorkflowRefinement
  imports WorkerSafety
begin

text \<open>
  What the workflow worker promises, stated over the enrollments alone, and that the worker with its
  claims, leases, transactions and stored times keeps the promise.
\<close>

section \<open>The specification\<close>

text \<open>The abstract state: the enrollment behind each id.\<close>

definition enrollments_of :: "db \<Rightarrow> int \<rightharpoonup> enrollment" where
  "enrollments_of d i = map_option (\<lambda>r. wr_enrollment (scan_workflow_record r)) (row_of en_id i (db_enrollments d))"

definition due :: "time \<Rightarrow> enrollment \<Rightarrow> bool" where
  "due now e \<longleftrightarrow> (e_state e = StatePending \<or> e_state e = StateAwaitingReply) \<and> e_next_run e \<le> now"

definition enabled_defn :: "('t, 'h) app \<Rightarrow> enrollment \<Rightarrow> defn option" where
  "enabled_defn a e =
    (case map_of (ap_workflows a) (e_workflow_key e) of None \<Rightarrow> None | Some d \<Rightarrow> if d_enabled d then Some d else None)"

text \<open>The time as the database keeps it.\<close>

definition kept_time :: "time \<Rightarrow> time" where
  "kept_time t = scan_time (nullable_time t)"

text \<open>
  What becomes of an enrollment that is due, with the commands to carry out: the engine's answer, the
  state \<open>failed\<close> when the engine reports an error, or an hour's delay when its workflow is not enabled.
\<close>

inductive treat :: "('t, 'h) app \<Rightarrow> time \<Rightarrow> enrollment \<Rightarrow> enrollment \<Rightarrow> command list \<Rightarrow> bool" where
  advanced: "enabled_defn a e = Some d \<Longrightarrow> advance (ap_runtime a) d e utc now = (Inr cmds, e') \<Longrightarrow>
    treat a now e (e'\<lparr>e_next_run := kept_time (e_next_run e')\<rparr>) cmds"
| failed: "enabled_defn a e = Some d \<Longrightarrow> advance (ap_runtime a) d e utc now = (Inl err, e') \<Longrightarrow>
    treat a now e (e\<lparr>e_state := StateFailed, e_next_run := zero_time\<rparr>) []"
| postponed: "enabled_defn a e = None \<Longrightarrow> treat a now e (e\<lparr>e_next_run := now + hour\<rparr>) []"

text \<open>The messages of the commands, as they are to be queued.\<close>

definition messages_of :: "command list \<Rightarrow> string list" where
  "messages_of cmds = map cmd_body (filter is_sms cmds)"

definition message_row :: "workflow_record \<Rightarrow> enrollment \<Rightarrow> string \<Rightarrow> outbound_row \<Rightarrow> bool" where
  "message_row r e text row \<longleftrightarrow>
    ob_to row = c_phone (e_contact e) \<and> ob_from row = wr_from r \<and> ob_body row = text \<and>
    ob_message row = workflow_message_id (r\<lparr>wr_enrollment := e\<rparr>) \<and> ob_location row = wr_location r \<and>
    ob_enrollment row = Some (wr_id r) \<and> ob_status row = Queued"

section \<open>The statements\<close>

lemma enrollments_update:
  assumes "\<And>r. en_id (f r) = en_id r" and "db_enrollments d' = update_where (\<lambda>r. en_id r = i) f (db_enrollments d)"
    and "row_of en_id i (db_enrollments d) = Some r" and "wr_enrollment (scan_workflow_record (f r)) = e'"
  shows "enrollments_of d' = (enrollments_of d)(i \<mapsto> e')"
  using assms by (auto simp: enrollments_of_def fun_eq_iff row_of_update_any)

lemma claim_due_cases:
  assumes "q_claim_due now d = (Inr r, d1)" and "db_ok d"
  obtains row where "row \<in> set (db_enrollments d)" "workflow_ready now row" "r = scan_workflow_record row"
    "row_of en_id (wr_id r) (db_enrollments d) = Some row"
    "d1 = d\<lparr>db_enrollments := update_where (\<lambda>x. en_id x = wr_id r) (workflow_lock now) (db_enrollments d)\<rparr>"
proof -
  obtain r' rows where c: "workflow_q.claim_q now (db_enrollments d) = Some (r', rows)" "r = scan_workflow_record r'"
    "d1 = d\<lparr>db_enrollments := rows\<rparr>" using assms(1) by (auto simp: q_claim_due_def split: option.splits)
  then obtain row where row: "row \<in> set (db_enrollments d)" "workflow_ready now row" "r' = workflow_lock now row"
    "rows = update_where (\<lambda>x. en_id x = en_id row) (workflow_lock now) (db_enrollments d)"
    by (metis workflow_q.claim_SomeD)
  have r: "r = scan_workflow_record row" using c(2) row(3) by (simp add: scan_workflow_lock)
  then have id: "wr_id r = en_id row" by (simp add: scan_workflow_record_def)
  have "distinct (map en_id (db_enrollments d))" using assms(2) by (simp add: db_ok_def)
  then have "row_of en_id (en_id row) (db_enrollments d) = Some row"
    using row(1) by (rule row_of_eq)
  then show thesis using that row(1,2,4) r c(3) id by simp
qed

text \<open>The engine's commands neither suppress a number nor change whose enrollment it is.\<close>

lemma advance_commands:
  assumes "advance rt d e here now = (Inr cmds, e')"
  shows "list_all (\<lambda>c. cmd_type c \<noteq> CommandSuppress) cmds" and "length (messages_of cmds) \<le> 1"
    and "messages_of cmds \<noteq> [] \<Longrightarrow> length cmds = 1"
    and "e_contact e' = e_contact e" and "e_workflow_key e' = e_workflow_key e"
  using assms
  by (auto simp: advance_def messages_of_def is_sms_def Let_def split: if_splits option.splits prod.splits sum.splits)

lemma crm_outbound: "db_outbound (apply_crm w c rep now d) = db_outbound d"
  by (simp add: apply_crm_def Let_def)

lemma no_messages_outbound:
  "messages_of cmds = [] \<Longrightarrow> list_all (\<lambda>c. cmd_type c \<noteq> CommandSuppress) cmds \<Longrightarrow>
   db_outbound (fold (apply_command w rep now) cmds d) = db_outbound d"
proof (induction cmds arbitrary: d)
  case (Cons c cmds)
  then have "messages_of cmds = []" "cmd_type c \<noteq> CommandSendSMS" "cmd_type c \<noteq> CommandSuppress"
    by (auto simp: messages_of_def is_sms_def split: if_splits)
  then show ?case using Cons by (cases "cmd_type c") (simp_all add: apply_command_def crm_outbound)
qed simp

lemma send_outbound:
  assumes "is_sms c"
  shows "let rows = db_outbound d; rows' = db_outbound (apply_command r rep now c d) in
    if \<exists>x \<in> set rows. ob_location x = wr_location r \<and> ob_message x = workflow_message_id r then rows' = rows
    else \<exists>row. rows' = rows @ [row] \<and> message_row r (wr_enrollment r) (cmd_body c) row"
  using assms
  by (simp add: is_sms_def apply_command_def apply_send_def insert_outbound_def Let_def case_prod_beta frame_simps
      list_ex_iff message_row_def)

section \<open>The refinement\<close>

definition queues :: "workflow_record \<Rightarrow> enrollment \<Rightarrow> string list \<Rightarrow> outbound_row list \<Rightarrow> outbound_row list \<Rightarrow> bool" where
  "queues r e texts rows rows' \<longleftrightarrow>
    (case texts of
       [] \<Rightarrow> rows' = rows
     | text # _ \<Rightarrow>
         if \<exists>x \<in> set rows. ob_location x = wr_location r \<and> ob_message x = workflow_message_id (r\<lparr>wr_enrollment := e\<rparr>)
         then rows' = rows else \<exists>row. rows' = rows @ [row] \<and> message_row r e text row)"

lemma apply_commands_effect:
  assumes "row_of en_id (wr_id r) (db_enrollments d) = Some row" and "distinct (map en_id (db_enrollments d))"
    and "advance rt df (wr_enrollment r) utc t = (Inr cmds, e')" and "r = scan_workflow_record row"
    and "d1 = d\<lparr>db_enrollments := update_where (\<lambda>x. en_id x = wr_id r) (workflow_lock t) (db_enrollments d)\<rparr>"
  shows "fst (q_apply_commands (r\<lparr>wr_enrollment := e'\<rparr>) cmds [] t d1) = Inr ()"
    and "enrollments_of (snd (q_apply_commands (r\<lparr>wr_enrollment := e'\<rparr>) cmds [] t d1)) =
      (enrollments_of d)(wr_id r \<mapsto> e'\<lparr>e_next_run := kept_time (e_next_run e')\<rparr>)"
    and "queues r (e'\<lparr>e_next_run := kept_time (e_next_run e')\<rparr>) (messages_of cmds) (db_outbound d)
      (db_outbound (snd (q_apply_commands (r\<lparr>wr_enrollment := e'\<rparr>) cmds [] t d1)))"
proof -
  let ?r = "r\<lparr>wr_enrollment := e'\<rparr>" let ?i = "wr_id r" let ?p = "\<lambda>x. en_id x = ?i \<and> en_locked x \<noteq> None"
  let ?rows = "db_enrollments d" let ?rows1 = "db_enrollments d1"
  note adv = advance_commands[OF assms(3)]
  have row: "row \<in> set ?rows" "en_id row = ?i" using row_of_SomeD[OF assms(1)] by auto
  have same: "?p x = (en_id x = ?i)" if "x \<in> set ?rows1" for x
    using that assms(5) by (auto simp: in_update_where workflow_lock_def)
  have upd: "update_where ?p f ?rows1 = update_where (\<lambda>x. en_id x = ?i) f ?rows1" for f
    unfolding update_where_def using same by (intro map_cong) auto
  have ids: "map en_id ?rows1 = map en_id ?rows" using assms(5) by (simp add: map_update_where workflow_lock_def)
  have "count_where ?p ?rows1 = count_where (\<lambda>x. en_id x = ?i) ?rows1"
    unfolding count_where_def using same by (intro arg_cong[where f = length] filter_cong) auto
  also have "\<dots> = length (filter (\<lambda>k. k = ?i) (map en_id ?rows1))"
    by (simp add: count_where_def filter_map comp_def)
  also have "\<dots> = length (filter (\<lambda>k. k = ?i) (map en_id ?rows))" unfolding ids ..
  also have "\<dots> = 1"
  proof -
    have "set (filter (\<lambda>k. k = ?i) (map en_id ?rows)) = {?i}" using row by force
    moreover have "distinct (filter (\<lambda>k. k = ?i) (map en_id ?rows))" using assms(2) by simp
    ultimately show ?thesis using distinct_card by fastforce
  qed
  finally have one: "count_where ?p ?rows1 = 1" .
  let ?d2 = "d1\<lparr>db_enrollments := update_where (\<lambda>x. en_id x = ?i) (store_enrollment_row ?r []) ?rows1\<rparr>"
  have q: "q_apply_commands ?r cmds [] t d1 = (Inr (), fold (apply_command ?r [] t) cmds ?d2)"
    using one upd by (simp add: q_apply_commands_def Let_def)
  then show "fst (q_apply_commands ?r cmds [] t d1) = Inr ()" by simp
  have contact: "e_contact e' = e_contact (wr_enrollment r)" "e_workflow_key e' = e_workflow_key (wr_enrollment r)"
    using adv(4,5) by simp_all
  let ?f = "\<lambda>x. store_enrollment_row ?r [] (workflow_lock t x)"
  have comp: "db_enrollments (fold (apply_command ?r [] t) cmds ?d2) = update_where (\<lambda>x. en_id x = ?i) ?f ?rows"
    by (simp add: fold_apply_enrollments assms(5)) (simp add: update_where_def workflow_lock_def)
  have scan: "wr_enrollment (scan_workflow_record (?f row)) = e'\<lparr>e_next_run := kept_time (e_next_run e')\<rparr>"
    using contact by (cases e') (simp add: scan_workflow_record_def store_enrollment_row_def workflow_lock_def assms(4) kept_time_def)
  have "enrollments_of (fold (apply_command ?r [] t) cmds ?d2) =
      (enrollments_of d)(?i \<mapsto> e'\<lparr>e_next_run := kept_time (e_next_run e')\<rparr>)"
    by (rule enrollments_update[OF _ comp assms(1) scan]) (simp add: store_enrollment_row_def workflow_lock_def Let_def)
  then show "enrollments_of (snd (q_apply_commands ?r cmds [] t d1)) =
      (enrollments_of d)(?i \<mapsto> e'\<lparr>e_next_run := kept_time (e_next_run e')\<rparr>)" by (simp add: q)
  have out: "db_outbound ?d2 = db_outbound d" by (simp add: assms(5))
  have id: "workflow_message_id (r\<lparr>wr_enrollment := e'\<lparr>e_next_run := u\<rparr>\<rparr>) = workflow_message_id ?r" for u
    by (simp add: workflow_message_id_def)
  show "queues r (e'\<lparr>e_next_run := kept_time (e_next_run e')\<rparr>) (messages_of cmds) (db_outbound d)
      (db_outbound (snd (q_apply_commands ?r cmds [] t d1)))"
  proof (cases "messages_of cmds")
    case Nil
    then show ?thesis using no_messages_outbound[OF Nil adv(1)] by (simp add: q queues_def out)
  next
    case (Cons msg rest)
    then obtain c where c: "cmds = [c]" using adv(3) by (cases cmds) auto
    then have "is_sms c" "msg = cmd_body c" using Cons by (auto simp: messages_of_def split: if_splits)
    moreover have "queues r (e'\<lparr>e_next_run := kept_time (e_next_run e')\<rparr>) (cmd_body c # rest)
        (db_outbound ?d2) (db_outbound (apply_command ?r [] t c ?d2))"
      using send_outbound[OF \<open>is_sms c\<close>, of ?d2 ?r "[]" t]
      by (auto simp: queues_def id Let_def message_row_def split: if_splits)
    ultimately show ?thesis unfolding q Cons unfolding c out[symmetric] by simp
  qed
qed

text \<open>
  C5. The workflow worker refines the engine. Seen from outside, a pass of a worker that runs alone either
  finds no enrollment due and changes nothing in the database, or treats exactly one that is due as the
  specification says, and leaves every other enrollment as it was: the enrollment is replaced by the
  engine's answer (its time cut to the microsecond), or marked failed, or put off by an hour when its
  workflow is not enabled; and exactly the messages the engine asked for are queued, for the enrollment's
  contact and from its number, unless a message with that id is there already.
\<close>

theorem workflow_pass_refines:
  assumes "w_script w = []" and "db_ok (w_db w)"
  shows "let w' = workflow_pass a w; m = enrollments_of (w_db w); now = w_clock w in
    (w_db w' = w_db w \<and> list_all (\<lambda>r. \<not> workflow_ready now r) (db_enrollments (w_db w))) \<or>
    (\<exists>r e' cmds. m (wr_id r) = Some (wr_enrollment r) \<and> due now (wr_enrollment r) \<and>
       treat a now (wr_enrollment r) e' cmds \<and> enrollments_of (w_db w') = m(wr_id r \<mapsto> e') \<and>
       queues r e' (messages_of cmds) (db_outbound (w_db w)) (db_outbound (w_db w')))"
proof (cases "q_claim_due (w_clock w) (w_db w)")
  case (Pair res d1)
  let ?now = "w_clock w" let ?d = "w_db w"
  show ?thesis
  proof (cases res)
    case (Inl e)
    then have none: "workflow_q.claim_q ?now (db_enrollments ?d) = None" "e = ErrNoRows" "d1 = ?d"
      using Pair by (auto simp: q_claim_due_def split: option.splits)
    then have "w_db (workflow_pass a w) = ?d"
      using assms(1) Pair Inl by (simp add: workflow_pass_def store_claim_due_def sql_calm sleep_def)
    moreover have "list_all (\<lambda>r. \<not> workflow_ready ?now r) (db_enrollments ?d)"
      using none(1) workflow_q.claim_None[of ?now "db_enrollments ?d"] by (simp add: list_all_iff)
    ultimately show ?thesis by (simp add: Let_def)
  next
    case (Inr r)
    obtain row where row: "workflow_ready ?now row" "r = scan_workflow_record row"
      "row_of en_id (wr_id r) (db_enrollments ?d) = Some row"
      "d1 = ?d\<lparr>db_enrollments := update_where (\<lambda>x. en_id x = wr_id r) (workflow_lock ?now) (db_enrollments ?d)\<rparr>"
      using claim_due_cases[OF _ assms(2)] Pair Inr by metis
    have dist: "distinct (map en_id (db_enrollments ?d))" using assms(2) by (simp add: db_ok_def)
    let ?e = "wr_enrollment r" let ?w1 = "w\<lparr>w_db := d1\<rparr>"
    have claim: "store_claim_due w = (Inr r, ?w1)" using assms(1) Pair Inr by (simp add: store_claim_due_def sql_calm)
    have m: "enrollments_of ?d (wr_id r) = Some ?e" using row(2,3) by (simp add: enrollments_of_def)
    have due: "due ?now ?e"
      using row(1,2) by (auto simp: due_def workflow_ready_def active_row_def scan_workflow_record_def scan_time_def split: option.splits)
    have quiet: "queues r e' (messages_of []) (db_outbound ?d) rows'" if "rows' = db_outbound ?d" for e' rows'
      using that by (simp add: queues_def messages_of_def)
    have late: "enrollments_of (w_db (snd (store_retry_workflow (wr_id r) hour ?w1))) = (enrollments_of ?d)(wr_id r \<mapsto> ?e\<lparr>e_next_run := ?now + hour\<rparr>)"
      "db_outbound (w_db (snd (store_retry_workflow (wr_id r) hour ?w1))) = db_outbound ?d"
      using assms(1) row
      by (auto simp: store_retry_workflow_def sql_calm q_retry_workflow_def update_enrollment_def scan_workflow_record_def
          scan_time_def update_where_def workflow_lock_def
          intro!: enrollments_update[where f = "\<lambda>x. x\<lparr>en_locked := None, en_next_run := Some (?now + hour)\<rparr>"])
    have fail: "enrollments_of (w_db (snd (store_fail_workflow (wr_id r) ?w1))) =
        (enrollments_of ?d)(wr_id r \<mapsto> ?e\<lparr>e_state := StateFailed, e_next_run := zero_time\<rparr>)"
      "db_outbound (w_db (snd (store_fail_workflow (wr_id r) ?w1))) = db_outbound ?d"
      using assms(1) row
      by (auto simp: store_fail_workflow_def sql_calm q_fail_workflow_def update_enrollment_def scan_workflow_record_def
          scan_time_def update_where_def workflow_lock_def
          intro!: enrollments_update[where f = "\<lambda>x. x\<lparr>en_locked := None, en_state := StateFailed, en_next_run := None\<rparr>"])
    show ?thesis
    proof (cases "enabled_defn a ?e")
      case None
      then have "workflow_pass a w = snd (store_retry_workflow (wr_id r) hour ?w1)"
        by (auto simp: workflow_pass_def claim enabled_defn_def split: option.splits if_splits)
      then show ?thesis using m due late treat.postponed[OF None, of ?now] quiet[OF late(2)] unfolding Let_def by metis
    next
      case (Some d)
      then have d: "map_of (ap_workflows a) (e_workflow_key ?e) = Some d" "d_enabled d"
        by (auto simp: enabled_defn_def split: option.splits if_splits)
      obtain ans e' where adv: "advance (ap_runtime a) d ?e utc ?now = (ans, e')" by fastforce
      show ?thesis
      proof (cases ans)
        case (Inl err)
        then have "workflow_pass a w = snd (store_fail_workflow (wr_id r) ?w1)"
          using adv d by (simp add: workflow_pass_def claim)
        then show ?thesis
          using m due fail treat.failed[OF Some adv[unfolded Inl]] quiet[OF fail(2)] unfolding Let_def by metis
      next
        case (Inr cmds)
        note eff = apply_commands_effect[OF row(3) dist adv[unfolded Inr] row(2,4)]
        have "w_db (workflow_pass a w) = snd (q_apply_commands (r\<lparr>wr_enrollment := e'\<rparr>) cmds [] ?now d1)"
          using adv d Inr eff(1) assms(1) by (simp add: workflow_pass_def claim store_apply_commands_def sql_calm)
        then show ?thesis
          using m due eff(2,3) treat.advanced[OF Some adv[unfolded Inr]] unfolding Let_def by metis
      qed
    qed
  qed
qed

theorem workflow_pass_refines_witness:
  "let w = (sample_world [] sample_wf_db)\<lparr>w_clock := 2000\<rparr> in
   \<exists>i e e' cmds. enrollments_of sample_wf_db i = Some e \<and> due 2000 e \<and> treat sample_app 2000 e e' cmds \<and>
     enrollments_of (w_db (workflow_pass sample_app w)) = (enrollments_of sample_wf_db)(i \<mapsto> e')"
proof -
  let ?w = "(sample_world [] sample_wf_db)\<lparr>w_clock := 2000\<rparr>"
  have w: "w_script ?w = []" "w_db ?w = sample_wf_db" "w_clock ?w = 2000" by (simp_all add: sample_world_def)
  have "q_create_enrollment ''x1'' ''loc'' ''+13135550100'' sample_wf_enrollment 5 empty_db = (Inr (1, True), sample_wf_db)"
    by (simp add: sample_wf_db_def q_create_enrollment_def empty_db_def Let_def)
  then have ok: "db_ok sample_wf_db" by (simp add: sample_wf_db_def q_create_enrollment_def empty_db_def Let_def db_ok_def enrollment_row_of_def)
  have "\<not> list_all (\<lambda>r. \<not> workflow_ready 2000 r) (db_enrollments sample_wf_db)"
    by (simp add: sample_wf_db_def q_create_enrollment_def empty_db_def sample_wf_enrollment_def enrollment_row_of_def
        workflow_ready_def active_row_def unlocked_def nullable_time_def is_zero_def zero_time_def pg_time_def)
  then show ?thesis
    using workflow_pass_refines[of ?w sample_app] ok unfolding Let_def w by blast
qed

end
