(* ===== verification/OAuthFlow.thy ===== *)
theory OAuthFlow
  imports AdminHandlers WorkerSafety
begin

text \<open>
  Connecting a HighLevel location, from the administrator's request to the token in use: the two handlers of
  \<^verbatim>\<open>internal/app/app.go\<close>, the one-time state, the token endpoint and the token source together.
\<close>

lemma start_calm:
  assumes "w_script w = []" and "require_admin a r" and "ap_oauth a = Some c"
    and "oc_client_id c \<noteq> []" and "oc_redirect_uri c \<noteq> []"
    and "\<forall>s \<in> set (db_oauth_states (w_db w)). os_state s \<noteq> hex_encode raw"
  shows "rs_status (fst (handle_oauth_start a (Inr raw) r w)) = 302"
    and "snd (handle_oauth_start a (Inr raw) r w) =
      w\<lparr>w_db := snd (q_create_state (hex_encode raw) (10 * minute) (w_clock w) (w_db w))\<rparr>"
proof -
  have "fst (q_create_state (hex_encode raw) (10 * minute) (w_clock w) (w_db w)) = Inr ()"
    using assms(6) by (auto simp: q_create_state_def list_ex_iff)
  then have "store_create_state (Inr raw) (10 * minute) w =
      (Inr (hex_encode raw), w\<lparr>w_db := snd (q_create_state (hex_encode raw) (10 * minute) (w_clock w) (w_db w))\<rparr>)"
    using assms(1) by (simp add: store_create_state_def sql_calm)
  then show "rs_status (fst (handle_oauth_start a (Inr raw) r w)) = 302"
    "snd (handle_oauth_start a (Inr raw) r w) =
      w\<lparr>w_db := snd (q_create_state (hex_encode raw) (10 * minute) (w_clock w) (w_db w))\<rparr>"
    using assms(2-5) by (simp_all add: handle_oauth_start_def)
qed

lemma consume_calm:
  "w_script w = [] \<Longrightarrow> store_consume_state s w =
     (fst (q_consume_state s (w_clock w) (w_db w)), w\<lparr>w_db := snd (q_consume_state s (w_clock w) (w_db w))\<rparr>)"
  by (simp add: store_consume_state_def sql_calm)

lemma callback_refused:
  assumes "w_script w = []" and "ap_oauth a = Some c" and "rq_query q ''state'' \<noteq> []" and "rq_query q ''code'' \<noteq> []"
    and "\<not> is_ok (fst (q_consume_state (rq_query q ''state'') (w_clock w) (w_db w)))"
  shows "rs_status (fst (handle_oauth_callback a q w)) = 401"
proof -
  obtain e where "fst (q_consume_state (rq_query q ''state'') (w_clock w) (w_db w)) = Inl e"
    using assms(5) by (cases "fst (q_consume_state (rq_query q ''state'') (w_clock w) (w_db w))") (auto simp: is_ok_def)
  then show ?thesis
    using assms(1-4) by (simp add: handle_oauth_callback_def Let_def consume_calm http_error_def)
qed

lemma callback_calm:
  assumes "w_script w = []" and "ap_oauth a = Some c" and "rq_query q ''state'' \<noteq> []" and "rq_query q ''code'' \<noteq> []"
    and "is_ok (fst (q_consume_state (rq_query q ''state'') (w_clock w) (w_db w)))"
    and "oauth_exchange (ap_oauth_http a) c (rq_query q ''code'') (w_highlevel w) = (Inr n, h)"
    and "loc = (if ts_location n = [] then ap_location a else ts_location n)" and "loc \<noteq> []"
  shows "rs_status (fst (handle_oauth_callback a q w)) = 200"
    and "snd (handle_oauth_callback a q w) = w\<lparr>w_highlevel := h, w_log := w_log w @ [EvToken],
      w_db := snd (q_save_token (callback_token loc n (w_clock w)) (w_clock w)
        (snd (q_consume_state (rq_query q ''state'') (w_clock w) (w_db w))))\<rparr>"
proof -
  have consume: "fst (q_consume_state (rq_query q ''state'') (w_clock w) (w_db w)) = Inr ()"
    using assms(5) by (cases "fst (q_consume_state (rq_query q ''state'') (w_clock w) (w_db w))") (auto simp: is_ok_def)
  have "fst (oauth_exchange (ap_oauth_http a) c (rq_query q ''code'') (w_highlevel w)) = Inr n" using assms(6) by simp
  then have "ts_access n \<noteq> []" by (auto simp: oauth_exchange_def token_request_def dest: do_token_ok)
  then have save: "store_save_token (callback_token loc n t) u = sql (q_save_token (callback_token loc n t)) u" for t u
    using assms(8) by (simp add: store_save_token_def callback_token_def)
  have saved: "fst (q_save_token t now d) = Inr ()" for t now d by (simp add: q_save_token_def)
  let ?w1 = "w\<lparr>w_db := snd (q_consume_state (rq_query q ''state'') (w_clock w) (w_db w))\<rparr>"
  have "call_highlevel EvToken (oauth_exchange (ap_oauth_http a) c (rq_query q ''code'')) ?w1 =
      (Inr n, ?w1\<lparr>w_highlevel := h, w_log := w_log w @ [EvToken]\<rparr>)" using assms(6) by (simp add: call_highlevel_def)
  then show "rs_status (fst (handle_oauth_callback a q w)) = 200"
    "snd (handle_oauth_callback a q w) = w\<lparr>w_highlevel := h, w_log := w_log w @ [EvToken],
      w_db := snd (q_save_token (callback_token loc n (w_clock w)) (w_clock w)
        (snd (q_consume_state (rq_query q ''state'') (w_clock w) (w_db w))))\<rparr>"
    using assms(1-4,8) consume
    by (simp_all add: handle_oauth_callback_def Let_def consume_calm assms(7)[symmetric] save saved sql_calm write_json_def)
qed

text \<open>
  C12. Connecting a location works once. The administrator starts the connection with a fresh state and is
  sent on to HighLevel; when the browser comes back with that state and a code within ten minutes, the code is
  exchanged and the token of the location stored (an earlier refresh token is kept when the answer has none),
  without a change to the tokens of the other locations. From then on requests for the location are allowed,
  and its access token is used until two minutes before it expires. The same callback is refused ever after.
\<close>

theorem oauth_connects:
  assumes "w_script w = []" and "require_admin a r" and "ap_oauth a = Some c"
    and "oc_client_id c \<noteq> []" and "oc_redirect_uri c \<noteq> []" and "ap_has_store a" and "raw \<noteq> []"
    and "\<forall>s \<in> set (db_oauth_states (w_db w)). os_state s \<noteq> hex_encode raw"
    and "rq_query q ''state'' = hex_encode raw" and "rq_query q ''code'' \<noteq> []"
    and "0 \<le> t" and "t < 10 * minute"
    and "oauth_exchange (ap_oauth_http a) c (rq_query q ''code'') (w_highlevel w) = (Inr n, h)"
    and "loc = (if ts_location n = [] then ap_location a else ts_location n)" and "loc \<noteq> []"
  shows "let (started, w1) = handle_oauth_start a (Inr raw) r w;
             now = w_clock w + t;
             (answer, w2) = handle_oauth_callback a q (w1\<lparr>w_clock := now\<rparr>)
    in rs_status started = 302 \<and> rs_status answer = 200 \<and>
       (\<exists>k. token_at loc (w_db w2) = Some k \<and> oa_access k = ts_access n \<and> oa_expires k = pg_time (expires_at n now) \<and>
          oa_refresh k = (if ts_refresh n \<noteq> [] then ts_refresh n
            else case token_at loc (w_db w) of None \<Rightarrow> [] | Some old \<Rightarrow> oa_refresh old)) \<and>
       (\<forall>l. l \<noteq> loc \<longrightarrow> token_at l (w_db w2) = token_at l (w_db w)) \<and>
       fst (allows_location a loc w2) \<and>
       (\<forall>src later. src_location src = loc \<and> pg_time (expires_at n now) > later + 2 * minute \<longrightarrow>
          fst (source_token (ap_oauth_http a) src (w2\<lparr>w_clock := later\<rparr>)) = Inr (ts_access n)) \<and>
       (\<forall>later. rs_status (fst (handle_oauth_callback a q (w2\<lparr>w_clock := later\<rparr>))) = 401)"
proof -
  let ?s = "hex_encode raw" let ?now = "w_clock w + t" let ?tok = "callback_token loc n ?now"
  define d1 where "d1 = snd (q_create_state ?s (10 * minute) (w_clock w) (w_db w))"
  define d2 where "d2 = snd (q_consume_state ?s ?now d1)"
  define d3 where "d3 = snd (q_save_token ?tok ?now d2)"
  define w2 where "w2 = w\<lparr>w_db := d3, w_clock := ?now, w_highlevel := h, w_log := w_log w @ [EvToken]\<rparr>"
  note start = start_calm[OF assms(1-5,8), folded d1_def]
  have single: "is_ok (fst (q_consume_state ?s ?now d1))" "d2 = d1\<lparr>db_oauth_states := db_oauth_states (w_db w)\<rparr>"
    "\<not> is_ok (fst (q_consume_state ?s u d2))" for u
  proof -
    have "?now < w_clock w + 10 * minute" using assms(12) by linarith
    then show "is_ok (fst (q_consume_state ?s ?now d1))" "d2 = d1\<lparr>db_oauth_states := db_oauth_states (w_db w)\<rparr>"
      "\<not> is_ok (fst (q_consume_state ?s u d2))"
      using oauth_state_single_use[OF assms(8), of "10 * minute" "w_clock w" ?now u]
      unfolding Let_def d1_def[symmetric] d2_def[symmetric] by blast+
  qed
  have state: "?s \<noteq> []" using assms(7) by (cases raw) (simp_all add: hex_encode_def)
  have answer: "rs_status (fst (handle_oauth_callback a q (w\<lparr>w_db := d1, w_clock := ?now\<rparr>))) = 200"
    "snd (handle_oauth_callback a q (w\<lparr>w_db := d1, w_clock := ?now\<rparr>)) = w2"
    using callback_calm[of "w\<lparr>w_db := d1, w_clock := ?now\<rparr>" a c q n h loc] assms state single(1)
    by (simp_all add: w2_def d3_def d2_def)
  have tokens: "db_oauth_tokens d2 = db_oauth_tokens (w_db w)" by (simp add: single(2)) (simp add: d1_def q_create_state_def)
  have load: "fst (q_load_token ''highlevel'' l u d) = (case token_at l d of None \<Rightarrow> Inl ErrNoRows | Some k \<Rightarrow> Inr k)" for l u d
    by (rule fst_load_token)
  have at: "token_at l d3 = (if l = loc then
       Some (?tok\<lparr>oa_token_type := value_or_bearer (oa_token_type ?tok), oa_expires := pg_time (oa_expires ?tok),
         oa_refresh := (if oa_refresh ?tok = [] then (case token_at loc (w_db w) of None \<Rightarrow> [] | Some k \<Rightarrow> oa_refresh k)
           else oa_refresh ?tok)\<rparr>)
     else token_at l (w_db w))" for l
    using save_load_token[of ?tok ?now d2 "''highlevel''" l 0]
    unfolding Let_def d3_def[symmetric] load
    by (auto simp: callback_token_def fst_load_token tokens split: option.splits if_splits)
  have allowed: "fst (allows_location a loc w2)"
    using assms(1,6,15) at[of loc]
    by (simp add: allows_location_def store_load_token_def sql_calm w2_def q_load_token_def is_ok_def)
  have used: "fst (source_token (ap_oauth_http a) src (w2\<lparr>w_clock := later\<rparr>)) = Inr (ts_access n)"
    if "src_location src = loc" "pg_time (expires_at n ?now) > later + 2 * minute" for src later
    using that assms(1) at[of loc] by (simp add: source_token_calm w2_def callback_token_def)
  have states: "db_oauth_states d3 = db_oauth_states d2" by (simp add: d3_def q_save_token_def)
  have refused: "\<not> is_ok (fst (q_consume_state ?s u d3))" for u
    using single(3)[of u] by (auto simp: q_consume_state_def Let_def states is_ok_def split: if_splits)
  have again: "rs_status (fst (handle_oauth_callback a q (w2\<lparr>w_clock := later\<rparr>))) = 401" for later
    using callback_refused[of "w2\<lparr>w_clock := later\<rparr>" a c q] assms state refused[of later]
    by (simp add: w2_def)
  have refresh: "\<exists>k. token_at loc d3 = Some k \<and> oa_access k = ts_access n \<and> oa_expires k = pg_time (expires_at n ?now) \<and>
      oa_refresh k = (if ts_refresh n \<noteq> [] then ts_refresh n
        else case token_at loc (w_db w) of None \<Rightarrow> [] | Some old \<Rightarrow> oa_refresh old)"
    unfolding at by (simp add: callback_token_def)
  have db: "w_db w2 = d3" by (simp add: w2_def)
  have other: "\<forall>l. l \<noteq> loc \<longrightarrow> token_at l (w_db w2) = token_at l (w_db w)" by (simp add: db at)
  obtain s1 v1 where 1: "handle_oauth_start a (Inr raw) r w = (s1, v1)" by fastforce
  obtain s2 v2 where 2: "handle_oauth_callback a q (w\<lparr>w_db := d1, w_clock := ?now\<rparr>) = (s2, v2)" by fastforce
  have v: "v1 = w\<lparr>w_db := d1\<rparr>" "v2 = w2" "rs_status s1 = 302" "rs_status s2 = 200" using start answer 1 2 by simp_all
  have v1: "v1\<lparr>w_clock := ?now\<rparr> = w\<lparr>w_db := d1, w_clock := ?now\<rparr>" by (simp add: v)
  show ?thesis
    unfolding Let_def 1 prod.case v1 2 v(2)
    using v(3,4) refresh other allowed used again by (simp add: db)
qed

section \<open>Witness\<close>

text \<open>An answer that does not depend on the request.\<close>

definition steady_answer :: "string \<Rightarrow> 's http" where
  "steady_answer body q s = (Inr \<lparr>hp_status = 200, hp_body = body\<rparr>, s)"

definition sample_oauth_app :: "(fake_telnyx, fake_highlevel) app" where
  "sample_oauth_app = sample_app\<lparr>ap_oauth := Some sample_oauth, ap_oauth_http := steady_answer (sample_answer ''loc2'')\<rparr>"

definition sample_admin :: request where
  "sample_admin = (sample_request [] [])\<lparr>rq_header := (\<lambda>k. if k = ''Authorization'' then ''Bearer admin'' else [])\<rparr>"

definition sample_callback :: request where
  "sample_callback = (sample_request [] [])\<lparr>rq_query := (\<lambda>k. if k = ''state'' then ''ab'' else ''c0de'')\<rparr>"

lemma sample_exchange:
  "oauth_exchange (steady_answer (sample_answer ''loc2'')) sample_oauth ''c0de'' s =
     (Inr (zero_token_set\<lparr>ts_access := ''new'', ts_location := ''loc2'', ts_expires_in := 86400\<rparr>), s)"
  by (simp add: oauth_exchange_def token_request_def do_token_def steady_answer_def success_status_def sample_answers
      body_limit_def Let_def)

theorem oauth_connects_witness:
  "let (started, w1) = handle_oauth_start sample_oauth_app (Inr [CHR 0xAB]) sample_admin (sample_world [] empty_db);
       (answer, w2) = handle_oauth_callback sample_oauth_app sample_callback (w1\<lparr>w_clock := w_clock (sample_world [] empty_db) + second\<rparr>)
   in \<exists>k. token_at ''loc2'' (w_db w2) = Some k \<and> oa_access k = ''new''"
proof -
  let ?w = "sample_world [] empty_db" let ?a = sample_oauth_app
  have w: "w_script ?w = []" "db_oauth_states (w_db ?w) = []" by (simp_all add: sample_world_def empty_db_def)
  have admin: "require_admin ?a sample_admin"
    by (simp add: require_admin_def bearer_secret_ok_iff sample_oauth_app_def sample_app_def sample_admin_def)
  have a: "ap_oauth ?a = Some sample_oauth" "ap_has_store ?a" "ap_oauth_http ?a = steady_answer (sample_answer ''loc2'')"
    by (simp_all add: sample_oauth_app_def sample_app_def)
  have c: "oc_client_id sample_oauth \<noteq> []" "oc_redirect_uri sample_oauth \<noteq> []" by (simp_all add: sample_oauth_def)
  have hex: "hex_encode [CHR 0xAB] = ''ab''" by code_simp
  have q: "rq_query sample_callback ''state'' = hex_encode [CHR 0xAB]" "rq_query sample_callback ''code'' = ''c0de''"
    by (simp_all add: sample_callback_def hex)
  have fresh: "\<forall>s \<in> set (db_oauth_states (w_db ?w)). os_state s \<noteq> hex_encode [CHR 0xAB]" by (simp add: w(2))
  show ?thesis
    using oauth_connects[of ?w ?a sample_admin sample_oauth "[CHR 0xAB]" sample_callback second
        "zero_token_set\<lparr>ts_access := ''new'', ts_location := ''loc2'', ts_expires_in := 86400\<rparr>" "w_highlevel ?w" "''loc2''"]
      w(1) admin a c fresh q sample_exchange[of "w_highlevel ?w"]
    unfolding Let_def case_prod_beta by (simp add: zero_token_set_def) blast
qed

end
