(* ===== verification/ClientTokens.thy ===== *)
theory ClientTokens
  imports HighLevelSpec TokenSource
begin

text \<open>
  The HighLevel client with its token source, as \<^verbatim>\<open>cmd/api/main.go\<close> puts them together: the client's state is
  the whole world, since its tokens come from the database, and the server's state is a part of it.
\<close>

definition world_http :: "'h http \<Rightarrow> ('t, 'h) world http" where
  "world_http h q w = (case h q (w_highlevel w) of (r, s) \<Rightarrow> (r, w\<lparr>w_highlevel := s\<rparr>))"

definition source_tokens :: "'h http \<Rightarrow> token_source \<Rightarrow> ('t, 'h) world tokens" where
  "source_tokens h src =
    SourceTokens (src_location src) (\<lambda>l. source_token h (src\<lparr>src_location := l\<rparr>)) (\<lambda>l. force_refresh h (src\<lparr>src_location := l\<rparr>))"

text \<open>The client of a location asks for the token of that location.\<close>

lemma tokens_for_location:
  assumes "hc_tokens c = Some (source_tokens h src)" and "hc_location c = src_location src" and "loc \<noteq> []"
  shows "access_token (for_location c loc) force =
    (if force then force_refresh h (src\<lparr>src_location := loc\<rparr>) else source_token_for h src loc)"
proof -
  have "src\<lparr>src_location := src_location src\<rparr> = src" by simp
  then show ?thesis
    using assms by (auto simp: fun_eq_iff access_token_def for_location_def source_tokens_def source_token_for_def)
qed

lemma for_location_requests:
  "hc_http (for_location c loc) = hc_http c" "json_request (for_location c loc) = json_request c"
  by (simp_all add: fun_eq_iff for_location_def json_request_def highlevel_base_def)

text \<open>
  C25. A request survives the loss of its token. When HighLevel refuses a request for a location with status
  401, although the stored token has not expired, the client refreshes that location's token with one
  request to the token endpoint, stores the new one, and repeats the request once with it: the outcome is
  that of the second request, whatever it is. The tokens of the other locations are neither used nor changed.
\<close>

theorem rejected_token_renewed:
  assumes "w_script w = []" and "hc_http c = world_http h" and "hc_tokens c = Some (source_tokens h src)"
    and "hc_location c = src_location src" and "loc \<noteq> []" and "src_oauth src = Some oc"
    and "token_at loc (w_db w) = Some t" and "oa_expires t > w_clock w + 2 * minute"
    and "h (json_request c method path body (oa_access t)) (w_highlevel w) = (Inr rejected, s1)" and "hp_status rejected = 401"
    and "oauth_refresh h oc (oa_refresh t) (oa_user_type t) s1 = (Inr n, s2)" and "ts_location n \<in> {[], loc}"
    and "h (json_request c method path body (ts_access n)) s2 = (answer, s3)"
  shows "case do_json (for_location c loc) method path body reader w of (res, w') \<Rightarrow>
    res = (case answer of Inl e \<Rightarrow> Inl e
      | Inr resp \<Rightarrow> if success_status (hp_status resp) then reader (hp_body resp) else Inl (status_error resp)) \<and>
    w_highlevel w' = s3 \<and> w_log w' = w_log w @ [EvToken] \<and>
    (\<exists>t'. token_at loc (w_db w') = Some t' \<and> oa_access t' = ts_access n \<and>
       oa_refresh t' = (if ts_refresh n = [] then oa_refresh t else ts_refresh n) \<and>
       oa_expires t' = pg_time (expires_at n (w_clock w))) \<and>
    (\<forall>l. l \<noteq> loc \<longrightarrow> token_at l (w_db w') = token_at l (w_db w))"
proof -
  let ?c = "for_location c loc" let ?src = "src\<lparr>src_location := loc\<rparr>" let ?w1 = "w\<lparr>w_highlevel := s1\<rparr>"
  note acc = tokens_for_location[OF assms(3-5)]
  have src: "source_token_for h src loc = source_token h ?src" using assms(5) by (auto simp: source_token_for_def)
  have first: "access_token ?c False w = (Inr (oa_access t), w)"
    using assms(1,7,8) by (simp only: acc if_False src) (simp add: source_token_calm)
  have err: "do_json_once ?c method path body reader False w = (Inl (status_error rejected), ?w1)"
    using assms(2,9,10) first by (simp add: do_json_once_def for_location_requests world_http_def success_status_def)
  have "hc_tokens ?c \<noteq> None" using assms(3) by (simp add: for_location_def source_tokens_def)
  then have again: "retries ?c (status_error rejected)" using assms(10) by (simp add: retries_def status_error_def)
  obtain d t' where r: "force_refresh h ?src ?w1 = (Inr (ts_access n), ?w1\<lparr>w_highlevel := s2, w_log := w_log ?w1 @ [EvToken], w_db := d\<rparr>)"
    "token_at loc d = Some t'" "oa_access t' = ts_access n" "oa_refresh t' = (if ts_refresh n = [] then oa_refresh t else ts_refresh n)"
    "oa_expires t' = pg_time (expires_at n (w_clock w))" "\<forall>l. l \<noteq> loc \<longrightarrow> token_at l d = token_at l (w_db w)"
    using force_refresh_stores[of ?w1 ?src t oc h n s2] assms(1,5,6,7,11,12) by auto
  have "do_json ?c method path body reader w = do_json_once ?c method path body reader True ?w1"
    by (simp add: do_json_def err again)
  also have "\<dots> = ((case answer of Inl e \<Rightarrow> Inl e
      | Inr resp \<Rightarrow> if success_status (hp_status resp) then reader (hp_body resp) else Inl (status_error resp)),
      w\<lparr>w_highlevel := s3, w_log := w_log w @ [EvToken], w_db := d\<rparr>)"
    using assms(2,13) r(1) by (simp add: do_json_once_def acc for_location_requests world_http_def split: sum.split)
  finally show ?thesis using r(2-6) by simp
qed

section \<open>Witness\<close>

text \<open>A server that refuses the old token and answers everything else alike.\<close>

definition moody :: "string \<Rightarrow> nat http" where
  "moody body q n =
    (Inr (if (''Authorization'', ''Bearer old'') \<in> set (hq_headers q) then \<lparr>hp_status = 401, hp_body = []\<rparr>
          else \<lparr>hp_status = 200, hp_body = body\<rparr>), n + 1)"

definition sample_live_client :: "(unit, nat) world highlevel_client" where
  "sample_live_client = (sample_client (world_http (moody (sample_answer []))))
     \<lparr>hc_tokens := Some (source_tokens (moody (sample_answer [])) sample_source)\<rparr>"

definition sample_live_world :: "(unit, nat) world" where
  "sample_live_world = sample_token_world\<lparr>w_db := empty_db\<lparr>db_oauth_tokens := [sample_token\<lparr>oa_expires := hour\<rparr>]\<rparr>\<rparr>"

lemma sample_moody_refresh:
  "oauth_refresh (moody (sample_answer [])) sample_oauth ''r1'' [] 1 =
     (Inr (zero_token_set\<lparr>ts_access := ''new'', ts_expires_in := 86400\<rparr>), 2)"
  by (simp add: oauth_refresh_def token_request_def do_token_def moody_def success_status_def sample_answers body_limit_def
      Let_def)

theorem rejected_token_renewed_witness:
  "case do_json (for_location sample_live_client ''loc'') ''GET'' ''/contacts/'' None discard sample_live_world of (res, w') \<Rightarrow>
     res = Inr () \<and> w_highlevel w' = 3 \<and> (\<exists>t'. token_at ''loc'' (w_db w') = Some t' \<and> oa_access t' = ''new'')"
proof -
  let ?h = "moody (sample_answer [])" let ?c = sample_live_client let ?w = sample_live_world
  have c: "hc_http ?c = world_http ?h" "hc_tokens ?c = Some (source_tokens ?h sample_source)" "hc_location ?c = src_location sample_source"
    by (simp_all add: sample_live_client_def sample_client_def sample_source_def)
  have w: "w_script ?w = []" "token_at ''loc'' (w_db ?w) = Some (sample_token\<lparr>oa_expires := hour\<rparr>)" "w_highlevel ?w = 0" "w_clock ?w = 10"
    by (simp_all add: sample_live_world_def sample_token_world_def sample_token_def)
  have "?h (json_request ?c ''GET'' ''/contacts/'' None ''old'') 0 = (Inr \<lparr>hp_status = 401, hp_body = []\<rparr>, 1)"
    "?h (json_request ?c ''GET'' ''/contacts/'' None ''new'') 2 = (Inr \<lparr>hp_status = 200, hp_body = sample_answer []\<rparr>, 3)"
    by (simp_all add: moody_def json_request_def)
  then show ?thesis
    using rejected_token_renewed[of ?w ?c ?h sample_source "''loc''" sample_oauth "sample_token\<lparr>oa_expires := hour\<rparr>" "''GET''"
        "''/contacts/''" None "\<lparr>hp_status = 401, hp_body = []\<rparr>" 1 "zero_token_set\<lparr>ts_access := ''new'', ts_expires_in := 86400\<rparr>" 2
        "Inr \<lparr>hp_status = 200, hp_body = sample_answer []\<rparr>" 3 discard]
      c w sample_moody_refresh
    by (auto simp: sample_source_def sample_token_def zero_token_set_def success_status_def discard_def)
qed

end
