(* ===== verification/Spec2Isabelle.thy ===== *)
theory Spec2Isabelle
  imports Delivery Idempotency Processes VoiceSpec InboundWorker WorkflowRefinement OAuthFlow ClientTokens
begin

text \<open>
  The program relays SMS between HighLevel, a CRM, and Telnyx, a carrier, and runs message sequences
  (workflows). Two processes share a PostgreSQL database: \<^verbatim>\<open>cmd/api\<close> answers HTTP requests (webhooks of
  both services, enrolments, Signal Desk, administration, OAuth, browser calls), \<^verbatim>\<open>cmd/worker\<close> runs four
  loops (outbound jobs, workflows, CRM jobs, inbound retries). They interact only through the tables,
  each of which a worker claims one row at a time under a lease.

  \<^bold>\<open>The theories and the code.\<close> Paths are relative to \<^verbatim>\<open>src/\<close>; \<^verbatim>\<open>internal/\<close> is left out.

  Foundations, a model of what the program uses of Go's library: \<^verbatim>\<open>Prelude\<close> (errors, results, times, the
  shape of UPDATE and of INSERT ON CONFLICT), \<^verbatim>\<open>GoStrings\<close>, \<^verbatim>\<open>GoTime\<close>, \<^verbatim>\<open>GoFormat\<close>, \<^verbatim>\<open>GoFloat\<close>, \<^verbatim>\<open>Json\<close>,
  \<^verbatim>\<open>Http\<close>.

  Pure components: \<^verbatim>\<open>Domain\<close> (\<^verbatim>\<open>domain/domain.go\<close>), \<^verbatim>\<open>Catalog\<close> (\<^verbatim>\<open>workflow/catalog.go\<close>), \<^verbatim>\<open>Render\<close> and \<^verbatim>\<open>Engine\<close>
  (\<^verbatim>\<open>workflow/engine.go\<close>), \<^verbatim>\<open>Auth\<close> (\<^verbatim>\<open>app/auth.go\<close>, \<^verbatim>\<open>webhook\<close>), \<^verbatim>\<open>Config\<close> (\<^verbatim>\<open>config/config.go\<close>). A Go
  struct is a record with a prefix of its own (\<open>e_\<close> for \<^verbatim>\<open>Enrollment\<close>, \<open>d_\<close> for \<^verbatim>\<open>Definition\<close>), a function
  keeps its name in snake case.

  The services: \<^verbatim>\<open>Provider\<close> (the interfaces and fakes of \<^verbatim>\<open>provider/provider.go\<close> and \<^verbatim>\<open>fake.go\<close>), \<^verbatim>\<open>Telnyx\<close>
  (\<^verbatim>\<open>provider/telnyx.go\<close>), \<^verbatim>\<open>OAuth\<close> (\<^verbatim>\<open>provider/oauth.go\<close>), \<^verbatim>\<open>HighLevel\<close> and \<^verbatim>\<open>HighLevelChats\<close>
  (\<^verbatim>\<open>provider/highlevel.go\<close>), \<^verbatim>\<open>TokenSource\<close> (\<^verbatim>\<open>provider/tokensource.go\<close>). A server is a function from a
  request and a state to an answer, or a transport error, and a state.

  The database: \<^verbatim>\<open>Schema\<close> (\<^verbatim>\<open>migrations/*.sql\<close>: one record per row, one list per table, the keys as
  \<open>db_ok\<close>), \<^verbatim>\<open>Migrations\<close> (\<^verbatim>\<open>migrations/migrate.go\<close>), \<^verbatim>\<open>World\<close> (a process's view of database, clock and services),
  \<^verbatim>\<open>Lease\<close> (the locale \<open>lease_queue\<close> of the claim statement, interpreted on the five queues),
  \<^verbatim>\<open>StoreOutbound\<close>, \<^verbatim>\<open>StoreInbound\<close> (\<^verbatim>\<open>store/store.go\<close>), \<^verbatim>\<open>StoreWorkflow\<close> (\<^verbatim>\<open>store/workflows.go\<close>), \<^verbatim>\<open>StoreAdmin\<close>
  (\<^verbatim>\<open>crm.go\<close>, \<^verbatim>\<open>admin.go\<close>, \<^verbatim>\<open>oauth.go\<close>, \<^verbatim>\<open>oauth_state.go\<close>). A statement or transaction is \<open>q_\<close> and its name, a
  function of \<open>now()\<close> and the database; \<open>store_\<close> and its name is the method that runs it.

  The application: \<^verbatim>\<open>AppCore\<close> (\<^verbatim>\<open>App\<close> of \<^verbatim>\<open>app/app.go\<close> and what handlers and workers share), \<^verbatim>\<open>Workers\<close> (one
  pass of each loop and any number of passes), \<^verbatim>\<open>Handlers\<close> and \<^verbatim>\<open>AdminHandlers\<close> (the routes of \<^verbatim>\<open>app/app.go\<close>
  and \<^verbatim>\<open>app/workflows.go\<close>), \<^verbatim>\<open>Voice\<close> (\<^verbatim>\<open>app/voice.go\<close>), \<^verbatim>\<open>Startup\<close> and \<^verbatim>\<open>Processes\<close>
  (\<^verbatim>\<open>cmd/*/main.go\<close>: the applications built from the environment, and the start of the two processes).

  \<^bold>\<open>What is shown.\<close> \<^verbatim>\<open>EngineRun\<close>: the life of an enrollment (number, spacing and conditions of its
  messages, none after a reply). \<^verbatim>\<open>StoreSteps\<close>: the store as a step relation, its invariants and what
  is permanent (suppressions, finished messages, leases of others). \<^verbatim>\<open>AppInvariants\<close>, \<^verbatim>\<open>WorkerSafety\<close>:
  consent and the pause are respected by every pass under every interleaving; the outcome of a pass.
  \<^verbatim>\<open>WorkerProgress\<close>, \<^verbatim>\<open>InboundWorker\<close>: the outbound, CRM and inbound workers empty their queues (the locale
  \<open>worker_loop\<close>, interpreted on each), and received messages are retried. \<^verbatim>\<open>WorkflowRefinement\<close>: the workflow worker, with its
  leases, transactions and stored times, refines the engine. \<^verbatim>\<open>HandlerSafety\<close>: requests without a credential
  have no effect, and an opt-out is final in every run of requests, workers and other processes.
  \<^verbatim>\<open>Idempotency\<close>: over the whole life of the system, whatever fails, requests to Telnyx with one idempotency key
  are one request. \<^verbatim>\<open>HandlerSpec\<close>: what the webhooks and the enrolment endpoint achieve. \<^verbatim>\<open>JsonRoundTrip\<close>,
  \<^verbatim>\<open>JsonValid\<close>: the parser undoes the encoder, and text that comes in as JSON is valid UTF-8; on these rest
  \<^verbatim>\<open>TelnyxSpec\<close> (Telnyx reads back the message that was to be sent) and \<^verbatim>\<open>Delivery\<close> (from the accepted webhook to
  the request and the job marked sent). \<^verbatim>\<open>Processes\<close>: a process serves only with all migrations applied and a
  complete configuration. \<^verbatim>\<open>VoiceSpec\<close>: provisioning the browser calls never makes a second profile, connection or
  credential at Telnyx, whatever fails. \<^verbatim>\<open>OAuthFlow\<close>: connecting a
  location, from the administrator's request to the token in use. \<^verbatim>\<open>HighLevelSpec\<close>: the HighLevel client;
  \<^verbatim>\<open>ClientTokens\<close>: that client over the token source of the database. The theories of the components hold their own
  specifications, round trips and equivalences.

  \<^bold>\<open>Failure and concurrency.\<close> \<open>w_script\<close> lists, for each database call to come, the time that passes, what
  other processes do to the database meanwhile (any function, or one that keeps the invariants where a
  theorem says so), and whether the call works, is lost, or takes effect without an acknowledgement. A
  theorem without a condition on the script holds under every interleaving and every failure; the
  functional ones fix the empty script: alone and undisturbed. A transaction takes effect as a whole,
  which the row locks of the code and PostgreSQL's isolation give.

  \<^bold>\<open>Termination and bounds.\<close> All definitions are total. The endless loops of the workers are \<open>iterate n\<close> of
  one pass for any \<open>n\<close>, so no bound is chosen; the JSON parser's fuel is twice the length of its input, and
  nesting is limited as in Go. Go's \<open>int64\<close> is kept as a word where it can wrap (webhook timestamps,
  millisecond times), otherwise as \<open>int\<close>: the counters and identifiers come from \<open>bigint\<close> and
  \<open>integer\<close> columns, which report an overflow as an error long after any realistic run.

  \<^bold>\<open>Parameters\<close>, code that is not in the repository: Ed25519, HMAC-SHA256 and random bytes, the time-zone
  database, the order in which Go visits a map, the HTTP servers, whether
  the database's URL is accepted, what an SQL file does. None has a hypothesis beyond those a theorem
  names. The clock of the application and of the database is the same. The local time zone of the processes
  is UTC.

  \<^bold>\<open>Assumptions on representation.\<close> Strings are lists of bytes; the JSON encoder replaces invalid UTF-8 as
  Go's does, and theorems that depend on valid text say so. Letters
  are folded in ASCII only; the database compares text bytewise (the collation C). A timestamp is a number of
  nanoseconds, cut to microseconds when stored. \<open>float64\<close> is the rational number it denotes, rounded to
  even; converting one out of range to \<open>int64\<close> gives what amd64 gives. Within the
  application the token source of the HighLevel client is seen through two functions on HighLevel's state
  (\<open>sv_token\<close>, \<open>sv_refresh\<close>); \<^verbatim>\<open>ClientTokens\<close> joins the client to the code of \<^verbatim>\<open>TokenSource\<close> instead.

  \<^bold>\<open>Not modelled\<close>: timeouts and cancellation, the HTTP server and the signals of the two \<^verbatim>\<open>main\<close> functions (an
  exit with status 1 is \<open>None\<close>); response headers and log lines; the VAPID values and the shutdown time of
  the configuration, which nothing reads or which are passed through; timestamps of the schema that
  nothing reads; the tests, the container files and the documents.
\<close>

end
